(* ===== verification/Prelude.thy ===== *)
theory Prelude
  imports Main "HOL-Library.Word" "HOL-Library.Multiset"
begin

unbundle bit_operations_syntax

text \<open>
  Shared vocabulary of the development: the fixed-width integer types of the
  emulator, the collections of rewrite rules that carry the component proofs, the
  sorted, non-overlapping interval index used by the memory bus and by the MMIO
  router, and generic facts on lists and words.
\<close>

section \<open>Fixed-width integers\<close>

text \<open>
  The emulator uses only fixed-width integers. \<open>u8\<close> to \<open>u64\<close> are the types
  \<open>std::uint8_t\<close> to \<open>std::uint64_t\<close>; arithmetic on them wraps, as in C++.
\<close>

type_synonym u8 = "8 word"
type_synonym u16 = "16 word"
type_synonym u32 = "32 word"
type_synonym u64 = "64 word"

named_theorems enum_defs \<open>definitions of small enumerations and predicates on them\<close>
named_theorems frame_simps \<open>what an operation leaves unchanged\<close>

section \<open>Words\<close>

lemma unat_lt_32 [simp]: "unat (w :: u32) < 4294967296"
  using unsigned_less [of w, where ?'a = nat] by simp

lemma unat_lt_64 [simp]: "unat (w :: u64) < 18446744073709551616"
  using unsigned_less [of w, where ?'a = nat] by simp

lemma unat_max_32: "unat (w :: u32) \<le> 4294967295"
  using unat_lt_32 [of w] by linarith

lemma unat_max_64: "unat (w :: u64) \<le> 18446744073709551615"
  using unat_lt_64 [of w] by linarith

lemma unat_ucast_8_32 [simp]: "unat (ucast (w :: u8) :: u32) = unat w"
  by (simp add: unsigned_ucast_eq take_bit_nat_eq_self unsigned_less [THEN order_less_le_trans])

lemma unat_add_no_wrap:
  "unat (a :: u32) + n < 4294967296 \<Longrightarrow> unat (a + of_nat n) = unat a + n"
  by (simp add: unat_word_ariths unsigned_of_nat take_bit_nat_eq_self)

lemma unat_add_no_wrap_64:
  "unat (a :: u64) + n < 18446744073709551616 \<Longrightarrow> unat (a + of_nat n) = unat a + n"
  by (simp add: unat_word_ariths unsigned_of_nat take_bit_nat_eq_self)

lemma unat_sub_le: "b \<le> a \<Longrightarrow> unat (a - b) = unat a - unat (b :: 'a :: len word)"
  by (simp add: unat_sub_if_size word_le_nat_alt)

section \<open>Bits of words\<close>

lemma word_bits_iff: "v = w \<longleftrightarrow> (\<forall>n < LENGTH('a). bit v n = bit (w :: 'a :: len word) n)"
  by (auto intro: bit_word_eqI)

lemma mask8: "(255 :: 'a :: len word) = mask 8" by (simp add: mask_eq_exp_minus_1)

lemma all_less_32: "(\<forall>n < 32. P n) \<longleftrightarrow> P 0 \<and> P 1 \<and> P 2 \<and> P 3 \<and> P 4 \<and> P 5 \<and> P 6 \<and> P 7 \<and> P 8 \<and> P 9 \<and> P 10 \<and> P 11 \<and> P 12 \<and> P 13 \<and> P 14 \<and> P 15 \<and> P 16 \<and> P 17 \<and> P 18 \<and> P 19 \<and> P 20 \<and> P 21 \<and> P 22 \<and> P 23 \<and> P 24 \<and> P 25 \<and> P 26 \<and> P 27 \<and> P 28 \<and> P 29 \<and> P 30 \<and> P (31::nat)"
  by (simp add: numeral_eq_Suc All_less_Suc conj_ac)

lemma all_less_8: "(\<forall>n < 8. P n) \<longleftrightarrow> P 0 \<and> P 1 \<and> P 2 \<and> P 3 \<and> P 4 \<and> P 5 \<and> P 6 \<and> P (7::nat)"
  by (simp add: numeral_eq_Suc All_less_Suc conj_ac)

lemma byte_zero: "(d :: u32) AND push_bit s 0xff = 0 \<longleftrightarrow> (\<forall>k<8. \<not> bit d (s + k))"
proof
  assume z: "d AND push_bit s 0xff = 0"
  show "\<forall>k<8. \<not> bit d (s + k)"
  proof (intro allI impI notI)
    fix k :: nat assume k: "k < 8" and b: "bit d (s + k)"
    have "s + k < 32" using bit_imp_le_length [OF b] by simp
    then have "bit (d AND push_bit s 0xff) (s + k)" using k b by (simp add: mask8 bit_simps)
    then show False by (simp add: z)
  qed
next
  assume z: "\<forall>k<8. \<not> bit d (s + k)"
  show "d AND push_bit s 0xff = 0"
  proof (rule bit_word_eqI)
    fix n
    show "bit (d AND push_bit s 0xff) n = bit (0 :: u32) n"
      using z [rule_format, of "n - s"] by (auto simp: mask8 bit_simps)
  qed
qed

lemma ex_less_8: "(\<exists>n < 8. P n) \<longleftrightarrow> P 0 \<or> P 1 \<or> P 2 \<or> P 3 \<or> P 4 \<or> P 5 \<or> P 6 \<or> P (7::nat)"
  using all_less_8 [of "\<lambda>n. \<not> P n"] by auto

section \<open>Sorted non-overlapping interval index\<close>

text \<open>
  \<open>MemoryBus::find\<close> and \<open>MmioRouter::find\<close> look an address up the same way: the
  intervals are sorted by start, \<open>std::upper_bound\<close> gives the first interval that
  starts after the address, and only its predecessor can contain the address.
  \<open>upper_bound_prev\<close> is that lookup, giving the position of the predecessor;
  \<open>std::upper_bound\<close> is modelled as the partition point of its sorted range.
\<close>

definition upper_bound_prev :: "('r \<Rightarrow> u32) \<Rightarrow> u32 \<Rightarrow> 'r list \<Rightarrow> nat option" where
  "upper_bound_prev start a rs =
     (let n = length (takeWhile (\<lambda>r. \<not> a < start r) rs)
      in if n = 0 then None else Some (n - 1))"

text \<open>
  Laws of an interval index: \<open>start\<close> and \<open>len\<close> of an interval, both 32-bit, the
  sum taken without wrap-around.
\<close>

definition stop_of :: "('r \<Rightarrow> u32) \<Rightarrow> ('r \<Rightarrow> u32) \<Rightarrow> 'r \<Rightarrow> nat" where
  "stop_of start len r = unat (start r) + unat (len r)"

definition disjoint_from :: "('r \<Rightarrow> u32) \<Rightarrow> ('r \<Rightarrow> u32) \<Rightarrow> 'r \<Rightarrow> 'r \<Rightarrow> bool" where
  "disjoint_from start len r r' \<longleftrightarrow>
     \<not> max (unat (start r)) (unat (start r')) < min (stop_of start len r) (stop_of start len r')"

fun index_sorted :: "('r \<Rightarrow> u32) \<Rightarrow> ('r \<Rightarrow> u32) \<Rightarrow> 'r list \<Rightarrow> bool" where
  "index_sorted start len [] = True"
| "index_sorted start len (r # rs) =
     (0 < unat (len r) \<and> (\<forall>r' \<in> set rs. stop_of start len r \<le> unat (start r'))
      \<and> index_sorted start len rs)"

text \<open>
  The interface of such an index: every key has a start and a length, and an index is
  well-formed when it is sorted and non-overlapping. The facts below are proved once
  here and used by both clients through their interpretations.
\<close>

locale interval_index =
  fixes start :: "'r \<Rightarrow> u32"
    and len :: "'r \<Rightarrow> u32"
    and contains :: "'r \<Rightarrow> u32 \<Rightarrow> bool"
  assumes contains_iff:
    "contains r a \<longleftrightarrow> unat (start r) \<le> unat a \<and> unat a < unat (start r) + unat (len r)"
begin

abbreviation stop :: "'r \<Rightarrow> nat" where
  "stop \<equiv> stop_of start len"

abbreviation ordered :: "'r list \<Rightarrow> bool" where
  "ordered \<equiv> index_sorted start len"

lemma ordered_nth:
  "ordered rs \<Longrightarrow> i < j \<Longrightarrow> j < length rs \<Longrightarrow> stop (rs ! i) \<le> unat (start (rs ! j))"
proof (induction rs arbitrary: i j)
  case Nil
  then show ?case by simp
next
  case (Cons r rs)
  then obtain j' where j: "j = Suc j'" by (cases j) auto
  show ?case
  proof (cases i)
    case 0
    with Cons.prems j show ?thesis by simp
  next
    case (Suc i')
    with Cons.prems j have "i' < j'" "j' < length rs" by auto
    with Cons.IH Cons.prems(1) have "stop (rs ! i') \<le> unat (start (rs ! j'))" by simp
    with Suc j show ?thesis by simp
  qed
qed

lemma ordered_len_pos: "ordered rs \<Longrightarrow> i < length rs \<Longrightarrow> 0 < unat (len (rs ! i))"
  by (induction rs arbitrary: i) (auto simp: nth_Cons split: nat.splits)

lemma contains_unique:
  assumes "ordered rs" "i < length rs" "j < length rs"
    and "contains (rs ! i) a" "contains (rs ! j) a"
  shows "i = j"
proof (rule ccontr)
  assume "i \<noteq> j"
  then consider "i < j" | "j < i" by linarith
  then show False
  proof cases
    case 1
    with ordered_nth [OF assms(1) this assms(3)] assms(4,5) show ?thesis
      by (simp add: contains_iff stop_of_def)
  next
    case 2
    with ordered_nth [OF assms(1) this assms(2)] assms(4,5) show ?thesis
      by (simp add: contains_iff stop_of_def)
  qed
qed

lemma takeWhile_start:
  assumes "ordered rs" "i < length rs" "contains (rs ! i) a"
  shows "length (takeWhile (\<lambda>r. \<not> a < start r) rs) = Suc i"
proof -
  let ?P = "\<lambda>r. \<not> a < start r"
  have below: "?P (rs ! k)" if "k \<le> i" for k
  proof (cases "k = i")
    case True
    with assms(3) show ?thesis by (simp add: contains_iff word_less_nat_alt)
  next
    case False
    with that ordered_nth [OF assms(1), of k i] assms(2) have "stop (rs ! k) \<le> unat (start (rs ! i))"
      by simp
    with assms(3) show ?thesis by (simp add: contains_iff word_less_nat_alt stop_of_def)
  qed
  have above: "Suc i < length rs \<Longrightarrow> \<not> ?P (rs ! Suc i)"
    using ordered_nth [OF assms(1), of i "Suc i"] assms(3)
    by (simp add: contains_iff word_less_nat_alt stop_of_def)
  have "takeWhile ?P rs = take (Suc i) rs @ takeWhile ?P (drop (Suc i) rs)"
  proof -
    have "\<forall>x \<in> set (take (Suc i) rs). ?P x"
      using below assms(2) by (auto simp: in_set_conv_nth)
    then have "takeWhile ?P (take (Suc i) rs @ drop (Suc i) rs)
        = take (Suc i) rs @ takeWhile ?P (drop (Suc i) rs)"
      by (intro takeWhile_append2) blast
    then show ?thesis by simp
  qed
  moreover have "takeWhile ?P (drop (Suc i) rs) = []"
    using above by (cases "Suc i < length rs") (auto simp: takeWhile_eq_Nil_iff hd_drop_conv_nth)
  ultimately show ?thesis using assms(2) by simp
qed

lemma upper_bound_prev_found:
  assumes "ordered rs" "i < length rs" "contains (rs ! i) a"
  shows "upper_bound_prev start a rs = Some i"
  using takeWhile_start [OF assms] by (simp add: upper_bound_prev_def)

lemma upper_bound_prev_less: "upper_bound_prev start a rs = Some i \<Longrightarrow> i < length rs"
proof -
  assume *: "upper_bound_prev start a rs = Some i"
  have "length (takeWhile (\<lambda>r. \<not> a < start r) rs) \<le> length rs" by (rule length_takeWhile_le)
  moreover have "length (takeWhile (\<lambda>r. \<not> a < start r) rs) = Suc i"
    using * by (auto simp: upper_bound_prev_def Let_def split: if_splits)
  ultimately show "i < length rs" by simp
qed

text \<open>The lookup succeeds exactly where a linear search would.\<close>

lemma lookup_complete:
  assumes "ordered rs"
  shows "(\<exists>i. upper_bound_prev start a rs = Some i \<and> contains (rs ! i) a)
    \<longleftrightarrow> (\<exists>r \<in> set rs. contains r a)"
proof
  assume "\<exists>i. upper_bound_prev start a rs = Some i \<and> contains (rs ! i) a"
  then show "\<exists>r \<in> set rs. contains r a" using upper_bound_prev_less by (metis nth_mem)
next
  assume "\<exists>r \<in> set rs. contains r a"
  then obtain i where "i < length rs" "contains (rs ! i) a" by (metis in_set_conv_nth)
  then show "\<exists>i. upper_bound_prev start a rs = Some i \<and> contains (rs ! i) a"
    using upper_bound_prev_found [OF assms] by blast
qed

lemma ordered_insort:
  assumes "ordered rs" "0 < unat (len r)"
    and "\<forall>r' \<in> set rs. disjoint_from start len r r'"
  shows "ordered (insort_key (\<lambda>r. start r) r rs)"
  using assms
proof (induction rs)
  case Nil
  then show ?case by simp
next
  case (Cons x rs)
  have x: "0 < unat (len x)" "\<forall>r' \<in> set rs. stop x \<le> unat (start r')" "ordered rs"
    using Cons.prems(1) by auto
  have dis: "disjoint_from start len r x" and dis_rs: "\<forall>r' \<in> set rs. disjoint_from start len r r'"
    using Cons.prems(3) by auto
  show ?case
  proof (cases "start r \<le> start x")
    case True
    then have rx: "stop r \<le> unat (start x)"
      using dis x(1) Cons.prems(2)
      by (auto simp: disjoint_from_def stop_of_def word_le_nat_alt split: if_splits)
    moreover have "stop r \<le> unat (start r')" if "r' \<in> set rs" for r'
    proof -
      from x(2) that have "stop x \<le> unat (start r')" by blast
      with rx show ?thesis by (simp add: stop_of_def)
    qed
    ultimately show ?thesis using True Cons.prems by auto
  next
    case False
    then have "stop x \<le> unat (start r)"
      using dis x(1) Cons.prems(2)
      by (auto simp: disjoint_from_def stop_of_def word_le_nat_alt split: if_splits)
    then show ?thesis using False x Cons.IH [OF x(3) Cons.prems(2) dis_rs]
      by (auto simp: set_insort_key)
  qed
qed

lemma ordered_starts_sorted: "ordered rs \<Longrightarrow> sorted (map start rs)"
proof (induction rs)
  case Nil
  then show ?case by simp
next
  case (Cons r rs)
  then have "\<forall>r' \<in> set rs. stop r \<le> unat (start r')" by simp
  then have "\<forall>r' \<in> set rs. start r \<le> start r'"
    by (auto simp: word_le_nat_alt stop_of_def)
  with Cons show ?case by simp
qed

text \<open>Appending a disjoint interval and sorting by start keeps the index well-formed.\<close>

lemma ordered_append_sort:
  assumes "ordered rs" "0 < unat (len r)"
    and "\<forall>r' \<in> set rs. disjoint_from start len r r'"
  shows "ordered (sort_key start (rs @ [r]))"
proof -
  have starts: "sorted (map start rs)" using assms(1) by (rule ordered_starts_sorted)
  have neq: "start r' \<noteq> start r" if mem: "r' \<in> set rs" for r'
  proof
    assume eq: "start r' = start r"
    obtain i where i: "i < length rs" "rs ! i = r'" using mem by (auto simp: in_set_conv_nth)
    with ordered_len_pos [OF assms(1) i(1)] have "0 < unat (len r')" by simp
    moreover have "disjoint_from start len r r'" using assms(3) mem by blast
    ultimately show False using assms(2) eq by (simp add: disjoint_from_def stop_of_def)
  qed
  have "sort_key start (rs @ [r]) = insort_key start r rs"
  proof (rule properties_for_sort_key)
    show "mset (insort_key start r rs) = mset (rs @ [r])" by simp
    show "sorted (map start (insort_key start r rs))" using starts by (simp add: sorted_insort_key)
    fix k assume "k \<in> set (insort_key start r rs)"
    show "filter (\<lambda>x. start k = start x) (insort_key start r rs)
        = filter (\<lambda>x. start k = start x) (rs @ [r])"
    proof (cases "start k = start r")
      case True
      then have "filter (\<lambda>x. start k = start x) rs = []"
        using neq by (metis (mono_tags, lifting) filter_False)
      with True starts show ?thesis by (simp add: filter_insort)
    next
      case False
      then show ?thesis by (simp add: filter_insort_triv)
    qed
  qed
  then show ?thesis using ordered_insort [OF assms] by simp
qed

end

end
