(* ===== verification/Instruction.thy ===== *)
theory Instruction
  imports Prelude
begin

text \<open>
  The instruction representation of \<open>include/fil/cpu/instruction.hpp\<close> and the
  architectural helpers of \<open>src/cpu/execute.cpp\<close> that work on plain values:
  addition with carry, the barrel shifter, condition codes, the IT state and the
  pipeline cost tables. Register numbers and shift amounts are small unsigned
  numbers (\<open>std::uint8_t\<close> used only as indices and counts), so they are naturals;
  operands are 32-bit words.
\<close>

section \<open>Enumerations\<close>

datatype (plugins only:) Condition =
  C_eq | C_ne | C_cs | C_cc | C_mi | C_pl | C_vs | C_vc
| C_hi | C_ls | C_ge | C_lt | C_gt | C_le | C_al | C_nv

datatype ShiftType = SH_lsl | SH_lsr | SH_asr | SH_ror | SH_rrx

datatype OperandForm = OF_none | OF_immediate | OF_register_value | OF_literal | OF_register_list

datatype (plugins only:) InstrKind =
  I_undefined | I_mov | I_movw | I_movt | I_add | I_adc | I_sub | I_sbc | I_rsb | I_cmp
| I_cmn | I_tst | I_and | I_orr | I_eor | I_bic | I_mvn | I_orn | I_mul | I_mla | I_mls
| I_umull | I_udiv | I_clz | I_bfc | I_ubfx | I_sxtb | I_sxth | I_uxtb | I_uxth | I_rev
| I_rev16 | I_revsh | I_sdiv | I_smull | I_uadd8 | I_sel | I_lsl | I_lsr | I_asr | I_ror
| I_rrx | I_ldr | I_str | I_ldrb | I_strb | I_ldrh | I_strh | I_ldrsb | I_ldrsh | I_ldrd
| I_strd | I_ldm | I_stm | I_push | I_pop | I_b | I_bl | I_bx | I_blx | I_tbb | I_tbh
| I_cbz | I_cbnz | I_it | I_nop | I_dmb | I_dsb | I_isb | I_svc | I_mrs | I_msr | I_cps
| I_wfi | I_wfe | I_sev | I_vstm | I_vldm | I_vldr | I_vstr | I_vmov_core_to_single
| I_vmov_single_to_core | I_vmov_single | I_vmov_immediate | I_vcvt_f32_s32
| I_vcvt_f32_u32 | I_vcvt_s32_f32 | I_vcvt_u32_f32 | I_vadd | I_vsub | I_vmul | I_vnmul
| I_vdiv | I_vfma | I_vfms | I_vfnms | I_vcmp | I_vneg | I_vabs | I_vsqrt | I_vmrs | I_bkpt

text \<open>
  The enumerators of \<open>Condition\<close> carry their encodings; \<open>static_cast<Condition>\<close> of
  a four-bit number is the enumerator at that position.
\<close>

definition condition_of :: "nat \<Rightarrow> Condition" where
  "condition_of n =
     [C_eq, C_ne, C_cs, C_cc, C_mi, C_pl, C_vs, C_vc,
      C_hi, C_ls, C_ge, C_lt, C_gt, C_le, C_al, C_nv] ! n"

section \<open>Decoded instructions\<close>

record DecodedInstruction =
  kind :: InstrKind
  condition :: Condition
  form :: OperandForm
  rd :: nat
  rn :: nat
  rm :: nat
  ra :: nat
  imm :: u32
  branch_offset :: int
  register_list :: u16
  shift_type :: ShiftType
  shift_amount :: nat
  set_flags :: bool
  index :: bool
  add :: bool
  writeback :: bool
  immediate_carry_valid :: bool
  immediate_carry :: bool
  fp_double :: bool
  is_32bit :: bool
  raw :: u32

definition default_instruction :: DecodedInstruction where
  "default_instruction =
     \<lparr>kind = I_undefined, condition = C_al, form = OF_none, rd = 0, rn = 0, rm = 0, ra = 0,
      imm = 0, branch_offset = 0, register_list = 0, shift_type = SH_lsl, shift_amount = 0,
      set_flags = False, index = True, add = True, writeback = False,
      immediate_carry_valid = False, immediate_carry = False, fp_double = False,
      is_32bit = False, raw = 0\<rparr>"

record AddResult =
  ar_value :: u32
  ar_n :: bool
  ar_z :: bool
  ar_c :: bool
  ar_v :: bool

record ShiftResult =
  sr_value :: u32
  sr_carry :: bool

definition isExceptionReturn :: "u32 \<Rightarrow> bool" where
  "isExceptionReturn v \<longleftrightarrow>
     v \<in> {0xfffffff1, 0xfffffff9, 0xfffffffd, 0xffffffe1, 0xffffffe9, 0xffffffed}"

definition inItBlock :: "u8 \<Rightarrow> bool" where
  "inItBlock it_state \<longleftrightarrow> it_state AND 0x0f \<noteq> 0"

definition currentItCondition :: "u8 \<Rightarrow> Condition" where
  "currentItCondition it_state = condition_of (unat (drop_bit 4 it_state AND 0x0f))"

section \<open>Status flags\<close>

definition xpsr_n :: u32 where "xpsr_n = 0x80000000"
definition xpsr_z :: u32 where "xpsr_z = 0x40000000"
definition xpsr_c :: u32 where "xpsr_c = 0x20000000"
definition xpsr_v :: u32 where "xpsr_v = 0x10000000"
definition xpsr_t :: u32 where "xpsr_t = 0x01000000"
definition xpsr_ge_mask :: u32 where "xpsr_ge_mask = 0x000f0000"
definition xpsr_ipsr_mask :: u32 where "xpsr_ipsr_mask = 0x1ff"
definition xpsr_it_mask :: u32 where "xpsr_it_mask = 0x0600fc00"

lemmas xpsr_defs = xpsr_n_def xpsr_z_def xpsr_c_def xpsr_v_def xpsr_t_def
  xpsr_ge_mask_def xpsr_ipsr_mask_def xpsr_it_mask_def

section \<open>Arithmetic and shifts\<close>

definition addWithCarry :: "u32 \<Rightarrow> u32 \<Rightarrow> bool \<Rightarrow> AddResult" where
  "addWithCarry x y carry_in =
     (let unsigned_sum = (ucast x :: u64) + ucast y + (if carry_in then 1 else 0);
          val = (ucast unsigned_sum :: u32);
          overflow = (NOT (x XOR y) AND (x XOR val)) AND 0x80000000 \<noteq> 0
      in \<lparr>ar_value = val, ar_n = val AND 0x80000000 \<noteq> 0, ar_z = val = 0,
          ar_c = drop_bit 32 unsigned_sum \<noteq> 0, ar_v = overflow\<rparr>)"

definition shiftC :: "u32 \<Rightarrow> ShiftType \<Rightarrow> nat \<Rightarrow> bool \<Rightarrow> ShiftResult" where
  "shiftC val type amount old_carry =
     (case type of
        SH_lsl \<Rightarrow>
          if amount = 0 then \<lparr>sr_value = val, sr_carry = old_carry\<rparr>
          else if amount < 32 then
            \<lparr>sr_value = push_bit amount val, sr_carry = drop_bit (32 - amount) val AND 1 \<noteq> 0\<rparr>
          else if amount = 32 then \<lparr>sr_value = 0, sr_carry = val AND 1 \<noteq> 0\<rparr>
          else \<lparr>sr_value = 0, sr_carry = False\<rparr>
      | SH_lsr \<Rightarrow>
          if amount = 0 then \<lparr>sr_value = val, sr_carry = old_carry\<rparr>
          else if amount < 32 then
            \<lparr>sr_value = drop_bit amount val, sr_carry = drop_bit (amount - 1) val AND 1 \<noteq> 0\<rparr>
          else if amount = 32 then \<lparr>sr_value = 0, sr_carry = val AND 0x80000000 \<noteq> 0\<rparr>
          else \<lparr>sr_value = 0, sr_carry = False\<rparr>
      | SH_asr \<Rightarrow>
          if amount = 0 then \<lparr>sr_value = val, sr_carry = old_carry\<rparr>
          else if amount < 32 then
            (let shifted = drop_bit amount val;
                 fill = (if val AND 0x80000000 \<noteq> 0 then push_bit (32 - amount) (NOT 0) else 0)
             in \<lparr>sr_value = shifted OR fill, sr_carry = drop_bit (amount - 1) val AND 1 \<noteq> 0\<rparr>)
          else \<lparr>sr_value = (if val AND 0x80000000 \<noteq> 0 then 0xffffffff else 0),
                sr_carry = val AND 0x80000000 \<noteq> 0\<rparr>
      | SH_ror \<Rightarrow>
          if amount = 0 then \<lparr>sr_value = val, sr_carry = old_carry\<rparr>
          else
            (let rotation = amount mod 32
             in if rotation = 0 then \<lparr>sr_value = val, sr_carry = val AND 0x80000000 \<noteq> 0\<rparr>
                else (let shifted = drop_bit rotation val OR push_bit (32 - rotation) val
                      in \<lparr>sr_value = shifted, sr_carry = shifted AND 0x80000000 \<noteq> 0\<rparr>))
      | SH_rrx \<Rightarrow>
          \<lparr>sr_value = (if old_carry then 0x80000000 else 0) OR drop_bit 1 val,
           sr_carry = val AND 1 \<noteq> 0\<rparr>)"

definition conditionPasses :: "Condition \<Rightarrow> u32 \<Rightarrow> bool" where
  "conditionPasses cond xpsr =
     (let n = xpsr AND xpsr_n \<noteq> 0; z = xpsr AND xpsr_z \<noteq> 0;
          c = xpsr AND xpsr_c \<noteq> 0; v = xpsr AND xpsr_v \<noteq> 0
      in case cond of
           C_eq \<Rightarrow> z | C_ne \<Rightarrow> \<not> z | C_cs \<Rightarrow> c | C_cc \<Rightarrow> \<not> c
         | C_mi \<Rightarrow> n | C_pl \<Rightarrow> \<not> n | C_vs \<Rightarrow> v | C_vc \<Rightarrow> \<not> v
         | C_hi \<Rightarrow> c \<and> \<not> z | C_ls \<Rightarrow> \<not> c \<or> z
         | C_ge \<Rightarrow> n = v | C_lt \<Rightarrow> n \<noteq> v
         | C_gt \<Rightarrow> \<not> z \<and> n = v | C_le \<Rightarrow> z \<or> n \<noteq> v
         | C_al \<Rightarrow> True | C_nv \<Rightarrow> False)"

definition advanceItState :: "u8 \<Rightarrow> u8" where
  "advanceItState it_state =
     (if it_state AND 0x07 = 0 then 0
      else let widened = (ucast it_state :: u32)
           in ucast ((widened AND 0xe0) OR (push_bit 1 widened AND 0x1f)))"

section \<open>Bit counting and rotation of the standard library\<close>

definition countl_zero :: "u32 \<Rightarrow> nat" where
  "countl_zero x = length (takeWhile (\<lambda>i. \<not> bit x i) (rev [0..<32]))"

definition popcount16 :: "u16 \<Rightarrow> nat" where
  "popcount16 x = length (filter (bit x) [0..<16])"

definition rotr32 :: "u32 \<Rightarrow> nat \<Rightarrow> u32" where
  "rotr32 x n = (let k = n mod 32 in if k = 0 then x else drop_bit k x OR push_bit (32 - k) x)"

section \<open>Pipeline cost tables\<close>

definition divideCycles :: "u32 \<Rightarrow> nat" where
  "divideCycles divisor =
     (if divisor = 0 then 2 else let leading = countl_zero divisor in 12 - (leading * 10) div 32)"

definition takenBranchPenalty :: "InstrKind \<Rightarrow> nat" where
  "takenBranchPenalty k = (if k \<in> {I_cbz, I_cbnz} then 1 else 2)"

definition basePipelineCycles :: "DecodedInstruction \<Rightarrow> nat" where
  "basePipelineCycles i =
     (if kind i \<in> {I_undefined, I_bkpt} then 1
      else if kind i = I_mul then 1
      else if kind i \<in> {I_mla, I_mls} then 2
      else if kind i \<in> {I_umull, I_smull} then 5
      else if kind i \<in> {I_udiv, I_sdiv} then 7
      else if kind i \<in> {I_ldr, I_str, I_ldrb, I_strb, I_ldrh, I_strh, I_ldrsb, I_ldrsh} then 2
      else if kind i \<in> {I_ldrd, I_strd} then 3
      else if kind i \<in> {I_ldm, I_stm, I_push, I_pop} then 1 + popcount16 (register_list i)
      else if kind i \<in> {I_b, I_bl, I_blx, I_bx, I_tbb, I_tbh} then 2
      else if kind i \<in> {I_cbz, I_cbnz} then 1
      else if kind i \<in> {I_mrs, I_msr, I_svc, I_dmb, I_dsb, I_isb} then 2
      else if kind i \<in> {I_vdiv, I_vsqrt} then 14
      else if kind i \<in> {I_vfma, I_vfms, I_vfnms} then 3
      else if kind i \<in> {I_vcvt_f32_s32, I_vcvt_f32_u32, I_vcvt_s32_f32, I_vcvt_u32_f32,
                         I_vmrs, I_vldr, I_vstr} then 2
      else if kind i \<in> {I_vldm, I_vstm} then 1 + popcount16 (register_list i)
      else 1)"

end
