(* ===== verification/Alu_Laws.thy ===== *)
theory Alu_Laws
  imports Instruction
begin

text \<open>
  What the value-level helpers of the instruction set compute: the flags of an
  addition with carry against unbounded integer arithmetic, the comparison each
  condition code decides after a subtraction, the barrel shifter against arithmetic
  on integers, the progress of an IT block, and the bounds of the cost tables.
\<close>

section \<open>Sign bit and signed value\<close>

lemma and_pow2_ne_0: "(w AND push_bit n 1 \<noteq> 0) = bit (w :: 'a :: len word) n"
proof
  assume "w AND push_bit n 1 \<noteq> 0"
  then obtain k where "bit (w AND push_bit n 1) k" by (auto simp: bit_eq_iff)
  then show "bit w n" by (auto simp: bit_simps)
next
  assume "bit w n"
  then have "bit (w AND push_bit n 1) n" using bit_imp_le_length [of w n] by (simp add: bit_simps)
  then show "w AND push_bit n 1 \<noteq> 0" by force
qed

lemma sign_mask: "(0x80000000 :: u32) = push_bit 31 1" by simp

lemma bit_sign: "bit (0x80000000 :: u32) k \<longleftrightarrow> k = 31"
  unfolding sign_mask by (simp only: bit_push_bit_iff bit_1_iff possible_bit_word) auto

lemma and_sign [simp]: "(w AND 0x80000000 \<noteq> 0) = bit (w :: u32) 31"
  unfolding sign_mask by (rule and_pow2_ne_0)

lemma and_sign' [simp]: "(w AND 0x80000000 = 0) = (\<not> bit (w :: u32) 31)"
  using and_sign [of w] by blast

lemma mod_once: "0 \<le> a \<Longrightarrow> a < 2 * m \<Longrightarrow> a mod m = (if a < m then a else a - (m :: int))"
  using minus_mod_self2 [of a m] by (auto simp: mod_pos_pos_trivial simp del: minus_mod_self2)

lemma bit31_iff: "bit (w :: u32) 31 \<longleftrightarrow> 2147483648 \<le> uint w"
proof -
  have "bit w 31 \<longleftrightarrow> bit (uint w) 31" by (simp add: bit_uint_iff)
  also have "\<dots> \<longleftrightarrow> odd (uint w div 2 ^ 31)" by (rule bit_iff_odd)
  finally have o: "bit w 31 \<longleftrightarrow> odd (uint w div 2147483648)" by simp
  have "0 \<le> uint w" "uint w < 4294967296" using uint_lt2p [of w] by auto
  then have "uint w div 2147483648 = (if 2147483648 \<le> uint w then 1 else 0)"
    by (auto intro!: int_div_pos_eq [of _ _ _ "uint w - 2147483648"])
  with o show ?thesis by simp
qed

lemma sint_u32: "sint (w :: u32) = (if bit w 31 then uint w - 4294967296 else uint w)"
proof -
  have r: "0 \<le> uint w" "uint w < 4294967296" using uint_lt2p [of w] by auto
  have "sint w = signed_take_bit 31 (uint w)" by (simp add: signed_take_bit_eq_if_positive sint_uint)
  also have "\<dots> = (uint w + 2147483648) mod 4294967296 - 2147483648"
    by (simp add: signed_take_bit_eq_take_bit_shift take_bit_eq_mod)
  also have "\<dots> = (if 2147483648 \<le> uint w then uint w - 4294967296 else uint w)"
    using r by (simp add: mod_once)
  finally show ?thesis by (simp add: bit31_iff)
qed

lemma uint_bounds: "0 \<le> uint (w :: u32)" "uint w < 4294967296"
  using uint_lt2p [of w] by auto

lemma take_bit_uint [simp]: "take_bit 32 (uint (w :: u32)) = uint w"
  by (simp add: take_bit_int_eq_self uint_bounds)

section \<open>Addition with carry\<close>

definition carry_int :: "bool \<Rightarrow> int" where
  "carry_int c = (if c then 1 else 0)"

lemma addWithCarry_wide:
  "uint ((ucast (x :: u32) :: u64) + ucast (y :: u32) + (if c then 1 else 0)) = uint x + uint y + carry_int c"
  using uint_bounds [of x] uint_bounds [of y]
  by (simp add: carry_int_def uint_word_ariths unsigned_ucast_eq take_bit_int_eq_self)

lemma addWithCarry_value: "ar_value (addWithCarry x y c) = x + y + (if c then 1 else 0)"
  by (rule word_uint_eqI)
    (simp add: addWithCarry_def Let_def unsigned_ucast_eq addWithCarry_wide carry_int_def
      uint_word_ariths take_bit_eq_mod mod_simps mod_mod_cancel)

lemma addWithCarry_uint:
  "uint (ar_value (addWithCarry x y c)) = (uint x + uint y + carry_int c) mod 4294967296"
  by (simp add: addWithCarry_value carry_int_def uint_word_ariths mod_simps)

lemma addWithCarry_cases:
  "uint (ar_value (addWithCarry x y c)) =
     (let s = uint x + uint y + carry_int c in if s < 4294967296 then s else s - 4294967296)"
proof -
  define s where "s = uint x + uint y + carry_int c"
  have "0 \<le> s" "s < 8589934592"
    using uint_bounds [of x] uint_bounds [of y] by (auto simp: s_def carry_int_def)
  then have "s mod 4294967296 = (if s < 4294967296 then s else s - 4294967296)"
    by (simp add: mod_once)
  then show ?thesis by (simp add: addWithCarry_uint s_def)
qed

lemma addWithCarry_c:
  "ar_c (addWithCarry x y c) \<longleftrightarrow> 4294967296 \<le> uint x + uint y + carry_int c"
proof -
  let ?s = "(ucast x :: u64) + ucast y + (if c then 1 else 0)"
  have "drop_bit 32 ?s = 0 \<longleftrightarrow> uint (drop_bit 32 ?s) = 0" by (simp only: uint_0_iff)
  also have "\<dots> \<longleftrightarrow> uint ?s < 4294967296"
    by (simp only: unsigned_drop_bit_eq addWithCarry_wide)
      (use uint_bounds [of x] uint_bounds [of y] in \<open>auto simp: take_bit_eq_mod drop_bit_eq_div carry_int_def\<close>)
  finally show ?thesis
    unfolding addWithCarry_def Let_def by (simp only: AddResult.simps addWithCarry_wide) linarith
qed

text \<open>Signed overflow, on the signed values read off the unsigned ones.\<close>

definition signed_of :: "int \<Rightarrow> int" where
  "signed_of a = (if 2147483648 \<le> a then a - 4294967296 else a)"

lemma sint_signed_of: "sint (w :: u32) = signed_of (uint w)"
  by (simp add: sint_u32 bit31_iff signed_of_def)

lemma signed_overflow:
  fixes a b k v :: int
  assumes "0 \<le> a" "a < 4294967296" "0 \<le> b" "b < 4294967296" "k = 0 \<or> k = 1"
    and v: "v = (if a + b + k < 4294967296 then a + b + k else a + b + k - 4294967296)"
  shows "((2147483648 \<le> a) = (2147483648 \<le> b) \<and> (2147483648 \<le> a) \<noteq> (2147483648 \<le> v))
           \<longleftrightarrow> signed_of v \<noteq> signed_of a + signed_of b + k"
    and "signed_of v \<noteq> signed_of a + signed_of b + k \<longleftrightarrow>
           \<not> (- 2147483648 \<le> signed_of a + signed_of b + k \<and> signed_of a + signed_of b + k < 2147483648)"
  using assms by (auto simp: signed_of_def)

lemma carry_int_cases: "carry_int c = 0 \<or> carry_int c = 1"
  by (simp add: carry_int_def)

lemmas addWithCarry_overflow =
  signed_overflow [OF uint_bounds uint_bounds carry_int_cases addWithCarry_cases [unfolded Let_def]]

lemma addWithCarry_flags:
  "ar_n (addWithCarry x y c) \<longleftrightarrow> sint (ar_value (addWithCarry x y c)) < 0"
  "ar_z (addWithCarry x y c) \<longleftrightarrow> ar_value (addWithCarry x y c) = 0"
  "ar_v (addWithCarry x y c) \<longleftrightarrow>
     sint (ar_value (addWithCarry x y c)) \<noteq> sint x + sint y + carry_int c"
proof -
  let ?v = "ar_value (addWithCarry x y c)"
  have n: "ar_n (addWithCarry x y c) \<longleftrightarrow> bit ?v 31"
    by (simp add: addWithCarry_def Let_def del: One_nat_def)
  then show "ar_n (addWithCarry x y c) \<longleftrightarrow> sint ?v < 0"
    using uint_bounds [of ?v] by (simp add: sint_u32 bit31_iff)
  show "ar_z (addWithCarry x y c) \<longleftrightarrow> ?v = 0" by (simp add: addWithCarry_def Let_def)
  have "ar_v (addWithCarry x y c) \<longleftrightarrow> (bit x 31 = bit y 31) \<and> bit x 31 \<noteq> bit ?v 31"
    by (auto simp: addWithCarry_def Let_def bit_simps)
  then show "ar_v (addWithCarry x y c) \<longleftrightarrow> sint ?v \<noteq> sint x + sint y + carry_int c"
    unfolding sint_signed_of bit31_iff by (simp only: addWithCarry_overflow (1))
qed

text \<open>
  C20. \<open>addWithCarry\<close> computes the ARM pseudo-code function: the value is the sum
  modulo \<open>2^32\<close>, the carry says that the unsigned sum of the operands and the carry
  does not fit into 32 bits, the overflow that the signed sum does not, and the
  negative and zero flags describe the value.
\<close>

theorem addWithCarry_correct:
  "let r = addWithCarry x y c; k = (if c then 1 else 0)
   in uint (ar_value r) = (uint x + uint y + k) mod 2 ^ 32
      \<and> (ar_c r \<longleftrightarrow> 2 ^ 32 \<le> uint x + uint y + k)
      \<and> (ar_v r \<longleftrightarrow> \<not> (- (2 ^ 31) \<le> sint x + sint y + k \<and> sint x + sint y + k < 2 ^ 31))
      \<and> (ar_n r \<longleftrightarrow> sint (ar_value r) < 0) \<and> (ar_z r \<longleftrightarrow> ar_value r = 0)"
proof -
  let ?s = "sint x + sint y + carry_int c"
  have "ar_v (addWithCarry x y c) \<longleftrightarrow> \<not> (- 2147483648 \<le> ?s \<and> ?s < 2147483648)"
    unfolding addWithCarry_flags sint_signed_of by (rule addWithCarry_overflow (2))
  then show ?thesis
    by (simp add: Let_def addWithCarry_uint addWithCarry_c addWithCarry_flags (1,2)
        flip: carry_int_def)
qed

section \<open>Comparison by subtraction\<close>

lemma not_uint: "uint (NOT (y :: u32)) = 4294967295 - uint y"
  by (simp add: unsigned_not_eq take_bit_not_eq_mask_diff mask_eq_exp_minus_1)

lemma not_sint: "sint (NOT (y :: u32)) = - 1 - sint y"
  using uint_bounds [of y] by (simp add: sint_signed_of not_uint signed_of_def)

lemma signed_compare:
  fixes a b v :: int
  assumes "0 \<le> a" "a < 4294967296" "0 \<le> b" "b < 4294967296"
    and "v = (if b \<le> a then a - b else a - b + 4294967296)"
  shows "(signed_of v < 0) = (signed_of v \<noteq> signed_of a - signed_of b) \<longleftrightarrow> signed_of b \<le> signed_of a"
  using assms by (auto simp: signed_of_def)

lemma uint_diff: "uint (x - y) = (if uint y \<le> uint x then uint x - uint y else uint x - uint y + 4294967296)"
  for x y :: u32
  by (simp add: uint_sub_if_size word_size)

lemma compare_flags:
  "ar_value (addWithCarry x (NOT y) True) = x - y"
  "ar_c (addWithCarry x (NOT y) True) \<longleftrightarrow> y \<le> x"
  "ar_z (addWithCarry x (NOT y) True) \<longleftrightarrow> x = y"
  "ar_n (addWithCarry x (NOT y) True) = ar_v (addWithCarry x (NOT y) True) \<longleftrightarrow> sint y \<le> sint x"
proof -
  show v: "ar_value (addWithCarry x (NOT y) True) = x - y"
    by (simp add: addWithCarry_value not_eq_complement)
  show "ar_c (addWithCarry x (NOT y) True) \<longleftrightarrow> y \<le> x"
    by (simp add: addWithCarry_c not_uint carry_int_def word_le_def)
  show "ar_z (addWithCarry x (NOT y) True) \<longleftrightarrow> x = y"
    by (simp add: addWithCarry_flags v)
  have "sint x + sint (NOT y) + carry_int True = sint x - sint y"
    by (simp add: not_sint carry_int_def)
  then show "ar_n (addWithCarry x (NOT y) True) = ar_v (addWithCarry x (NOT y) True) \<longleftrightarrow> sint y \<le> sint x"
    unfolding addWithCarry_flags v
    by (simp only: sint_signed_of signed_compare [OF uint_bounds uint_bounds uint_diff])
qed

section \<open>The barrel shifter\<close>

lemma and_1_bit: "(drop_bit n w AND 1 \<noteq> 0) = bit (w :: u32) n"
  by (simp add: and_one_eq bit_iff_odd_drop_bit odd_iff_mod_2_eq_one)

lemma and_1_bit0: "(w AND 1 \<noteq> 0) = bit (w :: u32) 0"
  using and_1_bit [of 0 w] by simp

lemma shiftC_zero: "type \<noteq> SH_rrx \<Longrightarrow> shiftC v type 0 c = \<lparr>sr_value = v, sr_carry = c\<rparr>"
  by (cases type) (simp_all add: shiftC_def)

lemma shiftC_lsl:
  "uint (sr_value (shiftC v SH_lsl n c)) = (uint v * 2 ^ n) mod 2 ^ 32"
  "0 < n \<Longrightarrow> sr_carry (shiftC v SH_lsl n c) = bit (uint v * 2 ^ n) 32"
proof -
  have "sr_value (shiftC v SH_lsl n c) = push_bit n v"
    by (rule bit_word_eqI) (auto simp: shiftC_def bit_push_bit_iff)
  then have "uint (sr_value (shiftC v SH_lsl n c)) = take_bit 32 (push_bit n (uint v))"
    by (simp only: unsigned_push_bit_eq) simp
  then show "uint (sr_value (shiftC v SH_lsl n c)) = (uint v * 2 ^ n) mod 2 ^ 32"
    by (simp only: take_bit_eq_mod push_bit_eq_mult)
  have "bit (push_bit n (uint v)) 32 \<longleftrightarrow> n \<le> 32 \<and> 0 < n \<and> bit v (32 - n)"
    by (auto simp: bit_push_bit_iff bit_uint_iff)
  moreover have "sr_carry (shiftC v SH_lsl n c) \<longleftrightarrow> n \<le> 32 \<and> bit v (32 - n)" if "0 < n"
    using that by (auto simp: shiftC_def and_1_bit0 bit_drop_bit_eq)
  ultimately show "sr_carry (shiftC v SH_lsl n c) = bit (uint v * 2 ^ n) 32" if "0 < n"
    using that by (simp only: push_bit_eq_mult [symmetric]) simp
qed

lemma shiftC_lsr:
  "uint (sr_value (shiftC v SH_lsr n c)) = uint v div 2 ^ n"
  "0 < n \<Longrightarrow> sr_carry (shiftC v SH_lsr n c) = bit (uint v) (n - 1)"
proof -
  have big: "uint v div 2 ^ n = 0" if "32 \<le> n"
  proof (rule div_pos_pos_trivial)
    show "uint v < 2 ^ n" using uint_bounds (2) [of v] power_increasing [OF that, of "2 :: int"] by simp
  qed simp
  have "uint (drop_bit n v) = uint v div 2 ^ n"
    by (simp add: unsigned_drop_bit_eq) (simp add: drop_bit_eq_div)
  then show "uint (sr_value (shiftC v SH_lsr n c)) = uint v div 2 ^ n"
    using big by (simp add: shiftC_def)
  show "sr_carry (shiftC v SH_lsr n c) = bit (uint v) (n - 1)" if "0 < n"
    using that by (auto simp: shiftC_def and_1_bit bit_simps dest: bit_imp_le_length)
qed

lemma all_ones: "(0xffffffff :: u32) = - 1" by simp

lemma shiftC_asr:
  "sint (sr_value (shiftC v SH_asr n c)) = sint v div 2 ^ n"
  "0 < n \<Longrightarrow> sr_carry (shiftC v SH_asr n c) = bit (sint v) (n - 1)"
proof -
  have "sr_value (shiftC v SH_asr n c) = signed_drop_bit n v"
    by (rule bit_word_eqI)
      (auto simp: shiftC_def Let_def bit_or_iff bit_drop_bit_eq bit_push_bit_iff bit_not_iff
        bit_signed_drop_bit_iff bit_mask_iff all_ones dest: bit_imp_le_length)
  then show "sint (sr_value (shiftC v SH_asr n c)) = sint v div 2 ^ n"
    by (simp add: sint_signed_drop_bit_eq drop_bit_eq_div)
  show "sr_carry (shiftC v SH_asr n c) = bit (sint v) (n - 1)" if "0 < n"
    using that by (auto simp: shiftC_def Let_def and_1_bit bit_simps)
qed

lemma rotr32_bit:
  assumes k: "k < 32" shows "bit (rotr32 v n) k = bit v ((k + n) mod 32)"
proof -
  define r where "r = n mod 32"
  have r: "r < 32" by (simp add: r_def)
  have m: "(k + n) mod 32 = (if k + r < 32 then k + r else k + r - 32)"
    using k r le_mod_geq [of 32 "k + r"] by (simp add: mod_add_right_eq [symmetric, of k n] flip: r_def)
  show ?thesis unfolding m using k r
    by (auto simp: rotr32_def Let_def bit_or_iff bit_drop_bit_eq bit_push_bit_iff add.commute
        simp flip: r_def dest: bit_imp_le_length)
qed

lemma shiftC_ror:
  "0 < n \<Longrightarrow> shiftC v SH_ror n c = \<lparr>sr_value = rotr32 v n, sr_carry = bit (rotr32 v n) 31\<rparr>"
  by (simp add: shiftC_def rotr32_def Let_def)

lemma shiftC_rrx:
  "k < 32 \<Longrightarrow> bit (sr_value (shiftC v SH_rrx n c)) k = (if k = 31 then c else bit v (k + 1))"
  "sr_carry (shiftC v SH_rrx n c) = bit v 0"
proof -
  show "sr_carry (shiftC v SH_rrx n c) = bit v 0" by (simp add: shiftC_def and_1_bit0)
  have "\<not> bit v 32" using bit_imp_le_length [of v 32] by auto
  then show "bit (sr_value (shiftC v SH_rrx n c)) k = (if k = 31 then c else bit v (k + 1))"
    unfolding shiftC_def ShiftType.case ShiftResult.simps bit_or_iff bit_drop_bit_eq
    by (cases c) (simp_all only: if_True if_False bit_sign bit_0_eq, auto)
qed

text \<open>
  C21. The barrel shifter computes what the shift names say, for every amount from 0 to
  255 and beyond: \<open>LSL\<close> multiplies by a power of two modulo \<open>2^32\<close> and carries the bit
  that leaves at position 32, \<open>LSR\<close> and \<open>ASR\<close> divide the unsigned and the signed value
  rounding down and carry the last bit shifted out, \<open>ROR\<close> rotates, \<open>RRX\<close> rotates by one
  through the carry; an amount of zero leaves the operand and the carry alone.
\<close>

theorem shiftC_correct:
  "(0 < n \<longrightarrow> uint (sr_value (shiftC v SH_lsl n c)) = (uint v * 2 ^ n) mod 2 ^ 32
      \<and> sr_carry (shiftC v SH_lsl n c) = bit (uint v * 2 ^ n) 32)
   \<and> (0 < n \<longrightarrow> uint (sr_value (shiftC v SH_lsr n c)) = uint v div 2 ^ n
      \<and> sr_carry (shiftC v SH_lsr n c) = bit (uint v) (n - 1))
   \<and> (0 < n \<longrightarrow> sint (sr_value (shiftC v SH_asr n c)) = sint v div 2 ^ n
      \<and> sr_carry (shiftC v SH_asr n c) = bit (sint v) (n - 1))
   \<and> (0 < n \<longrightarrow> (\<forall>k < 32. bit (sr_value (shiftC v SH_ror n c)) k = bit v ((k + n) mod 32))
      \<and> sr_carry (shiftC v SH_ror n c) = bit (sr_value (shiftC v SH_ror n c)) 31)
   \<and> (type \<noteq> SH_rrx \<longrightarrow> shiftC v type 0 c = \<lparr>sr_value = v, sr_carry = c\<rparr>)
   \<and> (\<forall>k < 32. bit (sr_value (shiftC v SH_rrx n c)) k = (if k = 31 then c else bit v (k + 1)))
   \<and> sr_carry (shiftC v SH_rrx n c) = bit v 0"
  by (intro conjI impI allI)
    (simp_all only: shiftC_lsl shiftC_lsr shiftC_asr shiftC_ror shiftC_rrx shiftC_zero rotr32_bit
      ShiftResult.simps simp_thms)

theorem shiftC_correct_witness:
  "0 < (4 :: nat) \<and> SH_ror \<noteq> SH_rrx
   \<and> sint (sr_value (shiftC 0x80000010 SH_asr 4 False)) = sint (0x80000010 :: u32) div 2 ^ 4
   \<and> shiftC 0x80000010 SH_ror 0 True = \<lparr>sr_value = 0x80000010, sr_carry = True\<rparr>"
  using shiftC_correct [of 4 "0x80000010" False SH_ror] shiftC_correct [of 4 "0x80000010" True SH_ror]
  by (simp only: ShiftType.distinct simp_thms zero_less_numeral)

section \<open>IT blocks\<close>

lemma low_bits:
  "(s AND 0x07 = 0) \<longleftrightarrow> \<not> bit s 0 \<and> \<not> bit s 1 \<and> \<not> bit (s :: u8) 2"
  "(s AND 0x0f = 0) \<longleftrightarrow> \<not> bit s 0 \<and> \<not> bit s 1 \<and> \<not> bit s 2 \<and> \<not> bit s 3"
  by (auto simp: word_bits_iff bit_and_iff all_less_8)

lemma bit_times_2: "bit (w * 2 :: u32) n \<longleftrightarrow> n < 32 \<and> 0 < n \<and> bit w (n - 1)"
  using bit_double_iff [of w n] by (auto simp: mult.commute)

lemma advanceItState_bit:
  "n < 8 \<Longrightarrow> bit (advanceItState s) n \<longleftrightarrow>
     (bit s 0 \<or> bit s 1 \<or> bit s 2) \<and> (if 5 \<le> n then bit s n else 0 < n \<and> bit s (n - 1))"
proof -
  have "\<forall>n < 8. bit (advanceItState s) n \<longleftrightarrow>
     (bit s 0 \<or> bit s 1 \<or> bit s 2) \<and> (if 5 \<le> n then bit s n else 0 < n \<and> bit s (n - 1))"
    unfolding all_less_8 by (simp add: advanceItState_def Let_def low_bits bit_simps bit_times_2) blast?
  then show "n < 8 \<Longrightarrow> ?thesis" by blast
qed

lemma u8_bits_iff: "v = w \<longleftrightarrow> (\<forall>n < 8. bit v n = bit (w :: u8) n)"
  using word_bits_iff [of v w] by simp

definition it_remaining :: "u8 \<Rightarrow> nat" where
  "it_remaining s = (if bit s 0 then 4 else if bit s 1 then 3 else if bit s 2 then 2
     else if bit s 3 then 1 else 0)"

lemma it_remaining_bounds:
  "it_remaining s \<le> 4" "inItBlock s \<longleftrightarrow> 0 < it_remaining s"
  by (auto simp: it_remaining_def inItBlock_def low_bits)

lemma u8_no_bit: "8 \<le> n \<Longrightarrow> \<not> bit (w :: u8) n"
  using bit_imp_le_length [of w n] by auto

lemma it_remaining_advance: "it_remaining (advanceItState s) = it_remaining s - 1"
  by (simp add: it_remaining_def advanceItState_bit)

lemma it_remaining_funpow: "it_remaining ((advanceItState ^^ k) s) = it_remaining s - k"
  by (induction k) (simp_all add: it_remaining_advance)

lemma advance_last: "it_remaining s \<le> 1 \<Longrightarrow> advanceItState s = 0"
  by (auto simp: it_remaining_def u8_bits_iff advanceItState_bit split: if_splits)

lemma advance_condition:
  assumes "k < it_remaining s" "n < 8" "k \<le> n"
  shows "bit ((advanceItState ^^ k) s) n = bit s (if 5 \<le> n then n else n - k)"
  using assms
proof (induction k arbitrary: n)
  case (Suc k)
  have "1 < it_remaining ((advanceItState ^^ k) s)" using Suc.prems by (simp add: it_remaining_funpow)
  then have "bit ((advanceItState ^^ k) s) 0 \<or> bit ((advanceItState ^^ k) s) 1 \<or> bit ((advanceItState ^^ k) s) 2"
    by (auto simp: it_remaining_def split: if_splits)
  then show ?case
    using Suc.prems Suc.IH [of n] Suc.IH [of "n - 1"] by (auto simp: advanceItState_bit)
qed simp

text \<open>
  C22. An IT block runs its course: with \<open>n\<close> the number of slots that the mask leaves (4
  for a set bit 0, down to 1 for only bit 3), advancing the state \<open>n\<close> times gives the
  state outside any block and no earlier state is outside; the \<open>k\<close>-th slot has the
  condition whose upper three bits are the first condition's and whose lowest bit is
  bit \<open>4 - k\<close> of the state. So a block has at most four instructions and always ends.
\<close>

theorem it_block_progress:
  "let n = it_remaining s
   in n \<le> 4 \<and> (inItBlock s \<longleftrightarrow> 0 < n) \<and> (0 < n \<longrightarrow> (advanceItState ^^ n) s = 0)
      \<and> (\<forall>k < n. inItBlock ((advanceItState ^^ k) s)
           \<and> drop_bit 4 ((advanceItState ^^ k) s) = (drop_bit 4 s AND 0xe) OR (drop_bit (4 - k) s AND 1))"
proof -
  let ?n = "it_remaining s"
  have "(advanceItState ^^ ?n) s = 0" if "0 < ?n"
  proof -
    from that obtain m where m: "?n = Suc m" using gr0_implies_Suc by blast
    then have "it_remaining ((advanceItState ^^ m) s) \<le> 1" by (simp add: it_remaining_funpow)
    then show ?thesis by (simp add: m advance_last)
  qed
  moreover have "inItBlock ((advanceItState ^^ k) s)" if "k < ?n" for k
    using that by (simp add: it_remaining_bounds it_remaining_funpow)
  moreover have "drop_bit 4 ((advanceItState ^^ k) s) = (drop_bit 4 s AND 0xe) OR (drop_bit (4 - k) s AND 1)"
    if k: "k < ?n" for k
    unfolding u8_bits_iff all_less_8 using k it_remaining_bounds [of s]
    by (simp add: bit_simps advance_condition u8_no_bit)
  ultimately show ?thesis by (simp add: Let_def it_remaining_bounds)
qed

theorem it_block_progress_witness:
  "0 < it_remaining 0x0c \<and> (advanceItState ^^ it_remaining 0x0c) 0x0c = 0
   \<and> drop_bit 4 ((advanceItState ^^ 1) 0x0c) = (drop_bit 4 0x0c AND 0xe) OR (drop_bit (4 - 1) (0x0c :: u8) AND 1)"
proof -
  have n: "it_remaining 0x0c = 2" by (simp add: it_remaining_def)
  with it_block_progress [of "0x0c"]
  have "(advanceItState ^^ 2) 0x0c = 0" and h: "\<forall>k < 2. drop_bit 4 ((advanceItState ^^ k) 0x0c)
      = (drop_bit 4 0x0c AND 0xe) OR (drop_bit (4 - k) (0x0c :: u8) AND 1)"
    by (simp_all add: Let_def)
  with n show ?thesis using h [rule_format, of 1] by simp
qed

section \<open>Cost tables\<close>

lemma countl_zero_le: "countl_zero x \<le> 32"
  using length_takeWhile_le [of "\<lambda>i. \<not> bit x i" "rev [0..<32]"] by (simp add: countl_zero_def)

lemma rev_upt_32: "i < 32 \<Longrightarrow> rev [0..<32] ! i = 31 - i"
  by (simp add: rev_nth)

lemma countl_zero_above: "32 - countl_zero x \<le> i \<Longrightarrow> \<not> bit x i"
proof
  assume i: "32 - countl_zero x \<le> i" and b: "bit x i"
  have l: "i < 32" using bit_imp_le_length [OF b] by simp
  with i have "31 - i < countl_zero x" by linarith
  then have "\<not> bit x (rev [0..<32] ! (31 - i))"
    using nth_mem [of "31 - i" "takeWhile (\<lambda>i. \<not> bit x i) (rev [0..<32])"]
      takeWhile_nth [of "31 - i" "\<lambda>i. \<not> bit x i" "rev [0..<32]"] set_takeWhileD
    unfolding countl_zero_def by metis
  with b l show False by (simp add: rev_upt_32)
qed

lemma countl_zero_at: "countl_zero x < 32 \<Longrightarrow> bit x (31 - countl_zero x)"
  using nth_length_takeWhile [of "\<lambda>i. \<not> bit x i" "rev [0..<32]"]
  by (simp add: countl_zero_def rev_upt_32)

lemma countl_zero_32: "countl_zero x = 32 \<longleftrightarrow> x = 0"
proof
  assume "countl_zero x = 32"
  then show "x = 0" using countl_zero_above [of x] by (simp add: word_bits_iff)
next
  assume "x = 0"
  then show "countl_zero x = 32" by (simp add: countl_zero_def takeWhile_eq_all_conv [THEN iffD2])
qed

lemma countl_zero_antimono:
  assumes "x \<noteq> 0" "x \<le> y" shows "countl_zero y \<le> countl_zero x"
proof (rule ccontr)
  assume c: "\<not> ?thesis"
  let ?p = "31 - countl_zero x"
  have x: "countl_zero x < 32" using countl_zero_32 [of x] countl_zero_le [of x] assms by linarith
  have "take_bit ?p y = y"
  proof (rule bit_word_eqI)
    fix n
    have "n < ?p" if "bit y n" using that c x countl_zero_above [of y n] by linarith
    then show "bit (take_bit ?p y) n = bit y n" by (auto simp: bit_take_bit_iff)
  qed
  then have "unat y < 2 ^ ?p"
    using unsigned_take_bit_eq [of ?p y, where ?'a = nat] take_bit_nat_less_exp [of ?p "unat y"] by simp
  moreover have "2 ^ ?p \<le> unat x"
  proof -
    have "bit (unat x) ?p" using countl_zero_at [OF x] by (simp add: bit_unsigned_iff)
    then have "odd (unat x div 2 ^ ?p)" by (rule bit_iff_odd [THEN iffD1])
    then show ?thesis by (metis div_less even_zero not_less)
  qed
  ultimately show False using assms (2) by (simp add: word_le_nat_alt)
qed

text \<open>
  C23. Division timing is within its documented bounds: two cycles for a zero divisor,
  three to twelve otherwise, and a larger divisor never takes fewer cycles; every
  entry of the pipeline table is between 1 and 17 cycles, which fits the 16-bit cycle
  counters of a step.
\<close>

theorem pipeline_cost_bounds:
  "divideCycles 0 = 2 \<and> (d \<noteq> 0 \<longrightarrow> 3 \<le> divideCycles d \<and> divideCycles d \<le> 12)
   \<and> (d \<noteq> 0 \<and> d \<le> e \<longrightarrow> divideCycles d \<le> divideCycles e)
   \<and> 1 \<le> basePipelineCycles i \<and> basePipelineCycles i \<le> 17"
proof -
  have "3 \<le> divideCycles d \<and> divideCycles d \<le> 12" if "d \<noteq> 0"
  proof -
    have "countl_zero d \<le> 31" using that countl_zero_32 [of d] countl_zero_le [of d] by linarith
    then have "countl_zero d * 10 div 32 \<le> 9" by simp
    then show ?thesis using that by (simp add: divideCycles_def Let_def)
  qed
  moreover have "divideCycles d \<le> divideCycles e" if "d \<noteq> 0" "d \<le> e"
  proof -
    have "e \<noteq> 0" using that by auto
    moreover have "countl_zero e * 10 div 32 \<le> countl_zero d * 10 div 32"
      using countl_zero_antimono [OF that] by (simp add: div_le_mono)
    ultimately show ?thesis using that by (simp add: divideCycles_def Let_def)
  qed
  moreover have "popcount16 w \<le> 16" for w
    using length_filter_le [of "bit w" "[0..<16]"] by (simp add: popcount16_def)
  then have "1 \<le> basePipelineCycles i \<and> basePipelineCycles i \<le> 17"
    by (simp add: basePipelineCycles_def)
  ultimately show ?thesis by (simp add: divideCycles_def)
qed

theorem pipeline_cost_bounds_witness:
  "(7 :: u32) \<noteq> 0 \<and> (7 :: u32) \<le> 9 \<and> 3 \<le> divideCycles 7 \<and> divideCycles 7 \<le> divideCycles 9"
  using pipeline_cost_bounds [of 7 9] by simp

end
