(* ===== verification/Decoder.thy ===== *)
theory Decoder
  imports Alu_Laws
begin

text \<open>
  The table-driven Thumb and Thumb-2 decoder of \<open>src/cpu/decoder.cpp\<close>: one function
  per encoding group, the two pattern tables in their order, and the lookup. A
  halfword operand of an expression is promoted to 32 bits, as the language does
  (\<open>hw\<close>); \<open>field x n m\<close> is the expression \<open>(x >> n) & m\<close> and \<open>reg x n m\<close> the same as
  a register number. A rejected encoding (\<open>std::nullopt\<close>) is \<open>None\<close>.
\<close>

abbreviation hw :: "u16 \<Rightarrow> u32" where
  "hw x \<equiv> ucast x"

definition "field" :: "u16 \<Rightarrow> nat \<Rightarrow> u32 \<Rightarrow> u32" where
  "field x n m = drop_bit n (hw x) AND m"

definition reg :: "u16 \<Rightarrow> nat \<Rightarrow> u32 \<Rightarrow> nat" where
  "reg x n m = unat (field x n m)"

definition is32BitThumbPrefix :: "u16 \<Rightarrow> bool" where
  "is32BitThumbPrefix halfword \<longleftrightarrow> hw halfword AND 0xf800 \<ge> 0xe800"

definition signExtend :: "nat \<Rightarrow> u32 \<Rightarrow> int" where
  "signExtend bits val =
     (let sign = push_bit (bits - 1) 1;
          mask = push_bit bits 1 - 1;
          narrowed = val AND mask
      in if narrowed AND sign = 0 then uint narrowed else uint narrowed - 2 ^ bits)"

definition base16 :: "u16 \<Rightarrow> InstrKind \<Rightarrow> OperandForm \<Rightarrow> DecodedInstruction" where
  "base16 x k f = default_instruction\<lparr>kind := k, form := f, raw := hw x\<rparr>"

definition base32 :: "u16 \<Rightarrow> u16 \<Rightarrow> InstrKind \<Rightarrow> OperandForm \<Rightarrow> DecodedInstruction" where
  "base32 first second k f =
     (base16 first k f)\<lparr>is_32bit := True, raw := push_bit 16 (hw first) OR hw second\<rparr>"

record ExpandedImmediate =
  ei_value :: u32
  ei_carry_valid :: bool
  ei_carry :: bool

definition thumbExpandImmediate :: "u16 \<Rightarrow> ExpandedImmediate option" where
  "thumbExpandImmediate imm12 =
     (let imm8 = hw imm12 AND 0xff
      in if hw imm12 AND 0xc00 = 0 then
           (let sel = field imm12 8 0x3
            in if sel = 0 then Some \<lparr>ei_value = imm8, ei_carry_valid = False, ei_carry = False\<rparr>
               else if imm8 = 0 then None
               else if sel = 1 then
                 Some \<lparr>ei_value = push_bit 16 imm8 OR imm8, ei_carry_valid = False, ei_carry = False\<rparr>
               else if sel = 2 then
                 Some \<lparr>ei_value = push_bit 24 imm8 OR push_bit 8 imm8, ei_carry_valid = False,
                       ei_carry = False\<rparr>
               else Some \<lparr>ei_value = imm8 * 0x01010101, ei_carry_valid = False, ei_carry = False\<rparr>)
         else
           (let unrotated = 0x80 OR (hw imm12 AND 0x7f);
                rotation = unat (field imm12 7 0x1f);
                val = rotr32 unrotated rotation
            in Some \<lparr>ei_value = val, ei_carry_valid = True, ei_carry = val AND 0x80000000 \<noteq> 0\<rparr>))"

section \<open>16-bit encodings\<close>

definition decodeShiftImmediate :: "u16 \<Rightarrow> DecodedInstruction option" where
  "decodeShiftImmediate x =
     (let selector = field x 11 0x3
      in if selector \<noteq> 0 \<and> selector \<noteq> 1 \<and> selector \<noteq> 2 then None
         else
           let k = (if selector = 1 then I_lsr else if selector = 2 then I_asr else I_lsl);
               type = (if selector = 1 then SH_lsr else if selector = 2 then SH_asr else SH_lsl);
               amount = reg x 6 0x1f
           in Some ((base16 x k OF_immediate)
                \<lparr>rd := reg x 0 0x7, rm := reg x 3 0x7, shift_type := type,
                 shift_amount := (if type \<noteq> SH_lsl \<and> amount = 0 then 32 else amount),
                 set_flags := True\<rparr>))"

definition decodeAddSubtract :: "u16 \<Rightarrow> DecodedInstruction option" where
  "decodeAddSubtract x =
     (let immediate = hw x AND 0x0400 \<noteq> 0;
          subtract = hw x AND 0x0200 \<noteq> 0;
          result = (base16 x (if subtract then I_sub else I_add)
                     (if immediate then OF_immediate else OF_register_value))
                     \<lparr>rd := reg x 0 0x7, rn := reg x 3 0x7\<rparr>;
          result = (if immediate then result\<lparr>imm := field x 6 0x7\<rparr> else result\<lparr>rm := reg x 6 0x7\<rparr>)
      in Some (result\<lparr>set_flags := True\<rparr>))"

definition decodeImmediate8 :: "u16 \<Rightarrow> DecodedInstruction option" where
  "decodeImmediate8 x =
     (let operation = field x 11 0x3;
          k = (if operation = 1 then I_cmp else if operation = 2 then I_add
               else if operation = 3 then I_sub else I_mov);
          r = reg x 8 0x7
      in Some ((base16 x k OF_immediate)
           \<lparr>rd := r, rn := r, imm := hw x AND 0xff, set_flags := True\<rparr>))"

definition data_operations :: "InstrKind list" where
  "data_operations =
     [I_and, I_eor, I_lsl, I_lsr, I_asr, I_adc, I_sbc, I_ror,
      I_tst, I_rsb, I_cmp, I_cmn, I_orr, I_mul, I_bic, I_mvn]"

definition decodeDataProcessing :: "u16 \<Rightarrow> DecodedInstruction option" where
  "decodeDataProcessing x =
     (let k = data_operations ! reg x 6 0x0f
      in Some ((base16 x k OF_register_value)
           \<lparr>rd := reg x 0 0x7, rn := reg x 0 0x7, rm := reg x 3 0x7, set_flags := True,
            shift_type := (if k = I_lsr then SH_lsr else if k = I_asr then SH_asr
                           else if k = I_ror then SH_ror else SH_lsl)\<rparr>))"

definition decodeSpecialData :: "u16 \<Rightarrow> DecodedInstruction option" where
  "decodeSpecialData x =
     (let operation = field x 8 0x3;
          d = unat ((hw x AND 0x7) OR (drop_bit 4 (hw x) AND 0x8));
          m = reg x 3 0x0f
      in if operation = 3 then
           (if hw x AND 0x7 \<noteq> 0 then None
            else Some ((base16 x (if hw x AND 0x0080 \<noteq> 0 then I_blx else I_bx) OF_register_value)
                   \<lparr>rm := m\<rparr>))
         else
           let k = (if operation = 0 then I_add else if operation = 1 then I_cmp else I_mov)
           in Some ((base16 x k OF_register_value)
                \<lparr>rd := d, rn := d, rm := m, set_flags := (operation = 1)\<rparr>))"

definition decodeLiteralLoad :: "u16 \<Rightarrow> DecodedInstruction option" where
  "decodeLiteralLoad x =
     Some ((base16 x I_ldr OF_literal)
       \<lparr>rd := reg x 8 0x7, rn := 15, imm := push_bit 2 (hw x AND 0xff)\<rparr>)"

definition transfer_operations :: "InstrKind list" where
  "transfer_operations = [I_str, I_strh, I_strb, I_ldrsb, I_ldr, I_ldrh, I_ldrb, I_ldrsh]"

definition decodeRegisterTransfer :: "u16 \<Rightarrow> DecodedInstruction option" where
  "decodeRegisterTransfer x =
     Some ((base16 x (transfer_operations ! reg x 9 0x7) OF_register_value)
       \<lparr>rd := reg x 0 0x7, rn := reg x 3 0x7, rm := reg x 6 0x7\<rparr>)"

definition decodeImmediateTransfer :: "u16 \<Rightarrow> DecodedInstruction option" where
  "decodeImmediateTransfer x =
     (let family = hw x AND 0xf000;
          load = hw x AND 0x0800 \<noteq> 0;
          (k, scale) =
            (if family = 0x7000 then (if load then I_ldrb else I_strb, 1)
             else if family = 0x8000 then (if load then I_ldrh else I_strh, 2)
             else (if load then I_ldr else I_str, 4 :: u32))
      in Some ((base16 x k OF_immediate)
           \<lparr>rd := reg x 0 0x7, rn := reg x 3 0x7, imm := field x 6 0x1f * scale\<rparr>))"

definition decodeSpTransfer :: "u16 \<Rightarrow> DecodedInstruction option" where
  "decodeSpTransfer x =
     Some ((base16 x (if hw x AND 0x0800 \<noteq> 0 then I_ldr else I_str) OF_immediate)
       \<lparr>rd := reg x 8 0x7, rn := 13, imm := push_bit 2 (hw x AND 0xff)\<rparr>)"

definition decodeAddressGeneration :: "u16 \<Rightarrow> DecodedInstruction option" where
  "decodeAddressGeneration x =
     Some ((base16 x I_add OF_immediate)
       \<lparr>rd := reg x 8 0x7, rn := (if hw x AND 0x0800 \<noteq> 0 then 13 else 15),
        imm := push_bit 2 (hw x AND 0xff)\<rparr>)"

text \<open>The branches of \<open>decodeMiscellaneous\<close>, in the order it tries them.\<close>

definition misc_reverse :: "u16 \<Rightarrow> DecodedInstruction option" where
  "misc_reverse x =
     (let operation = field x 6 0x3;
          k = (if operation = 0 then I_rev else if operation = 1 then I_rev16
               else if operation = 3 then I_revsh else I_undefined)
      in if k = I_undefined then None
         else Some ((base16 x k OF_register_value)\<lparr>rd := reg x 0 0x7, rm := reg x 3 0x7\<rparr>))"

definition misc_extend :: "u16 \<Rightarrow> DecodedInstruction option" where
  "misc_extend x =
     Some ((base16 x ([I_sxth, I_sxtb, I_uxth, I_uxtb] ! reg x 6 0x3) OF_register_value)
       \<lparr>rd := reg x 0 0x7, rm := reg x 3 0x7\<rparr>)"

definition misc_hint_or_it :: "u16 \<Rightarrow> DecodedInstruction option" where
  "misc_hint_or_it x =
     (if x = 0xbf20 then Some (base16 x I_wfe OF_none)
      else if x = 0xbf30 then Some (base16 x I_wfi OF_none)
      else if x = 0xbf40 then Some (base16 x I_sev OF_none)
      else
        let mask = hw x AND 0x0f;
            first_condition = field x 4 0x0f
        in if mask = 0 then (if x = 0xbf00 then Some (base16 x I_nop OF_none) else None)
           else if first_condition \<ge> 14 then None
           else Some ((base16 x I_it OF_immediate)
                  \<lparr>condition := condition_of (unat first_condition),
                   imm := push_bit 4 first_condition OR mask\<rparr>))"

definition misc_cps :: "u16 \<Rightarrow> DecodedInstruction option" where
  "misc_cps x =
     (let affected = hw x AND 0x7
      in if affected = 0 \<or> affected AND 0x4 \<noteq> 0 then None
         else Some ((base16 x I_cps OF_immediate)\<lparr>imm := affected, add := (hw x AND 0x0010 = 0)\<rparr>))"

definition misc_compare_branch :: "u16 \<Rightarrow> DecodedInstruction option" where
  "misc_compare_branch x =
     Some ((base16 x (if hw x AND 0x0800 \<noteq> 0 then I_cbnz else I_cbz) OF_immediate)
       \<lparr>rn := reg x 0 0x7, imm := push_bit 1 (field x 3 0x1f) OR push_bit 6 (field x 9 0x1)\<rparr>)"

definition misc_push :: "u16 \<Rightarrow> DecodedInstruction option" where
  "misc_push x =
     (let list = (x AND 0xff) OR (if hw x AND 0x0100 \<noteq> 0 then push_bit 14 1 else 0)
      in if list = 0 then None
         else Some ((base16 x I_push OF_register_list)
                \<lparr>register_list := list, rn := 13, writeback := True, add := False, index := True\<rparr>))"

definition misc_pop :: "u16 \<Rightarrow> DecodedInstruction option" where
  "misc_pop x =
     (let list = (x AND 0xff) OR (if hw x AND 0x0100 \<noteq> 0 then push_bit 15 1 else 0)
      in if list = 0 then None
         else Some ((base16 x I_pop OF_register_list)
                \<lparr>register_list := list, rn := 13, writeback := True, add := True, index := False\<rparr>))"

definition misc_adjust_sp :: "u16 \<Rightarrow> DecodedInstruction option" where
  "misc_adjust_sp x =
     Some ((base16 x (if hw x AND 0x0080 \<noteq> 0 then I_sub else I_add) OF_immediate)
       \<lparr>rd := 13, rn := 13, imm := push_bit 2 (hw x AND 0x7f)\<rparr>)"

definition decodeMiscellaneous :: "u16 \<Rightarrow> DecodedInstruction option" where
  "decodeMiscellaneous x =
     (if hw x AND 0xff00 = 0xba00 then misc_reverse x
      else if hw x AND 0xff00 = 0xb200 then misc_extend x
      else if hw x AND 0xff00 = 0xbe00 then
        Some ((base16 x I_bkpt OF_immediate)\<lparr>imm := hw x AND 0xff\<rparr>)
      else if hw x AND 0xff00 = 0xbf00 then misc_hint_or_it x
      else if hw x AND 0xffe8 = 0xb660 then misc_cps x
      else if hw x AND 0xf500 = 0xb100 then misc_compare_branch x
      else if hw x AND 0xfe00 = 0xb400 then misc_push x
      else if hw x AND 0xfe00 = 0xbc00 then misc_pop x
      else if hw x AND 0xff00 = 0xb000 then misc_adjust_sp x
      else None)"

definition decodeMultiple :: "u16 \<Rightarrow> DecodedInstruction option" where
  "decodeMultiple x =
     (let k = (if hw x AND 0x0800 \<noteq> 0 then I_ldm else I_stm);
          n = reg x 8 0x7;
          list = x AND 0xff
      in if list = 0 then None
         else Some ((base16 x k OF_register_list)
                \<lparr>rn := n, register_list := list,
                 writeback := (k = I_stm \<or> list AND push_bit n 1 = 0),
                 add := True, index := False\<rparr>))"

definition decodeConditionalBranch :: "u16 \<Rightarrow> DecodedInstruction option" where
  "decodeConditionalBranch x =
     (let cond = field x 8 0x0f
      in if cond = 15 then Some ((base16 x I_svc OF_immediate)\<lparr>imm := hw x AND 0xff\<rparr>)
         else if cond \<ge> 14 then None
         else Some ((base16 x I_b OF_immediate)
                \<lparr>condition := condition_of (unat cond),
                 branch_offset := signExtend 9 (push_bit 1 (hw x AND 0xff))\<rparr>))"

definition decodeUnconditionalBranch :: "u16 \<Rightarrow> DecodedInstruction option" where
  "decodeUnconditionalBranch x =
     Some ((base16 x I_b OF_immediate)
       \<lparr>branch_offset := signExtend 12 (push_bit 1 (hw x AND 0x07ff))\<rparr>)"

section \<open>32-bit encodings\<close>

definition decodeMovWide :: "u16 \<Rightarrow> u16 \<Rightarrow> DecodedInstruction option" where
  "decodeMovWide first second =
     (let top = hw first AND 0x0080 \<noteq> 0;
          d = reg second 8 0x0f
      in if d = 15 then None
         else Some ((base32 first second (if top then I_movt else I_movw) OF_immediate)
                \<lparr>rd := d,
                 imm := push_bit 12 (hw first AND 0x000f) OR push_bit 11 (field first 10 0x1)
                   OR push_bit 8 (field second 12 0x7) OR (hw second AND 0x00ff)\<rparr>))"

definition decodeAddSubWideImmediate :: "u16 \<Rightarrow> u16 \<Rightarrow> DecodedInstruction option" where
  "decodeAddSubWideImmediate first second =
     (let subtract = hw first AND 0x0080 \<noteq> 0;
          d = reg second 8 0x0f
      in if d = 15 then None
         else Some ((base32 first second (if subtract then I_sub else I_add) OF_immediate)
                \<lparr>rn := reg first 0 0x0f, rd := d,
                 imm := push_bit 1 (hw first AND 0x0400) OR drop_bit 4 (hw second AND 0x7000)
                   OR (hw second AND 0x00ff)\<rparr>))"

definition decodeImmediateShiftType :: "nat \<Rightarrow> nat \<Rightarrow> ShiftType" where
  "decodeImmediateShiftType encoded amount =
     (if encoded = 0 then SH_lsl else if encoded = 1 then SH_lsr else if encoded = 2 then SH_asr
      else if amount = 0 then SH_rrx else SH_ror)"

definition normalizeDataProcessingOperation ::
  "nat \<Rightarrow> bool \<Rightarrow> nat \<Rightarrow> nat \<Rightarrow> InstrKind option" where
  "normalizeDataProcessingOperation opcode flags n d =
     (let k = (if opcode = 0 then I_and else if opcode = 1 then I_bic else if opcode = 2 then I_orr
               else if opcode = 3 then I_orn else if opcode = 4 then I_eor
               else if opcode = 8 then I_add else if opcode = 10 then I_adc
               else if opcode = 11 then I_sbc else if opcode = 13 then I_sub
               else if opcode = 14 then I_rsb else I_undefined);
          k = (if flags \<and> d = 15 then
                 (if k = I_and then I_tst else if k = I_add then I_cmn
                  else if k = I_sub then I_cmp else I_undefined)
               else if n = 15 then
                 (if k = I_orr then I_mov else if k = I_orn then I_mvn else I_undefined)
               else k)
      in if k = I_undefined then None
         else if d = 15 \<and> k \<noteq> I_tst \<and> k \<noteq> I_cmp \<and> k \<noteq> I_cmn then None
         else if n = 15 \<and> k \<noteq> I_mov \<and> k \<noteq> I_mvn then None
         else Some k)"

definition decodeDataProcessingImmediate :: "u16 \<Rightarrow> u16 \<Rightarrow> DecodedInstruction option" where
  "decodeDataProcessingImmediate first second =
     (let flags = hw first AND 0x0010 \<noteq> 0;
          n = reg first 0 0x0f;
          d = reg second 8 0x0f;
          imm12 = ucast (push_bit 1 (hw first AND 0x0400) OR drop_bit 4 (hw second AND 0x7000)
                         OR (hw second AND 0x00ff))
      in case thumbExpandImmediate imm12 of
           None \<Rightarrow> None
         | Some expanded \<Rightarrow>
             (case normalizeDataProcessingOperation (reg first 5 0x0f) flags n d of
                None \<Rightarrow> None
              | Some k \<Rightarrow>
                  Some ((base32 first second k OF_immediate)
                    \<lparr>rd := d, rn := n, imm := ei_value expanded, set_flags := flags,
                     immediate_carry_valid := ei_carry_valid expanded,
                     immediate_carry := ei_carry expanded\<rparr>)))"

definition decodeDataProcessingRegister :: "u16 \<Rightarrow> u16 \<Rightarrow> DecodedInstruction option" where
  "decodeDataProcessingRegister first second =
     (let flags = hw first AND 0x0010 \<noteq> 0;
          n = reg first 0 0x0f;
          d = reg second 8 0x0f;
          m = reg second 0 0x0f;
          amount = unat (field second 10 0x1c OR field second 6 0x3);
          type = decodeImmediateShiftType (reg second 4 0x3) amount
      in case normalizeDataProcessingOperation (reg first 5 0x0f) flags n d of
           None \<Rightarrow> None
         | Some k \<Rightarrow>
             if m = 15 then None
             else Some ((base32 first second k OF_register_value)
                    \<lparr>rd := d, rn := n, rm := m, shift_type := type,
                     shift_amount := (if amount = 0 \<and> (type = SH_lsr \<or> type = SH_asr) then 32
                                      else amount),
                     set_flags := flags\<rparr>))"

definition decodeRegisterShift :: "u16 \<Rightarrow> u16 \<Rightarrow> DecodedInstruction option" where
  "decodeRegisterShift first second =
     (let n = reg first 0 0x0f; d = reg second 8 0x0f; m = reg second 0 0x0f;
          operation = reg first 5 0x3
      in if n = 15 \<or> d = 15 \<or> m = 15 then None
         else Some ((base32 first second ([I_lsl, I_lsr, I_asr, I_ror] ! operation) OF_register_value)
                \<lparr>rd := d, rn := n, rm := m,
                 shift_type := [SH_lsl, SH_lsr, SH_asr, SH_ror] ! operation\<rparr>))"

definition decodeExtendWide :: "u16 \<Rightarrow> u16 \<Rightarrow> DecodedInstruction option" where
  "decodeExtendWide first second =
     (let sel = field first 4 0x7;
          k = (if sel = 0 then I_sxth else if sel = 1 then I_uxth
               else if sel = 4 then I_sxtb else if sel = 5 then I_uxtb else I_undefined);
          d = reg second 8 0x0f; m = reg second 0 0x0f
      in if k = I_undefined then None
         else if d = 15 \<or> m = 15 then None
         else Some ((base32 first second k OF_register_value)
                \<lparr>rd := d, rm := m, shift_amount := reg second 4 0x3 * 8\<rparr>))"

definition decodeMultiply :: "u16 \<Rightarrow> u16 \<Rightarrow> DecodedInstruction option" where
  "decodeMultiply first second =
     (let n = reg first 0 0x0f; m = reg second 0 0x0f; d = reg second 8 0x0f; a = reg second 12 0x0f;
          subtract = hw second AND 0x0010 \<noteq> 0
      in if n = 15 \<or> m = 15 \<or> d = 15 then None
         else if subtract \<and> a = 15 then None
         else
           let k = (if \<not> subtract \<and> a = 15 then I_mul else if subtract then I_mls else I_mla)
           in Some ((base32 first second k OF_register_value)\<lparr>rd := d, rn := n, rm := m, ra := a\<rparr>))"

definition decodeUmull :: "u16 \<Rightarrow> u16 \<Rightarrow> DecodedInstruction option" where
  "decodeUmull first second =
     (let n = reg first 0 0x0f; m = reg second 0 0x0f; d = reg second 12 0x0f; a = reg second 8 0x0f
      in if n = 15 \<or> m = 15 \<or> d = 15 \<or> a = 15 \<or> d = a then None
         else Some ((base32 first second I_umull OF_register_value)
                \<lparr>rn := n, rm := m, rd := d, ra := a\<rparr>))"

definition decodeSmull :: "u16 \<Rightarrow> u16 \<Rightarrow> DecodedInstruction option" where
  "decodeSmull first second = map_option (\<lambda>i. i\<lparr>kind := I_smull\<rparr>) (decodeUmull first second)"

definition decodeUdiv :: "u16 \<Rightarrow> u16 \<Rightarrow> DecodedInstruction option" where
  "decodeUdiv first second =
     (let n = reg first 0 0x0f; d = reg second 8 0x0f; m = reg second 0 0x0f
      in if n = 15 \<or> d = 15 \<or> m = 15 then None
         else Some ((base32 first second I_udiv OF_register_value)\<lparr>rn := n, rd := d, rm := m\<rparr>))"

definition decodeSdiv :: "u16 \<Rightarrow> u16 \<Rightarrow> DecodedInstruction option" where
  "decodeSdiv first second = map_option (\<lambda>i. i\<lparr>kind := I_sdiv\<rparr>) (decodeUdiv first second)"

definition decodeParallelAddSelect :: "u16 \<Rightarrow> u16 \<Rightarrow> DecodedInstruction option" where
  "decodeParallelAddSelect first second =
     (let select = hw first AND 0x0020 \<noteq> 0;
          n = reg first 0 0x0f; d = reg second 8 0x0f; m = reg second 0 0x0f
      in if n = 15 \<or> d = 15 \<or> m = 15 then None
         else Some ((base32 first second (if select then I_sel else I_uadd8) OF_register_value)
                \<lparr>rn := n, rd := d, rm := m\<rparr>))"

definition decodeClz :: "u16 \<Rightarrow> u16 \<Rightarrow> DecodedInstruction option" where
  "decodeClz first second =
     (let m = reg first 0 0x0f; d = reg second 8 0x0f
      in if reg second 0 0x0f \<noteq> m then None
         else if d = 15 \<or> m = 15 then None
         else Some ((base32 first second I_clz OF_register_value)\<lparr>rd := d, rm := m\<rparr>))"

definition decodeBitfieldClear :: "u16 \<Rightarrow> u16 \<Rightarrow> DecodedInstruction option" where
  "decodeBitfieldClear first second =
     (let lsb = unat (field second 10 0x1c OR field second 6 0x3);
          msb = reg second 0 0x1f;
          width = msb - lsb + 1;
          n = reg first 0 0x0f; d = reg second 8 0x0f
      in if msb < lsb then None
         else if n \<noteq> 15 \<or> d = 15 then None
         else Some ((base32 first second I_bfc OF_immediate)
                \<lparr>rn := n, rd := d, shift_amount := lsb, imm := of_nat width\<rparr>))"

definition decodeUbfx :: "u16 \<Rightarrow> u16 \<Rightarrow> DecodedInstruction option" where
  "decodeUbfx first second =
     (let lsb = unat (field second 10 0x1c OR field second 6 0x3);
          width = reg second 0 0x1f + 1;
          n = reg first 0 0x0f; d = reg second 8 0x0f
      in if lsb + width > 32 then None
         else if n = 15 \<or> d = 15 then None
         else Some ((base32 first second I_ubfx OF_immediate)
                \<lparr>rn := n, rd := d, shift_amount := lsb, imm := of_nat width\<rparr>))"

definition decodeMrs :: "u16 \<Rightarrow> u16 \<Rightarrow> DecodedInstruction option" where
  "decodeMrs first second =
     (let d = reg second 8 0x0f;
          v = hw second AND 0xff;
          supported = (v = 5 \<or> v = 8 \<or> v = 9 \<or> (v \<ge> 16 \<and> v \<le> 20))
      in if d = 15 \<or> \<not> supported then None
         else Some ((base32 first second I_mrs OF_immediate)\<lparr>rd := d, imm := v\<rparr>))"

definition decodeMsr :: "u16 \<Rightarrow> u16 \<Rightarrow> DecodedInstruction option" where
  "decodeMsr first second =
     (let n = reg first 0 0x0f;
          v = hw second AND 0xff;
          supported = (v = 8 \<or> v = 9 \<or> (v \<ge> 16 \<and> v \<le> 20))
      in if n = 15 \<or> \<not> supported then None
         else Some ((base32 first second I_msr OF_register_value)\<lparr>rn := n, imm := v\<rparr>))"

definition decodeBarrier :: "u16 \<Rightarrow> u16 \<Rightarrow> DecodedInstruction option" where
  "decodeBarrier first second =
     (let sel = hw second AND 0x00f0;
          k = (if sel = 0x0040 then I_dsb else if sel = 0x0050 then I_dmb
               else if sel = 0x0060 then I_isb else I_undefined)
      in if k = I_undefined then None
         else Some ((base32 first second k OF_immediate)\<lparr>imm := hw second AND 0x0f\<rparr>))"

definition decodeNopWide :: "u16 \<Rightarrow> u16 \<Rightarrow> DecodedInstruction option" where
  "decodeNopWide first second = Some (base32 first second I_nop OF_none)"

definition decodeBranchWide :: "u16 \<Rightarrow> u16 \<Rightarrow> DecodedInstruction option" where
  "decodeBranchWide first second =
     (let link = hw second AND 0x4000 \<noteq> 0;
          conditional = (hw second AND 0x1000 = 0);
          result = base32 first second (if link then I_bl else I_b) OF_immediate;
          s = field first 10 1; j1 = field second 13 1; j2 = field second 11 1
      in if conditional then
           (let cond = field first 6 0x0f;
                encoded = push_bit 20 s OR push_bit 19 j2 OR push_bit 18 j1
                  OR push_bit 12 (hw first AND 0x003f) OR push_bit 1 (hw second AND 0x07ff)
            in if cond \<ge> 14 \<or> link then None
               else Some (result\<lparr>condition := condition_of (unat cond),
                                 branch_offset := signExtend 21 encoded\<rparr>))
         else
           (let i1 = NOT (j1 XOR s) AND 1;
                i2 = NOT (j2 XOR s) AND 1;
                encoded = push_bit 24 s OR push_bit 23 i1 OR push_bit 22 i2
                  OR push_bit 12 (hw first AND 0x03ff) OR push_bit 1 (hw second AND 0x07ff)
            in Some (result\<lparr>branch_offset := signExtend 25 encoded\<rparr>)))"

definition decodeBranchOrSystem :: "u16 \<Rightarrow> u16 \<Rightarrow> DecodedInstruction option" where
  "decodeBranchOrSystem first second =
     (let w = push_bit 16 (hw first) OR hw second
      in if w AND 0xfffff000 = 0xf3ef8000 then decodeMrs first second
         else if w AND 0xfff0ff00 = 0xf3808800 then decodeMsr first second
         else if w AND 0xfffffff0 = 0xf3bf8f40 \<or> w AND 0xfffffff0 = 0xf3bf8f50
                 \<or> w AND 0xfffffff0 = 0xf3bf8f60 then decodeBarrier first second
         else if w = 0xf3af8000 then decodeNopWide first second
         else decodeBranchWide first second)"

text \<open>
  \<open>decodeWideTransfer\<close> first selects the operation, then the addressing form, then
  rejects the register combinations that no operation has.
\<close>

definition wide_transfer_kind :: "u32 \<Rightarrow> bool \<Rightarrow> InstrKind option" where
  "wide_transfer_kind op literal =
     (if literal then Some I_ldr
      else if op = 0xf8c0 then Some I_str else if op = 0xf8d0 then Some I_ldr
      else if op = 0xf880 then Some I_strb else if op = 0xf890 then Some I_ldrb
      else if op = 0xf8a0 then Some I_strh else if op = 0xf8b0 then Some I_ldrh
      else if op = 0xf990 then Some I_ldrsb else if op = 0xf9b0 then Some I_ldrsh
      else if op = 0xf840 then Some I_str else if op = 0xf850 then Some I_ldr
      else if op = 0xf800 then Some I_strb else if op = 0xf810 then Some I_ldrb
      else if op = 0xf820 then Some I_strh else if op = 0xf830 then Some I_ldrh
      else if op = 0xf910 then Some I_ldrsb else if op = 0xf930 then Some I_ldrsh
      else None)"

definition wide_transfer_form ::
  "u32 \<Rightarrow> bool \<Rightarrow> bool \<Rightarrow> u16 \<Rightarrow> DecodedInstruction \<Rightarrow> DecodedInstruction option" where
  "wide_transfer_form op literal literal_negative second result =
     (if literal \<or> rn result = 15 \<and> kind result \<noteq> I_str \<and> kind result \<noteq> I_strb
                     \<and> kind result \<noteq> I_strh then
        Some (result\<lparr>form := OF_literal, rn := 15, add := \<not> literal_negative,
                     imm := hw second AND 0x0fff\<rparr>)
      else if op \<in> {0xf840, 0xf850, 0xf800, 0xf810, 0xf820, 0xf830, 0xf910, 0xf930} then
        (if hw second AND 0x0800 \<noteq> 0 then
           (let pre = hw second AND 0x0400 \<noteq> 0; wb = hw second AND 0x0100 \<noteq> 0
            in if \<not> pre \<and> \<not> wb then None
               else Some (result\<lparr>form := OF_immediate, index := pre,
                                 add := (hw second AND 0x0200 \<noteq> 0), writeback := wb,
                                 imm := hw second AND 0x00ff\<rparr>))
         else if hw second AND 0x0fc0 \<noteq> 0 then None
         else Some (result\<lparr>form := OF_register_value, rm := reg second 0 0x0f,
                           shift_type := SH_lsl, shift_amount := reg second 4 0x3, imm := 0\<rparr>))
      else Some result)"

definition decodeWideTransfer :: "u16 \<Rightarrow> u16 \<Rightarrow> DecodedInstruction option" where
  "decodeWideTransfer first second =
     (let op = hw first AND 0xfff0;
          literal = (hw first AND 0xff7f = 0xf85f);
          literal_negative = (literal \<and> hw first AND 0x0080 = 0)
      in case wide_transfer_kind op literal of
           None \<Rightarrow> None
         | Some k \<Rightarrow>
             if op = 0xf890 \<and> hw second AND 0xf000 = 0xf000 then Some (base32 first second I_nop OF_none)
             else
               (case wide_transfer_form op literal literal_negative second
                       ((base32 first second k OF_immediate)
                          \<lparr>rn := reg first 0 0x0f, rd := reg second 12 0x0f,
                           imm := hw second AND 0x0fff\<rparr>) of
                  None \<Rightarrow> None
                | Some result \<Rightarrow>
                    let store = (k = I_str \<or> k = I_strb \<or> k = I_strh)
                    in if store \<and> (rn result = 15 \<or> rd result = 15)
                          \<or> \<not> store \<and> rd result = 15 \<and> k \<noteq> I_ldr then None
                       else Some result))"

text \<open>The three encoding groups of \<open>decodeWideMultiple\<close>.\<close>

definition wide_table_branch :: "u16 \<Rightarrow> u16 \<Rightarrow> DecodedInstruction option" where
  "wide_table_branch first second =
     (let table_op = hw second AND 0xfff0;
          n = reg first 0 0x0f; m = reg second 0 0x0f
      in if table_op \<noteq> 0xf000 \<and> table_op \<noteq> 0xf010 then None
         else if n = 13 \<or> m = 13 \<or> m = 15 then None
         else Some ((base32 first second (if table_op = 0xf000 then I_tbb else I_tbh) OF_register_value)
                \<lparr>rn := n, rm := m\<rparr>))"

definition wide_doubleword :: "u16 \<Rightarrow> u16 \<Rightarrow> DecodedInstruction option" where
  "wide_doubleword first second =
     (let k = (if hw first AND 0x0010 \<noteq> 0 then I_ldrd else I_strd);
          n = reg first 0 0x0f; d = reg second 12 0x0f; a = reg second 8 0x0f;
          pre = hw first AND 0x0100 \<noteq> 0; wb = hw first AND 0x0020 \<noteq> 0
      in if \<not> pre \<and> \<not> wb \<or> n = 15 \<or> d = 15 \<or> a = 15 \<or> k = I_ldrd \<and> d = a
            \<or> wb \<and> (n = d \<or> n = a) then None
         else Some ((base32 first second k OF_immediate)
                \<lparr>rn := n, rd := d, ra := a, imm := push_bit 2 (hw second AND 0xff), index := pre,
                 add := (hw first AND 0x0080 \<noteq> 0), writeback := wb\<rparr>))"

definition wide_multiple :: "u16 \<Rightarrow> u16 \<Rightarrow> DecodedInstruction option" where
  "wide_multiple first second =
     (let operation = hw first AND 0xffd0;
          load = (operation = 0xe890 \<or> operation = 0xe910);
          decrement_before = (operation = 0xe900 \<or> operation = 0xe910);
          n = reg first 0 0x0f;
          wb = hw first AND 0x0020 \<noteq> 0
      in if operation \<notin> {0xe880, 0xe890, 0xe900, 0xe910} then None
         else if n = 15 \<or> second = 0 \<or> second AND push_bit 13 1 \<noteq> 0 then None
         else if \<not> load \<and> second AND push_bit 15 1 \<noteq> 0 then None
         else
           let k = (if n = 13 \<and> wb \<and> \<not> decrement_before \<and> load then I_pop
                    else if n = 13 \<and> wb \<and> decrement_before \<and> \<not> load then I_push
                    else if load then I_ldm else I_stm)
           in Some ((base32 first second k OF_register_list)
                \<lparr>rn := n, register_list := second, writeback := wb, add := \<not> decrement_before,
                 index := decrement_before\<rparr>))"

definition decodeWideMultiple :: "u16 \<Rightarrow> u16 \<Rightarrow> DecodedInstruction option" where
  "decodeWideMultiple first second =
     (if hw first AND 0xfff0 = 0xe8d0 then wide_table_branch first second
      else if hw first AND 0xfe40 = 0xe840 then wide_doubleword first second
      else wide_multiple first second)"

text \<open>
  The register operand of a VFP transfer: an S register, or a D register named by the
  S register that holds its lower word; \<open>None\<close> for a D register above D15.
\<close>

definition vfp_transfer_rd :: "bool \<Rightarrow> bool \<Rightarrow> u16 \<Rightarrow> nat option" where
  "vfp_transfer_rd single_precision d_bit second =
     (if single_precision then
        Some (unat (push_bit 1 (field second 12 0x0f) OR (if d_bit then 1 else 0)))
      else if d_bit then None
      else Some (unat (push_bit 1 (field second 12 0x0f))))"

definition decodeVfpMultiple :: "u16 \<Rightarrow> u16 \<Rightarrow> DecodedInstruction option" where
  "decodeVfpMultiple first second =
     (let single_precision = (hw second AND 0x0f00 = 0x0a00);
          double_precision = (hw second AND 0x0f00 = 0x0b00);
          pre_index = hw first AND 0x0100 \<noteq> 0;
          wb = hw first AND 0x0020 \<noteq> 0;
          d_bit = hw first AND 0x0040 \<noteq> 0;
          n = reg first 0 0x0f
      in if \<not> single_precision \<and> \<not> double_precision then None
         else if pre_index \<and> \<not> wb then
           (case vfp_transfer_rd single_precision d_bit second of
              None \<Rightarrow> None
            | Some d \<Rightarrow>
                if d + (if double_precision then 2 else 1) > 32 then None
                else Some ((base32 first second
                              (if hw first AND 0x0010 \<noteq> 0 then I_vldr else I_vstr)
                              (if n = 15 then OF_literal else OF_immediate))
                       \<lparr>rn := n, add := (hw first AND 0x0080 \<noteq> 0),
                        imm := push_bit 2 (hw second AND 0xff),
                        fp_double := double_precision, rd := d\<rparr>))
         else
           (let load = hw first AND 0x0010 \<noteq> 0;
                increment_after = (hw first AND 0x0180 = 0x0080);
                decrement_before = (hw first AND 0x0180 = 0x0100);
                v = hw second AND 0xff
            in if \<not> increment_after \<and> \<not> decrement_before then None
               else
                 (case vfp_transfer_rd single_precision d_bit second of
                    None \<Rightarrow> None
                  | Some d \<Rightarrow>
                      if n = 15 \<or> v = 0 \<or> d + unat v > 32 then None
                      else Some ((base32 first second (if load then I_vldm else I_vstm) OF_register_list)
                             \<lparr>rn := n, rd := d, fp_double := \<not> single_precision, imm := v,
                              add := increment_after, index := decrement_before, writeback := wb\<rparr>))))"

definition vfpSd :: "u16 \<Rightarrow> u16 \<Rightarrow> nat" where
  "vfpSd first second = unat (push_bit 1 (field second 12 0x0f) OR field first 6 0x1)"

definition vfpSn :: "u16 \<Rightarrow> u16 \<Rightarrow> nat" where
  "vfpSn first second = unat (push_bit 1 (field first 0 0x0f) OR field second 7 0x1)"

definition vfpSm :: "u16 \<Rightarrow> nat" where
  "vfpSm second = unat (push_bit 1 (field second 0 0x0f) OR field second 5 0x1)"

definition vfpExpandImmediate :: "u8 \<Rightarrow> u32" where
  "vfpExpandImmediate imm8 =
     (let sign = push_bit 24 (ucast (imm8 AND 0x80) :: u32);
          exponent_bit = imm8 AND 0x40 \<noteq> 0;
          exponent_head = (if exponent_bit then 0 else 0x40000000);
          exponent_repeated = (if exponent_bit then 0x3e000000 else 0);
          fraction = push_bit 19 (ucast (imm8 AND 0x3f) :: u32)
      in sign OR exponent_head OR exponent_repeated OR fraction)"

text \<open>The encoding groups of \<open>decodeVfpDataProcessing\<close>, in the order it tries them.\<close>

definition vfp_core_move :: "u16 \<Rightarrow> u16 \<Rightarrow> DecodedInstruction option" where
  "vfp_core_move first second =
     (let to_core = hw first AND 0x0010 \<noteq> 0;
          core_register = reg second 12 0x0f;
          single_register = unat (push_bit 1 (field first 0 0x0f) OR field second 7 0x1)
      in if core_register = 15 then None
         else Some ((base32 first second
                       (if to_core then I_vmov_single_to_core else I_vmov_core_to_single)
                       OF_register_value)
                \<lparr>rd := (if to_core then core_register else single_register),
                 rn := (if to_core then single_register else core_register)\<rparr>))"

definition vfp_unary_kind :: "u32 \<Rightarrow> u32 \<Rightarrow> InstrKind" where
  "vfp_unary_kind normalized_first unary_shape =
     (if normalized_first = 0xeeb0 then (if unary_shape = 0x0ac0 then I_vabs else I_vmov_single)
      else if normalized_first = 0xeeb1 then (if unary_shape = 0x0ac0 then I_vsqrt else I_vneg)
      else if normalized_first = 0xeeb8 then
        (if unary_shape = 0x0ac0 then I_vcvt_f32_s32 else I_vcvt_f32_u32)
      else if normalized_first = 0xeebc \<and> unary_shape = 0x0ac0 then I_vcvt_u32_f32
      else if normalized_first = 0xeebd \<and> unary_shape = 0x0ac0 then I_vcvt_s32_f32
      else I_undefined)"

definition vfp_binary_kind :: "u32 \<Rightarrow> u16 \<Rightarrow> InstrKind" where
  "vfp_binary_kind binary_first second =
     (let negate = hw second AND 0x0040 \<noteq> 0
      in if binary_first = 0xee30 then (if negate then I_vsub else I_vadd)
         else if binary_first = 0xee20 then (if negate then I_vnmul else I_vmul)
         else if binary_first = 0xee80 then I_vdiv
         else if binary_first = 0xeea0 then (if negate then I_vfms else I_vfma)
         else if binary_first = 0xee90 \<and> \<not> negate then I_vfnms
         else I_undefined)"

definition vfp_compare_or_binary :: "u16 \<Rightarrow> u16 \<Rightarrow> DecodedInstruction option" where
  "vfp_compare_or_binary first second =
     (let normalized_first = hw first AND 0xffbf;
          binary_kind = vfp_binary_kind (hw first AND 0xffb0) second
      in if (normalized_first = 0xeeb4 \<or> normalized_first = 0xeeb5) \<and> hw second AND 0x0f50 = 0x0a40 then
           Some ((base32 first second I_vcmp
                    (if normalized_first = 0xeeb5 then OF_immediate else OF_register_value))
             \<lparr>rn := vfpSd first second, rm := vfpSm second\<rparr>)
         else if binary_kind \<noteq> I_undefined \<and> hw second AND 0x0f10 = 0x0a00 then
           Some ((base32 first second binary_kind OF_register_value)
             \<lparr>rd := vfpSd first second, rn := vfpSn first second, rm := vfpSm second\<rparr>)
         else None)"

definition decodeVfpDataProcessing :: "u16 \<Rightarrow> u16 \<Rightarrow> DecodedInstruction option" where
  "decodeVfpDataProcessing first second =
     (if hw first AND 0xffe0 = 0xee00 \<and> hw second AND 0x0f7f = 0x0a10 then vfp_core_move first second
      else if first = 0xeef1 \<and> hw second AND 0x0fff = 0x0a10 then
        (if drop_bit 12 (hw second) \<noteq> 15 then None else Some (base32 first second I_vmrs OF_none))
      else if hw first AND 0xffb0 = 0xeeb0 \<and> hw second AND 0x0ff0 = 0x0a00 then
        Some ((base32 first second I_vmov_immediate OF_immediate)
          \<lparr>rd := vfpSd first second,
           imm := vfpExpandImmediate (ucast (push_bit 4 (hw first AND 0x0f) OR (hw second AND 0x0f)))\<rparr>)
      else
        (let unary_shape = hw second AND 0x0fd0;
             k = vfp_unary_kind (hw first AND 0xffbf) unary_shape
         in if (unary_shape = 0x0a40 \<or> unary_shape = 0x0ac0) \<and> k \<noteq> I_undefined then
              Some ((base32 first second k OF_register_value)
                \<lparr>rd := vfpSd first second, rm := vfpSm second\<rparr>)
            else vfp_compare_or_binary first second))"

section \<open>The pattern tables\<close>

record ('w, 'f) DecodePattern =
  pat_mask :: 'w
  pat_value :: 'w
  pat_decode :: 'f

type_synonym DecodePattern16 = "(u16, u16 \<Rightarrow> DecodedInstruction option) DecodePattern"
type_synonym DecodePattern32 = "(u32, u16 \<Rightarrow> u16 \<Rightarrow> DecodedInstruction option) DecodePattern"

definition row :: "'w \<Rightarrow> 'w \<Rightarrow> 'f \<Rightarrow> ('w, 'f) DecodePattern" where
  "row m v f = \<lparr>pat_mask = m, pat_value = v, pat_decode = f\<rparr>"

definition patterns16 :: "DecodePattern16 list" where
  "patterns16 =
     [row 0xf800 0x0000 decodeShiftImmediate,
      row 0xf800 0x0800 decodeShiftImmediate,
      row 0xf800 0x1000 decodeShiftImmediate,
      row 0xf800 0x1800 decodeAddSubtract,
      row 0xe000 0x2000 decodeImmediate8,
      row 0xfc00 0x4000 decodeDataProcessing,
      row 0xfc00 0x4400 decodeSpecialData,
      row 0xf800 0x4800 decodeLiteralLoad,
      row 0xf000 0x5000 decodeRegisterTransfer,
      row 0xf000 0x6000 decodeImmediateTransfer,
      row 0xf000 0x7000 decodeImmediateTransfer,
      row 0xf000 0x8000 decodeImmediateTransfer,
      row 0xf000 0x9000 decodeSpTransfer,
      row 0xf000 0xa000 decodeAddressGeneration,
      row 0xf000 0xb000 decodeMiscellaneous,
      row 0xf000 0xc000 decodeMultiple,
      row 0xf000 0xd000 decodeConditionalBranch,
      row 0xf800 0xe000 decodeUnconditionalBranch]"

definition patterns32 :: "DecodePattern32 list" where
  "patterns32 =
     [row 0xfbf08000 0xf2000000 decodeAddSubWideImmediate,
      row 0xfbf08000 0xf2a00000 decodeAddSubWideImmediate,
      row 0xfbf08000 0xf2400000 decodeMovWide,
      row 0xfbf08000 0xf2c00000 decodeMovWide,
      row 0xfa008000 0xf0000000 decodeDataProcessingImmediate,
      row 0xf800d000 0xf0008000 decodeBranchOrSystem,
      row 0xf800d000 0xf0009000 decodeBranchWide,
      row 0xf800d000 0xf000d000 decodeBranchWide,
      row 0xfe008000 0xea000000 decodeDataProcessingRegister,
      row 0xff80f0f0 0xfa00f000 decodeRegisterShift,
      row 0xff8ff0c0 0xfa0ff080 decodeExtendWide,
      row 0xfff000f0 0xfb000000 decodeMultiply,
      row 0xfff000f0 0xfb000010 decodeMultiply,
      row 0xfff000f0 0xfb800000 decodeSmull,
      row 0xfff000f0 0xfba00000 decodeUmull,
      row 0xfff0f0f0 0xfb90f0f0 decodeSdiv,
      row 0xfff0f0f0 0xfbb0f0f0 decodeUdiv,
      row 0xfff0f0f0 0xfa80f040 decodeParallelAddSelect,
      row 0xfff0f0f0 0xfaa0f080 decodeParallelAddSelect,
      row 0xfff0f0f0 0xfab0f080 decodeClz,
      row 0xfff08020 0xf3600000 decodeBitfieldClear,
      row 0xfff08020 0xf3c00000 decodeUbfx,
      row 0xfe000000 0xf8000000 decodeWideTransfer,
      row 0xfe000000 0xe8000000 decodeWideMultiple,
      row 0xfe000000 0xec000000 decodeVfpMultiple,
      row 0xff000000 0xee000000 decodeVfpDataProcessing]"

text \<open>
  The table check. The source also rejects a null decode function, which a table of
  functions cannot contain.
\<close>

fun tableHasNoOverlaps :: "('a :: len word, 'f) DecodePattern list \<Rightarrow> bool" where
  "tableHasNoOverlaps [] = True"
| "tableHasNoOverlaps (p # ps) =
     (pat_value p AND pat_mask p = pat_value p
      \<and> list_all (\<lambda>q. let common = pat_mask p AND pat_mask q
                       in pat_value p AND common \<noteq> pat_value q AND common) ps
      \<and> tableHasNoOverlaps ps)"

definition decode16 :: "u16 \<Rightarrow> DecodedInstruction option" where
  "decode16 halfword =
     (if is32BitThumbPrefix halfword then None
      else case find (\<lambda>p. halfword AND pat_mask p = pat_value p) patterns16 of
             Some p \<Rightarrow> pat_decode p halfword
           | None \<Rightarrow> None)"

definition decode32 :: "u16 \<Rightarrow> u16 \<Rightarrow> DecodedInstruction option" where
  "decode32 first second =
     (if \<not> is32BitThumbPrefix first then None
      else let w = push_bit 16 (hw first) OR hw second
           in case find (\<lambda>p. w AND pat_mask p = pat_value p) patterns32 of
                Some p \<Rightarrow> pat_decode p first second
              | None \<Rightarrow> None)"

definition decoderTablesHaveNoOverlaps :: bool where
  "decoderTablesHaveNoOverlaps \<longleftrightarrow> tableHasNoOverlaps patterns16 \<and> tableHasNoOverlaps patterns32"

end
