(* ===== verification/Decoder_Laws.thy ===== *)
theory Decoder_Laws
  imports Decoder
begin

text \<open>
  Facts on the decoder: the pattern tables are unambiguous, so that the lookup does not
  depend on the order of the rows; what is known of the operands of every decoded
  instruction, in particular that the register numbers stay inside the register files;
  and the encodings of branches and calls decode to the offset they encode.
\<close>

section \<open>The tables are unambiguous\<close>

definition matches :: "'a :: len word \<Rightarrow> ('a word, 'f) DecodePattern \<Rightarrow> bool" where
  "matches w p \<longleftrightarrow> w AND pat_mask p = pat_value p"

lemma patterns16_ok: "tableHasNoOverlaps patterns16"
  by (simp add: patterns16_def row_def)

lemma patterns32_ok: "tableHasNoOverlaps patterns32"
  by (simp add: patterns32_def row_def)

lemma matches_common:
  assumes "matches w p" "matches w q"
  shows "pat_value p AND (pat_mask p AND pat_mask q) = pat_value q AND (pat_mask p AND pat_mask q)"
proof -
  have "(w AND pat_mask p) AND (pat_mask p AND pat_mask q) = (w AND pat_mask q) AND (pat_mask p AND pat_mask q)"
    by (auto intro!: bit_word_eqI simp: bit_and_iff)
  then show ?thesis using assms by (simp add: matches_def)
qed

lemma overlap_free_unique:
  "tableHasNoOverlaps ps \<Longrightarrow> i < j \<Longrightarrow> j < length ps \<Longrightarrow> \<not> (matches w (ps ! i) \<and> matches w (ps ! j))"
proof (induction ps arbitrary: i j)
  case (Cons p ps)
  show ?case
  proof (cases i)
    case 0
    then have "ps ! (j - 1) \<in> set ps" "(p # ps) ! j = ps ! (j - 1)" using Cons.prems by auto
    then show ?thesis using 0 Cons.prems (1) matches_common [of w p "ps ! (j - 1)"]
      by (auto simp: list_all_iff Let_def)
  next
    case (Suc i')
    then show ?thesis using Cons.prems Cons.IH [of i' "j - 1"] by (simp add: nth_Cons')
  qed
qed simp

lemma overlap_free_eq:
  assumes "tableHasNoOverlaps ps" "p \<in> set ps" "q \<in> set ps" "matches w p" "matches w q"
  shows "p = q"
proof -
  from assms obtain i j where "i < length ps" "ps ! i = p" "j < length ps" "ps ! j = q"
    by (auto simp: in_set_conv_nth)
  then show ?thesis
    using assms overlap_free_unique [of ps i j w] overlap_free_unique [of ps j i w]
    by (metis linorder_neqE_nat)
qed

lemma find_matches:
  assumes "tableHasNoOverlaps ps" "p \<in> set ps" "matches w p" "set qs = set ps"
  shows "find (\<lambda>p. w AND pat_mask p = pat_value p) qs = Some p"
proof -
  have "find (matches w) qs \<noteq> None" using assms by (auto simp: find_None_iff)
  then obtain q where q: "find (matches w) qs = Some q" by blast
  then have "q \<in> set ps" "matches w q" using assms (4) by (auto simp: find_Some_iff)
  then have "q = p" using overlap_free_eq assms by blast
  then show ?thesis using q by (simp add: matches_def [abs_def])
qed

lemma find_permute:
  assumes "tableHasNoOverlaps ps" "set qs = set ps"
  shows "find (\<lambda>p. w AND pat_mask p = pat_value p) qs = find (\<lambda>p. w AND pat_mask p = pat_value p) ps"
proof (cases "\<exists>p \<in> set ps. matches w p")
  case True
  then obtain p where "p \<in> set ps" "matches w p" by blast
  then show ?thesis using assms by (simp add: find_matches)
next
  case False
  then have "find (matches w) qs = None" "find (matches w) ps = None"
    using assms (2) by (auto simp: find_None_iff)
  then show ?thesis by (simp add: matches_def [abs_def])
qed

lemma decode32_row:
  assumes "is32BitThumbPrefix first" "p \<in> set patterns32" "matches (push_bit 16 (hw first) OR hw second) p"
  shows "decode32 first second = pat_decode p first second"
  using assms find_matches [OF patterns32_ok, of p "push_bit 16 (hw first) OR hw second" patterns32]
  by (simp add: decode32_def Let_def)

lemma decode16_row:
  assumes "\<not> is32BitThumbPrefix h" "p \<in> set patterns16" "matches h p"
  shows "decode16 h = pat_decode p h"
  using assms find_matches [OF patterns16_ok, of p h patterns16] by (simp add: decode16_def)

section \<open>Fields\<close>

lemma unat_and_le: "unat (a AND m) \<le> unat (m :: 'a :: len word)"
  by (simp add: word_and_le1 flip: word_le_nat_alt)

lemma reg_le: "reg x n m \<le> unat m"
  by (simp add: reg_def field_def unat_and_le)

lemma field_le: "unat (field x n m) \<le> unat m"
  by (simp add: field_def unat_and_le)

lemma reg_7 [simp]: "reg x n 7 < 16" "reg x n 7 < 32" "reg x n 7 < 8" "reg x n 7 < 15" "reg x n 7 \<noteq> 15" "reg x n 7 \<noteq> 13"
  using reg_le [of x n 7] by auto

lemma reg_15 [simp]: "reg x n 15 < 16" "reg x n 15 < 32"
  using reg_le [of x n 15] by auto

lemma reg_15_lt: "reg x n 15 \<noteq> 15 \<Longrightarrow> reg x n 15 < 15"
  using reg_15 (1) [of x n] by linarith

lemma reg_31 [simp]: "reg x n 31 < 32" "reg x n 31 \<le> 31" "reg x n 31 \<le> 32"
  using reg_le [of x n 31] by auto

lemma reg_3 [simp]: "reg x n 3 < 4" "reg x n 3 < Suc (Suc (Suc (Suc 0)))" "reg x n 3 \<le> 32" "reg x n 3 * 8 \<le> 32"
  using reg_le [of x n 3] by auto

lemma or_less:
  assumes "unat a < 2 ^ n" "unat (b :: 'a :: len word) < 2 ^ n" shows "unat (a OR b) < 2 ^ n"
proof -
  have "take_bit n (unat (a OR b)) = unat (a OR b)"
    using assms by (simp add: unsigned_or_eq take_bit_nat_eq_self)
  then show ?thesis by (metis take_bit_nat_less_exp)
qed

lemma unat_double: "unat (field x n 15 * 2) \<le> 30"
  using field_le [of x n 15] unat_word_ariths (2) [of "field x n 15" 2] by simp

lemma single_register [simp]:
  "unat (field x n 15 * 2 OR field y m 1) < 32"
  "unat (field x n 15 * 2 OR 1) < 32"
  "unat (field x n 15 * 2) < 32"
  using unat_double [of x n] field_le [of y m 1]
    or_less [of "field x n 15 * 2" 5 "field y m 1"] or_less [of "field x n 15 * 2" 5 1] by simp_all

lemma wide_amount [simp]: "unat (field x 10 0x1c OR field x 6 3) < 32"
  using field_le [of x 10 "0x1c"] field_le [of x 6 3] or_less [of "field x 10 0x1c" 5 "field x 6 3"] by simp

lemma high_register: "unat ((hw x AND 7) OR (drop_bit 4 (hw x) AND 8)) < 16"
  using unat_and_le [of "hw x" 7] unat_and_le [of "drop_bit 4 (hw x)" 8]
    or_less [of "hw x AND 7" 4 "drop_bit 4 (hw x) AND 8"] by simp

section \<open>Sign extension\<close>

lemma signExtend_eq:
  assumes "0 < n" "n < 32" shows "signExtend n v = signed_take_bit (n - 1) (uint v)"
proof -
  have "v AND (push_bit n 1 - 1) = take_bit n v"
    by (simp add: take_bit_eq_mask mask_eq_exp_minus_1 push_bit_eq_mult)
  moreover have "take_bit n v AND push_bit (n - 1) 1 = 0 \<longleftrightarrow> \<not> bit v (n - 1)"
    using and_pow2_ne_0 [of "take_bit n v" "n - 1"] assms by (auto simp: bit_take_bit_iff)
  moreover have "uint (take_bit n v) = take_bit n (uint v)" by (simp add: unsigned_take_bit_eq)
  moreover have "bit (uint v) (n - 1) = bit v (n - 1)" using assms by (auto simp: bit_uint_iff)
  moreover have "Suc (n - 1) = n" using assms by simp
  ultimately show ?thesis
    using signed_take_bit_eq_take_bit_minus [of "n - 1" "uint v"] by (simp add: signExtend_def Let_def)
qed

lemma signExtend_range:
  assumes "0 < n" "n < 32"
  shows "- (2 ^ (n - 1)) \<le> signExtend n v" "signExtend n v < 2 ^ (n - 1)"
  using assms by (simp_all add: signExtend_eq signed_take_bit_int_greater_eq_minus_exp
      signed_take_bit_int_less_exp)

lemma signExtend_even: "1 < n \<Longrightarrow> n < 32 \<Longrightarrow> even (signExtend n v) \<longleftrightarrow> \<not> bit v 0"
  using bit_uint_iff [of v 0] by (simp add: signExtend_eq even_signed_take_bit_iff bit_0)

section \<open>Operands of decoded instructions\<close>

text \<open>
  \<open>fp_operands\<close> are the operations whose \<open>rd\<close>, \<open>rn\<close> or \<open>rm\<close> name single-precision
  registers; the remaining ones use core registers only. \<open>wf_instruction\<close> collects what
  the executor relies on.
\<close>

definition fp_operands :: "InstrKind set" where
  "fp_operands =
     {I_vstm, I_vldm, I_vldr, I_vstr, I_vmov_core_to_single, I_vmov_single_to_core, I_vmov_single,
      I_vmov_immediate, I_vcvt_f32_s32, I_vcvt_f32_u32, I_vcvt_s32_f32, I_vcvt_u32_f32, I_vadd,
      I_vsub, I_vmul, I_vnmul, I_vdiv, I_vfma, I_vfms, I_vfnms, I_vcmp, I_vneg, I_vabs, I_vsqrt}"

definition registers_ok :: "DecodedInstruction \<Rightarrow> bool" where
  "registers_ok i \<longleftrightarrow>
     rd i < 32 \<and> rn i < 32 \<and> rm i < 32 \<and> ra i < 16
     \<and> (kind i \<notin> fp_operands \<longrightarrow> rd i < 16 \<and> rn i < 16 \<and> rm i < 16)
     \<and> (rd i = 15 \<longrightarrow> kind i \<in> {I_mov, I_add, I_cmp, I_cmn, I_tst, I_ldr} \<union> fp_operands)
     \<and> (kind i \<in> {I_umull, I_smull, I_ldrd} \<longrightarrow> ra i \<noteq> 15) \<and> (writeback i \<longrightarrow> rn i \<noteq> 15)
     \<and> (kind i = I_vmov_single_to_core \<longrightarrow> rd i < 15)
     \<and> (kind i \<in> {I_vmov_core_to_single, I_vldm, I_vstm} \<longrightarrow> rn i < 15)
     \<and> (kind i \<in> {I_vldr, I_vstr} \<longrightarrow> rn i < 16 \<and> rd i + (if fp_double i then 2 else 1) \<le> 32)
     \<and> (kind i \<in> {I_vldm, I_vstm} \<longrightarrow> 0 < unat (imm i) \<and> rd i + unat (imm i) \<le> 32)"

text \<open>
  The reach of the four encodings of a branch: 16 or 32 bits long, with or without a
  condition of its own. Calls have the 32-bit unconditional form.
\<close>

definition branch_reach :: "DecodedInstruction \<Rightarrow> int" where
  "branch_reach i =
     (if is_32bit i then (if condition i = C_al then 2 ^ 24 else 2 ^ 20)
      else (if condition i = C_al then 2 ^ 11 else 2 ^ 8))"

definition immediates_ok :: "DecodedInstruction \<Rightarrow> bool" where
  "immediates_ok i \<longleftrightarrow>
     shift_amount i \<le> 32
     \<and> (kind i \<in> {I_bfc, I_ubfx} \<longrightarrow> 0 < unat (imm i) \<and> shift_amount i + unat (imm i) \<le> 32)
     \<and> (kind i = I_mrs \<longrightarrow> imm i \<in> {5, 8, 9, 16, 17, 18, 19, 20})
     \<and> (kind i = I_msr \<longrightarrow> imm i \<in> {8, 9, 16, 17, 18, 19, 20})
     \<and> (kind i \<in> {I_ldm, I_stm, I_push, I_pop} \<longrightarrow> register_list i \<noteq> 0 \<and> rn i < 15
          \<and> \<not> bit (register_list i) 13)
     \<and> (kind i \<in> {I_stm, I_push} \<longrightarrow> \<not> bit (register_list i) 15)
     \<and> (kind i \<in> {I_ldrd, I_strd} \<longrightarrow> form i = OF_immediate)
     \<and> (kind i \<in> {I_b, I_bl} \<longrightarrow> even (branch_offset i) \<and> - branch_reach i \<le> branch_offset i
          \<and> branch_offset i < branch_reach i)
     \<and> (kind i \<in> {I_cbz, I_cbnz} \<longrightarrow> \<not> bit (imm i) 0 \<and> imm i \<le> 126)"

definition wf_instruction :: "DecodedInstruction \<Rightarrow> bool" where
  "wf_instruction i \<longleftrightarrow>
     kind i \<noteq> I_undefined \<and> condition i \<noteq> C_nv \<and> (condition i \<noteq> C_al \<longrightarrow> kind i \<in> {I_b, I_it})
     \<and> registers_ok i \<and> immediates_ok i"

lemmas wf_defs = wf_instruction_def registers_ok_def immediates_ok_def fp_operands_def

lemmas base_defs = base16_def base32_def default_instruction_def

definition decodes_ok :: "DecodedInstruction option \<Rightarrow> bool" where
  "decodes_ok r = (case r of None \<Rightarrow> True | Some i \<Rightarrow> wf_instruction i)"

lemma decodes_ok_simps [simp]:
  "decodes_ok None" "decodes_ok (Some i) = wf_instruction i"
  by (simp_all add: decodes_ok_def)

lemma decodes_ok_if: "(c \<Longrightarrow> decodes_ok a) \<Longrightarrow> (\<not> c \<Longrightarrow> decodes_ok b) \<Longrightarrow> decodes_ok (if c then a else b)"
  by simp

lemma decodes_ok_option:
  "(\<And>v. r = Some v \<Longrightarrow> decodes_ok (f v)) \<Longrightarrow> decodes_ok (case r of None \<Rightarrow> None | Some v \<Rightarrow> f v)"
  by (cases r) simp_all

text \<open>Operations that only need core registers in range and an amount of at most 32.\<close>

definition plain :: "InstrKind \<Rightarrow> bool" where
  "plain k \<longleftrightarrow> k \<notin> fp_operands
     \<and> k \<notin> {I_undefined, I_umull, I_smull, I_ldrd, I_strd, I_bfc, I_ubfx, I_mrs, I_msr, I_ldm, I_stm, I_push, I_pop,
             I_b, I_bl, I_cbz, I_cbnz}"

lemma wf_plain:
  "plain (kind i) \<Longrightarrow> condition i = C_al \<Longrightarrow> rd i < 16 \<Longrightarrow> rn i < 16 \<Longrightarrow> rm i < 16 \<Longrightarrow> ra i < 16
     \<Longrightarrow> shift_amount i \<le> 32 \<Longrightarrow> (rd i = 15 \<longrightarrow> kind i \<in> {I_mov, I_add, I_cmp, I_cmn, I_tst, I_ldr})
     \<Longrightarrow> (writeback i \<longrightarrow> rn i \<noteq> 15) \<Longrightarrow> wf_instruction i"
  by (simp add: wf_defs plain_def)

lemma nth_plain: "list_all plain ks \<Longrightarrow> n < length ks \<Longrightarrow> plain (ks ! n)"
  by (simp add: list_all_length)

lemma decodeShiftImmediate_ok: "decodes_ok (decodeShiftImmediate x)"
  by (simp add: decodeShiftImmediate_def Let_def base_defs wf_defs)

lemma decodeAddSubtract_ok: "decodes_ok (decodeAddSubtract x)"
  by (simp add: decodeAddSubtract_def Let_def base_defs wf_defs)

lemma decodeImmediate8_ok: "decodes_ok (decodeImmediate8 x)"
  by (simp add: decodeImmediate8_def Let_def base_defs wf_defs)

lemma decodeDataProcessing_ok: "decodes_ok (decodeDataProcessing x)"
proof -
  have "list_all plain data_operations" by (simp add: data_operations_def plain_def fp_operands_def)
  moreover have "length data_operations = 16" by (simp add: data_operations_def)
  ultimately have "plain (data_operations ! reg x 6 15)" by (simp add: nth_plain)
  then show ?thesis
    by (simp add: decodeDataProcessing_def Let_def base_defs wf_plain del: One_nat_def)
qed

lemma decodeSpecialData_ok: "decodes_ok (decodeSpecialData x)"
  unfolding decodeSpecialData_def Let_def
  by (intro decodes_ok_if; simp add: base_defs wf_plain high_register plain_def fp_operands_def)

lemma decodeLiteralLoad_ok: "decodes_ok (decodeLiteralLoad x)"
  by (simp add: decodeLiteralLoad_def base_defs wf_defs)

lemma decodeRegisterTransfer_ok: "decodes_ok (decodeRegisterTransfer x)"
proof -
  have "list_all plain transfer_operations" by (simp add: transfer_operations_def plain_def fp_operands_def)
  moreover have "length transfer_operations = 8" by (simp add: transfer_operations_def)
  ultimately have "plain (transfer_operations ! reg x 9 7)" by (simp add: nth_plain)
  then show ?thesis by (simp add: decodeRegisterTransfer_def base_defs wf_plain)
qed

lemma decodeImmediateTransfer_ok: "decodes_ok (decodeImmediateTransfer x)"
  by (simp add: decodeImmediateTransfer_def Let_def base_defs wf_defs)

lemma decodeSpTransfer_ok: "decodes_ok (decodeSpTransfer x)"
  by (simp add: decodeSpTransfer_def base_defs wf_defs)

lemma decodeAddressGeneration_ok: "decodes_ok (decodeAddressGeneration x)"
  by (simp add: decodeAddressGeneration_def base_defs wf_defs)

lemma branch_offset_ok:
  assumes "1 < n" "n < 32" "\<not> bit v 0"
  shows "even (signExtend n v) \<and> - (2 ^ (n - 1)) \<le> signExtend n v \<and> signExtend n v < 2 ^ (n - 1)"
  using assms signExtend_range [of n v] signExtend_even [of n v] by simp

lemma shifted_even: "\<not> bit (push_bit 1 (w :: u32)) 0" by (simp add: bit_times_2)

lemma wf_branch:
  assumes "kind i \<in> {I_b, I_bl}" "condition i \<noteq> C_nv" "condition i \<noteq> C_al \<longrightarrow> kind i = I_b"
    and "rd i = 0" "rn i = 0" "rm i = 0" "ra i = 0" "shift_amount i = 0"
    and "even (branch_offset i) \<and> - branch_reach i \<le> branch_offset i \<and> branch_offset i < branch_reach i"
  shows "wf_instruction i"
  using assms by (auto simp: wf_defs)

lemma condition_of_ok: "c < 14 \<Longrightarrow> condition_of c \<noteq> C_nv \<and> condition_of c \<noteq> C_al"
  by (auto simp: condition_of_def numeral_eq_Suc less_Suc_eq)

lemma field_condition: "\<not> 14 \<le> f \<Longrightarrow> condition_of (unat (f :: u32)) \<noteq> C_nv \<and> condition_of (unat f) \<noteq> C_al"
  using condition_of_ok [of "unat f"] by (simp add: word_le_nat_alt)

lemma decodeUnconditionalBranch_ok: "decodes_ok (decodeUnconditionalBranch x)"
  using branch_offset_ok [of 12 "push_bit 1 (hw x AND 0x07ff)", OF _ _ shifted_even]
  by (simp add: decodeUnconditionalBranch_def base_defs wf_branch branch_reach_def)

lemma decodeConditionalBranch_ok: "decodes_ok (decodeConditionalBranch x)"
  unfolding decodeConditionalBranch_def Let_def
  using branch_offset_ok [of 9 "push_bit 1 (hw x AND 0xff)", OF _ _ shifted_even]
  by (intro decodes_ok_if; simp add: base_defs wf_branch wf_plain plain_def fp_operands_def field_condition branch_reach_def)

lemma wf_branch_wide:
  shows "k \<in> {I_b, I_bl} \<Longrightarrow> even v \<and> - (2 ^ (25 - 1)) \<le> v \<and> v < 2 ^ (25 - 1)
      \<Longrightarrow> wf_instruction ((base32 first second k OF_immediate)\<lparr>branch_offset := v\<rparr>)"
    and "k = I_b \<Longrightarrow> c \<noteq> C_nv \<and> c \<noteq> C_al \<Longrightarrow> even v \<and> - (2 ^ (21 - 1)) \<le> v \<and> v < 2 ^ (21 - 1)
      \<Longrightarrow> wf_instruction ((base32 first second k OF_immediate)\<lparr>condition := c, branch_offset := v\<rparr>)"
  by (auto intro!: wf_branch simp: base_defs branch_reach_def)

lemma wide_offset_even:
  "\<not> bit (push_bit 20 a OR push_bit 19 b OR push_bit 18 c OR push_bit 12 d OR push_bit 1 (e :: u32)) 0"
  "\<not> bit (push_bit 24 a OR push_bit 23 b OR push_bit 22 c OR push_bit 12 d OR push_bit 1 (e :: u32)) 0"
  by (simp_all only: bit_or_iff bit_push_bit_iff) simp_all

lemma decodeBranchWide_ok: "decodes_ok (decodeBranchWide first second)"
  unfolding decodeBranchWide_def Let_def
  by (intro decodes_ok_if; simp only: decodes_ok_simps;
      (rule TrueI | intro wf_branch_wide branch_offset_ok wide_offset_even; simp add: field_condition))

lemma u16_list_bits: "\<not> bit (x AND 0xff :: u16) 13" "\<not> bit (x AND 0xff :: u16) 15"
  by (simp_all add: bit_and_iff)

lemma decodeMultiple_ok: "decodes_ok (decodeMultiple x)"
  unfolding decodeMultiple_def Let_def
  by (intro decodes_ok_if; simp add: base_defs wf_defs u16_list_bits)

lemma misc_reverse_ok: "decodes_ok (misc_reverse x)"
  by (simp add: misc_reverse_def Let_def base_defs wf_defs)

lemma misc_extend_ok: "decodes_ok (misc_extend x)"
proof -
  have "plain ([I_sxth, I_sxtb, I_uxth, I_uxtb] ! reg x 6 3)"
    by (rule nth_plain) (simp_all add: plain_def fp_operands_def)
  then show ?thesis by (simp add: misc_extend_def base_defs wf_plain)
qed

lemma misc_hint_or_it_ok: "decodes_ok (misc_hint_or_it x)"
  unfolding misc_hint_or_it_def Let_def
  by (intro decodes_ok_if; simp add: base_defs wf_defs field_condition)

lemma misc_cps_ok: "decodes_ok (misc_cps x)"
  by (simp add: misc_cps_def Let_def base_defs wf_defs)

lemma compare_branch_offset:
  "\<not> bit (push_bit 1 (field x 3 0x1f) OR push_bit 6 (field x 9 1)) 0"
  "push_bit 1 (field x 3 0x1f) OR push_bit 6 (field x 9 1) \<le> 126"
proof -
  show "\<not> bit (push_bit 1 (field x 3 0x1f) OR push_bit 6 (field x 9 1)) 0"
    by (simp only: bit_or_iff bit_push_bit_iff) simp
  have "(push_bit 1 (field x 3 0x1f) OR push_bit 6 (field x 9 1)) AND 126 = push_bit 1 (field x 3 0x1f) OR push_bit 6 (field x 9 1)"
    unfolding field_def push_bit_and bit.conj_disj_distrib2 and.assoc by simp
  then show "push_bit 1 (field x 3 0x1f) OR push_bit 6 (field x 9 1) \<le> 126" by (metis word_and_le1)
qed

lemma misc_compare_branch_ok: "decodes_ok (misc_compare_branch x)"
  using compare_branch_offset [of x] by (simp add: misc_compare_branch_def base_defs wf_defs)

lemma misc_push_ok: "decodes_ok (misc_push x)" and misc_pop_ok: "decodes_ok (misc_pop x)"
  unfolding misc_push_def misc_pop_def Let_def
  by (intro decodes_ok_if; simp add: base_defs wf_defs u16_list_bits bit_or_iff bit_push_bit_iff)+

lemma misc_adjust_sp_ok: "decodes_ok (misc_adjust_sp x)"
  by (simp add: misc_adjust_sp_def base_defs wf_defs)

lemma decodeMiscellaneous_ok: "decodes_ok (decodeMiscellaneous x)"
  unfolding decodeMiscellaneous_def
  by (intro decodes_ok_if misc_reverse_ok misc_extend_ok misc_hint_or_it_ok misc_cps_ok
      misc_compare_branch_ok misc_push_ok misc_pop_ok misc_adjust_sp_ok)
    (simp_all add: base_defs wf_defs)

lemma decodeMovWide_ok: "decodes_ok (decodeMovWide first second)"
  by (simp add: decodeMovWide_def Let_def base_defs wf_defs)

lemma decodeAddSubWideImmediate_ok: "decodes_ok (decodeAddSubWideImmediate first second)"
  by (simp add: decodeAddSubWideImmediate_def Let_def base_defs wf_defs)

lemma normalize_plain: "normalizeDataProcessingOperation op f n d = Some k \<Longrightarrow> plain k"
  by (auto simp: normalizeDataProcessingOperation_def Let_def plain_def fp_operands_def split: if_splits)

lemma normalize_rd: "normalizeDataProcessingOperation op f n 15 = Some k \<Longrightarrow> k \<in> {I_tst, I_cmp, I_cmn}"
  by (auto simp: normalizeDataProcessingOperation_def Let_def split: if_splits)

lemma wf_data_processing:
  assumes "normalizeDataProcessingOperation op f n d = Some (kind i)" "condition i = C_al" "rd i = d"
    and "rd i < 16" "rn i < 16" "rm i < 16" "ra i = 0" "shift_amount i \<le> 32" "\<not> writeback i"
  shows "wf_instruction i"
proof (rule wf_plain)
  show "plain (kind i)" using assms (1) by (rule normalize_plain)
  show "rd i = 15 \<longrightarrow> kind i \<in> {I_mov, I_add, I_cmp, I_cmn, I_tst, I_ldr}"
    using assms (1,3) normalize_rd [of op f n "kind i"] by auto
qed (use assms in auto)

lemma decodeDataProcessingImmediate_ok: "decodes_ok (decodeDataProcessingImmediate first second)"
  unfolding decodeDataProcessingImmediate_def Let_def
  by (intro decodes_ok_option; simp only: decodes_ok_simps; rule wf_data_processing)
    (simp_all add: base_defs)

lemma decodeDataProcessingRegister_ok: "decodes_ok (decodeDataProcessingRegister first second)"
  unfolding decodeDataProcessingRegister_def Let_def
  by (intro decodes_ok_option decodes_ok_if; simp only: decodes_ok_simps;
      (rule TrueI | rule wf_data_processing))
    (simp_all add: base_defs less_imp_le)

lemma decodeRegisterShift_ok: "decodes_ok (decodeRegisterShift first second)"
proof -
  have "plain ([I_lsl, I_lsr, I_asr, I_ror] ! reg first 5 3)"
    by (rule nth_plain) (simp_all add: plain_def fp_operands_def)
  then show ?thesis by (simp add: decodeRegisterShift_def Let_def base_defs wf_plain)
qed

lemma decodeExtendWide_ok: "decodes_ok (decodeExtendWide first second)"
  by (simp add: decodeExtendWide_def Let_def base_defs wf_defs)

lemma decodeMultiply_ok: "decodes_ok (decodeMultiply first second)"
  by (simp add: decodeMultiply_def Let_def base_defs wf_defs)

lemma decodeUmull_ok: "decodes_ok (decodeUmull first second)" "decodes_ok (decodeSmull first second)"
  by (simp_all add: decodeSmull_def decodeUmull_def Let_def base_defs wf_defs)

lemma decodeUdiv_ok: "decodes_ok (decodeUdiv first second)" "decodes_ok (decodeSdiv first second)"
  by (simp_all add: decodeSdiv_def decodeUdiv_def Let_def base_defs wf_defs)

lemma decodeParallelAddSelect_ok: "decodes_ok (decodeParallelAddSelect first second)"
  by (simp add: decodeParallelAddSelect_def Let_def base_defs wf_defs)

lemma decodeClz_ok: "decodes_ok (decodeClz first second)"
  by (simp add: decodeClz_def Let_def base_defs wf_defs)

lemma unat_width: "n \<le> 32 \<Longrightarrow> unat (of_nat n :: u32) = n"
  by (simp add: unat_of_nat)

lemma wf_bitfield:
  assumes "k \<in> {I_bfc, I_ubfx}" "d < 15" "n < 16" "0 < w" "l + w \<le> 32"
  shows "wf_instruction
    ((base32 first second k OF_immediate)\<lparr>rn := n, rd := d, shift_amount := l, imm := of_nat w\<rparr>)"
  using assms by (auto simp: wf_defs base_defs unat_width)

lemma decodeBitfieldClear_ok: "decodes_ok (decodeBitfieldClear first second)"
  unfolding decodeBitfieldClear_def Let_def
  by (intro decodes_ok_if; simp only: decodes_ok_simps; (rule TrueI | intro wf_bitfield reg_15_lt; simp))

lemma decodeUbfx_ok: "decodes_ok (decodeUbfx first second)"
  unfolding decodeUbfx_def Let_def
  by (intro decodes_ok_if; simp only: decodes_ok_simps; (rule TrueI | intro wf_bitfield reg_15_lt; simp))

lemma special_range: "16 \<le> v \<Longrightarrow> v \<le> 20 \<Longrightarrow> v \<in> {16, 17, 18, 19, 20 :: u32}"
proof -
  assume "16 \<le> v" "v \<le> 20"
  then have "unat v \<in> {16, 17, 18, 19, 20}" by (auto simp: word_le_nat_alt)
  then show ?thesis by (simp add: word_unat_eq_iff)
qed

lemma decodeMrs_ok: "decodes_ok (decodeMrs first second)"
  using special_range [of "hw second AND 0xff"]
  by (auto simp: decodeMrs_def Let_def base_defs wf_defs)

lemma decodeMsr_ok: "decodes_ok (decodeMsr first second)"
  using special_range [of "hw second AND 0xff"]
  by (auto simp: decodeMsr_def Let_def base_defs wf_defs)

lemma decodeBarrier_ok: "decodes_ok (decodeBarrier first second)"
  by (simp add: decodeBarrier_def Let_def base_defs wf_defs)

lemma decodeNopWide_ok: "decodes_ok (decodeNopWide first second)"
  by (simp add: decodeNopWide_def base_defs wf_defs)

lemma decodeBranchOrSystem_ok: "decodes_ok (decodeBranchOrSystem first second)"
  unfolding decodeBranchOrSystem_def Let_def
  by (intro decodes_ok_if decodeMrs_ok decodeMsr_ok decodeBarrier_ok decodeNopWide_ok decodeBranchWide_ok)

lemma wide_transfer_kind_plain: "wide_transfer_kind op l = Some k \<Longrightarrow> plain k"
  by (auto simp: wide_transfer_kind_def plain_def fp_operands_def split: if_splits)

lemma pred_option_if:
  "(c \<Longrightarrow> pred_option P a) \<Longrightarrow> (\<not> c \<Longrightarrow> pred_option P b) \<Longrightarrow> pred_option P (if c then a else b)"
  by simp

lemma wide_transfer_form_props:
  assumes "wide_transfer_form op l neg second i = Some j" "rn i < 16" "rm i < 16" "shift_amount i \<le> 32"
    and "\<not> writeback i"
  shows "kind j = kind i \<and> condition j = condition i \<and> rd j = rd i \<and> ra j = ra i \<and> rn j < 16 \<and> rm j < 16
    \<and> shift_amount j \<le> 32 \<and> (writeback j \<longrightarrow> rn j = 15 \<longrightarrow> kind i \<in> {I_str, I_strb, I_strh})"
    (is "?P j")
proof -
  have "pred_option ?P (wide_transfer_form op l neg second i)"
    unfolding wide_transfer_form_def Let_def
    by (intro pred_option_if; simp only: option.pred_inject; simp add: assms (2-5))
  then show ?thesis using assms (1) by simp
qed

lemma wf_wide_transfer:
  assumes "plain (kind j)" "condition j = C_al" "rd j < 16" "ra j = 0" "rn j < 16" "rm j < 16" "shift_amount j \<le> 32"
    and "writeback j \<longrightarrow> rn j = 15 \<longrightarrow> kind j \<in> {I_str, I_strb, I_strh}"
    and "\<not> (kind j \<in> {I_str, I_strb, I_strh} \<and> (rn j = 15 \<or> rd j = 15)
          \<or> kind j \<notin> {I_str, I_strb, I_strh} \<and> rd j = 15 \<and> kind j \<noteq> I_ldr)"
  shows "wf_instruction j"
  using assms by (intro wf_plain) auto

lemma decodeWideTransfer_ok: "decodes_ok (decodeWideTransfer first second)"
proof -
  let ?start = "\<lambda>k. (base32 first second k OF_immediate)
    \<lparr>rn := reg first 0 15, rd := reg second 12 15, imm := hw second AND 0x0fff\<rparr>"
  have start: "kind (?start k) = k" "condition (?start k) = C_al" "rd (?start k) < 16" "ra (?start k) = 0"
    "rn (?start k) < 16" "rm (?start k) < 16" "shift_amount (?start k) \<le> 32" "\<not> writeback (?start k)" for k
    by (simp_all add: base_defs)
  have nop: "wf_instruction (base32 first second I_nop OF_none)" by (simp add: base_defs wf_defs)
  have wf: "wf_instruction j"
    if "wide_transfer_form op l neg second (?start k) = Some j" "wide_transfer_kind op l = Some k"
      "\<not> ((k = I_str \<or> k = I_strb \<or> k = I_strh) \<and> (rn j = 15 \<or> rd j = 15)
          \<or> \<not> (k = I_str \<or> k = I_strb \<or> k = I_strh) \<and> rd j = 15 \<and> k \<noteq> I_ldr)" for op l neg k j
    using wide_transfer_form_props [OF that (1) start (5-8)] start (1-4) [of k] that (3)
      wide_transfer_kind_plain [OF that (2)]
    by (intro wf_wide_transfer) (simp_all only: insert_iff empty_iff simp_thms, blast+)
  show ?thesis
    unfolding decodeWideTransfer_def Let_def
    by (intro decodes_ok_option decodes_ok_if; simp only: decodes_ok_simps;
        (rule TrueI nop | (erule (2) wf)))
qed

lemma wide_table_branch_ok: "decodes_ok (wide_table_branch first second)"
  by (simp add: wide_table_branch_def Let_def base_defs wf_defs)

lemma wide_doubleword_ok: "decodes_ok (wide_doubleword first second)"
  by (simp add: wide_doubleword_def Let_def base_defs wf_defs)

lemma and_bit_16: "(x AND push_bit n 1 \<noteq> 0) = bit (x :: u16) n"
  by (rule and_pow2_ne_0)

lemma wf_multiple:
  assumes "k \<in> {I_ldm, I_stm, I_push, I_pop}" "l \<noteq> 0" "\<not> bit l 13" "n < 15"
    and "k \<in> {I_stm, I_push} \<longrightarrow> \<not> bit l 15"
  shows "wf_instruction
    ((base32 first second k OF_register_list)
       \<lparr>rn := n, register_list := l, writeback := wb, add := a, index := p\<rparr>)"
  using assms by (auto simp: wf_defs base_defs)

lemma wide_multiple_ok: "decodes_ok (wide_multiple first second)"
  unfolding wide_multiple_def Let_def and_bit_16
  by (intro decodes_ok_if; simp only: decodes_ok_simps;
      (rule TrueI | intro wf_multiple reg_15_lt; simp; blast?))

lemma decodeWideMultiple_ok: "decodes_ok (decodeWideMultiple first second)"
  unfolding decodeWideMultiple_def
  by (intro decodes_ok_if wide_table_branch_ok wide_doubleword_ok wide_multiple_ok)

lemma vfp_transfer_rd_ok: "vfp_transfer_rd sp d second = Some r \<Longrightarrow> r < 32"
  by (auto simp: vfp_transfer_rd_def split: if_splits)

lemma wf_vfp_single:
  assumes "k \<in> {I_vldr, I_vstr}" "\<not> 32 < d + (if dbl then 2 else 1)" "d < 32" "n < 16"
  shows "wf_instruction ((base32 first second k f)\<lparr>rn := n, add := a, imm := v, fp_double := dbl, rd := d\<rparr>)"
  using assms by (auto simp: wf_defs base_defs)

lemma wf_vfp_multiple:
  assumes "k \<in> {I_vldm, I_vstm}" "\<not> 32 < d + unat v" "d < 32" "v \<noteq> 0" "n < 15"
  shows "wf_instruction ((base32 first second k f)
    \<lparr>rn := n, rd := d, fp_double := dbl, imm := v, add := a, index := p, writeback := wb\<rparr>)"
  using assms by (auto simp: wf_defs base_defs unat_gt_0)

lemma decodeVfpMultiple_ok: "decodes_ok (decodeVfpMultiple first second)"
  unfolding decodeVfpMultiple_def Let_def
  by (intro decodes_ok_if decodes_ok_option; simp only: decodes_ok_simps;
      (rule TrueI | intro wf_vfp_single wf_vfp_multiple reg_15_lt; (erule vfp_transfer_rd_ok | simp)))

lemma vfp_registers [simp]: "vfpSd a b < 32" "vfpSn a b < 32" "vfpSm a < 32"
  by (simp_all add: vfpSd_def vfpSn_def vfpSm_def)

lemma vfp_core_move_ok: "decodes_ok (vfp_core_move first second)"
  unfolding vfp_core_move_def Let_def using reg_15_lt [of second 12]
  by (intro decodes_ok_if; cases "hw first AND 16 = 0"; simp add: base_defs wf_defs)

text \<open>Floating-point operations all of whose operands are single-precision registers.\<close>

definition fp_plain :: "InstrKind \<Rightarrow> bool" where
  "fp_plain k \<longleftrightarrow> k \<in> {I_vmov_single, I_vmov_immediate, I_vcvt_f32_s32, I_vcvt_f32_u32, I_vcvt_s32_f32,
     I_vcvt_u32_f32, I_vadd, I_vsub, I_vmul, I_vnmul, I_vdiv, I_vfma, I_vfms, I_vfnms, I_vcmp, I_vneg,
     I_vabs, I_vsqrt}"

lemma fp_plain_kinds:
  "fp_plain k \<Longrightarrow> k \<in> fp_operands \<and> k \<notin> {I_undefined, I_vmov_single_to_core, I_vmov_core_to_single,
     I_vldm, I_vstm, I_vldr, I_vstr, I_umull, I_smull, I_ldrd, I_strd, I_bfc, I_ubfx, I_mrs, I_msr, I_ldm, I_stm, I_push, I_pop, I_b,
      I_bl, I_cbz, I_cbnz}"
  unfolding fp_plain_def insert_iff empty_iff simp_thms
  by (elim disjE; simp add: fp_operands_def)

lemma wf_fp_plain:
  assumes "fp_plain (kind i)" "condition i = C_al" "rd i < 32" "rn i < 32" "rm i < 32" "ra i = 0"
    and "shift_amount i = 0" "\<not> writeback i"
  shows "wf_instruction i"
  using assms fp_plain_kinds [of "kind i"]
  by (simp add: wf_instruction_def registers_ok_def immediates_ok_def)

lemma vfp_binary_kind_plain: "vfp_binary_kind a b \<noteq> I_undefined \<Longrightarrow> fp_plain (vfp_binary_kind a b)"
  by (simp add: vfp_binary_kind_def fp_plain_def Let_def split: if_splits)

lemma vfp_unary_kind_plain: "vfp_unary_kind a b \<noteq> I_undefined \<Longrightarrow> fp_plain (vfp_unary_kind a b)"
  by (simp add: vfp_unary_kind_def fp_plain_def split: if_splits)

lemma fp_plain_simps: "fp_plain I_vcmp" "fp_plain I_vmov_immediate"
  by (simp_all add: fp_plain_def)

lemma vmrs_ok: "wf_instruction (base32 first second I_vmrs OF_none)"
  by (simp add: base_defs wf_defs)

lemma vfp_compare_or_binary_ok: "decodes_ok (vfp_compare_or_binary first second)"
  unfolding vfp_compare_or_binary_def Let_def
  by (intro decodes_ok_if; simp only: decodes_ok_simps;
      (rule TrueI | rule wf_fp_plain; simp add: base_defs vfp_binary_kind_plain fp_plain_simps))

lemma decodeVfpDataProcessing_ok: "decodes_ok (decodeVfpDataProcessing first second)"
  unfolding decodeVfpDataProcessing_def Let_def
  by (intro decodes_ok_if vfp_core_move_ok vfp_compare_or_binary_ok; simp only: decodes_ok_simps;
      (rule TrueI vmrs_ok | rule wf_fp_plain; simp add: base_defs vfp_unary_kind_plain fp_plain_simps))

lemmas row_ok =
  decodeShiftImmediate_ok decodeAddSubtract_ok decodeImmediate8_ok decodeDataProcessing_ok
  decodeSpecialData_ok decodeLiteralLoad_ok decodeRegisterTransfer_ok decodeImmediateTransfer_ok
  decodeSpTransfer_ok decodeAddressGeneration_ok decodeMiscellaneous_ok decodeMultiple_ok
  decodeConditionalBranch_ok decodeUnconditionalBranch_ok decodeAddSubWideImmediate_ok
  decodeMovWide_ok decodeDataProcessingImmediate_ok decodeBranchOrSystem_ok decodeBranchWide_ok
  decodeDataProcessingRegister_ok decodeRegisterShift_ok decodeExtendWide_ok decodeMultiply_ok
  decodeUmull_ok decodeUdiv_ok decodeParallelAddSelect_ok decodeClz_ok decodeBitfieldClear_ok
  decodeUbfx_ok decodeWideTransfer_ok decodeWideMultiple_ok decodeVfpMultiple_ok
  decodeVfpDataProcessing_ok

text \<open>The two decoders record the length of the encoding.\<close>

definition sized :: "bool \<Rightarrow> DecodedInstruction option \<Rightarrow> bool" where
  "sized wide r = pred_option (\<lambda>i. is_32bit i = wide) r"

lemma sized_simps:
  "sized wide None" "sized wide (Some i) \<longleftrightarrow> is_32bit i = wide"
  "sized wide (if c then a else b) \<longleftrightarrow> (if c then sized wide a else sized wide b)"
  by (simp_all add: sized_def)

lemma sized_option:
  "sized wide (case r of None \<Rightarrow> None | Some v \<Rightarrow> f v) \<longleftrightarrow> (\<forall>v. r = Some v \<longrightarrow> sized wide (f v))"
  by (cases r) (simp_all add: sized_simps)

lemma base_sizes: "\<not> is_32bit (base16 x k f)" "is_32bit (base32 first second k f)"
  by (simp_all add: base_defs)

lemmas sized_rules = sized_simps sized_option base_sizes Let_def

lemma narrow_sized:
  "sized False (decodeShiftImmediate x)" "sized False (decodeAddSubtract x)" "sized False (decodeImmediate8 x)"
  "sized False (decodeDataProcessing x)" "sized False (decodeSpecialData x)" "sized False (decodeLiteralLoad x)"
  "sized False (decodeRegisterTransfer x)" "sized False (decodeImmediateTransfer x)" "sized False (decodeSpTransfer x)"
  "sized False (decodeAddressGeneration x)" "sized False (decodeMultiple x)" "sized False (decodeConditionalBranch x)"
  "sized False (decodeUnconditionalBranch x)"
  unfolding decodeShiftImmediate_def decodeAddSubtract_def decodeImmediate8_def decodeDataProcessing_def
    decodeSpecialData_def decodeLiteralLoad_def decodeRegisterTransfer_def decodeImmediateTransfer_def
    decodeSpTransfer_def decodeAddressGeneration_def decodeMultiple_def decodeConditionalBranch_def
    decodeUnconditionalBranch_def
  by (simp_all add: sized_rules)

lemma misc_sized: "sized False (decodeMiscellaneous x)"
  by (simp add: decodeMiscellaneous_def misc_reverse_def misc_extend_def misc_hint_or_it_def misc_cps_def
      misc_compare_branch_def misc_push_def misc_pop_def misc_adjust_sp_def sized_rules)

lemma sized16: "decode16 h = Some i \<Longrightarrow> \<not> is_32bit i"
proof -
  have "list_all (\<lambda>p. sized False (pat_decode p h)) patterns16"
    by (simp add: patterns16_def row_def narrow_sized misc_sized)
  then have "sized False (decode16 h)"
    by (auto simp: decode16_def sized_simps list_all_iff find_Some_iff split: option.split dest: nth_mem)
  then show "decode16 h = Some i \<Longrightarrow> \<not> is_32bit i" by (simp add: sized_simps)
qed

lemma wide_transfer_sized:
  assumes "wide_transfer_form op l neg second i = Some j" "is_32bit i"
  shows "is_32bit j"
proof -
  have "sized True (wide_transfer_form op l neg second i)"
    using assms(2) by (simp add: wide_transfer_form_def Let_def sized_simps)
  then show ?thesis using assms(1) by (simp add: sized_simps)
qed

lemma decodeWideTransfer_sized: "sized True (decodeWideTransfer first second)"
  unfolding decodeWideTransfer_def Let_def
  by (auto simp: sized_option sized_simps base_sizes dest!: wide_transfer_sized)

lemma data_processing_sized:
  "sized True (decodeAddSubWideImmediate first second)" "sized True (decodeMovWide first second)"
  "sized True (decodeDataProcessingImmediate first second)" "sized True (decodeDataProcessingRegister first second)"
  "sized True (decodeRegisterShift first second)" "sized True (decodeExtendWide first second)"
  "sized True (decodeMultiply first second)" "sized True (decodeParallelAddSelect first second)"
  "sized True (decodeSmull first second)" "sized True (decodeUmull first second)"
  "sized True (decodeSdiv first second)" "sized True (decodeUdiv first second)"
  "sized True (decodeClz first second)" "sized True (decodeBitfieldClear first second)" "sized True (decodeUbfx first second)"
  by (simp_all add: sized_rules decodeAddSubWideImmediate_def decodeMovWide_def decodeDataProcessingImmediate_def
      decodeDataProcessingRegister_def decodeRegisterShift_def decodeExtendWide_def decodeMultiply_def
      decodeParallelAddSelect_def decodeSmull_def decodeUmull_def decodeSdiv_def decodeUdiv_def decodeClz_def
      decodeBitfieldClear_def decodeUbfx_def)

lemma branch_sized: "sized True (decodeBranchWide first second)"
  unfolding decodeBranchWide_def Let_def by (simp only: sized_simps) (simp add: base_sizes)

lemma system_sized: "sized True (decodeBranchOrSystem first second)"
  by (simp add: decodeBranchOrSystem_def decodeMrs_def decodeMsr_def decodeBarrier_def decodeNopWide_def branch_sized
      sized_rules)

lemma multiple_sized: "sized True (decodeWideMultiple first second)" "sized True (decodeVfpMultiple first second)"
proof -
  have "sized True (wide_table_branch first second)" "sized True (wide_doubleword first second)"
    "sized True (wide_multiple first second)"
    unfolding wide_table_branch_def wide_doubleword_def wide_multiple_def Let_def
    by (simp_all only: sized_simps) (simp_all add: base_sizes)
  then show "sized True (decodeWideMultiple first second)" by (simp add: decodeWideMultiple_def sized_simps)
  show "sized True (decodeVfpMultiple first second)"
    unfolding decodeVfpMultiple_def Let_def by (simp only: sized_simps sized_option) (simp add: base_sizes)
qed

lemma vfp_sized: "sized True (decodeVfpDataProcessing first second)"
  by (simp add: decodeVfpDataProcessing_def vfp_core_move_def vfp_compare_or_binary_def sized_rules)

lemma sized32: "decode32 first second = Some i \<Longrightarrow> is_32bit i"
proof -
  have "list_all (\<lambda>p. sized True (pat_decode p first second)) patterns32"
    by (simp add: patterns32_def row_def decodeWideTransfer_sized data_processing_sized branch_sized system_sized
        multiple_sized vfp_sized)
  then have "sized True (decode32 first second)"
    by (auto simp: decode32_def Let_def sized_simps list_all_iff find_Some_iff split: option.split dest: nth_mem)
  then show "decode32 first second = Some i \<Longrightarrow> is_32bit i" by (simp add: sized_simps)
qed

lemma decode16_ok: "decodes_ok (decode16 h)"
proof -
  have "list_all (\<lambda>p. decodes_ok (pat_decode p h)) patterns16"
    by (simp add: patterns16_def row_def row_ok)
  then show ?thesis
    by (auto simp: decode16_def list_all_iff find_Some_iff split: option.split dest: nth_mem)
qed

lemma decode32_ok: "decodes_ok (decode32 first second)"
proof -
  have "list_all (\<lambda>p. decodes_ok (pat_decode p first second)) patterns32"
    by (simp add: patterns32_def row_def row_ok)
  then show ?thesis
    by (auto simp: decode32_def Let_def list_all_iff find_Some_iff split: option.split dest: nth_mem)
qed

text \<open>
  C18. The decoder tables pass their own check, and the check means what the header
  promises: a halfword, or a pair of halfwords, matches at most one row, so decoding
  with the rows in any other order, or with rows repeated, gives the same result.
\<close>

theorem decoder_tables_unambiguous:
  "decoderTablesHaveNoOverlaps
   \<and> (\<forall>h i j. i < j \<and> j < length patterns16 \<longrightarrow>
        \<not> (matches h (patterns16 ! i) \<and> matches h (patterns16 ! j)))
   \<and> (\<forall>w i j. i < j \<and> j < length patterns32 \<longrightarrow>
        \<not> (matches w (patterns32 ! i) \<and> matches w (patterns32 ! j)))
   \<and> (\<forall>ps h. set ps = set patterns16 \<and> \<not> is32BitThumbPrefix h \<longrightarrow>
        decode16 h = (case find (matches h) ps of Some p \<Rightarrow> pat_decode p h | None \<Rightarrow> None))"
proof -
  have "decode16 h = (case find (matches h) ps of Some p \<Rightarrow> pat_decode p h | None \<Rightarrow> None)"
    if "set ps = set patterns16" "\<not> is32BitThumbPrefix h" for ps h
    using find_permute [OF patterns16_ok that (1), of h] that (2)
    by (simp add: decode16_def matches_def [abs_def])
  then show ?thesis
    unfolding decoderTablesHaveNoOverlaps_def
    using patterns16_ok patterns32_ok overlap_free_unique [OF patterns16_ok]
      overlap_free_unique [OF patterns32_ok]
    by blast
qed

theorem decoder_tables_unambiguous_witness:
  "0 < (3 :: nat) \<and> 3 < length patterns16 \<and> matches 0x1840 (patterns16 ! 3)
   \<and> \<not> matches 0x1840 (patterns16 ! 0)
   \<and> set (rev patterns16) = set patterns16 \<and> \<not> is32BitThumbPrefix 0x1840
   \<and> decode16 0x1840 = (case find (matches 0x1840) (rev patterns16) of Some p \<Rightarrow> pat_decode p 0x1840 | None \<Rightarrow> None)"
proof -
  have l: "3 < length patterns16" and m: "matches 0x1840 (patterns16 ! 3)" and n: "\<not> is32BitThumbPrefix 0x1840"
    by (simp_all add: patterns16_def row_def matches_def is32BitThumbPrefix_def)
  have "\<not> (matches h (patterns16 ! i) \<and> matches h (patterns16 ! j))"
    if "i < j" "j < length patterns16" for h i j
    using decoder_tables_unambiguous that by blast
  from this [of 0 3 "0x1840"] l m have "\<not> matches 0x1840 (patterns16 ! 0)" by simp
  moreover from n decoder_tables_unambiguous
  have "decode16 0x1840 = (case find (matches 0x1840) (rev patterns16) of Some p \<Rightarrow> pat_decode p 0x1840 | None \<Rightarrow> None)"
    by (metis set_rev)
  ultimately show ?thesis using l m n by simp
qed

text \<open>
  C17. Every instruction the decoders accept records the length of its encoding and is
  well-formed: its operation is defined and its condition is never the reserved one; core
  register numbers are below 16 and single-precision register numbers, including every
  register of a multiple transfer, below 32; bit fields lie inside a word; special
  registers are ones the executor supports; a register list is not empty and does not
  contain the stack pointer. The offset of a branch is even and within the reach of its
  own encoding (256 bytes or 2 KiB for the 16-bit branch with and without a condition,
  1 MiB or 16 MiB for the 32-bit one and for calls), and the forward offset of a compare
  and branch is even and at most 126.
\<close>

theorem decoded_instructions_are_well_formed:
  "(decode16 h = Some i \<longrightarrow> wf_instruction i \<and> \<not> is_32bit i)
   \<and> (decode32 first second = Some i \<longrightarrow> wf_instruction i \<and> is_32bit i)"
  using decode16_ok [of h] decode32_ok [of first second] sized16 [of h i] sized32 [of first second i]
  by (auto simp: decodes_ok_def)

theorem decoded_instructions_are_well_formed_witness:
  "decode16 0xd0fe = decodeConditionalBranch 0xd0fe
   \<and> (\<exists>i. decode16 0xd0fe = Some i \<and> kind i = I_b \<and> condition i = C_eq \<and> \<not> is_32bit i
        \<and> wf_instruction i \<and> branch_reach i = 256 \<and> branch_offset i = - 4)"
proof -
  have d: "decode16 0xd0fe = decodeConditionalBranch 0xd0fe"
    by (simp add: decode16_def is32BitThumbPrefix_def patterns16_def row_def)
  obtain i where i: "decodeConditionalBranch 0xd0fe = Some i" "kind i = I_b" "condition i = C_eq" "branch_offset i = - 4"
    by (simp add: decodeConditionalBranch_def Let_def field_def base_defs condition_of_def signExtend_def)
  then have "wf_instruction i \<and> \<not> is_32bit i" using d decoded_instructions_are_well_formed [of "0xd0fe" i] by simp
  then show ?thesis using d i by (auto simp: branch_reach_def)
qed

section \<open>Calls decode to the offset they encode\<close>

definition bl_first :: "int \<Rightarrow> u16" where
  "bl_first off =
     (let v = word_of_int off :: u32
      in 0xf000 OR push_bit 10 (of_bool (bit v 24)) OR (ucast (drop_bit 12 v) AND 0x3ff))"

definition bl_second :: "int \<Rightarrow> u16" where
  "bl_second off =
     (let v = word_of_int off :: u32
      in 0xd000 OR push_bit 13 (of_bool (bit v 23 = bit v 24))
         OR push_bit 11 (of_bool (bit v 22 = bit v 24)) OR (ucast (drop_bit 1 v) AND 0x7ff))"

lemma all_less_16: "(\<forall>n < 16. P n) \<longleftrightarrow> P 0 \<and> P 1 \<and> P 2 \<and> P 3 \<and> P 4 \<and> P 5 \<and> P 6 \<and> P 7 \<and> P 8 \<and> P 9 \<and> P 10 \<and> P 11 \<and> P 12 \<and> P 13 \<and> P 14 \<and> P (15::nat)"
  by (simp add: numeral_eq_Suc All_less_Suc conj_ac)

lemma bl_first_bits: "n < 16 \<Longrightarrow> bit (bl_first off) n \<longleftrightarrow>
   n \<in> {12, 13, 14, 15} \<or> n = 10 \<and> bit (word_of_int off :: u32) 24 \<or> n < 10 \<and> bit (word_of_int off :: u32) (n + 12)"
proof -
  have "\<forall>n < 16. bit (bl_first off) n \<longleftrightarrow>
   n \<in> {12, 13, 14, 15} \<or> n = 10 \<and> bit (word_of_int off :: u32) 24 \<or> n < 10 \<and> bit (word_of_int off :: u32) (n + 12)"
    unfolding all_less_16 by (simp add: bl_first_def Let_def bit_or_iff bit_and_iff bit_push_bit_iff bit_ucast_iff bit_drop_bit_eq)
  then show "n < 16 \<Longrightarrow> ?thesis" by blast
qed

lemma bl_second_bits: "n < 16 \<Longrightarrow> bit (bl_second off) n \<longleftrightarrow>
   n \<in> {12, 14, 15} \<or> n = 13 \<and> bit (word_of_int off :: u32) 23 = bit (word_of_int off :: u32) 24
    \<or> n = 11 \<and> bit (word_of_int off :: u32) 22 = bit (word_of_int off :: u32) 24
    \<or> n < 11 \<and> bit (word_of_int off :: u32) (n + 1)"
proof -
  have "\<forall>n < 16. bit (bl_second off) n \<longleftrightarrow>
   n \<in> {12, 14, 15} \<or> n = 13 \<and> bit (word_of_int off :: u32) 23 = bit (word_of_int off :: u32) 24
    \<or> n = 11 \<and> bit (word_of_int off :: u32) 22 = bit (word_of_int off :: u32) 24
    \<or> n < 11 \<and> bit (word_of_int off :: u32) (n + 1)"
    unfolding all_less_16 by (simp add: bl_second_def Let_def bit_or_iff bit_and_iff bit_push_bit_iff bit_ucast_iff bit_drop_bit_eq numeral_3_eq_3)
  then show "n < 16 \<Longrightarrow> ?thesis" by blast
qed

lemma u32_bits_iff: "v = w \<longleftrightarrow> (\<forall>n < 32. bit v n = bit (w :: u32) n)"
  using word_bits_iff [of v w] by simp

lemma u16_no_bit: "16 \<le> n \<Longrightarrow> \<not> bit (w :: u16) n"
  using bit_imp_le_length [of w n] by auto

lemma bl_prefix: "is32BitThumbPrefix (bl_first off)"
proof -
  have "hw (bl_first off) AND 0xf800 = 0xf000"
    unfolding u32_bits_iff all_less_32
    by (simp add: bit_and_iff bit_ucast_iff bl_first_bits)
  then show ?thesis by (simp add: is32BitThumbPrefix_def)
qed

lemma bl_row:
  "matches (push_bit 16 (hw (bl_first off)) OR hw (bl_second off)) (row 0xf800d000 0xf000d000 decodeBranchWide)"
  unfolding matches_def row_def u32_bits_iff all_less_32
  by (simp add: bit_and_iff bit_or_iff bit_push_bit_iff bit_ucast_iff bl_first_bits bl_second_bits u16_no_bit)

lemma bl_fields:
  assumes "even off"
  defines "f \<equiv> bl_first off" and "g \<equiv> bl_second off"
  shows "take_bit 25 (push_bit 24 (field f 10 1)
    OR push_bit 23 (NOT (field g 13 1 XOR field f 10 1) AND 1)
    OR push_bit 22 (NOT (field g 11 1 XOR field f 10 1) AND 1)
    OR push_bit 12 (hw f AND 0x03ff) OR push_bit 1 (hw g AND 0x07ff)) = take_bit 25 (word_of_int off :: u32)"
proof -
  have "\<not> bit (word_of_int off :: u32) 0" using assms (1) by (simp add: bit_word_of_int_iff) (simp add: bit_0)
  then show ?thesis
    unfolding u32_bits_iff all_less_32 f_def g_def
    by (simp add: field_def bit_take_bit_iff bit_and_iff bit_or_iff bit_xor_iff bit_not_iff bit_push_bit_iff
        bit_drop_bit_eq bit_ucast_iff bl_first_bits bl_second_bits bit_times_2) (auto simp: numeral_2_eq_2)
qed

lemma signExtend_offset:
  assumes "take_bit 25 v = take_bit 25 (word_of_int off :: u32)" "- (2 ^ 24) \<le> off" "off < 2 ^ 24"
  shows "signExtend 25 v = off"
proof -
  have "take_bit 25 (uint v) = take_bit 25 (uint (word_of_int off :: u32))"
    using assms (1) by (metis unsigned_take_bit_eq)
  also have "\<dots> = take_bit 25 off" by (simp add: unsigned_of_int)
  finally have "signed_take_bit 24 (uint v) = signed_take_bit 24 off"
    by (simp add: signed_take_bit_eq_iff_take_bit_eq)
  also have "\<dots> = off" using assms (2,3) by (simp add: signed_take_bit_int_eq_self)
  finally show ?thesis by (simp add: signExtend_eq)
qed

text \<open>
  C19. Every call offset survives its encoding: for each even offset of at most 16 MiB in
  either direction, the two halfwords that encode \<open>BL\<close> with that offset decode to an
  unconditional \<open>bl\<close> with exactly that offset.
\<close>

theorem bl_encoding_roundtrip:
  assumes "even off" "- (2 ^ 24) \<le> off" "off < 2 ^ 24"
  shows "\<exists>i. decode32 (bl_first off) (bl_second off) = Some i \<and> kind i = I_bl \<and> condition i = C_al
    \<and> branch_offset i = off"
proof -
  let ?f = "bl_first off" and ?g = "bl_second off"
  have c: "hw ?g AND 0x1000 \<noteq> 0" and l: "hw ?g AND 0x4000 \<noteq> 0"
    using and_pow2_ne_0 [of "hw ?g" 12] and_pow2_ne_0 [of "hw ?g" 14]
    by (simp_all add: bit_ucast_iff bl_second_bits)
  have "decode32 ?f ?g = decodeBranchWide ?f ?g"
    using decode32_row [OF bl_prefix _ bl_row, of off] by (simp add: patterns32_def row_def)
  then show ?thesis
    using c l signExtend_offset [OF bl_fields [OF assms (1)] assms (2,3)]
    unfolding decodeBranchWide_def Let_def by (simp add: base_defs)
qed

theorem bl_encoding_roundtrip_witness:
  "even (- 4 :: int) \<and> - (2 ^ 24) \<le> (- 4 :: int) \<and> (- 4 :: int) < 2 ^ 24
   \<and> (\<exists>i. decode32 (bl_first (- 4)) (bl_second (- 4)) = Some i \<and> branch_offset i = - 4)"
  using bl_encoding_roundtrip [of "- 4"] by auto

text \<open>
  The word form of a literal load honours the \<open>U\<close> bit of its encoding; the byte form
  with the same operands does not: \<open>LDR r1, [pc, #-4]\<close> subtracts its offset and
  \<open>LDRB r1, [pc, #-4]\<close> adds it.
\<close>

lemma byte_literal_ignores_U:
  "map_option (\<lambda>i. (kind i = I_ldr, add i, imm i)) (decode32 0xf85f 0x1004) = Some (True, False, 4)"
  "map_option (\<lambda>i. (kind i = I_ldrb, add i, imm i)) (decode32 0xf81f 0x1004) = Some (True, True, 4)"
proof -
  have "decode32 f 0x1004 = decodeWideTransfer f 0x1004" if "f \<in> {0xf85f, 0xf81f}" for f
    using that decode32_row [of f "row 0xfe000000 0xf8000000 decodeWideTransfer" "0x1004"]
    by (auto simp: is32BitThumbPrefix_def patterns32_def row_def matches_def)
  then show
    "map_option (\<lambda>i. (kind i = I_ldr, add i, imm i)) (decode32 0xf85f 0x1004) = Some (True, False, 4)"
    "map_option (\<lambda>i. (kind i = I_ldrb, add i, imm i)) (decode32 0xf81f 0x1004) = Some (True, True, 4)"
    by (simp_all add: decodeWideTransfer_def wide_transfer_kind_def wide_transfer_form_def base_defs
        reg_def field_def)
qed

end
