(* ===== verification/Common.thy ===== *)
theory Common
  imports Prelude
begin

text \<open>
  The helpers of \<open>src/common\<close> and \<open>include/fil/common\<close>: structured errors and their
  text, checked integer arithmetic, and hexadecimal formatting of target values.
\<close>

section \<open>Errors and results\<close>

datatype ErrorCategory =
    EC_invalid_argument
  | EC_io
  | EC_parse
  | EC_config
  | EC_unsupported
  | EC_runtime
  | EC_internal

record SourceContext =
  src_path :: string
  src_line :: nat
  src_column :: nat

record Error =
  category :: ErrorCategory
  err_message :: string
  err_source :: "SourceContext option"

text \<open>\<open>Result<T>\<close> holds a value or an error; \<open>Inl\<close> is the error.\<close>

type_synonym 'a Result = "Error + 'a"

definition mk_error :: "ErrorCategory \<Rightarrow> string \<Rightarrow> Error" where
  "mk_error c m = \<lparr>category = c, err_message = m, err_source = None\<rparr>"

text \<open>Decimal output of an \<open>ostream\<close>.\<close>

fun decDigits :: "nat \<Rightarrow> string" where
  "decDigits n = (if n < 10 then [char_of (48 + n)] else decDigits (n div 10) @ [char_of (48 + n mod 10)])"

declare decDigits.simps [simp del]

definition formatError :: "Error \<Rightarrow> string" where
  "formatError e =
     (case err_source e of
        None \<Rightarrow> []
      | Some s \<Rightarrow>
          src_path s
          @ (if src_line s \<noteq> 0
             then '':'' @ decDigits (src_line s)
               @ (if src_column s \<noteq> 0 then '':'' @ decDigits (src_column s) else [])
             else [])
          @ '': '')
     @ err_message e"

section \<open>Checked integers\<close>

definition saturatingAdd :: "u64 \<Rightarrow> u64 \<Rightarrow> u64" where
  "saturatingAdd left right =
     (if right > -1 - left then -1 else left + right)"

definition rangeFits :: "u32 \<Rightarrow> u32 \<Rightarrow> u32 \<Rightarrow> bool" where
  "rangeFits offset sz tot \<longleftrightarrow> offset \<le> tot \<and> sz \<le> tot - offset"

lemma rangeFits_iff: "rangeFits offset n tot \<longleftrightarrow> unat offset + unat n \<le> unat tot"
  by (auto simp: rangeFits_def word_le_nat_alt unat_sub_le)

text \<open>The clamped sum never wraps and is the exact sum capped at the largest value.\<close>

lemma unat_saturatingAdd:
  "unat (saturatingAdd a b) = min (unat a + unat b) (2 ^ 64 - 1)"
proof -
  have m: "unat (-1 - a) = 2 ^ 64 - 1 - unat a"
    by (simp add: unat_sub_le unsigned_minus_1_eq_mask mask_eq_exp_minus_1)
  show ?thesis
  proof (cases "b > -1 - a")
    case True
    with m have "2 ^ 64 - 1 < unat a + unat b" by (simp add: word_less_nat_alt)
    with True show ?thesis by (simp add: saturatingAdd_def unsigned_minus_1_eq_mask mask_eq_exp_minus_1)
  next
    case False
    then have "unat b \<le> 18446744073709551615 - unat a" by (simp add: word_less_nat_alt m)
    with unat_lt_64 [of a] have le: "unat a + unat b \<le> 18446744073709551615" by linarith
    then have "unat (a + b) = unat a + unat b" by (simp add: unat_word_ariths)
    with False le show ?thesis by (simp add: saturatingAdd_def)
  qed
qed

section \<open>Hexadecimal formatting\<close>

definition hexDigit :: "nat \<Rightarrow> char" where
  "hexDigit d = char_of (if d < 10 then 48 + d else 87 + d)"

text \<open>\<open>std::to_chars(..., value, 16)\<close>: lower-case digits without leading zeros.\<close>

fun hexDigits :: "nat \<Rightarrow> string" where
  "hexDigits n = (if n < 16 then [hexDigit n] else hexDigits (n div 16) @ [hexDigit (n mod 16)])"

declare hexDigits.simps [simp del]

definition hexValue :: "u64 \<Rightarrow> u32 \<Rightarrow> string" where
  "hexValue value minimum_digits =
     (let digits = hexDigits (unat value);
          digit_count = length digits;
          width = min (unat minimum_digits) 16
      in if digit_count > 16 then ''0x0''
         else ''0x'' @ (if width > digit_count then replicate (width - digit_count) (CHR ''0'') else []) @ digits)"

definition hex32 :: "u32 \<Rightarrow> string" where
  "hex32 value = hexValue (ucast value) 8"

text \<open>Reading a digit string back, for the round trip.\<close>

definition hexDigitValue :: "char \<Rightarrow> nat" where
  "hexDigitValue c = (let n = of_char c in if n < 58 then n - 48 else n - 87)"

definition readHex :: "string \<Rightarrow> nat" where
  "readHex cs = foldl (\<lambda>acc c. acc * 16 + hexDigitValue c) 0 cs"

lemma hexDigitValue_hexDigit: "d < 16 \<Longrightarrow> hexDigitValue (hexDigit d) = d"
  by (auto simp: hexDigitValue_def hexDigit_def Let_def)

lemma readHex_snoc: "readHex (cs @ [c]) = readHex cs * 16 + hexDigitValue c"
  by (simp add: readHex_def)

lemma readHex_zeros: "readHex (replicate n (CHR ''0'') @ cs) = readHex cs"
  by (induction n) (simp_all add: readHex_def hexDigitValue_def)

lemma readHex_hexDigits: "readHex (hexDigits n) = n"
proof (induction n rule: hexDigits.induct)
  case (1 n)
  show ?case
  proof (cases "n < 16")
    case True
    then show ?thesis
      by (subst hexDigits.simps) (simp add: readHex_def hexDigitValue_hexDigit)
  next
    case False
    then show ?thesis using "1.IH"
      by (subst hexDigits.simps) (simp add: readHex_snoc hexDigitValue_hexDigit)
  qed
qed

lemma length_hexDigits: "n < 16 ^ k \<Longrightarrow> 0 < k \<Longrightarrow> length (hexDigits n) \<le> k"
proof (induction n arbitrary: k rule: hexDigits.induct)
  case (1 n)
  show ?case
  proof (cases "n < 16")
    case True
    then show ?thesis using "1.prems" by (subst hexDigits.simps) simp
  next
    case False
    with "1.prems" obtain j where k: "k = Suc j" and j: "0 < j"
      by (cases k; cases "k - 1") auto
    with "1.prems" have "n div 16 < 16 ^ j" by (simp add: less_mult_imp_div_less mult.commute)
    with "1.IH" [OF False this j] False k show ?thesis by (subst hexDigits.simps) simp
  qed
qed

lemma hexDigits_nonempty: "hexDigits n \<noteq> []"
  by (subst hexDigits.simps) simp

lemma hexValue_reads_back: "readHex (drop 2 (hexValue v n)) = unat v"
proof -
  have "length (hexDigits (unat v)) \<le> 16"
    by (rule length_hexDigits) simp_all
  then show ?thesis
    by (simp add: hexValue_def Let_def readHex_zeros readHex_hexDigits)
qed

text \<open>
  A target word is printed as \<open>0x\<close> and exactly eight digits, and the digits read back
  as the word.
\<close>

lemma hex32_roundtrip: "length (hex32 v) = 10 \<and> take 2 (hex32 v) = ''0x'' \<and> readHex (drop 2 (hex32 v)) = unat v"
proof -
  have u: "unat (ucast v :: u64) = unat v"
    by (simp add: unsigned_ucast_eq take_bit_nat_eq_self unsigned_less [THEN order_less_le_trans])
  have le8: "length (hexDigits (unat v)) \<le> 8"
    by (rule length_hexDigits) simp_all
  then have "hex32 v = ''0x'' @ replicate (8 - length (hexDigits (unat v))) (CHR ''0'') @ hexDigits (unat v)"
    by (auto simp: hex32_def hexValue_def Let_def u)
  with le8 show ?thesis by (simp add: readHex_zeros readHex_hexDigits)
qed

end
