(* ===== verification/Address.thy ===== *)
theory Address
  imports Common
begin

text \<open>
  \<open>include/fil/mem/address.hpp\<close>, \<open>src/mem/address.cpp\<close>, \<open>include/fil/mem/region.hpp\<close> and
  the device interface of \<open>include/fil/mem/memory_bus.hpp\<close>: access kinds and widths,
  structured bus faults, region metadata and memory-mapped devices.
\<close>

section \<open>Accesses and faults\<close>

datatype AccessType = AT_instruction_fetch | AT_data_read | AT_data_write | AT_debug

datatype AccessSize = AS_byte | AS_halfword | AS_word | AS_doubleword

datatype BusFaultReason =
    BF_address_overflow
  | BF_unmapped
  | BF_cross_region
  | BF_read_protected
  | BF_write_protected
  | BF_execute_protected
  | BF_alias_cycle
  | BF_device_error
  | BF_synchronization_required

record AccessContext =
  ctx_type :: AccessType
  ctx_pc :: u32

record BusFault =
  reason :: BusFaultReason
  fault_address :: u32
  fault_size :: AccessSize
  fault_context :: AccessContext
  fault_region :: string
  fault_message :: string

text \<open>\<open>MemoryResult<T>\<close> holds a value or a bus fault; \<open>Inl\<close> is the fault.\<close>

type_synonym 'a MemoryResult = "BusFault + 'a"

fun byteCount :: "AccessSize \<Rightarrow> nat" where
  "byteCount AS_byte = 1"
| "byteCount AS_halfword = 2"
| "byteCount AS_word = 4"
| "byteCount AS_doubleword = 8"

text \<open>Every value of the enumeration is a supported width, so the mask is never the empty one.\<close>

definition accessWidthMask :: "AccessSize \<Rightarrow> u64" where
  "accessWidthMask sz =
     (if sz = AS_doubleword then -1 else push_bit (byteCount sz * 8) 1 - 1)"

lemma accessWidthMask_eq_mask: "accessWidthMask sz = mask (8 * byteCount sz)"
  by (cases sz) (simp_all add: accessWidthMask_def mask_eq_exp_minus_1 push_bit_eq_mult)

fun accessTypeName :: "AccessType \<Rightarrow> string" where
  "accessTypeName AT_instruction_fetch = ''instruction fetch''"
| "accessTypeName AT_data_read = ''data read''"
| "accessTypeName AT_data_write = ''data write''"
| "accessTypeName AT_debug = ''debug access''"

definition formatBusFault :: "BusFault \<Rightarrow> string" where
  "formatBusFault f =
     fault_message f @ '' ('' @ accessTypeName (ctx_type (fault_context f))
     @ '', address='' @ hex32 (fault_address f)
     @ '', size='' @ decDigits (byteCount (fault_size f))
     @ (if ctx_pc (fault_context f) \<noteq> 0 then '', pc='' @ hex32 (ctx_pc (fault_context f)) else [])
     @ (if fault_region f \<noteq> [] then '', region='' @ fault_region f else [])
     @ '')''"

definition makeFault ::
  "BusFaultReason \<Rightarrow> u32 \<Rightarrow> AccessSize \<Rightarrow> AccessContext \<Rightarrow> string \<Rightarrow> string \<Rightarrow> BusFault" where
  "makeFault r a sz ctx region msg =
     \<lparr>reason = r, fault_address = a, fault_size = sz, fault_context = ctx,
      fault_region = region, fault_message = msg\<rparr>"

lemma reason_makeFault [simp]: "reason (makeFault r a sz ctx region msg) = r"
  by (simp add: makeFault_def)

lemma byteCount_pos [simp]: "0 < byteCount sz"
  by (cases sz) simp_all

lemma byteCount_le_8: "byteCount sz \<le> 8"
  by (cases sz) simp_all

section \<open>Regions\<close>

datatype RegionKind = RK_ram | RK_rom | RK_flash | RK_alias | RK_mmio

record MemoryRegionInfo =
  base :: u32
  rsize :: u32
  rkind :: RegionKind
  rname :: string
  readable :: bool
  writable :: bool
  executable :: bool

text \<open>
  A mapped region. \<open>device\<close> identifies the caller-owned device of an MMIO region (the
  pointer of the source); it is \<open>0\<close> for the other kinds, which never use it.
\<close>

record Region =
  info :: MemoryRegionInfo
  bytes :: "u8 list"
  alias_target :: u32
  device :: nat

definition region_end :: "Region \<Rightarrow> nat" where
  "region_end r = unat (base (info r)) + unat (rsize (info r))"

definition contains :: "Region \<Rightarrow> u32 \<Rightarrow> bool" where
  "contains r a \<longleftrightarrow> a \<ge> base (info r) \<and> unat a < region_end r"

definition containsRange :: "Region \<Rightarrow> u32 \<Rightarrow> nat \<Rightarrow> bool" where
  "containsRange r a n \<longleftrightarrow> a \<ge> base (info r) \<and> unat a + n \<le> region_end r"

text \<open>The kinds whose bytes live in the region itself.\<close>

definition backed :: "RegionKind \<Rightarrow> bool" where
  [enum_defs]: "backed k \<longleftrightarrow> k = RK_ram \<or> k = RK_rom \<or> k = RK_flash"

text \<open>A nonempty target range that does not wrap the 32-bit address space.\<close>

definition validRange :: "u32 \<Rightarrow> u32 \<Rightarrow> bool" where
  "validRange b n \<longleftrightarrow> n \<noteq> 0 \<and> b \<le> -1 - (n - 1)"

lemma validRange_iff: "validRange b n \<longleftrightarrow> n \<noteq> 0 \<and> unat b + unat n \<le> 2 ^ 32"
proof (cases "n = 0")
  case True
  then show ?thesis by (simp add: validRange_def)
next
  case False
  then have n1: "unat (n - 1) = unat n - 1" by (simp add: unat_minus_one)
  have "0 < unat n" using False by (simp add: unat_gt_0)
  have "unat (-1 - (n - 1)) = 4294967295 - (unat n - 1)"
    by (subst unat_sub_le) (simp_all add: n1 unsigned_minus_1_eq_mask mask_eq_exp_minus_1)
  with False \<open>0 < unat n\<close> unat_max_32 [of n] show ?thesis
    by (auto simp: validRange_def word_le_nat_alt)
qed

lemma contains_range1: "containsRange r a n \<Longrightarrow> 0 < n \<Longrightarrow> contains r a"
  by (simp add: contains_def containsRange_def)

section \<open>Memory-mapped devices\<close>

datatype MmioDomain = MD_board_local | MD_shared

text \<open>
  The virtual methods of \<open>MmioDevice\<close>. Devices are caller-owned objects; \<open>'d\<close> is the
  state of all of them and the first argument of each method names the object it is
  called on. \<open>dev_domain\<close> is the \<open>const\<close> classification used for lane synchronisation.
\<close>

record 'd MmioDevice =
  dev_read :: "nat \<Rightarrow> u32 \<Rightarrow> AccessSize \<Rightarrow> AccessContext \<Rightarrow> 'd \<Rightarrow> u64 MemoryResult \<times> 'd"
  dev_write :: "nat \<Rightarrow> u32 \<Rightarrow> AccessSize \<Rightarrow> u64 \<Rightarrow> AccessContext \<Rightarrow> 'd \<Rightarrow> u64 MemoryResult \<times> 'd"
  dev_domain :: "nat \<Rightarrow> u32 \<Rightarrow> AccessSize \<Rightarrow> 'd \<Rightarrow> MmioDomain"

end
