(* ===== verification/Memory_Bus.thy ===== *)
theory Memory_Bus
  imports Address
begin

text \<open>
  \<open>src/mem/memory_bus.cpp\<close>: the target address map. Regions are kept sorted and
  non-overlapping; RAM, ROM and flash are backed by bytes, aliases translate, MMIO
  regions dispatch to a device once. The bus also keeps what the reversible execution
  of the emulator needs: generation counters, a ring journal of overwritten bytes, a
  256-bit footprint of the words read, and a log of data accesses for watchpoints.

  This theory holds the state and the operations. The host is little-endian, the case
  the source selects with \<open>std::endian::native\<close>; the big-endian fallbacks are byte swaps
  of the same values.
\<close>

section \<open>State\<close>

record SideEffectCheckpoint =
  cp_mutation_sequence :: u64
  cp_mmio_generation :: u64
  cp_journal_generation :: u64

record ReadFootprint =
  words :: "nat \<Rightarrow> u64"
  complete :: bool

record BackedMutation =
  mut_address :: u32
  old_value :: u8
  external :: bool

record AccessWatchEntry =
  watch_address :: u32
  watch_width :: u8
  watch_write :: bool

record 'd MemoryBus =
  regions :: "Region list"
  execution_generation :: u64
  side_effect_generation :: u64
  mmio_generation :: u64
  mutation_sequence :: u64
  journal_generation :: u64
  restoration_generation :: u64
  write_journal_tracking :: bool
  mutation_journal :: "nat \<Rightarrow> BackedMutation"
  read_footprint :: ReadFootprint
  read_footprint_tracking :: bool
  access_watch_log :: "AccessWatchEntry list"
  access_watch_log_enabled :: bool
  store_footprint_tracking :: bool
  trap_shared_mmio :: bool
  trap_all_mmio :: bool
  reversible_ram_only :: bool
  devices :: 'd

abbreviation (input) mutation_journal_capacity :: nat where
  "mutation_journal_capacity \<equiv> 8192"

abbreviation (input) maximum_alias_depth :: nat where
  "maximum_alias_depth \<equiv> 8"

definition empty_footprint :: "bool \<Rightarrow> ReadFootprint" where
  "empty_footprint c = \<lparr>words = (\<lambda>_. 0), complete = c\<rparr>"

definition empty_mutation :: BackedMutation where
  "empty_mutation = \<lparr>mut_address = 0, old_value = 0, external = False\<rparr>"

definition new_MemoryBus :: "'d \<Rightarrow> 'd MemoryBus" where
  "new_MemoryBus d =
     \<lparr>regions = [], execution_generation = 1, side_effect_generation = 1,
      mmio_generation = 1, mutation_sequence = 0, journal_generation = 1,
      restoration_generation = 0, write_journal_tracking = True,
      mutation_journal = (\<lambda>_. empty_mutation), read_footprint = empty_footprint True,
      read_footprint_tracking = True, access_watch_log = [],
      access_watch_log_enabled = False, store_footprint_tracking = False,
      trap_shared_mmio = False, trap_all_mmio = False, reversible_ram_only = False,
      devices = d\<rparr>"

section \<open>Tracking modes\<close>

definition setReadFootprintTracking :: "bool \<Rightarrow> 'd MemoryBus \<Rightarrow> 'd MemoryBus" where
  "setReadFootprintTracking enabled bus =
     (if read_footprint_tracking bus = enabled then bus
      else bus\<lparr>read_footprint_tracking := enabled, read_footprint := empty_footprint enabled\<rparr>)"

definition setAccessWatchLog :: "bool \<Rightarrow> 'd MemoryBus \<Rightarrow> 'd MemoryBus" where
  "setAccessWatchLog enabled bus =
     bus\<lparr>access_watch_log_enabled := enabled, access_watch_log := []\<rparr>"

definition setWriteJournalTracking :: "bool \<Rightarrow> 'd MemoryBus \<Rightarrow> 'd MemoryBus" where
  "setWriteJournalTracking enabled bus =
     (if write_journal_tracking bus = enabled then bus
      else bus\<lparr>write_journal_tracking := enabled,
               journal_generation := journal_generation bus + 1\<rparr>)"

text \<open>The scope object \<open>TrackingScope\<close>: entering returns the modes to restore on exit.\<close>

definition TrackingScope_enter :: "bool \<Rightarrow> bool \<Rightarrow> 'd MemoryBus \<Rightarrow> (bool \<times> bool) \<times> 'd MemoryBus" where
  "TrackingScope_enter read_footprints write_journal bus =
     ((read_footprint_tracking bus, write_journal_tracking bus),
      setWriteJournalTracking write_journal (setReadFootprintTracking read_footprints bus))"

definition TrackingScope_exit :: "bool \<times> bool \<Rightarrow> 'd MemoryBus \<Rightarrow> 'd MemoryBus" where
  "TrackingScope_exit previous bus =
     setReadFootprintTracking (fst previous) (setWriteJournalTracking (snd previous) bus)"

definition StoreFootprintScope_enter :: "'d MemoryBus \<Rightarrow> bool \<times> 'd MemoryBus" where
  "StoreFootprintScope_enter bus =
     (store_footprint_tracking bus, bus\<lparr>store_footprint_tracking := True\<rparr>)"

definition StoreFootprintScope_exit :: "bool \<Rightarrow> 'd MemoryBus \<Rightarrow> 'd MemoryBus" where
  "StoreFootprintScope_exit previous bus = bus\<lparr>store_footprint_tracking := previous\<rparr>"

section \<open>Mutation journal\<close>

text \<open>The ring slot of mutation number \<open>sequence\<close> (one-based) is \<open>(sequence - 1) % 8192\<close>.\<close>

definition journal_slot :: "u64 \<Rightarrow> nat" where
  "journal_slot sequence = unat (sequence - 1) mod mutation_journal_capacity"

definition recordMutation :: "u32 \<Rightarrow> u8 \<Rightarrow> bool \<Rightarrow> 'd MemoryBus \<Rightarrow> 'd MemoryBus" where
  "recordMutation a old ext bus =
     (let bus1 = bus\<lparr>mutation_sequence := mutation_sequence bus + 1\<rparr>
      in if write_journal_tracking bus1
         then bus1\<lparr>mutation_journal := (mutation_journal bus1)
                (journal_slot (mutation_sequence bus1) :=
                   \<lparr>mut_address = a, old_value = old, external = ext\<rparr>)\<rparr>
         else bus1)"

section \<open>Bytes of a region\<close>

text \<open>\<open>decodeLittleEndianBytes\<close> and the \<open>memcpy\<close> of a little-endian host.\<close>

definition decodeLittleEndianBytes :: "u8 list \<Rightarrow> nat \<Rightarrow> nat \<Rightarrow> u64" where
  "decodeLittleEndianBytes bs offset width =
     foldl (\<lambda>value index. value OR push_bit (index * 8) (ucast (bs ! (offset + index)))) 0 [0..<width]"

definition set_bytes :: "nat \<Rightarrow> u8 list \<Rightarrow> 'd MemoryBus \<Rightarrow> 'd MemoryBus" where
  "set_bytes ri bs bus =
     bus\<lparr>regions := (regions bus)[ri := (regions bus ! ri)\<lparr>bytes := bs\<rparr>]\<rparr>"

text \<open>
  One byte of the checked store loop: a changed byte is journaled and counted, then
  stored.
\<close>

definition storeByte :: "nat \<Rightarrow> nat \<Rightarrow> u32 \<Rightarrow> u64 \<Rightarrow> bool \<Rightarrow> nat \<Rightarrow> 'd MemoryBus \<Rightarrow> 'd MemoryBus" where
  "storeByte ri offset a value ext index bus =
     (let byte = ucast (drop_bit (index * 8) value) :: u8;
          old = bytes (regions bus ! ri) ! (offset + index);
          bus1 = (if old \<noteq> byte
                  then (let b = recordMutation (a + of_nat index) old ext bus
                        in b\<lparr>side_effect_generation := side_effect_generation b + 1\<rparr>)
                  else bus)
      in set_bytes ri ((bytes (regions bus1 ! ri))[offset + index := byte]) bus1)"

definition storeLoop :: "nat \<Rightarrow> nat \<Rightarrow> u32 \<Rightarrow> u64 \<Rightarrow> bool \<Rightarrow> nat \<Rightarrow> 'd MemoryBus \<Rightarrow> 'd MemoryBus" where
  "storeLoop ri offset a value ext width bus =
     fold (storeByte ri offset a value ext) [0..<width] bus"

text \<open>
  \<open>storeBackedWord\<close>: the word store of the fast paths. While the journal is on, the four
  lanes are recorded at fixed positions; otherwise the changed bytes are counted with a
  bit-parallel reduction.
\<close>

definition record_lane ::
  "u32 \<Rightarrow> u32 \<Rightarrow> u32 \<Rightarrow> bool \<Rightarrow> nat \<Rightarrow> (nat \<Rightarrow> BackedMutation) \<times> u64 \<Rightarrow> (nat \<Rightarrow> BackedMutation) \<times> u64" where
  "record_lane difference old a ext shift js =
     (let (journal, sequence) = js
      in if difference AND push_bit shift 0xff = 0 then js
         else (journal(unat sequence mod mutation_journal_capacity :=
                 \<lparr>mut_address = a + of_nat (shift div 8),
                  old_value = ucast (drop_bit shift old), external = ext\<rparr>),
               sequence + 1))"

definition count_changed :: "u32 \<Rightarrow> u64" where
  "count_changed difference =
     (let c0 = difference;
          c1 = c0 OR drop_bit 4 c0;
          c2 = c1 OR drop_bit 2 c1;
          c3 = c2 OR drop_bit 1 c2;
          c4 = c3 AND 0x01010101
      in ucast (drop_bit 24 (c4 * 0x01010101)))"

definition put_word :: "u8 list \<Rightarrow> nat \<Rightarrow> u32 \<Rightarrow> u8 list" where
  "put_word bs offset value =
     bs[offset := ucast value, offset + 1 := ucast (drop_bit 8 value),
        offset + 2 := ucast (drop_bit 16 value), offset + 3 := ucast (drop_bit 24 value)]"

definition get_word :: "u8 list \<Rightarrow> nat \<Rightarrow> u32" where
  "get_word bs offset = ucast (decodeLittleEndianBytes bs offset 4)"

definition storeBackedWord :: "nat \<Rightarrow> nat \<Rightarrow> u32 \<Rightarrow> bool \<Rightarrow> 'd MemoryBus \<Rightarrow> 'd MemoryBus" where
  "storeBackedWord ri offset value ext bus =
     (let region = regions bus ! ri;
          old = get_word (bytes region) offset
      in if old = value then bus
         else
           let difference = old XOR value;
               a = base (info region) + of_nat offset;
               (bus1, changed_bytes) =
                 (if write_journal_tracking bus
                  then
                    (let (journal, sequence) =
                       record_lane difference old a ext 24
                         (record_lane difference old a ext 16
                           (record_lane difference old a ext 8
                             (record_lane difference old a ext 0
                               (mutation_journal bus, mutation_sequence bus))))
                     in (bus\<lparr>mutation_journal := journal, mutation_sequence := sequence\<rparr>,
                         sequence - mutation_sequence bus))
                  else
                    (let c = count_changed difference
                     in (bus\<lparr>mutation_sequence := mutation_sequence bus + c\<rparr>, c)));
               bus2 = set_bytes ri (put_word (bytes region) offset value) bus1
           in bus2\<lparr>side_effect_generation := side_effect_generation bus2 + changed_bytes\<rparr>)"

section \<open>Read and store footprints\<close>

definition footprintBitIndices :: "u32 \<Rightarrow> u8 \<times> u8" where
  "footprintBitIndices a =
     (let w = drop_bit 2 a;
          first = w * 0x9e3779b1;
          second = (w XOR drop_bit 16 w) * 0x85ebca6b
      in (ucast (drop_bit 24 first), ucast (drop_bit 24 second)))"

definition footprint_set :: "ReadFootprint \<Rightarrow> u8 \<Rightarrow> ReadFootprint" where
  "footprint_set fp bt =
     fp\<lparr>words := (words fp)(unat (drop_bit 6 bt) :=
          words fp (unat (drop_bit 6 bt)) OR push_bit (unat (bt AND 63)) 1)\<rparr>"

definition addReadFootprint :: "ReadFootprint \<Rightarrow> u32 \<Rightarrow> ReadFootprint" where
  "addReadFootprint fp a =
     footprint_set (footprint_set fp (fst (footprintBitIndices a))) (snd (footprintBitIndices a))"

definition footprint_bit :: "ReadFootprint \<Rightarrow> u8 \<Rightarrow> bool" where
  "footprint_bit fp bt \<longleftrightarrow>
     words fp (unat (drop_bit 6 bt)) AND push_bit (unat (bt AND 63)) 1 \<noteq> 0"

definition footprintContains :: "ReadFootprint \<Rightarrow> u32 \<Rightarrow> bool" where
  "footprintContains fp a \<longleftrightarrow>
     footprint_bit fp (fst (footprintBitIndices a)) \<and> footprint_bit fp (snd (footprintBitIndices a))"

text \<open>
  The span loop: the words from the one holding the first byte up to the end of the
  access, in widened arithmetic.
\<close>

definition addSpanFootprint :: "ReadFootprint \<Rightarrow> u32 \<Rightarrow> nat \<Rightarrow> ReadFootprint" where
  "addSpanFootprint fp a width =
     (let first_word = a AND NOT 3;
          cnt = (unat a + width - unat first_word + 3) div 4
      in fold (\<lambda>i fp. addReadFootprint fp (first_word + of_nat (4 * i))) [0..<cnt] fp)"

definition log_access :: "u32 \<Rightarrow> nat \<Rightarrow> bool \<Rightarrow> 'd MemoryBus \<Rightarrow> 'd MemoryBus" where
  "log_access a width is_write bus =
     bus\<lparr>access_watch_log := access_watch_log bus @
        [\<lparr>watch_address = a, watch_width = of_nat width, watch_write = is_write\<rparr>]\<rparr>"

definition addAccessFootprint :: "u32 \<Rightarrow> nat \<Rightarrow> 'd MemoryBus \<Rightarrow> 'd MemoryBus" where
  "addAccessFootprint a width bus =
     (let bus1 = (if access_watch_log_enabled bus \<and> width \<noteq> 0
                  then log_access a (min width 8) False bus else bus)
      in if \<not> read_footprint_tracking bus1 \<or> width = 0 then bus1
         else if a AND 3 = 0 \<and> width \<le> 4
         then bus1\<lparr>read_footprint := addReadFootprint (read_footprint bus1) a\<rparr>
         else bus1\<lparr>read_footprint := addSpanFootprint (read_footprint bus1) a width\<rparr>)"

definition addStoreFootprint :: "u32 \<Rightarrow> nat \<Rightarrow> AccessContext \<Rightarrow> 'd MemoryBus \<Rightarrow> 'd MemoryBus" where
  "addStoreFootprint a width ctx bus =
     (if ctx_pc ctx = 0 \<or> width = 0 then bus
      else
        let bus1 = (if access_watch_log_enabled bus
                    then log_access a (min width 8) True bus else bus)
        in if \<not> store_footprint_tracking bus1 then bus1
           else bus1\<lparr>read_footprint := addSpanFootprint (read_footprint bus1) a width\<rparr>)"

definition takeReadFootprint :: "'d MemoryBus \<Rightarrow> ReadFootprint \<times> 'd MemoryBus" where
  "takeReadFootprint bus =
     (read_footprint bus,
      bus\<lparr>read_footprint := empty_footprint (read_footprint_tracking bus)\<rparr>)"

definition restoreReadFootprint :: "ReadFootprint \<Rightarrow> 'd MemoryBus \<Rightarrow> 'd MemoryBus" where
  "restoreReadFootprint fp bus =
     bus\<lparr>read_footprint := (if read_footprint_tracking bus then fp else empty_footprint False)\<rparr>"

section \<open>Building the map\<close>

definition mapError :: "string \<Rightarrow> Error" where
  "mapError m = mk_error EC_invalid_argument m"

abbreviation quoted :: "string \<Rightarrow> string" where
  "quoted s \<equiv> [CHR 0x27] @ s @ [CHR 0x27]"

abbreviation region_base :: "Region \<Rightarrow> u32" where
  "region_base r \<equiv> base (info r)"

abbreviation region_len :: "Region \<Rightarrow> u32" where
  "region_len r \<equiv> rsize (info r)"

definition overlaps :: "Region \<Rightarrow> Region \<Rightarrow> bool" where
  "overlaps r existing \<longleftrightarrow>
     max (unat (region_base r)) (unat (region_base existing))
       < min (region_end r) (region_end existing)"

definition addRegion :: "Region \<Rightarrow> 'd MemoryBus \<Rightarrow> 'd MemoryBus Result" where
  "addRegion r bus =
     (if \<not> validRange (region_base r) (region_len r)
      then Inl (mapError (''memory region '' @ quoted (rname (info r)) @ '' has an empty or wrapping range''))
      else case List.find (overlaps r) (regions bus) of
        Some existing \<Rightarrow>
          Inl (mapError (''memory region '' @ quoted (rname (info r)) @ '' overlaps region ''
                         @ quoted (rname (info existing))))
      | None \<Rightarrow>
          Inr (bus\<lparr>regions := sort_key region_base (regions bus @ [r]),
                   execution_generation := execution_generation bus + 1\<rparr>))"

definition mk_region :: "MemoryRegionInfo \<Rightarrow> u8 list \<Rightarrow> Region" where
  "mk_region i bs = \<lparr>info = i, bytes = bs, alias_target = 0, device = 0\<rparr>"

definition fill_bytes :: "u32 \<Rightarrow> u32 \<Rightarrow> u8 \<Rightarrow> u8 list" where
  "fill_bytes b n v = (if validRange b n then replicate (unat n) v else [])"

definition mapRam :: "u32 \<Rightarrow> u32 \<Rightarrow> string \<Rightarrow> bool \<Rightarrow> 'd MemoryBus \<Rightarrow> 'd MemoryBus Result" where
  "mapRam b n nm exec bus =
     addRegion (mk_region
       \<lparr>base = b, rsize = n, rkind = RK_ram, rname = nm, readable = True, writable = True,
        executable = exec\<rparr> (fill_bytes b n 0)) bus"

definition mapRom :: "u32 \<Rightarrow> u32 \<Rightarrow> string \<Rightarrow> bool \<Rightarrow> 'd MemoryBus \<Rightarrow> 'd MemoryBus Result" where
  "mapRom b n nm exec bus =
     addRegion (mk_region
       \<lparr>base = b, rsize = n, rkind = RK_rom, rname = nm, readable = True, writable = False,
        executable = exec\<rparr> (fill_bytes b n 0xff)) bus"

definition mapFlash :: "u32 \<Rightarrow> u32 \<Rightarrow> string \<Rightarrow> bool \<Rightarrow> 'd MemoryBus \<Rightarrow> 'd MemoryBus Result" where
  "mapFlash b n nm exec bus =
     addRegion (mk_region
       \<lparr>base = b, rsize = n, rkind = RK_flash, rname = nm, readable = True, writable = True,
        executable = exec\<rparr> (fill_bytes b n 0xff)) bus"

definition find_region :: "'d MemoryBus \<Rightarrow> u32 \<Rightarrow> nat option" where
  "find_region bus a =
     (case upper_bound_prev region_base a (regions bus) of
        None \<Rightarrow> None
      | Some i \<Rightarrow> if contains (regions bus ! i) a then Some i else None)"

definition mapAlias :: "u32 \<Rightarrow> u32 \<Rightarrow> u32 \<Rightarrow> string \<Rightarrow> 'd MemoryBus \<Rightarrow> 'd MemoryBus Result" where
  "mapAlias alias_base target_base n nm bus =
     (if \<not> validRange target_base n
      then Inl (mapError (''alias '' @ quoted nm @ '' has an empty or wrapping target range''))
      else case find_region bus target_base of
        None \<Rightarrow> Inl (mapError (''alias '' @ quoted nm @ '' target range is not contained in one mapped region''))
      | Some ti \<Rightarrow>
          (let target = regions bus ! ti
           in if \<not> containsRange target target_base (unat n)
              then Inl (mapError (''alias '' @ quoted nm @ '' target range is not contained in one mapped region''))
              else addRegion
                \<lparr>info = \<lparr>base = alias_base, rsize = n, rkind = RK_alias, rname = nm,
                         readable = readable (info target), writable = writable (info target),
                         executable = executable (info target)\<rparr>,
                 bytes = [], alias_target = target_base, device = 0\<rparr> bus))"

definition mapMmio :: "u32 \<Rightarrow> u32 \<Rightarrow> nat \<Rightarrow> string \<Rightarrow> 'd MemoryBus \<Rightarrow> 'd MemoryBus Result" where
  "mapMmio b n dev nm bus =
     addRegion
       \<lparr>info = \<lparr>base = b, rsize = n, rkind = RK_mmio, rname = nm, readable = True, writable = True,
                executable = False\<rparr>,
        bytes = [], alias_target = 0, device = dev\<rparr> bus"

definition loadBytes :: "u32 \<Rightarrow> u8 list \<Rightarrow> 'd MemoryBus \<Rightarrow> 'd MemoryBus Result" where
  "loadBytes a bs bus =
     (if bs = [] then Inr bus
      else if length bs > 4294967295 \<or> \<not> validRange a (of_nat (length bs))
      then Inl (mapError ''load byte range wraps target address space'')
      else case find_region bus a of
        None \<Rightarrow> Inl (mapError ''load byte range is not contained in one mapped region'')
      | Some ri \<Rightarrow>
          (let region = regions bus ! ri
           in if \<not> containsRange region a (length bs)
              then Inl (mapError ''load byte range is not contained in one mapped region'')
              else if \<not> backed (rkind (info region))
              then Inl (mapError (''load bytes require directly backed RAM, ROM, or flash, not region ''
                                  @ quoted (rname (info region))))
              else
                (let offset = unat (a - region_base region);
                     bus1 = fold (\<lambda>index b.
                         if bytes region ! (offset + index) \<noteq> bs ! index
                         then (let b' = recordMutation (a + of_nat index) (bytes region ! (offset + index)) True b
                               in b'\<lparr>side_effect_generation := side_effect_generation b' + 1\<rparr>)
                         else b) [0..<length bs] bus;
                     bus2 = set_bytes ri (take offset (bytes region) @ bs
                              @ drop (offset + length bs) (bytes region)) bus1
                 in Inr (if executable (info region)
                         then bus2\<lparr>execution_generation := execution_generation bus2 + 1\<rparr>
                         else bus2))))"

section \<open>Checked reads and writes\<close>

text \<open>Dispatch of one access to an MMIO region: trapped, or counted and forwarded once.\<close>

definition mmio_trapped :: "'d MmioDevice \<Rightarrow> 'd MemoryBus \<Rightarrow> Region \<Rightarrow> u32 \<Rightarrow> AccessSize \<Rightarrow> bool" where
  "mmio_trapped ops bus region offset sz \<longleftrightarrow>
     trap_all_mmio bus
     \<or> (trap_shared_mmio bus \<and> dev_domain ops (device region) offset sz (devices bus) = MD_shared)"

definition name_fault :: "string \<Rightarrow> 'a MemoryResult \<Rightarrow> 'a MemoryResult" where
  "name_fault nm res =
     (case res of Inl f \<Rightarrow> Inl (if fault_region f = [] then f\<lparr>fault_region := nm\<rparr> else f) | Inr v \<Rightarrow> Inr v)"

definition count_mmio :: "u32 \<Rightarrow> nat \<Rightarrow> bool \<Rightarrow> AccessContext \<Rightarrow> 'd MemoryBus \<Rightarrow> 'd MemoryBus" where
  "count_mmio a width is_write ctx bus =
     (let bus1 = (if access_watch_log_enabled bus \<and> ctx_pc ctx \<noteq> 0
                  then log_access a width is_write bus else bus)
      in bus1\<lparr>side_effect_generation := side_effect_generation bus1 + 1,
              mmio_generation := mmio_generation bus1 + 1\<rparr>)"

definition mmio_read ::
  "'d MmioDevice \<Rightarrow> Region \<Rightarrow> u32 \<Rightarrow> AccessSize \<Rightarrow> AccessContext \<Rightarrow> 'd MemoryBus
   \<Rightarrow> u64 MemoryResult \<times> 'd MemoryBus" where
  "mmio_read ops region a sz ctx bus =
     (let offset = a - region_base region
      in if mmio_trapped ops bus region offset sz
         then (Inl (makeFault BF_synchronization_required a sz ctx (rname (info region))
                 ''MMIO access requires coordinator synchronization''), bus)
         else
           (let bus1 = count_mmio a (byteCount sz) False ctx bus;
                (res, d) = dev_read ops (device region) offset sz ctx (devices bus1);
                bus2 = bus1\<lparr>devices := d\<rparr>
            in (case name_fault (rname (info region)) res of
                  Inl f \<Rightarrow> (Inl f, bus2)
                | Inr v \<Rightarrow> (Inr (v AND accessWidthMask sz), bus2))))"

definition mmio_write ::
  "'d MmioDevice \<Rightarrow> Region \<Rightarrow> u32 \<Rightarrow> AccessSize \<Rightarrow> u64 \<Rightarrow> AccessContext \<Rightarrow> 'd MemoryBus
   \<Rightarrow> u64 MemoryResult \<times> 'd MemoryBus" where
  "mmio_write ops region a sz value ctx bus =
     (let offset = a - region_base region
      in if mmio_trapped ops bus region offset sz
         then (Inl (makeFault BF_synchronization_required a sz ctx (rname (info region))
                 ''MMIO access requires coordinator synchronization''), bus)
         else
           (let bus1 = count_mmio a (byteCount sz) True ctx bus;
                (res, d) = dev_write ops (device region) offset sz (value AND accessWidthMask sz) ctx (devices bus1)
            in (name_fault (rname (info region)) res, bus1\<lparr>devices := d\<rparr>)))"

function bus_read :: "'d MmioDevice \<Rightarrow> u32 \<Rightarrow> AccessSize \<Rightarrow> AccessContext \<Rightarrow> nat \<Rightarrow> 'd MemoryBus
   \<Rightarrow> u64 MemoryResult \<times> 'd MemoryBus" where
  "bus_read ops a sz ctx alias_depth bus =
     (let width = byteCount sz
      in if \<not> validRange a (of_nat width)
         then (Inl (makeFault BF_address_overflow a sz ctx [] ''memory read wraps target address space''), bus)
         else case find_region bus a of
           None \<Rightarrow> (Inl (makeFault BF_unmapped a sz ctx [] ''read from unmapped memory''), bus)
         | Some ri \<Rightarrow>
             (let region = regions bus ! ri; nm = rname (info region)
              in if \<not> containsRange region a width
                 then (Inl (makeFault BF_cross_region a sz ctx nm ''memory read crosses a region boundary''), bus)
                 else if \<not> readable (info region)
                 then (Inl (makeFault BF_read_protected a sz ctx nm ''memory region is not readable''), bus)
                 else if ctx_type ctx = AT_instruction_fetch \<and> \<not> executable (info region)
                 then (Inl (makeFault BF_execute_protected a sz ctx nm ''memory region is not executable''), bus)
                 else if rkind (info region) = RK_alias
                 then (if alias_depth \<ge> maximum_alias_depth
                       then (Inl (makeFault BF_alias_cycle a sz ctx nm
                               ''alias translation exceeded its recursion limit''), bus)
                       else bus_read ops (alias_target region + (a - region_base region)) sz ctx
                              (alias_depth + 1) bus)
                 else if rkind (info region) = RK_mmio
                 then mmio_read ops region a sz ctx bus
                 else
                   (let bus1 = (if ctx_type ctx = AT_data_read \<and> ctx_pc ctx \<noteq> 0
                                then addAccessFootprint a width bus else bus)
                    in (Inr (decodeLittleEndianBytes (bytes region) (unat (a - region_base region)) width),
                        bus1))))"
  by pat_completeness auto
termination
  by (relation "measure (\<lambda>(ops, a, sz, ctx, alias_depth, bus). 9 - alias_depth)") auto

declare bus_read.simps [simp del]

function bus_write :: "'d MmioDevice \<Rightarrow> u32 \<Rightarrow> AccessSize \<Rightarrow> u64 \<Rightarrow> AccessContext \<Rightarrow> nat \<Rightarrow> 'd MemoryBus
   \<Rightarrow> u64 MemoryResult \<times> 'd MemoryBus" where
  "bus_write ops a sz value ctx alias_depth bus =
     (let width = byteCount sz
      in if \<not> validRange a (of_nat width)
         then (Inl (makeFault BF_address_overflow a sz ctx [] ''memory write wraps target address space''), bus)
         else case find_region bus a of
           None \<Rightarrow> (Inl (makeFault BF_unmapped a sz ctx [] ''write to unmapped memory''), bus)
         | Some ri \<Rightarrow>
             (let region = regions bus ! ri; nm = rname (info region)
              in if \<not> containsRange region a width
                 then (Inl (makeFault BF_cross_region a sz ctx nm ''memory write crosses a region boundary''), bus)
                 else if rkind (info region) = RK_alias
                 then (if alias_depth \<ge> maximum_alias_depth
                       then (Inl (makeFault BF_alias_cycle a sz ctx nm
                               ''alias translation exceeded its recursion limit''), bus)
                       else bus_write ops (alias_target region + (a - region_base region)) sz value ctx
                              (alias_depth + 1) bus)
                 else if \<not> writable (info region)
                 then (Inl (makeFault BF_write_protected a sz ctx nm ''memory region is not writable''), bus)
                 else if reversible_ram_only bus
                         \<and> (rkind (info region) \<noteq> RK_ram \<or> executable (info region))
                 then (Inl (makeFault BF_synchronization_required a sz ctx nm
                         ''store requires coordinator synchronization outside reversible RAM''), bus)
                 else if rkind (info region) = RK_mmio
                 then mmio_write ops region a sz value ctx bus
                 else
                   (let bus1 = addStoreFootprint a width ctx bus;
                        bus2 = storeLoop ri (unat (a - region_base region)) a value (ctx_pc ctx = 0) width bus1
                    in (Inr 0,
                        if executable (info region)
                        then bus2\<lparr>execution_generation := execution_generation bus2 + 1\<rparr>
                        else bus2))))"
  by pat_completeness auto
termination
  by (relation "measure (\<lambda>(ops, a, sz, value, ctx, alias_depth, bus). 9 - alias_depth)") auto

declare bus_write.simps [simp del]

section \<open>Fast paths for backed memory\<close>

text \<open>
  The fast paths answer \<open>None\<close> (the source's \<open>false\<close>) for everything that is not one
  access inside one backed region.
\<close>

definition fast_readable :: "Region \<Rightarrow> u32 \<Rightarrow> nat \<Rightarrow> AccessContext \<Rightarrow> bool" where
  "fast_readable region a width ctx \<longleftrightarrow>
     backed (rkind (info region)) \<and> readable (info region) \<and> containsRange region a width
     \<and> \<not> (ctx_type ctx = AT_instruction_fetch \<and> \<not> executable (info region))"

definition fast_writable :: "Region \<Rightarrow> u32 \<Rightarrow> nat \<Rightarrow> bool \<Rightarrow> bool" where
  "fast_writable region a width ram_only \<longleftrightarrow>
     backed (rkind (info region)) \<and> writable (info region) \<and> containsRange region a width
     \<and> \<not> (ram_only \<and> (rkind (info region) \<noteq> RK_ram \<or> executable (info region)))"

definition note_data_read :: "u32 \<Rightarrow> nat \<Rightarrow> AccessContext \<Rightarrow> 'd MemoryBus \<Rightarrow> 'd MemoryBus" where
  "note_data_read a width ctx bus =
     (if ctx_type ctx = AT_data_read \<and> ctx_pc ctx \<noteq> 0 then addAccessFootprint a width bus else bus)"

definition bump_execution :: "Region \<Rightarrow> 'd MemoryBus \<Rightarrow> 'd MemoryBus" where
  "bump_execution region bus =
     (if executable (info region)
      then bus\<lparr>execution_generation := execution_generation bus + 1\<rparr> else bus)"

definition tryFastRead32 :: "u32 \<Rightarrow> AccessContext \<Rightarrow> 'd MemoryBus \<Rightarrow> (u32 \<times> 'd MemoryBus) option" where
  "tryFastRead32 a ctx bus =
     (case find_region bus a of
        None \<Rightarrow> None
      | Some ri \<Rightarrow>
          (let region = regions bus ! ri
           in if \<not> fast_readable region a 4 ctx then None
              else Some (get_word (bytes region) (unat (a - region_base region)),
                         note_data_read a 4 ctx bus)))"

definition tryFastWrite32 :: "u32 \<Rightarrow> u32 \<Rightarrow> AccessContext \<Rightarrow> bool \<Rightarrow> 'd MemoryBus \<Rightarrow> 'd MemoryBus option" where
  "tryFastWrite32 a value ctx require_nonexecutable_ram bus =
     (case find_region bus a of
        None \<Rightarrow> None
      | Some ri \<Rightarrow>
          (let region = regions bus ! ri
           in if \<not> fast_writable region a 4 (reversible_ram_only bus \<or> require_nonexecutable_ram) then None
              else Some (bump_execution region
                     (storeBackedWord ri (unat (a - region_base region)) value (ctx_pc ctx = 0)
                        (addStoreFootprint a 4 ctx bus)))))"

definition isBackedRange :: "u32 \<Rightarrow> u32 \<Rightarrow> bool \<Rightarrow> 'd MemoryBus \<Rightarrow> bool" where
  "isBackedRange a n is_store bus =
     (if n = 0 then False
      else case find_region bus a of
        None \<Rightarrow> False
      | Some ri \<Rightarrow>
          (let region = regions bus ! ri
           in backed (rkind (info region))
              \<and> (if is_store then writable (info region) else readable (info region))
              \<and> containsRange region a (unat n)))"

definition tryFastRead :: "u32 \<Rightarrow> AccessSize \<Rightarrow> AccessContext \<Rightarrow> 'd MemoryBus \<Rightarrow> (u64 \<times> 'd MemoryBus) option" where
  "tryFastRead a sz ctx bus =
     (let width = byteCount sz
      in if width \<noteq> 1 \<and> width \<noteq> 2 \<and> width \<noteq> 4 then None
         else case find_region bus a of
           None \<Rightarrow> None
         | Some ri \<Rightarrow>
             (let region = regions bus ! ri
              in if \<not> fast_readable region a width ctx then None
                 else Some (decodeLittleEndianBytes (bytes region) (unat (a - region_base region)) width,
                            note_data_read a width ctx bus)))"

text \<open>The byte loop of the fast write skips the bytes that do not change.\<close>

definition storeChangedByte :: "nat \<Rightarrow> nat \<Rightarrow> u32 \<Rightarrow> u64 \<Rightarrow> bool \<Rightarrow> nat \<Rightarrow> 'd MemoryBus \<Rightarrow> 'd MemoryBus" where
  "storeChangedByte ri offset a value ext index bus =
     (let byte = ucast (drop_bit (index * 8) value) :: u8;
          old = bytes (regions bus ! ri) ! (offset + index)
      in if old = byte then bus
         else
           (let bus1 = recordMutation (a + of_nat index) old ext bus;
                bus2 = bus1\<lparr>side_effect_generation := side_effect_generation bus1 + 1\<rparr>
            in set_bytes ri ((bytes (regions bus2 ! ri))[offset + index := byte]) bus2))"

definition tryFastWrite ::
  "u32 \<Rightarrow> AccessSize \<Rightarrow> u64 \<Rightarrow> AccessContext \<Rightarrow> bool \<Rightarrow> 'd MemoryBus \<Rightarrow> 'd MemoryBus option" where
  "tryFastWrite a sz value ctx require_nonexecutable_ram bus =
     (let width = byteCount sz
      in if width \<noteq> 1 \<and> width \<noteq> 2 \<and> width \<noteq> 4 then None
         else case find_region bus a of
           None \<Rightarrow> None
         | Some ri \<Rightarrow>
             (let region = regions bus ! ri
              in if \<not> fast_writable region a width (reversible_ram_only bus \<or> require_nonexecutable_ram)
                 then None
                 else
                   (let bus1 = addStoreFootprint a width ctx bus;
                        offset = unat (a - region_base region);
                        bus2 = (if width = 4
                                then storeBackedWord ri offset (ucast value) (ctx_pc ctx = 0) bus1
                                else fold (storeChangedByte ri offset a value (ctx_pc ctx = 0)) [0..<width] bus1)
                    in Some (bump_execution region bus2))))"

definition tryFastReadWords ::
  "u32 \<Rightarrow> nat \<Rightarrow> AccessContext \<Rightarrow> 'd MemoryBus \<Rightarrow> (u32 list \<times> 'd MemoryBus) option" where
  "tryFastReadWords a cnt ctx bus =
     (if cnt = 0 \<or> cnt * 4 > 4294967295 then None
      else case find_region bus a of
        None \<Rightarrow> None
      | Some ri \<Rightarrow>
          (let region = regions bus ! ri
           in if \<not> (backed (rkind (info region)) \<and> readable (info region)
                    \<and> containsRange region a (cnt * 4))
              then None
              else
                (let footprint = (read_footprint_tracking bus \<and> ctx_type ctx = AT_data_read \<and> ctx_pc ctx \<noteq> 0);
                     log_reads = (access_watch_log_enabled bus \<and> ctx_type ctx = AT_data_read \<and> ctx_pc ctx \<noteq> 0);
                     start = unat (a - region_base region)
                 in Some (map (\<lambda>w. get_word (bytes region) (start + w * 4)) [0..<cnt],
                          if \<not> footprint \<and> \<not> log_reads then bus
                          else fold (\<lambda>w. addAccessFootprint (a + of_nat (w * 4)) 4) [0..<cnt] bus))))"

definition tryFastWriteWords ::
  "u32 \<Rightarrow> u32 list \<Rightarrow> AccessContext \<Rightarrow> bool \<Rightarrow> 'd MemoryBus \<Rightarrow> 'd MemoryBus option" where
  "tryFastWriteWords a values ctx require_nonexecutable_ram bus =
     (if values = [] \<or> length values * 4 > 4294967295 then None
      else case find_region bus a of
        None \<Rightarrow> None
      | Some ri \<Rightarrow>
          (let region = regions bus ! ri
           in if \<not> fast_writable region a (length values * 4)
                    (reversible_ram_only bus \<or> require_nonexecutable_ram)
              then None
              else
                (let start = unat (a - region_base region);
                     bus1 = addStoreFootprint a (length values * 4) ctx bus;
                     bus2 = fold (\<lambda>w. storeBackedWord ri (start + w * 4) (values ! w) (ctx_pc ctx = 0))
                              [0..<length values] bus1
                 in Some (bump_execution region bus2))))"

section \<open>Sized accesses\<close>

definition map_value :: "('a \<Rightarrow> 'b) \<Rightarrow> 'a MemoryResult \<times> 's \<Rightarrow> 'b MemoryResult \<times> 's" where
  "map_value f rs = (case rs of (Inl e, s) \<Rightarrow> (Inl e, s) | (Inr v, s) \<Rightarrow> (Inr (f v), s))"

definition read8 :: "'d MmioDevice \<Rightarrow> u32 \<Rightarrow> AccessContext \<Rightarrow> 'd MemoryBus \<Rightarrow> u8 MemoryResult \<times> 'd MemoryBus" where
  "read8 ops a ctx bus =
     (case tryFastRead a AS_byte ctx bus of
        Some (value, bus') \<Rightarrow> (Inr (ucast value), bus')
      | None \<Rightarrow> map_value ucast (bus_read ops a AS_byte ctx 0 bus))"

definition read16 :: "'d MmioDevice \<Rightarrow> u32 \<Rightarrow> AccessContext \<Rightarrow> 'd MemoryBus \<Rightarrow> u16 MemoryResult \<times> 'd MemoryBus" where
  "read16 ops a ctx bus =
     (case tryFastRead a AS_halfword ctx bus of
        Some (value, bus') \<Rightarrow> (Inr (ucast value), bus')
      | None \<Rightarrow> map_value ucast (bus_read ops a AS_halfword ctx 0 bus))"

definition read32 :: "'d MmioDevice \<Rightarrow> u32 \<Rightarrow> AccessContext \<Rightarrow> 'd MemoryBus \<Rightarrow> u32 MemoryResult \<times> 'd MemoryBus" where
  "read32 ops a ctx bus =
     (case tryFastRead32 a ctx bus of
        Some (value, bus') \<Rightarrow> (Inr value, bus')
      | None \<Rightarrow> map_value ucast (bus_read ops a AS_word ctx 0 bus))"

definition read64 :: "'d MmioDevice \<Rightarrow> u32 \<Rightarrow> AccessContext \<Rightarrow> 'd MemoryBus \<Rightarrow> u64 MemoryResult \<times> 'd MemoryBus" where
  "read64 ops a ctx bus = bus_read ops a AS_doubleword ctx 0 bus"

definition write8 :: "'d MmioDevice \<Rightarrow> u32 \<Rightarrow> u8 \<Rightarrow> AccessContext \<Rightarrow> 'd MemoryBus \<Rightarrow> u64 MemoryResult \<times> 'd MemoryBus" where
  "write8 ops a value ctx bus =
     (case tryFastWrite a AS_byte (ucast value) ctx False bus of
        Some bus' \<Rightarrow> (Inr 0, bus')
      | None \<Rightarrow> bus_write ops a AS_byte (ucast value) ctx 0 bus)"

definition write16 :: "'d MmioDevice \<Rightarrow> u32 \<Rightarrow> u16 \<Rightarrow> AccessContext \<Rightarrow> 'd MemoryBus \<Rightarrow> u64 MemoryResult \<times> 'd MemoryBus" where
  "write16 ops a value ctx bus =
     (case tryFastWrite a AS_halfword (ucast value) ctx False bus of
        Some bus' \<Rightarrow> (Inr 0, bus')
      | None \<Rightarrow> bus_write ops a AS_halfword (ucast value) ctx 0 bus)"

definition write32 :: "'d MmioDevice \<Rightarrow> u32 \<Rightarrow> u32 \<Rightarrow> AccessContext \<Rightarrow> 'd MemoryBus \<Rightarrow> u64 MemoryResult \<times> 'd MemoryBus" where
  "write32 ops a value ctx bus =
     (case tryFastWrite32 a value ctx False bus of
        Some bus' \<Rightarrow> (Inr 0, bus')
      | None \<Rightarrow> bus_write ops a AS_word (ucast value) ctx 0 bus)"

definition write64 :: "'d MmioDevice \<Rightarrow> u32 \<Rightarrow> u64 \<Rightarrow> AccessContext \<Rightarrow> 'd MemoryBus \<Rightarrow> u64 MemoryResult \<times> 'd MemoryBus" where
  "write64 ops a value ctx bus = bus_write ops a AS_doubleword value ctx 0 bus"

definition with_mmio_traps_off :: "('d MemoryBus \<Rightarrow> 'r \<times> 'd MemoryBus) \<Rightarrow> 'd MemoryBus \<Rightarrow> 'r \<times> 'd MemoryBus" where
  "with_mmio_traps_off f bus =
     (let (res, bus') = f (bus\<lparr>trap_all_mmio := False, reversible_ram_only := False\<rparr>)
      in (res, bus'\<lparr>trap_all_mmio := trap_all_mmio bus, reversible_ram_only := reversible_ram_only bus\<rparr>))"

definition readMmioChecked ::
  "'d MmioDevice \<Rightarrow> u32 \<Rightarrow> AccessSize \<Rightarrow> AccessContext \<Rightarrow> 'd MemoryBus \<Rightarrow> u64 MemoryResult \<times> 'd MemoryBus" where
  "readMmioChecked ops a sz ctx = with_mmio_traps_off (bus_read ops a sz ctx 0)"

definition writeMmioChecked ::
  "'d MmioDevice \<Rightarrow> u32 \<Rightarrow> AccessSize \<Rightarrow> u64 \<Rightarrow> AccessContext \<Rightarrow> 'd MemoryBus \<Rightarrow> u64 MemoryResult \<times> 'd MemoryBus" where
  "writeMmioChecked ops a sz value ctx = with_mmio_traps_off (bus_write ops a sz value ctx 0)"

section \<open>Queries on the map\<close>

definition region_at :: "'d MemoryBus \<Rightarrow> u32 \<Rightarrow> Region option" where
  "region_at bus a = map_option (\<lambda>ri. regions bus ! ri) (find_region bus a)"

definition isMmioRange :: "u32 \<Rightarrow> u32 \<Rightarrow> 'd MemoryBus \<Rightarrow> bool" where
  "isMmioRange a n bus =
     (n \<noteq> 0 \<and> (case region_at bus a of
        None \<Rightarrow> False
      | Some region \<Rightarrow> rkind (info region) = RK_mmio \<and> containsRange region a (unat n)))"

definition isReversibleRamTarget :: "u32 \<Rightarrow> 'd MemoryBus \<Rightarrow> bool" where
  "isReversibleRamTarget a bus =
     (case region_at bus a of
        None \<Rightarrow> False
      | Some region \<Rightarrow> rkind (info region) = RK_ram \<and> \<not> executable (info region))"

text \<open>
  The direct windows: the base and size of the region a native block may address without
  calling the bus. The host pointer is the region's own byte vector.
\<close>

definition directReadWindow :: "u32 \<Rightarrow> 'd MemoryBus \<Rightarrow> (nat \<times> u32 \<times> u32) option" where
  "directReadWindow probe bus =
     (if read_footprint_tracking bus then None
      else case find_region bus probe of
        None \<Rightarrow> None
      | Some ri \<Rightarrow>
          (let region = regions bus ! ri
           in if \<not> readable (info region) \<or> \<not> backed (rkind (info region)) then None
              else Some (ri, region_base region, region_len region)))"

definition directWriteWindow :: "u32 \<Rightarrow> 'd MemoryBus \<Rightarrow> (nat \<times> u32 \<times> u32) option" where
  "directWriteWindow probe bus =
     (if read_footprint_tracking bus \<or> store_footprint_tracking bus \<or> write_journal_tracking bus then None
      else case find_region bus probe of
        None \<Rightarrow> None
      | Some ri \<Rightarrow>
          (let region = regions bus ! ri
           in if rkind (info region) \<noteq> RK_ram \<or> \<not> writable (info region) \<or> executable (info region) then None
              else Some (ri, region_base region, region_len region)))"

definition region_infos :: "'d MemoryBus \<Rightarrow> MemoryRegionInfo list" where
  "region_infos bus = map info (regions bus)"

definition containsWritableRange :: "u32 \<Rightarrow> u64 \<Rightarrow> 'd MemoryBus \<Rightarrow> bool" where
  "containsWritableRange a n bus =
     (let end = ucast a + n
      in list_ex (\<lambda>region.
           writable (info region) \<and> rkind (info region) \<noteq> RK_mmio
           \<and> region_base region \<le> a
           \<and> end \<le> ucast (region_base region) + ucast (region_len region)) (regions bus))"

definition containsWritableRamRange :: "u32 \<Rightarrow> u64 \<Rightarrow> 'd MemoryBus \<Rightarrow> bool" where
  "containsWritableRamRange a n bus =
     (if n = 0 \<or> n > 0xffffffff then False
      else case region_at bus a of
        None \<Rightarrow> False
      | Some region \<Rightarrow>
          rkind (info region) = RK_ram \<and> writable (info region) \<and> containsRange region a (unat n))"

definition isMmioDeviceRange :: "u32 \<Rightarrow> u32 \<Rightarrow> nat \<Rightarrow> u32 \<Rightarrow> 'd MemoryBus \<Rightarrow> bool" where
  "isMmioDeviceRange a n dev expected_offset bus =
     (if n = 0 then False
      else case region_at bus a of
        None \<Rightarrow> False
      | Some region \<Rightarrow>
          rkind (info region) = RK_mmio \<and> device region = dev \<and> readable (info region)
          \<and> a - region_base region = expected_offset \<and> containsRange region a (unat n))"

end
