(* ===== verification/Float32.thy ===== *)
theory Float32
  imports Prelude Complex_Main
begin

text \<open>
  The C++ type \<open>float\<close> and the arithmetic the executor uses on it: IEEE-754 binary32
  values as their 32 bits, with rounding to nearest, ties to even. A finite value is a
  rational number; an operation computes the exact result and rounds once. The bits of
  a NaN result are left to the host by the language, so the operations take them from a
  parameter \<open>nan\<close>, which sees the operands.
\<close>

section \<open>Representation\<close>

definition f_exp :: "u32 \<Rightarrow> nat" where
  "f_exp b = unat (drop_bit 23 b AND 0xff)"

definition f_frac :: "u32 \<Rightarrow> nat" where
  "f_frac b = unat (b AND 0x7fffff)"

definition f_negative :: "u32 \<Rightarrow> bool" where
  "f_negative b \<longleftrightarrow> bit b 31"

definition f_isnan :: "u32 \<Rightarrow> bool" where
  "f_isnan b \<longleftrightarrow> f_exp b = 255 \<and> f_frac b \<noteq> 0"

definition f_isinf :: "u32 \<Rightarrow> bool" where
  "f_isinf b \<longleftrightarrow> f_exp b = 255 \<and> f_frac b = 0"

definition f_isfinite :: "u32 \<Rightarrow> bool" where
  "f_isfinite b \<longleftrightarrow> f_exp b \<noteq> 255"

text \<open>A finite value is \<open>m * 2 powi e\<close> with an integer \<open>m\<close> below \<open>2^24\<close>.\<close>

definition f_mantissa :: "u32 \<Rightarrow> nat" where
  "f_mantissa b = (if f_exp b = 0 then f_frac b else 2 ^ 23 + f_frac b)"

definition f_scale :: "u32 \<Rightarrow> int" where
  "f_scale b = (if f_exp b = 0 then - 149 else int (f_exp b) - 150)"

definition f_magnitude :: "u32 \<Rightarrow> rat" where
  "f_magnitude b = of_nat (f_mantissa b) * 2 powi f_scale b"

definition f_value :: "u32 \<Rightarrow> rat" where
  "f_value b = (if f_negative b then - f_magnitude b else f_magnitude b)"

section \<open>Rounding\<close>

fun bitlen_nat :: "nat \<Rightarrow> nat" where
  "bitlen_nat n = (if n = 0 then 0 else Suc (bitlen_nat (n div 2)))"

declare bitlen_nat.simps [simp del]

definition floor_log2 :: "rat \<Rightarrow> int" where
  "floor_log2 q =
     (let (a, b) = quotient_of q;
          k = int (bitlen_nat (nat a)) - int (bitlen_nat (nat b))
      in if 2 powi k \<le> q then k else k - 1)"

definition round_even :: "rat \<Rightarrow> int" where
  "round_even x =
     (let n = \<lfloor>x\<rfloor>; d = x - of_int n
      in if d < 1 / 2 then n else if 1 / 2 < d then n + 1 else if even n then n else n + 1)"

definition f_pack :: "bool \<Rightarrow> int \<Rightarrow> int \<Rightarrow> u32" where
  "f_pack negative e m =
     (let code = (e + 149) * 2 ^ 23 + m
      in (if 0x7f800000 \<le> code then 0x7f800000 else of_int code)
         OR (if negative then 0x80000000 else 0))"

definition f_round :: "bool \<Rightarrow> rat \<Rightarrow> u32" where
  "f_round negative q =
     (if q = 0 then f_pack negative (- 149) 0
      else let e = max (- 149) (floor_log2 q - 23) in f_pack negative e (round_even (q / 2 powi e)))"

definition f_of_rat :: "rat \<Rightarrow> bool \<Rightarrow> u32" where
  "f_of_rat q negative_zero = f_round (q < 0 \<or> q = 0 \<and> negative_zero) \<bar>q\<bar>"

section \<open>Arithmetic\<close>

definition f_neg :: "u32 \<Rightarrow> u32" where
  "f_neg a = a XOR 0x80000000"

definition f_abs :: "u32 \<Rightarrow> u32" where
  "f_abs a = a AND 0x7fffffff"

definition f_infinity :: "bool \<Rightarrow> u32" where
  "f_infinity negative = 0x7f800000 OR (if negative then 0x80000000 else 0)"

definition f_add :: "(u32 list \<Rightarrow> u32) \<Rightarrow> u32 \<Rightarrow> u32 \<Rightarrow> u32" where
  "f_add nan a b =
     (if f_isnan a \<or> f_isnan b then nan [a, b]
      else if f_isinf a then (if f_isinf b \<and> f_negative a \<noteq> f_negative b then nan [a, b] else a)
      else if f_isinf b then b
      else f_of_rat (f_value a + f_value b) (f_negative a \<and> f_negative b))"

definition f_sub :: "(u32 list \<Rightarrow> u32) \<Rightarrow> u32 \<Rightarrow> u32 \<Rightarrow> u32" where
  "f_sub nan a b = f_add (\<lambda>_. nan [a, b]) a (f_neg b)"

definition f_mul :: "(u32 list \<Rightarrow> u32) \<Rightarrow> u32 \<Rightarrow> u32 \<Rightarrow> u32" where
  "f_mul nan a b =
     (let negative = (f_negative a \<noteq> f_negative b)
      in if f_isnan a \<or> f_isnan b then nan [a, b]
         else if f_isinf a \<or> f_isinf b then
           (if f_isfinite a \<and> f_value a = 0 \<or> f_isfinite b \<and> f_value b = 0 then nan [a, b]
            else f_infinity negative)
         else f_of_rat (f_value a * f_value b) negative)"

definition f_div :: "(u32 list \<Rightarrow> u32) \<Rightarrow> u32 \<Rightarrow> u32 \<Rightarrow> u32" where
  "f_div nan a b =
     (let negative = (f_negative a \<noteq> f_negative b)
      in if f_isnan a \<or> f_isnan b then nan [a, b]
         else if f_isinf a then (if f_isinf b then nan [a, b] else f_infinity negative)
         else if f_isinf b then f_of_rat 0 negative
         else if f_value b = 0 then (if f_value a = 0 then nan [a, b] else f_infinity negative)
         else f_of_rat (f_value a / f_value b) negative)"

definition f_fma :: "(u32 list \<Rightarrow> u32) \<Rightarrow> u32 \<Rightarrow> u32 \<Rightarrow> u32 \<Rightarrow> u32" where
  "f_fma nan a b c =
     (let negative = (f_negative a \<noteq> f_negative b)
      in if f_isnan a \<or> f_isnan b \<or> f_isnan c then nan [a, b, c]
         else if f_isinf a \<or> f_isinf b then
           (if f_isfinite a \<and> f_value a = 0 \<or> f_isfinite b \<and> f_value b = 0
               \<or> f_isinf c \<and> f_negative c \<noteq> negative then nan [a, b, c]
            else f_infinity negative)
         else if f_isinf c then c
         else f_of_rat (f_value a * f_value b + f_value c) (negative \<and> f_negative c))"

fun isqrt :: "nat \<Rightarrow> nat" where
  "isqrt n =
     (if n = 0 then 0
      else let r = 2 * isqrt (n div 4) in if (r + 1) * (r + 1) \<le> n then r + 1 else r)"

declare isqrt.simps [simp del]

definition f_sqrt :: "(u32 list \<Rightarrow> u32) \<Rightarrow> u32 \<Rightarrow> u32" where
  "f_sqrt nan a =
     (if f_isnan a then nan [a]
      else if f_isfinite a \<and> f_value a = 0 then a
      else if f_negative a then nan [a]
      else if f_isinf a then a
      else let e = floor_log2 (f_value a) div 2 - 23;
               x = f_value a / 2 powi (2 * e);
               r = isqrt (nat \<lfloor>x\<rfloor>)
           in f_pack False e (if (of_nat r + 1 / 2) * (of_nat r + 1 / 2) < x then int r + 1 else int r))"

text \<open>
  Comparison: sign and magnitude give the order of all values but the NaNs, with both
  zeros equal.
\<close>

definition f_order :: "u32 \<Rightarrow> int" where
  "f_order b = (if f_negative b then - uint (f_abs b) else uint (f_abs b))"

definition f_of_int :: "int \<Rightarrow> u32" where
  "f_of_int n = f_of_rat (of_int n) False"

definition f_trunc :: "u32 \<Rightarrow> int" where
  "f_trunc b = (if f_negative b then - \<lfloor>f_magnitude b\<rfloor> else \<lfloor>f_magnitude b\<rfloor>)"

end
