(* ===== verification/Cpu_State.thy ===== *)
theory Cpu_State
  imports Decoder_Laws Memory_Bus Float32
begin

text \<open>
  The architectural state of the core (\<open>CpuState\<close> of \<open>include/fil/cpu/cortex_m4.hpp\<close>
  with its methods in \<open>src/cpu/cortex_m4.cpp\<close>), the reasons a step stops, and the
  diagnostic a failed step leaves. The register arrays are functions of the register
  number; a floating-point register holds the bits of its value.
\<close>

section \<open>State\<close>

record CpuState =
  core_r :: "nat \<Rightarrow> u32"
  xpsr :: u32
  msp :: u32
  psp :: u32
  primask :: u32
  basepri :: u32
  faultmask :: u32
  control :: u32
  thumb :: bool
  halted :: bool
  pending_exception :: "u16 option"
  pending_exc_return :: "u32 option"
  fp_s :: "nat \<Rightarrow> u32"
  fpscr :: u32
  it_state :: u8
  fp_lazy_active :: bool
  fp_lazy_base :: u32
  instruction_address :: u32

definition new_CpuState :: CpuState where
  "new_CpuState =
     \<lparr>core_r = (\<lambda>_. 0), xpsr = xpsr_t, msp = 0, psp = 0, primask = 0, basepri = 0, faultmask = 0,
      control = 0, thumb = True, halted = False, pending_exception = None,
      pending_exc_return = None, fp_s = (\<lambda>_. 0), fpscr = 0, it_state = 0,
      fp_lazy_active = False, fp_lazy_base = 0, instruction_address = 0\<rparr>"

text \<open>\<open>CpuState::reset\<close>, from the two vector words of the image it is given.\<close>

definition cpu_reset :: "u32 \<Rightarrow> u32 \<Rightarrow> bool \<times> CpuState" where
  "cpu_reset initialMsp resetHandler =
     (let t = (resetHandler AND 1 \<noteq> 0);
          pc = resetHandler AND NOT 1
      in (t, new_CpuState
               \<lparr>msp := initialMsp, core_r := (\<lambda>_. 0)(13 := initialMsp, 15 := pc), thumb := t,
                instruction_address := pc, xpsr := (if t then xpsr_t else 0), halted := \<not> t\<rparr>))"

definition ipsr :: "CpuState \<Rightarrow> u16" where
  "ipsr st = ucast (xpsr st AND xpsr_ipsr_mask)"

definition inHandlerMode :: "CpuState \<Rightarrow> bool" where
  "inHandlerMode st \<longleftrightarrow> ipsr st \<noteq> 0"

text \<open>\<open>activeSp\<close> returns a reference; \<open>uses_msp\<close> tells which register it is.\<close>

definition uses_msp :: "CpuState \<Rightarrow> bool" where
  "uses_msp st \<longleftrightarrow> inHandlerMode st \<or> control st AND 0x2 = 0"

definition activeSp :: "CpuState \<Rightarrow> u32" where
  "activeSp st = (if uses_msp st then msp st else psp st)"

definition set_activeSp :: "u32 \<Rightarrow> CpuState \<Rightarrow> CpuState" where
  "set_activeSp v st = (if uses_msp st then st\<lparr>msp := v\<rparr> else st\<lparr>psp := v\<rparr>)"

definition currentInstrAddr :: "CpuState \<Rightarrow> u32" where
  "currentInstrAddr st = instruction_address st"

definition architecturalPcForRead :: "CpuState \<Rightarrow> u32" where
  "architecturalPcForRead st = instruction_address st + 4"

definition set_r :: "nat \<Rightarrow> u32 \<Rightarrow> CpuState \<Rightarrow> CpuState" where
  "set_r n v st = st\<lparr>core_r := (core_r st)(n := v)\<rparr>"

definition set_s :: "nat \<Rightarrow> u32 \<Rightarrow> CpuState \<Rightarrow> CpuState" where
  "set_s n v st = st\<lparr>fp_s := (fp_s st)(n := v)\<rparr>"

definition readRegister :: "nat \<Rightarrow> CpuState \<Rightarrow> u32" where
  "readRegister n st =
     (if n = 13 then activeSp st
      else if n = 15 then architecturalPcForRead st
      else if n < 16 then core_r st n else 0)"

definition writeRegister :: "nat \<Rightarrow> u32 \<Rightarrow> CpuState \<Rightarrow> CpuState" where
  "writeRegister n v st =
     (if 16 \<le> n then st
      else if n = 13 then set_r 13 v (set_activeSp v st)
      else set_r n v st)"

definition branchWritePc :: "u32 \<Rightarrow> CpuState \<Rightarrow> bool \<times> CpuState" where
  "branchWritePc target st =
     (if target AND 1 = 0 then (False, st)
      else (True, set_r 15 (target AND NOT 1) (st\<lparr>thumb := True, xpsr := xpsr st OR xpsr_t\<rparr>)))"

definition setItState :: "u8 \<Rightarrow> CpuState \<Rightarrow> CpuState" where
  "setItState v st =
     st\<lparr>it_state := v,
        xpsr := (xpsr st AND NOT xpsr_it_mask)
          OR push_bit 25 (ucast (v AND 0x03) :: u32) OR push_bit 8 (ucast (v AND 0xfc) :: u32)\<rparr>"

definition advanceIt :: "CpuState \<Rightarrow> CpuState" where
  "advanceIt st = setItState (advanceItState (it_state st)) st"

definition bitwiseEqual :: "CpuState \<Rightarrow> CpuState \<Rightarrow> bool" where
  "bitwiseEqual a b \<longleftrightarrow>
     list_all (\<lambda>n. core_r a n = core_r b n) [0..<16] \<and> xpsr a = xpsr b \<and> msp a = msp b
     \<and> psp a = psp b \<and> primask a = primask b \<and> basepri a = basepri b
     \<and> faultmask a = faultmask b \<and> control a = control b \<and> thumb a = thumb b
     \<and> halted a = halted b \<and> fpscr a = fpscr b \<and> it_state a = it_state b
     \<and> fp_lazy_active a = fp_lazy_active b \<and> fp_lazy_base a = fp_lazy_base b
     \<and> pending_exception a = pending_exception b \<and> pending_exc_return a = pending_exc_return b
     \<and> instruction_address a = instruction_address b
     \<and> list_all (\<lambda>n. fp_s a n = fp_s b n) [0..<32]"

section \<open>Stop reasons and diagnostics\<close>

datatype StopReason =
  SR_step_complete | SR_instruction_budget | SR_breakpoint | SR_halted | SR_bus_fault
| SR_synchronization_required | SR_undefined_instruction | SR_invalid_state

definition stopReasonName :: "StopReason \<Rightarrow> string" where
  "stopReasonName why =
     (case why of
        SR_step_complete \<Rightarrow> ''step-complete''
      | SR_instruction_budget \<Rightarrow> ''instruction-budget''
      | SR_breakpoint \<Rightarrow> ''breakpoint''
      | SR_halted \<Rightarrow> ''halted''
      | SR_bus_fault \<Rightarrow> ''bus-fault''
      | SR_synchronization_required \<Rightarrow> ''synchronization-required''
      | SR_undefined_instruction \<Rightarrow> ''undefined-instruction''
      | SR_invalid_state \<Rightarrow> ''invalid-state'')"

record DiagnosticSnapshot =
  diag_instruction_address :: u32
  diag_next_pc :: u32
  diag_raw :: u32
  diag_instruction_size :: u8
  diag_registers :: "nat \<Rightarrow> u32"
  diag_xpsr :: u32
  diag_bus_fault :: "BusFault option"
  diag_message :: string

text \<open>
  What an executing instruction works on: the core state, the memory it is attached to,
  and the diagnostic being built.
\<close>

record 'd Core =
  cpu :: CpuState
  mem :: "'d MemoryBus"
  diag :: DiagnosticSnapshot

text \<open>
  What the core is connected to besides memory: the devices behind it, the floating-point
  context control register of the attached system control block, when there is one, and
  the NaN bits of the host.
\<close>

record 'd CpuEnv =
  env_devices :: "'d MmioDevice"
  env_fpccr :: "('d \<Rightarrow> u32) option"
  env_nan :: "u32 list \<Rightarrow> u32"

end
