(* ===== verification/Execute.thy ===== *)
theory Execute
  imports Cpu_State
begin

text \<open>
  The instruction executor, \<open>CortexM4::execute\<close> of \<open>src/cpu/execute.cpp\<close>: one
  definition per group of cases of its switch. An operation that can stop early works
  on the whole core and gives either the reason it stops for (\<open>Inl\<close>) or a value; an
  operation that always completes is a function of the architectural state.
\<close>

section \<open>Operations that can stop\<close>

type_synonym ('a, 'd) exec = "'d Core \<Rightarrow> (StopReason + 'a) \<times> 'd Core"

definition returnE :: "'a \<Rightarrow> ('a, 'd) exec" where
  "returnE x c = (Inr x, c)"

definition bindE :: "('a, 'd) exec \<Rightarrow> ('a \<Rightarrow> ('b, 'd) exec) \<Rightarrow> ('b, 'd) exec" where
  "bindE m f c = (case m c of (Inl why, c') \<Rightarrow> (Inl why, c') | (Inr x, c') \<Rightarrow> f x c')"

primrec forE :: "('x \<Rightarrow> (unit, 'd) exec) \<Rightarrow> 'x list \<Rightarrow> (unit, 'd) exec" where
  "forE f [] = returnE ()"
| "forE f (x # xs) = bindE (f x) (\<lambda>_. forE f xs)"

definition on_cpu :: "(CpuState \<Rightarrow> CpuState) \<Rightarrow> (unit, 'd) exec" where
  "on_cpu f c = (Inr (), c\<lparr>cpu := f (cpu c)\<rparr>)"

definition failWith :: "StopReason \<Rightarrow> string \<Rightarrow> ('a, 'd) exec" where
  "failWith why msg c =
     (Inl why, c\<lparr>diag := (diag c)\<lparr>diag_bus_fault := None, diag_message := msg\<rparr>\<rparr>)"

definition failInvalid :: "string \<Rightarrow> ('a, 'd) exec" where
  "failInvalid msg c = failWith SR_invalid_state msg (c\<lparr>cpu := (cpu c)\<lparr>halted := True\<rparr>\<rparr>)"

definition failBus :: "BusFault \<Rightarrow> string \<Rightarrow> ('a, 'd) exec" where
  "failBus fault msg c =
     (Inl (if reason fault = BF_synchronization_required then SR_synchronization_required
           else SR_bus_fault),
      c\<lparr>diag := (diag c)\<lparr>diag_bus_fault := Some fault, diag_message := msg\<rparr>\<rparr>)"

definition on_memory :: "('d MemoryBus \<Rightarrow> 'a MemoryResult \<times> 'd MemoryBus) \<Rightarrow> string \<Rightarrow> ('a, 'd) exec" where
  "on_memory access msg c =
     (case access (mem c) of
        (Inl fault, bus) \<Rightarrow> failBus fault msg (c\<lparr>mem := bus\<rparr>)
      | (Inr v, bus) \<Rightarrow> (Inr v, c\<lparr>mem := bus\<rparr>))"

definition data_context :: "bool \<Rightarrow> CpuState \<Rightarrow> AccessContext" where
  "data_context store st =
     \<lparr>ctx_type = (if store then AT_data_write else AT_data_read), ctx_pc = currentInstrAddr st\<rparr>"

section \<open>Flags, operands and conversions\<close>

definition carryFlag :: "CpuState \<Rightarrow> bool" where
  "carryFlag st \<longleftrightarrow> xpsr st AND xpsr_c \<noteq> 0"

definition isFpRegisterAccess :: "InstrKind \<Rightarrow> bool" where
  "isFpRegisterAccess k \<longleftrightarrow>
     k \<in> {I_vstm, I_vldm, I_vldr, I_vstr, I_vmov_core_to_single, I_vmov_single_to_core,
           I_vmov_single, I_vmov_immediate, I_vcvt_f32_s32, I_vcvt_f32_u32, I_vcvt_s32_f32,
           I_vcvt_u32_f32, I_vadd, I_vsub, I_vmul, I_vnmul, I_vdiv, I_vfma, I_vfms, I_vfnms,
           I_vcmp, I_vneg, I_vabs, I_vsqrt}"

definition flag :: "bool \<Rightarrow> u32 \<Rightarrow> u32" where
  "flag b m = (if b then m else 0)"

definition setNz :: "u32 \<Rightarrow> CpuState \<Rightarrow> CpuState" where
  "setNz v st =
     st\<lparr>xpsr := (xpsr st AND NOT (xpsr_n OR xpsr_z)) OR flag (v AND 0x80000000 \<noteq> 0) xpsr_n
               OR flag (v = 0) xpsr_z\<rparr>"

definition setNzc :: "u32 \<Rightarrow> bool \<Rightarrow> CpuState \<Rightarrow> CpuState" where
  "setNzc v carry st =
     (let st' = setNz v st in st'\<lparr>xpsr := (xpsr st' AND NOT xpsr_c) OR flag carry xpsr_c\<rparr>)"

definition setNzcv :: "AddResult \<Rightarrow> CpuState \<Rightarrow> CpuState" where
  "setNzcv res st =
     st\<lparr>xpsr := (xpsr st AND NOT (xpsr_n OR xpsr_z OR xpsr_c OR xpsr_v)) OR flag (ar_n res) xpsr_n
               OR flag (ar_z res) xpsr_z OR flag (ar_c res) xpsr_c OR flag (ar_v res) xpsr_v\<rparr>"

definition isStore :: "InstrKind \<Rightarrow> bool" where
  "isStore k \<longleftrightarrow> k = I_str \<or> k = I_strb \<or> k = I_strh \<or> k = I_strd"

definition branchTarget :: "CpuState \<Rightarrow> int \<Rightarrow> u32" where
  "branchTarget st off = word_of_int (uint (currentInstrAddr st) + 4 + off)"

definition floatToSignedIntegerBits :: "u32 \<Rightarrow> u32" where
  "floatToSignedIntegerBits v =
     (if \<not> f_isfinite v then 0x80000000
      else let truncated = f_trunc v
           in if truncated < - 2147483648 \<or> truncated > 2147483647 then 0x80000000
              else word_of_int truncated)"

definition floatToUnsignedIntegerBits :: "u32 \<Rightarrow> u32" where
  "floatToUnsignedIntegerBits v =
     (if \<not> f_isfinite v \<or> f_value v \<le> 0 then 0
      else let truncated = f_trunc v
           in if truncated \<ge> 4294967295 then 0xffffffff else word_of_int truncated)"

definition writeAluResult :: "nat \<Rightarrow> u32 \<Rightarrow> CpuState \<Rightarrow> CpuState" where
  "writeAluResult d v st = (if d = 15 then set_r 15 (v AND NOT 1) st else writeRegister d v st)"

definition shiftedOperand :: "DecodedInstruction \<Rightarrow> CpuState \<Rightarrow> ShiftResult" where
  "shiftedOperand i st =
     (if form i = OF_immediate then
        \<lparr>sr_value = imm i,
         sr_carry = (if immediate_carry_valid i then immediate_carry i else carryFlag st)\<rparr>
      else shiftC (readRegister (rm i) st) (shift_type i) (shift_amount i) (carryFlag st))"

definition operand2 :: "DecodedInstruction \<Rightarrow> CpuState \<Rightarrow> u32" where
  "operand2 i st = sr_value (shiftedOperand i st)"

section \<open>Floating-point context\<close>

definition fpccr_aspen :: u32 where "fpccr_aspen = 0x80000000"

definition fp_claim_context :: "'d CpuEnv \<Rightarrow> (unit, 'd) exec" where
  "fp_claim_context env c =
     (let aspen = (case env_fpccr env of
                     None \<Rightarrow> True
                   | Some fpccr \<Rightarrow> fpccr (devices (mem c)) AND fpccr_aspen \<noteq> 0)
      in (Inr (), if aspen then c\<lparr>cpu := (cpu c)\<lparr>control := control (cpu c) OR 4\<rparr>\<rparr> else c))"

definition fp_lazy_stack :: "'d CpuEnv \<Rightarrow> (unit, 'd) exec" where
  "fp_lazy_stack env c =
     (let st = cpu c;
          ctx = data_context True st;
          store = (\<lambda>off v. write32 (env_devices env) (fp_lazy_base st + off) v ctx)
      in bindE
           (forE (\<lambda>n. bindE (on_memory (store (of_nat n * 4) (fp_s st n))
                               ''unable to stack floating-point exception frame'')
                        (\<lambda>_. returnE ())) [0..<16])
           (\<lambda>_. bindE (on_memory (store 64 (fpscr st)) ''unable to stack FPSCR'')
             (\<lambda>_. bindE (on_memory (store 68 0) ''unable to stack floating-point reserved word'')
               (\<lambda>_. on_cpu (\<lambda>s. s\<lparr>fp_lazy_active := False\<rparr>)))) c)"

definition fp_prologue :: "'d CpuEnv \<Rightarrow> DecodedInstruction \<Rightarrow> (unit, 'd) exec" where
  "fp_prologue env i c =
     (if \<not> isFpRegisterAccess (kind i) then returnE () c
      else bindE (fp_claim_context env)
             (\<lambda>_ c. if inHandlerMode (cpu c) \<and> fp_lazy_active (cpu c) then fp_lazy_stack env c
                     else returnE () c) c)"

section \<open>Data processing\<close>

definition exec_mov :: "DecodedInstruction \<Rightarrow> (unit, 'd) exec" where
  "exec_mov i c =
     (let shifted = shiftedOperand i (cpu c);
          v = sr_value shifted;
          finish = (\<lambda>st. if set_flags i then setNzc v (sr_carry shifted) st else st)
      in if rd i = 15 then
           (let (ok, st) = branchWritePc v (cpu c)
            in if \<not> ok then failInvalid ''MOV to PC selected non-Thumb state'' c
               else (Inr (), c\<lparr>cpu := finish st\<rparr>))
         else (Inr (), c\<lparr>cpu := finish (writeRegister (rd i) v (cpu c))\<rparr>))"

definition alu_movw :: "DecodedInstruction \<Rightarrow> CpuState \<Rightarrow> CpuState" where
  "alu_movw i st = writeRegister (rd i) (imm i) st"

definition alu_movt :: "DecodedInstruction \<Rightarrow> CpuState \<Rightarrow> CpuState" where
  "alu_movt i st =
     writeRegister (rd i) ((readRegister (rd i) st AND 0x0000ffff) OR push_bit 16 (imm i)) st"

definition alu_add :: "DecodedInstruction \<Rightarrow> CpuState \<Rightarrow> CpuState" where
  "alu_add i st =
     (let left = readRegister (rn i) st;
          left = (if rn i = 15 \<and> form i = OF_immediate then left AND NOT 3 else left);
          right = operand2 i st;
          subtract = (kind i = I_sub \<or> kind i = I_sbc);
          carry_in = (if kind i = I_adc then carryFlag st
                      else if kind i = I_sbc then carryFlag st else subtract);
          res = addWithCarry left (if subtract then NOT right else right) carry_in;
          st' = writeAluResult (rd i) (ar_value res) st
      in if set_flags i then setNzcv res st' else st')"

definition alu_rsb :: "DecodedInstruction \<Rightarrow> CpuState \<Rightarrow> CpuState" where
  "alu_rsb i st =
     (let left = (if form i = OF_immediate then imm i else if is_32bit i then operand2 i st else 0);
          right = (if form i = OF_immediate then readRegister (rn i) st
                   else if is_32bit i then readRegister (rn i) st else readRegister (rm i) st);
          res = addWithCarry left (NOT right) True;
          st' = writeRegister (rd i) (ar_value res) st
      in if set_flags i then setNzcv res st' else st')"

definition alu_compare :: "DecodedInstruction \<Rightarrow> CpuState \<Rightarrow> CpuState" where
  "alu_compare i st =
     (let left = readRegister (rn i) st;
          right = operand2 i st;
          res = (if kind i = I_cmp then addWithCarry left (NOT right) True
                 else addWithCarry left right False)
      in setNzcv res st)"

definition alu_tst :: "DecodedInstruction \<Rightarrow> CpuState \<Rightarrow> CpuState" where
  "alu_tst i st =
     (let shifted = shiftedOperand i st
      in setNzc (readRegister (rn i) st AND sr_value shifted) (sr_carry shifted) st)"

definition alu_logic :: "DecodedInstruction \<Rightarrow> CpuState \<Rightarrow> CpuState" where
  "alu_logic i st =
     (let left = readRegister (rn i) st;
          shifted = shiftedOperand i st;
          right = sr_value shifted;
          v = (if kind i = I_and then left AND right
               else if kind i = I_orr then left OR right
               else if kind i = I_eor then left XOR right
               else if kind i = I_bic then left AND NOT right
               else if kind i = I_mvn then NOT right
               else if kind i = I_orn then left OR NOT right else 0);
          st' = writeRegister (rd i) v st
      in if set_flags i then setNzc v (sr_carry shifted) st' else st')"

definition alu_mul :: "DecodedInstruction \<Rightarrow> CpuState \<Rightarrow> CpuState" where
  "alu_mul i st =
     (let product = (ucast (readRegister (rn i) st) :: u64) * ucast (readRegister (rm i) st);
          v = ucast product;
          st' = writeRegister (rd i) v st
      in if set_flags i then setNz v st' else st')"

definition alu_mla :: "DecodedInstruction \<Rightarrow> CpuState \<Rightarrow> CpuState" where
  "alu_mla i st =
     (let product = readRegister (rn i) st * readRegister (rm i) st;
          addend = readRegister (ra i) st
      in writeRegister (rd i) (if kind i = I_mla then product + addend else addend - product) st)"

definition alu_umull :: "DecodedInstruction \<Rightarrow> CpuState \<Rightarrow> CpuState" where
  "alu_umull i st =
     (let product = (ucast (readRegister (rn i) st) :: u64) * ucast (readRegister (rm i) st)
      in writeRegister (ra i) (ucast (drop_bit 32 product)) (writeRegister (rd i) (ucast product) st))"

definition alu_smull :: "DecodedInstruction \<Rightarrow> CpuState \<Rightarrow> CpuState" where
  "alu_smull i st =
     (let product = sint (readRegister (rn i) st) * sint (readRegister (rm i) st);
          bits = (word_of_int product :: u64)
      in writeRegister (ra i) (ucast (drop_bit 32 bits)) (writeRegister (rd i) (ucast bits) st))"

definition alu_udiv :: "DecodedInstruction \<Rightarrow> CpuState \<Rightarrow> CpuState" where
  "alu_udiv i st =
     (let divisor = readRegister (rm i) st
      in writeRegister (rd i) (if divisor = 0 then 0 else readRegister (rn i) st div divisor) st)"

text \<open>Signed division truncates; \<open>quot\<close> is division of the magnitudes with the sign of the quotient.\<close>

definition quot :: "int \<Rightarrow> int \<Rightarrow> int" where
  "quot a b = sgn a * sgn b * (\<bar>a\<bar> div \<bar>b\<bar>)"

definition alu_sdiv :: "DecodedInstruction \<Rightarrow> CpuState \<Rightarrow> CpuState" where
  "alu_sdiv i st =
     (let dividend = sint (readRegister (rn i) st);
          divisor = sint (readRegister (rm i) st);
          quotient = (if divisor = 0 then 0
                      else if dividend = - 2147483648 \<and> divisor = - 1 then - 2147483648
                      else quot dividend divisor)
      in writeRegister (rd i) (word_of_int quotient) st)"

definition uadd8_lane :: "u32 \<Rightarrow> u32 \<Rightarrow> nat \<Rightarrow> u32" where
  "uadd8_lane left right lane =
     (drop_bit (lane * 8) left AND 0xff) + (drop_bit (lane * 8) right AND 0xff)"

definition alu_uadd8 :: "DecodedInstruction \<Rightarrow> CpuState \<Rightarrow> CpuState" where
  "alu_uadd8 i st =
     (let left = readRegister (rn i) st;
          right = readRegister (rm i) st;
          v = foldl (\<lambda>acc lane. acc OR push_bit (lane * 8) (uadd8_lane left right lane AND 0xff)) 0 [0..<4];
          ge = foldl (\<lambda>acc lane. if uadd8_lane left right lane \<ge> 0x100 then acc OR push_bit (16 + lane) 1
                                 else acc) 0 [0..<4];
          st' = writeRegister (rd i) v st
      in st'\<lparr>xpsr := (xpsr st' AND NOT xpsr_ge_mask) OR ge\<rparr>)"

definition alu_sel :: "DecodedInstruction \<Rightarrow> CpuState \<Rightarrow> CpuState" where
  "alu_sel i st =
     (let left = readRegister (rn i) st;
          right = readRegister (rm i) st;
          v = foldl (\<lambda>acc lane.
                let use_left = (xpsr st AND push_bit (16 + lane) 1 \<noteq> 0)
                in acc OR push_bit (lane * 8) (drop_bit (lane * 8) (if use_left then left else right) AND 0xff))
              0 [0..<4]
      in writeRegister (rd i) v st)"

definition alu_clz :: "DecodedInstruction \<Rightarrow> CpuState \<Rightarrow> CpuState" where
  "alu_clz i st = writeRegister (rd i) (of_nat (countl_zero (readRegister (rm i) st))) st"

definition alu_bfc :: "DecodedInstruction \<Rightarrow> CpuState \<Rightarrow> CpuState" where
  "alu_bfc i st =
     (let width = unat (imm i);
          field_mask = (if width = 32 then 0xffffffff
                        else push_bit (shift_amount i) (push_bit width 1 - 1))
      in writeRegister (rd i) (readRegister (rd i) st AND NOT field_mask) st)"

definition alu_ubfx :: "DecodedInstruction \<Rightarrow> CpuState \<Rightarrow> CpuState" where
  "alu_ubfx i st =
     (let width = unat (imm i);
          field_mask = (if width = 32 then 0xffffffff else push_bit width 1 - 1)
      in writeRegister (rd i) (drop_bit (shift_amount i) (readRegister (rn i) st) AND field_mask) st)"

text \<open>Extensions rotate their source first; a signed one fills with the top bit of the part it keeps.\<close>

definition sign_fill :: "u32 \<Rightarrow> u32 \<Rightarrow> u32 \<Rightarrow> u32" where
  "sign_fill v sign fill = (if v AND sign \<noteq> 0 then v OR fill else v)"

definition alu_extend :: "DecodedInstruction \<Rightarrow> CpuState \<Rightarrow> CpuState" where
  "alu_extend i st =
     (let source = rotr32 (readRegister (rm i) st) (shift_amount i);
          v = (if kind i = I_uxtb then source AND 0xff
               else if kind i = I_uxth then source AND 0xffff
               else if kind i = I_sxtb then sign_fill (source AND 0xff) 0x80 0xffffff00
               else sign_fill (source AND 0xffff) 0x8000 0xffff0000)
      in writeRegister (rd i) v st)"

definition alu_reverse :: "DecodedInstruction \<Rightarrow> CpuState \<Rightarrow> CpuState" where
  "alu_reverse i st =
     (let source = readRegister (rm i) st;
          v = (if kind i = I_rev then
                 push_bit 24 (source AND 0x000000ff) OR push_bit 8 (source AND 0x0000ff00)
                 OR drop_bit 8 (source AND 0x00ff0000) OR drop_bit 24 (source AND 0xff000000)
               else if kind i = I_rev16 then
                 push_bit 8 (source AND 0x00ff00ff) OR drop_bit 8 (source AND 0xff00ff00)
               else
                 sign_fill (push_bit 8 (source AND 0xff) OR (drop_bit 8 source AND 0xff)) 0x8000 0xffff0000)
      in writeRegister (rd i) v st)"

definition alu_shift :: "DecodedInstruction \<Rightarrow> CpuState \<Rightarrow> CpuState" where
  "alu_shift i st =
     (let immediate = (form i = OF_immediate);
          v = (if immediate then readRegister (rm i) st else readRegister (rn i) st);
          amount = (if immediate then shift_amount i else unat (readRegister (rm i) st AND 0xff));
          res = shiftC v (shift_type i) amount (carryFlag st);
          st' = writeRegister (rd i) (sr_value res) st
      in if set_flags i then setNzc (sr_value res) (sr_carry res) st' else st')"

section \<open>Loads and stores\<close>

definition load_base :: "DecodedInstruction \<Rightarrow> CpuState \<Rightarrow> u32" where
  "load_base i st =
     (if rn i = 15 then architecturalPcForRead st AND NOT 3 else readRegister (rn i) st)"

definition load_offset :: "DecodedInstruction \<Rightarrow> CpuState \<Rightarrow> u32" where
  "load_offset i st =
     (if form i = OF_register_value then
        sr_value (shiftC (readRegister (rm i) st) (shift_type i) (shift_amount i) (carryFlag st))
      else imm i)"

definition offset_address :: "DecodedInstruction \<Rightarrow> CpuState \<Rightarrow> u32" where
  "offset_address i st =
     (if add i then load_base i st + load_offset i st else load_base i st - load_offset i st)"

definition access_address :: "DecodedInstruction \<Rightarrow> CpuState \<Rightarrow> u32" where
  "access_address i st = (if index i then offset_address i st else load_base i st)"

definition finish_writeback :: "DecodedInstruction \<Rightarrow> u32 \<Rightarrow> (unit, 'd) exec" where
  "finish_writeback i a = on_cpu (\<lambda>st. if writeback i then writeRegister (rn i) a st else st)"

text \<open>A loaded value that goes to the program counter must select Thumb state.\<close>

definition load_pc :: "u32 \<Rightarrow> string \<Rightarrow> (unit, 'd) exec" where
  "load_pc v msg c =
     (let (ok, st) = branchWritePc v (cpu c)
      in if \<not> ok then failInvalid msg c else (Inr (), c\<lparr>cpu := st\<rparr>))"

definition load_pc_or_return :: "u32 \<Rightarrow> string \<Rightarrow> (unit, 'd) exec" where
  "load_pc_or_return v msg c =
     (if isExceptionReturn v then (Inr (), c\<lparr>cpu := (cpu c)\<lparr>pending_exc_return := Some v\<rparr>\<rparr>)
      else load_pc v msg c)"

definition exec_ldr :: "'d CpuEnv \<Rightarrow> DecodedInstruction \<Rightarrow> (unit, 'd) exec" where
  "exec_ldr env i c =
     (let st = cpu c; wb = offset_address i st
      in bindE (on_memory (read32 (env_devices env) (access_address i st) (data_context False st))
                  ''word load failed'')
           (\<lambda>v. bindE (if rd i = 15 then load_pc_or_return v ''load to PC selected non-Thumb state''
                        else on_cpu (writeRegister (rd i) v))
             (\<lambda>_. finish_writeback i wb)) c)"

definition store_value :: "'d CpuEnv \<Rightarrow> DecodedInstruction \<Rightarrow> u32 \<Rightarrow> AccessContext \<Rightarrow> u32 \<Rightarrow> (u64, 'd) exec" where
  "store_value env i a ctx v =
     (if kind i = I_str then on_memory (write32 (env_devices env) a v ctx) ''word store failed''
      else if kind i = I_strb then
        on_memory (write8 (env_devices env) a (ucast v) ctx) ''byte store failed''
      else on_memory (write16 (env_devices env) a (ucast v) ctx) ''halfword store failed'')"

definition load_value :: "'d CpuEnv \<Rightarrow> DecodedInstruction \<Rightarrow> u32 \<Rightarrow> AccessContext \<Rightarrow> (u32, 'd) exec" where
  "load_value env i a ctx =
     (if kind i = I_ldrb \<or> kind i = I_ldrsb then
        bindE (on_memory (read8 (env_devices env) a ctx) ''byte load failed'')
          (\<lambda>b. returnE (if kind i = I_ldrsb then sign_fill (ucast b) 0x80 0xffffff00 else ucast b))
      else
        bindE (on_memory (read16 (env_devices env) a ctx) ''halfword load failed'')
          (\<lambda>h. returnE (if kind i = I_ldrsh then sign_fill (ucast h) 0x8000 0xffff0000 else ucast h)))"

definition exec_transfer :: "'d CpuEnv \<Rightarrow> DecodedInstruction \<Rightarrow> (unit, 'd) exec" where
  "exec_transfer env i c =
     (let st = cpu c; wb = offset_address i st; a = access_address i st;
          ctx = data_context (isStore (kind i)) st
      in bindE
           (if isStore (kind i) then
              bindE (store_value env i a ctx (readRegister (rd i) st)) (\<lambda>_. returnE ())
            else
              bindE (load_value env i a ctx)
                (\<lambda>v. if rd i = 15 then load_pc v ''load to PC selected non-Thumb state''
                      else on_cpu (writeRegister (rd i) v)))
           (\<lambda>_. finish_writeback i wb) c)"

definition double_offset :: "DecodedInstruction \<Rightarrow> CpuState \<Rightarrow> u32" where
  "double_offset i st =
     (if add i then readRegister (rn i) st + imm i else readRegister (rn i) st - imm i)"

definition double_address :: "DecodedInstruction \<Rightarrow> CpuState \<Rightarrow> u32" where
  "double_address i st = (if index i then double_offset i st else readRegister (rn i) st)"

definition exec_doubleword :: "'d CpuEnv \<Rightarrow> DecodedInstruction \<Rightarrow> (unit, 'd) exec" where
  "exec_doubleword env i c =
     (let st = cpu c;
          off = double_offset i st;
          a = double_address i st;
          load = (kind i = I_ldrd);
          ctx = data_context (\<not> load) st;
          dev = env_devices env
      in bindE
           (if load then
              bindE (on_memory (read32 dev a ctx) ''first doubleword load failed'')
                (\<lambda>v1. bindE (on_memory (read32 dev (a + 4) ctx) ''second doubleword load failed'')
                  (\<lambda>v2. on_cpu (\<lambda>st. writeRegister (ra i) v2 (writeRegister (rd i) v1 st))))
            else
              bindE (on_memory (write32 dev a (readRegister (rd i) st) ctx) ''first doubleword store failed'')
                (\<lambda>_. bindE (on_memory (write32 dev (a + 4) (readRegister (ra i) st) ctx)
                               ''second doubleword store failed'')
                  (\<lambda>_. returnE ())))
           (\<lambda>_. finish_writeback i off) c)"

section \<open>Multiple transfers\<close>

definition listed :: "u16 \<Rightarrow> nat \<Rightarrow> bool" where
  "listed l n \<longleftrightarrow> l AND push_bit n 1 \<noteq> 0"

definition decrement_before :: "DecodedInstruction \<Rightarrow> bool" where
  "decrement_before i \<longleftrightarrow> \<not> add i \<and> index i"

definition multiple_start :: "DecodedInstruction \<Rightarrow> nat \<Rightarrow> u32 \<Rightarrow> u32" where
  "multiple_start i n bs = (if decrement_before i then bs - of_nat n * 4 else bs)"

definition multiple_final :: "DecodedInstruction \<Rightarrow> nat \<Rightarrow> u32 \<Rightarrow> u32" where
  "multiple_final i n bs =
     (if decrement_before i then multiple_start i n bs else bs + of_nat n * 4)"

text \<open>
  The transfer loop runs over the register numbers with the address of the next listed
  register; loaded values are collected and written only after every load succeeded.
\<close>

fun load_listed :: "'d CpuEnv \<Rightarrow> AccessContext \<Rightarrow> u16 \<Rightarrow> nat list \<Rightarrow> u32 \<Rightarrow> (nat \<Rightarrow> u32) \<Rightarrow> (nat \<Rightarrow> u32, 'd) exec" where
  "load_listed env ctx l [] a loaded = returnE loaded"
| "load_listed env ctx l (n # ns) a loaded =
     (if \<not> listed l n then load_listed env ctx l ns a loaded
      else bindE (on_memory (read32 (env_devices env) a ctx) ''multiple-register load failed'')
             (\<lambda>v. load_listed env ctx l ns (a + 4) (loaded(n := v))))"

fun store_listed :: "'d CpuEnv \<Rightarrow> AccessContext \<Rightarrow> u16 \<Rightarrow> CpuState \<Rightarrow> nat list \<Rightarrow> u32 \<Rightarrow> (unit, 'd) exec" where
  "store_listed env ctx l st [] a = returnE ()"
| "store_listed env ctx l st (n # ns) a =
     (if \<not> listed l n then store_listed env ctx l st ns a
      else bindE (on_memory (write32 (env_devices env) a (readRegister n st) ctx)
                    ''multiple-register store failed'')
             (\<lambda>_. store_listed env ctx l st ns (a + 4)))"

definition write_listed :: "u16 \<Rightarrow> (nat \<Rightarrow> u32) \<Rightarrow> CpuState \<Rightarrow> CpuState" where
  "write_listed l loaded st =
     foldl (\<lambda>st n. if listed l n then writeRegister n (loaded n) st else st) st [0..<15]"

definition exec_multiple :: "'d CpuEnv \<Rightarrow> DecodedInstruction \<Rightarrow> (unit, 'd) exec" where
  "exec_multiple env i c =
     (let load = (kind i = I_pop \<or> kind i = I_ldm);
          l = register_list i;
          n = popcount16 l;
          st = cpu c;
          bs = readRegister (rn i) st;
          start = multiple_start i n bs;
          ctx = data_context (\<not> load) st;
          wb = (\<lambda>st. if writeback i then writeRegister (rn i) (multiple_final i n bs) st else st)
      in if load then
           bindE (load_listed env ctx l [0..<16] start (\<lambda>_. 0))
             (\<lambda>loaded. bindE (on_cpu (\<lambda>st. wb (write_listed l loaded st)))
               (\<lambda>_. if listed l 15 then load_pc_or_return (loaded 15) ''POP/LDM selected non-Thumb state''
                     else returnE ())) c
         else bindE (store_listed env ctx l st [0..<16] start) (\<lambda>_. on_cpu wb) c)"

section \<open>Branches\<close>

definition alu_b :: "DecodedInstruction \<Rightarrow> CpuState \<Rightarrow> CpuState" where
  "alu_b i st = set_r 15 (branchTarget st (branch_offset i) AND NOT 1) st"

definition alu_bl :: "DecodedInstruction \<Rightarrow> CpuState \<Rightarrow> CpuState" where
  "alu_bl i st =
     (let st' = set_r 14 (core_r st 15 OR 1) st
      in set_r 15 (branchTarget st' (branch_offset i) AND NOT 1) st')"

definition exec_bx :: "DecodedInstruction \<Rightarrow> (unit, 'd) exec" where
  "exec_bx i c =
     (let st = cpu c;
          target = readRegister (rm i) st;
          st' = (if kind i = I_blx then set_r 14 (core_r st 15 OR 1) st else st);
          c' = c\<lparr>cpu := st'\<rparr>
      in if kind i = I_bx \<and> isExceptionReturn target then
           (Inr (), c'\<lparr>cpu := st'\<lparr>pending_exc_return := Some target\<rparr>\<rparr>)
         else load_pc target ''branch exchange selected non-Thumb state'' c')"

definition exec_table_branch :: "'d CpuEnv \<Rightarrow> DecodedInstruction \<Rightarrow> (unit, 'd) exec" where
  "exec_table_branch env i c =
     (let st = cpu c;
          bs = readRegister (rn i) st;
          off = readRegister (rm i) st;
          a = bs + (if kind i = I_tbh then off * 2 else off);
          ctx = data_context False st
      in bindE
           (if kind i = I_tbb then
              bindE (on_memory (read8 (env_devices env) a ctx) ''TBB table byte load failed'')
                (\<lambda>b. returnE (ucast b))
            else
              bindE (on_memory (read16 (env_devices env) a ctx) ''TBH table halfword load failed'')
                (\<lambda>h. returnE (ucast h)))
           (\<lambda>entry. on_cpu (\<lambda>st. set_r 15 (architecturalPcForRead st + entry * 2) st)) c)"

definition alu_compare_branch :: "DecodedInstruction \<Rightarrow> CpuState \<Rightarrow> CpuState" where
  "alu_compare_branch i st =
     (let zero = (readRegister (rn i) st = 0);
          take_it = (if kind i = I_cbz then zero else \<not> zero)
      in if take_it then set_r 15 ((architecturalPcForRead st + imm i) AND NOT 1) st else st)"

section \<open>Floating point\<close>

definition exec_vfp_transfer :: "'d CpuEnv \<Rightarrow> DecodedInstruction \<Rightarrow> (unit, 'd) exec" where
  "exec_vfp_transfer env i c =
     (let load = (kind i = I_vldr);
          st = cpu c;
          bs = load_base i st;
          a = (if add i then bs + imm i else bs - imm i);
          ctx = data_context (\<not> load) st
      in forE (\<lambda>w c.
           if load then
             bindE (on_memory (read32 (env_devices env) (a + of_nat w * 4) ctx) ''VFP scalar load failed'')
               (\<lambda>v. on_cpu (set_s (rd i + w) v)) c
           else
             bindE (on_memory (write32 (env_devices env) (a + of_nat w * 4) (fp_s (cpu c) (rd i + w)) ctx)
                      ''VFP scalar store failed'') (\<lambda>_. returnE ()) c)
           [0..<(if fp_double i then 2 else 1)] c)"

definition alu_vmov :: "DecodedInstruction \<Rightarrow> CpuState \<Rightarrow> CpuState" where
  "alu_vmov i st =
     (if kind i = I_vmov_core_to_single then set_s (rd i) (readRegister (rn i) st) st
      else if kind i = I_vmov_single_to_core then writeRegister (rd i) (fp_s st (rn i)) st
      else if kind i = I_vmov_single then set_s (rd i) (fp_s st (rm i)) st
      else set_s (rd i) (imm i) st)"

definition alu_vcvt :: "DecodedInstruction \<Rightarrow> CpuState \<Rightarrow> CpuState" where
  "alu_vcvt i st =
     (let source = fp_s st (rm i);
          v = (if kind i = I_vcvt_f32_s32 then f_of_int (sint source)
               else if kind i = I_vcvt_f32_u32 then f_of_int (uint source)
               else if kind i = I_vcvt_s32_f32 then floatToSignedIntegerBits source
               else floatToUnsignedIntegerBits source)
      in set_s (rd i) v st)"

definition alu_varith :: "(u32 list \<Rightarrow> u32) \<Rightarrow> DecodedInstruction \<Rightarrow> CpuState \<Rightarrow> CpuState" where
  "alu_varith nan i st =
     (let n = fp_s st (rn i); m = fp_s st (rm i); d = fp_s st (rd i);
          v = (if kind i = I_vadd then f_add nan n m
               else if kind i = I_vsub then f_sub nan n m
               else if kind i = I_vmul then f_mul nan n m
               else if kind i = I_vnmul then f_neg (f_mul nan n m)
               else if kind i = I_vdiv then f_div nan n m
               else if kind i = I_vfma then f_fma nan n m d
               else if kind i = I_vfms then f_fma nan (f_neg n) m d
               else if kind i = I_vfnms then f_fma nan n m (f_neg d)
               else if kind i = I_vneg then f_neg m
               else if kind i = I_vabs then f_abs m
               else f_sqrt nan m)
      in set_s (rd i) v st)"

definition alu_vcmp :: "DecodedInstruction \<Rightarrow> CpuState \<Rightarrow> CpuState" where
  "alu_vcmp i st =
     (let left = fp_s st (rn i);
          right = (if form i = OF_immediate then 0 else fp_s st (rm i));
          flags = (if f_isnan left \<or> f_isnan right then xpsr_c OR xpsr_v
                   else if f_order left = f_order right then xpsr_z OR xpsr_c
                   else if f_order left < f_order right then xpsr_n
                   else xpsr_c)
      in st\<lparr>fpscr := (fpscr st AND 0x0fffffff) OR flags\<rparr>)"

definition alu_vmrs :: "CpuState \<Rightarrow> CpuState" where
  "alu_vmrs st =
     (let nzcv = xpsr_n OR xpsr_z OR xpsr_c OR xpsr_v
      in st\<lparr>xpsr := (xpsr st AND NOT nzcv) OR (fpscr st AND nzcv)\<rparr>)"

definition exec_vfp_multiple :: "'d CpuEnv \<Rightarrow> DecodedInstruction \<Rightarrow> (unit, 'd) exec" where
  "exec_vfp_multiple env i c =
     (let load = (kind i = I_vldm);
          n = unat (imm i);
          st = cpu c;
          bs = readRegister (rn i) st;
          start = multiple_start i n bs;
          ctx = data_context (\<not> load) st
      in bindE
           (forE (\<lambda>w c.
              if load then
                bindE (on_memory (read32 (env_devices env) (start + of_nat w * 4) ctx) ''VFP multiple load failed'')
                  (\<lambda>v. on_cpu (set_s (rd i + w) v)) c
              else
                bindE (on_memory (write32 (env_devices env) (start + of_nat w * 4) (fp_s (cpu c) (rd i + w)) ctx)
                         ''VFP multiple store failed'') (\<lambda>_. returnE ()) c)
              [0..<n])
           (\<lambda>_. finish_writeback i (multiple_final i n bs)) c)"

section \<open>System instructions\<close>

definition exec_mrs :: "DecodedInstruction \<Rightarrow> (unit, 'd) exec" where
  "exec_mrs i c =
     (let st = cpu c;
          v = (if imm i = 5 then Some (ucast (ipsr st))
               else if imm i = 8 then Some (msp st)
               else if imm i = 9 then Some (psp st)
               else if imm i = 16 then Some (primask st AND 1)
               else if imm i = 17 \<or> imm i = 18 then Some (basepri st AND 0xf0)
               else if imm i = 19 then Some (faultmask st AND 1)
               else if imm i = 20 then Some (control st AND 0x7)
               else None)
      in case v of
           None \<Rightarrow> failWith SR_undefined_instruction ''unsupported MRS special register'' c
         | Some v \<Rightarrow> on_cpu (writeRegister (rd i) v) c)"

definition msr_write :: "u32 \<Rightarrow> u32 \<Rightarrow> CpuState \<Rightarrow> CpuState option" where
  "msr_write selector v st =
     (if selector = 8 then
        (let st' = st\<lparr>msp := v AND NOT 3\<rparr>
         in Some (if uses_msp st' then set_r 13 (msp st') st' else st'))
      else if selector = 9 then
        (let st' = st\<lparr>psp := v AND NOT 3\<rparr>
         in Some (if \<not> uses_msp st' then set_r 13 (psp st') st' else st'))
      else if selector = 16 then Some (st\<lparr>primask := v AND 1\<rparr>)
      else if selector = 17 then Some (st\<lparr>basepri := v AND 0xf0\<rparr>)
      else if selector = 18 then
        (let requested = v AND 0xf0
         in Some (if requested \<noteq> 0 \<and> (basepri st = 0 \<or> requested < basepri st)
                  then st\<lparr>basepri := requested\<rparr> else st))
      else if selector = 19 then Some (st\<lparr>faultmask := v AND 1\<rparr>)
      else if selector = 20 then Some (st\<lparr>control := v AND 0x7\<rparr>)
      else None)"

definition exec_msr :: "DecodedInstruction \<Rightarrow> (unit, 'd) exec" where
  "exec_msr i c =
     (case msr_write (imm i) (readRegister (rn i) (cpu c)) (cpu c) of
        None \<Rightarrow> failWith SR_undefined_instruction ''unsupported MSR special register'' c
      | Some st \<Rightarrow> (Inr (), c\<lparr>cpu := st\<rparr>))"

definition alu_cps :: "DecodedInstruction \<Rightarrow> CpuState \<Rightarrow> CpuState" where
  "alu_cps i st =
     (let st' = (if imm i AND 0x2 \<noteq> 0 then st\<lparr>primask := (if add i then 0 else 1)\<rparr> else st)
      in if imm i AND 0x1 \<noteq> 0 then st'\<lparr>faultmask := (if add i then 0 else 1)\<rparr> else st')"

definition exec_it :: "DecodedInstruction \<Rightarrow> (unit, 'd) exec" where
  "exec_it i c =
     (if inItBlock (it_state (cpu c)) then failInvalid ''nested IT block is invalid'' c
      else on_cpu (setItState (ucast (imm i))) c)"

definition exec_bkpt :: "DecodedInstruction \<Rightarrow> (unit, 'd) exec" where
  "exec_bkpt i c =
     failWith SR_breakpoint (''BKPT #'' @ decDigits (unat (imm i))) (c\<lparr>cpu := (cpu c)\<lparr>halted := True\<rparr>\<rparr>)"

section \<open>Dispatch\<close>

text \<open>The switch on the operation, for those that only compute on the architectural state.\<close>

definition alu_of :: "(u32 list \<Rightarrow> u32) \<Rightarrow> DecodedInstruction \<Rightarrow> (CpuState \<Rightarrow> CpuState) option" where
  "alu_of nan i =
     (let k = kind i
      in if k = I_movw then Some (alu_movw i)
         else if k = I_movt then Some (alu_movt i)
         else if k \<in> {I_add, I_adc, I_sub, I_sbc} then Some (alu_add i)
         else if k = I_rsb then Some (alu_rsb i)
         else if k \<in> {I_cmp, I_cmn} then Some (alu_compare i)
         else if k = I_tst then Some (alu_tst i)
         else if k \<in> {I_and, I_orr, I_eor, I_bic, I_mvn, I_orn} then Some (alu_logic i)
         else if k = I_mul then Some (alu_mul i)
         else if k \<in> {I_mla, I_mls} then Some (alu_mla i)
         else if k = I_umull then Some (alu_umull i)
         else if k = I_smull then Some (alu_smull i)
         else if k = I_udiv then Some (alu_udiv i)
         else if k = I_sdiv then Some (alu_sdiv i)
         else if k = I_uadd8 then Some (alu_uadd8 i)
         else if k = I_sel then Some (alu_sel i)
         else if k = I_clz then Some (alu_clz i)
         else if k = I_bfc then Some (alu_bfc i)
         else if k = I_ubfx then Some (alu_ubfx i)
         else if k \<in> {I_uxtb, I_uxth, I_sxtb, I_sxth} then Some (alu_extend i)
         else if k \<in> {I_rev, I_rev16, I_revsh} then Some (alu_reverse i)
         else if k \<in> {I_lsl, I_lsr, I_asr, I_ror, I_rrx} then Some (alu_shift i)
         else if k = I_b then Some (alu_b i)
         else if k = I_bl then Some (alu_bl i)
         else if k \<in> {I_cbz, I_cbnz} then Some (alu_compare_branch i)
         else if k \<in> {I_vmov_core_to_single, I_vmov_single_to_core, I_vmov_single, I_vmov_immediate}
           then Some (alu_vmov i)
         else if k \<in> {I_vcvt_f32_s32, I_vcvt_f32_u32, I_vcvt_s32_f32, I_vcvt_u32_f32}
           then Some (alu_vcvt i)
         else if k \<in> {I_vadd, I_vsub, I_vmul, I_vnmul, I_vdiv, I_vfma, I_vfms, I_vfnms, I_vneg,
                        I_vabs, I_vsqrt} then Some (alu_varith nan i)
         else if k = I_vcmp then Some (alu_vcmp i)
         else if k = I_vmrs then Some alu_vmrs
         else if k = I_cps then Some (alu_cps i)
         else if k = I_svc then Some (\<lambda>st. st\<lparr>pending_exception := Some 11\<rparr>)
         else if k \<in> {I_nop, I_dmb, I_dsb, I_isb, I_wfi, I_wfe, I_sev} then Some id
         else None)"

text \<open>The switch for the operations that access memory or can stop.\<close>

definition exec_other :: "'d CpuEnv \<Rightarrow> DecodedInstruction \<Rightarrow> (unit, 'd) exec" where
  "exec_other env i =
     (let k = kind i
      in if k = I_mov then exec_mov i
         else if k = I_ldr then exec_ldr env i
         else if k \<in> {I_str, I_ldrb, I_strb, I_ldrh, I_strh, I_ldrsb, I_ldrsh} then exec_transfer env i
         else if k \<in> {I_ldrd, I_strd} then exec_doubleword env i
         else if k \<in> {I_push, I_pop, I_ldm, I_stm} then exec_multiple env i
         else if k \<in> {I_bx, I_blx} then exec_bx i
         else if k \<in> {I_tbb, I_tbh} then exec_table_branch env i
         else if k \<in> {I_vldr, I_vstr} then exec_vfp_transfer env i
         else if k \<in> {I_vstm, I_vldm} then exec_vfp_multiple env i
         else if k = I_mrs then exec_mrs i
         else if k = I_msr then exec_msr i
         else if k = I_it then exec_it i
         else if k = I_bkpt then exec_bkpt i
         else failWith SR_undefined_instruction ''decoded instruction has no executor'')"

definition exec_instruction :: "'d CpuEnv \<Rightarrow> DecodedInstruction \<Rightarrow> (unit, 'd) exec" where
  "exec_instruction env i =
     (case alu_of (env_nan env) i of Some f \<Rightarrow> on_cpu f | None \<Rightarrow> exec_other env i)"

definition execute :: "'d CpuEnv \<Rightarrow> DecodedInstruction \<Rightarrow> 'd Core \<Rightarrow> StopReason \<times> 'd Core" where
  "execute env i c =
     (case bindE (fp_prologue env i) (\<lambda>_. exec_instruction env i) c of
        (Inl why, c') \<Rightarrow> (why, c')
      | (Inr _, c') \<Rightarrow> (SR_step_complete, c'))"

end
