(* ===== verification/Jit.thy ===== *)
theory Jit
  imports Execute
begin

text \<open>
  The block planner of \<open>src/cpu/jit.cpp\<close> and the inlined instruction handlers of
  \<open>CortexM4::executeJitFast\<close> in \<open>src/cpu/cortex_m4.cpp\<close>. A handler gives whether it retired
  the instruction, with the core it leaves; one that declines hands the instruction back
  to \<open>execute\<close>.
\<close>

section \<open>Block planning\<close>

datatype (plugins only:) JitBoundary =
  JB_none | JB_memory_may_trap | JB_control_flow | JB_exception_or_system | JB_floating_point
| JB_unsupported

definition classifyJitBoundary :: "DecodedInstruction \<Rightarrow> JitBoundary" where
  "classifyJitBoundary i =
     (let k = kind i
      in if k \<in> {I_mov, I_add, I_adc, I_sub, I_sbc, I_movw, I_movt} then
           (if rd i = 15 then JB_control_flow else JB_none)
         else if k \<in> {I_rsb, I_cmp, I_cmn, I_tst, I_and, I_orr, I_eor, I_bic, I_mvn, I_orn, I_mul, I_mla,
                      I_mls, I_umull, I_smull, I_udiv, I_sdiv, I_clz, I_bfc, I_ubfx, I_sxtb, I_sxth,
                      I_uxtb, I_uxth, I_rev, I_rev16, I_revsh, I_uadd8, I_sel, I_lsl, I_lsr, I_asr,
                      I_ror, I_rrx, I_nop} then JB_none
         else if k \<in> {I_ldr, I_str, I_ldrb, I_strb, I_ldrh, I_strh, I_ldrsb, I_ldrsh, I_ldrd, I_strd,
                      I_ldm, I_stm, I_push, I_pop} then
           (if rd i = 15 then JB_control_flow
            else if k \<in> {I_ldm, I_pop} \<and> listed (register_list i) 15 then JB_control_flow
            else JB_memory_may_trap)
         else if k \<in> {I_b, I_bl, I_bx, I_blx, I_cbz, I_cbnz} then JB_control_flow
         else if k \<in> {I_tbb, I_tbh, I_it, I_dmb, I_dsb, I_isb, I_svc, I_mrs, I_msr, I_cps, I_wfi, I_wfe,
                      I_sev, I_bkpt} then JB_exception_or_system
         else if k \<in> {I_vstm, I_vldm, I_vldr, I_vstr, I_vmov_core_to_single, I_vmov_single_to_core,
                      I_vmov_single, I_vmov_immediate, I_vcvt_f32_s32, I_vcvt_f32_u32, I_vcvt_s32_f32,
                      I_vcvt_u32_f32, I_vadd, I_vsub, I_vmul, I_vnmul, I_vdiv, I_vfma, I_vfms,
                      I_vfnms, I_vcmp, I_vneg, I_vabs, I_vsqrt, I_vmrs} then JB_floating_point
         else JB_unsupported)"

record JitBlockPlan =
  translated_instructions :: nat
  boundary :: JitBoundary
  ends_with_branch :: bool

text \<open>The loop of \<open>planJitBlock\<close> over the instructions below the limit, with the count so far.\<close>

fun plan_from :: "DecodedInstruction list \<Rightarrow> nat \<Rightarrow> JitBlockPlan" where
  "plan_from [] n = \<lparr>translated_instructions = n, boundary = JB_none, ends_with_branch = False\<rparr>"
| "plan_from (i # is) n =
     (let b = classifyJitBoundary i
      in if b = JB_control_flow then
           \<lparr>translated_instructions = n + 1, boundary = JB_control_flow, ends_with_branch = True\<rparr>
         else if b = JB_memory_may_trap \<or> b = JB_none then plan_from is (n + 1)
         else \<lparr>translated_instructions = n, boundary = b, ends_with_branch = False\<rparr>)"

definition planJitBlock :: "DecodedInstruction list \<Rightarrow> nat \<Rightarrow> JitBlockPlan" where
  "planJitBlock is maximum = plan_from (take maximum is) 0"

section \<open>Handler classes\<close>

datatype (plugins only:) JitFast =
  JF_generic | JF_nop | JF_b | JF_bl | JF_cbz | JF_cbnz | JF_mov_imm | JF_mov_reg | JF_movw | JF_movt
| JF_add_imm | JF_add_reg | JF_sub_imm | JF_sub_reg | JF_cmp_imm | JF_cmp_reg | JF_logic_reg | JF_mul_reg
| JF_mla_mls | JF_long_mul | JF_alu_single | JF_alu_rsb_tst | JF_dsp_extend | JF_shift | JF_bx_blx
| JF_divide | JF_pop_pc | JF_ldr_imm | JF_str_imm | JF_ldr_sub | JF_str_sub | JF_ldrd_strd | JF_push_pop
| JF_ldm_stm | JF_ldr_word_gpr | JF_str_word_gpr

datatype (plugins only:) ReversibleFast =
  RF_none | RF_mov_imm | RF_mov_reg | RF_add_imm | RF_sub_imm | RF_ldr_word | RF_str_word

text \<open>Data processing with an immediate or a register operand.\<close>

definition by_form :: "DecodedInstruction \<Rightarrow> JitFast \<Rightarrow> JitFast \<Rightarrow> JitFast" where
  "by_form i imm_class reg_class =
     (if form i = OF_immediate then imm_class
      else if form i = OF_register_value then reg_class else JF_generic)"

definition direct_form :: "DecodedInstruction \<Rightarrow> bool" where
  "direct_form i \<longleftrightarrow> form i = OF_immediate \<or> form i = OF_register_value \<or> form i = OF_literal"

definition word_gpr_form :: "DecodedInstruction \<Rightarrow> bool" where
  "word_gpr_form i \<longleftrightarrow>
     form i = OF_immediate \<and> rn i < 13 \<and> rd i < 13 \<and> index i \<and> add i \<and> \<not> writeback i"

definition no_pc_operand :: "DecodedInstruction \<Rightarrow> bool" where
  "no_pc_operand i \<longleftrightarrow> rd i \<noteq> 15 \<and> rn i \<noteq> 15 \<and> rm i \<noteq> 15"

definition classifyJitFast :: "DecodedInstruction \<Rightarrow> JitFast" where
  "classifyJitFast i =
     (let k = kind i
      in if k = I_nop then JF_nop
         else if k = I_b then JF_b
         else if k = I_bl then JF_bl
         else if k = I_cbz then JF_cbz
         else if k = I_cbnz then JF_cbnz
         else if k = I_bx then JF_bx_blx
         else if k = I_mov then
           (if rd i = 15 \<or> rm i = 15 then JF_generic else by_form i JF_mov_imm JF_mov_reg)
         else if k = I_movw then (if rd i \<noteq> 15 then JF_movw else JF_generic)
         else if k = I_movt then (if rd i \<noteq> 15 then JF_movt else JF_generic)
         else if k \<in> {I_add, I_adc} then
           (if rd i = 15 then JF_generic else by_form i JF_add_imm JF_add_reg)
         else if k \<in> {I_sub, I_sbc} then
           (if rd i = 15 then JF_generic else by_form i JF_sub_imm JF_sub_reg)
         else if k \<in> {I_cmp, I_cmn} then by_form i JF_cmp_imm JF_cmp_reg
         else if k \<in> {I_and, I_orr, I_eor, I_bic, I_mvn, I_orn} then
           (if form i = OF_register_value \<and> no_pc_operand i then JF_logic_reg else JF_generic)
         else if k = I_mul then
           (if form i = OF_register_value \<and> no_pc_operand i then JF_mul_reg else JF_generic)
         else if k \<in> {I_udiv, I_sdiv} then (if no_pc_operand i then JF_divide else JF_generic)
         else if k \<in> {I_mla, I_mls} then
           (if form i = OF_register_value then JF_mla_mls else JF_generic)
         else if k \<in> {I_umull, I_smull} then
           (if form i = OF_register_value then JF_long_mul else JF_generic)
         else if k \<in> {I_rsb, I_tst} then by_form i JF_alu_rsb_tst JF_alu_rsb_tst
         else if k \<in> {I_clz, I_rev, I_rev16, I_revsh} then JF_alu_single
         else if k \<in> {I_bfc, I_ubfx, I_sxtb, I_sxth, I_uxtb, I_uxth, I_uadd8, I_sel} then JF_dsp_extend
         else if k \<in> {I_lsl, I_lsr, I_asr, I_ror, I_rrx} then
           (if no_pc_operand i then by_form i JF_shift JF_shift else JF_generic)
         else if k = I_ldr then
           (if word_gpr_form i then JF_ldr_word_gpr
            else if direct_form i \<and> rd i \<noteq> 15 then JF_ldr_imm else JF_generic)
         else if k = I_str then
           (if word_gpr_form i then JF_str_word_gpr
            else if direct_form i \<and> rd i \<noteq> 15 then JF_str_imm else JF_generic)
         else if k \<in> {I_ldrb, I_ldrh, I_ldrsb, I_ldrsh} then
           (if direct_form i \<and> rd i \<noteq> 15 then JF_ldr_sub else JF_generic)
         else if k \<in> {I_strb, I_strh} then
           (if direct_form i \<and> rd i \<noteq> 15 then JF_str_sub else JF_generic)
         else if k \<in> {I_ldrd, I_strd} then (if direct_form i then JF_ldrd_strd else JF_generic)
         else if k \<in> {I_push, I_pop, I_ldm, I_stm} then
           (if \<not> listed (register_list i) 15 then
              (if k = I_push \<or> k = I_pop then JF_push_pop else JF_ldm_stm)
            else JF_pop_pc)
         else JF_generic)"

definition classifyReversibleFast :: "DecodedInstruction \<Rightarrow> JitFast \<Rightarrow> ReversibleFast" where
  "classifyReversibleFast i fast =
     (if condition i \<noteq> C_al \<or> set_flags i then RF_none
      else if fast = JF_mov_imm then (if rd i < 13 then RF_mov_imm else RF_none)
      else if fast = JF_mov_reg then
        (if rd i < 13 \<and> rm i < 13 \<and> shift_type i = SH_lsl \<and> shift_amount i = 0 then RF_mov_reg
         else RF_none)
      else if fast = JF_add_imm then
        (if kind i = I_add \<and> rd i < 13 \<and> rn i < 13 then RF_add_imm else RF_none)
      else if fast = JF_sub_imm then
        (if kind i = I_sub \<and> rd i < 13 \<and> rn i < 13 then RF_sub_imm else RF_none)
      else if fast = JF_ldr_word_gpr then RF_ldr_word
      else if fast = JF_str_word_gpr then RF_str_word
      else RF_none)"

section \<open>Flags\<close>

definition jitSetNz :: "u32 \<Rightarrow> CpuState \<Rightarrow> CpuState" where
  "jitSetNz v st =
     st\<lparr>xpsr := (xpsr st AND NOT (xpsr_n OR xpsr_z)) OR (v AND xpsr_n) OR (if v = 0 then xpsr_z else 0)\<rparr>"

definition jitSetNzc :: "u32 \<Rightarrow> bool \<Rightarrow> CpuState \<Rightarrow> CpuState" where
  "jitSetNzc v carry st =
     st\<lparr>xpsr := (xpsr st AND NOT (xpsr_n OR xpsr_z OR xpsr_c)) OR (v AND xpsr_n)
        OR (if v = 0 then xpsr_z else 0) OR (if carry then xpsr_c else 0)\<rparr>"

text \<open>The sum, and the state with the flags at their bit positions.\<close>

definition jitAdd :: "u32 \<Rightarrow> u32 \<Rightarrow> bool \<Rightarrow> bool \<Rightarrow> CpuState \<Rightarrow> u32 \<times> CpuState" where
  "jitAdd left right carry flags st =
     (let wide = (ucast left :: u64) + ucast right + (if carry then 1 else 0);
          v = (ucast wide :: u32);
          overflow = drop_bit 3 (NOT (left XOR right) AND (left XOR v)) AND xpsr_v
      in (v, if flags then
               st\<lparr>xpsr := (xpsr st AND NOT (xpsr_n OR xpsr_z OR xpsr_c OR xpsr_v)) OR (v AND xpsr_n)
                  OR (if v = 0 then xpsr_z else 0) OR push_bit 29 (ucast (drop_bit 32 wide)) OR overflow\<rparr>
             else st))"

section \<open>Handlers that compute\<close>

definition jit_target :: "u32 \<Rightarrow> int \<Rightarrow> u32" where
  "jit_target pc off = word_of_int (uint pc + 4 + off) AND NOT 1"

definition jit_cb :: "DecodedInstruction \<Rightarrow> JitFast \<Rightarrow> u32 \<Rightarrow> CpuState \<Rightarrow> CpuState" where
  "jit_cb i fast pc st =
     (let zero = (readRegister (rn i) st = 0);
          take_it = (if fast = JF_cbz then zero else \<not> zero)
      in if take_it then set_r 15 ((pc + 4 + imm i) AND NOT 1) st else st)"

definition jit_shifted :: "DecodedInstruction \<Rightarrow> CpuState \<Rightarrow> ShiftResult" where
  "jit_shifted i st =
     shiftC (readRegister (rm i) st) (shift_type i) (shift_amount i) (xpsr st AND xpsr_c \<noteq> 0)"

definition jit_mov_reg :: "DecodedInstruction \<Rightarrow> CpuState \<Rightarrow> CpuState" where
  "jit_mov_reg i st =
     (let shifted = jit_shifted i st;
          st' = writeRegister (rd i) (sr_value shifted) st
      in if set_flags i then jitSetNzc (sr_value shifted) (sr_carry shifted) st' else st')"

definition jit_mov_imm :: "DecodedInstruction \<Rightarrow> CpuState \<Rightarrow> CpuState" where
  "jit_mov_imm i st =
     (let st' = writeRegister (rd i) (imm i) st
      in if set_flags i then
           jitSetNzc (imm i) (if immediate_carry_valid i then immediate_carry i
                              else xpsr st' AND xpsr_c \<noteq> 0) st'
         else st')"

definition jit_movt :: "DecodedInstruction \<Rightarrow> CpuState \<Rightarrow> CpuState" where
  "jit_movt i st = writeRegister (rd i) ((readRegister (rd i) st AND 0xffff) OR push_bit 16 (imm i)) st"

definition jit_add_sub :: "DecodedInstruction \<Rightarrow> JitFast \<Rightarrow> CpuState \<Rightarrow> CpuState" where
  "jit_add_sub i fast st =
     (let left = readRegister (rn i) st;
          left = (if rn i = 15 \<and> form i = OF_immediate then left AND NOT 3 else left);
          subtract = (fast = JF_sub_imm \<or> fast = JF_sub_reg);
          right = (if fast = JF_add_reg \<or> fast = JF_sub_reg then sr_value (jit_shifted i st) else imm i);
          carry_in = (if kind i = I_adc \<or> kind i = I_sbc then xpsr st AND xpsr_c \<noteq> 0 else subtract);
          (v, st') = jitAdd left (if subtract then NOT right else right) carry_in (set_flags i) st
      in writeRegister (rd i) v st')"

definition jit_compare :: "DecodedInstruction \<Rightarrow> JitFast \<Rightarrow> CpuState \<Rightarrow> CpuState" where
  "jit_compare i fast st =
     (let left = readRegister (rn i) st;
          right = (if fast = JF_cmp_reg then sr_value (jit_shifted i st) else imm i)
      in snd (jitAdd left (if kind i = I_cmp then NOT right else right) (kind i = I_cmp) True st))"

definition jit_logic :: "DecodedInstruction \<Rightarrow> CpuState \<Rightarrow> CpuState" where
  "jit_logic i st =
     (let left = readRegister (rn i) st;
          shifted = jit_shifted i st;
          right = sr_value shifted;
          v = (if kind i = I_and then left AND right else 0);
          v = (if kind i = I_orr then left OR right else v);
          v = (if kind i = I_eor then left XOR right else v);
          v = (if kind i = I_bic then left AND NOT right else v);
          v = (if kind i = I_mvn then NOT right else v);
          v = (if kind i = I_orn then left OR NOT right else v);
          st' = writeRegister (rd i) v st
      in if set_flags i then jitSetNzc v (sr_carry shifted) st' else st')"

definition jit_mul :: "DecodedInstruction \<Rightarrow> CpuState \<Rightarrow> CpuState" where
  "jit_mul i st =
     (let product = (ucast (readRegister (rn i) st) :: u64) * ucast (readRegister (rm i) st);
          v = ucast product;
          st' = writeRegister (rd i) v st
      in if set_flags i then jitSetNz v st' else st')"

definition jit_divide :: "DecodedInstruction \<Rightarrow> CpuState \<Rightarrow> CpuState" where
  "jit_divide i st =
     (if kind i = I_udiv then
        (let divisor = readRegister (rm i) st
         in writeRegister (rd i) (if divisor = 0 then 0 else readRegister (rn i) st div divisor) st)
      else
        (let dividend = sint (readRegister (rn i) st);
             divisor = sint (readRegister (rm i) st);
             quotient = (if divisor \<noteq> 0 then
                           (if dividend = - 2147483648 \<and> divisor = - 1 then - 2147483648
                            else quot dividend divisor)
                         else 0)
         in writeRegister (rd i) (word_of_int quotient) st))"

definition jit_shift :: "DecodedInstruction \<Rightarrow> CpuState \<Rightarrow> CpuState" where
  "jit_shift i st =
     (let immediate = (form i = OF_immediate);
          v = (if immediate then readRegister (rm i) st else readRegister (rn i) st);
          amount = (if immediate then shift_amount i else unat (readRegister (rm i) st AND 0xff));
          shifted = shiftC v (shift_type i) amount (xpsr st AND xpsr_c \<noteq> 0);
          st' = writeRegister (rd i) (sr_value shifted) st
      in if set_flags i then jitSetNzc (sr_value shifted) (sr_carry shifted) st' else st')"

definition jit_mla_mls :: "DecodedInstruction \<Rightarrow> CpuState \<Rightarrow> CpuState" where
  "jit_mla_mls i st =
     (let product = readRegister (rn i) st * readRegister (rm i) st;
          addend = readRegister (ra i) st
      in writeRegister (rd i) (if kind i = I_mla then product + addend else addend - product) st)"

definition jit_long_mul :: "DecodedInstruction \<Rightarrow> CpuState \<Rightarrow> CpuState" where
  "jit_long_mul i st =
     (if kind i = I_umull then
        (let product = (ucast (readRegister (rn i) st) :: u64) * ucast (readRegister (rm i) st)
         in writeRegister (ra i) (ucast (drop_bit 32 product)) (writeRegister (rd i) (ucast product) st))
      else
        (let product = sint (readRegister (rn i) st) * sint (readRegister (rm i) st);
             bits = (word_of_int product :: u64)
         in writeRegister (ra i) (ucast (drop_bit 32 bits)) (writeRegister (rd i) (ucast bits) st)))"

definition jit_rsb_tst :: "DecodedInstruction \<Rightarrow> CpuState \<Rightarrow> CpuState" where
  "jit_rsb_tst i st =
     (let shifted = (if form i = OF_register_value then jit_shifted i st
                     else \<lparr>sr_value = imm i,
                           sr_carry = (if immediate_carry_valid i then immediate_carry i
                                       else xpsr st AND xpsr_c \<noteq> 0)\<rparr>)
      in if kind i = I_tst then
           jitSetNzc (readRegister (rn i) st AND sr_value shifted) (sr_carry shifted) st
         else
           (let left = (if form i = OF_immediate then imm i else if is_32bit i then sr_value shifted else 0);
                right = (if form i = OF_immediate then readRegister (rn i) st
                         else if is_32bit i then readRegister (rn i) st else readRegister (rm i) st);
                (v, st') = jitAdd left (NOT right) True (set_flags i) st
            in writeRegister (rd i) v st'))"

definition jit_single :: "DecodedInstruction \<Rightarrow> CpuState \<Rightarrow> CpuState" where
  "jit_single i st =
     (let source = readRegister (rm i) st;
          v = (if kind i = I_clz then of_nat (countl_zero source)
               else if kind i = I_rev then
                 push_bit 24 (source AND 0x000000ff) OR push_bit 8 (source AND 0x0000ff00)
                 OR drop_bit 8 (source AND 0x00ff0000) OR drop_bit 24 (source AND 0xff000000)
               else if kind i = I_rev16 then
                 push_bit 8 (source AND 0x00ff00ff) OR drop_bit 8 (source AND 0xff00ff00)
               else
                 (let v = push_bit 8 (source AND 0xff) OR (drop_bit 8 source AND 0xff)
                  in if v AND 0x8000 \<noteq> 0 then v OR 0xffff0000 else v))
      in writeRegister (rd i) v st)"

definition jit_field :: "DecodedInstruction \<Rightarrow> CpuState \<Rightarrow> CpuState" where
  "jit_field i st =
     (let width = unat (imm i)
      in if kind i = I_bfc then
           (let field_mask = (if width = 32 then 0xffffffff
                              else push_bit (shift_amount i) (push_bit width 1 - 1))
            in writeRegister (rd i) (readRegister (rd i) st AND NOT field_mask) st)
         else
           (let mask = (if width = 32 then 0xffffffff else push_bit width 1 - 1)
            in writeRegister (rd i) (drop_bit (shift_amount i) (readRegister (rn i) st) AND mask) st))"

definition jit_extend :: "DecodedInstruction \<Rightarrow> CpuState \<Rightarrow> CpuState" where
  "jit_extend i st =
     (let rotated = rotr32 (readRegister (rm i) st) (shift_amount i);
          is_byte = (kind i = I_uxtb \<or> kind i = I_sxtb);
          is_signed = (kind i = I_sxtb \<or> kind i = I_sxth);
          v = (if is_byte then rotated AND 0xff else rotated AND 0xffff);
          sign = (if is_byte then 0x80 else 0x8000);
          v = (if is_signed \<and> v AND sign \<noteq> 0 then v OR (if is_byte then 0xffffff00 else 0xffff0000) else v)
      in writeRegister (rd i) v st)"

definition jit_uadd8 :: "DecodedInstruction \<Rightarrow> CpuState \<Rightarrow> CpuState" where
  "jit_uadd8 i st =
     (let left = readRegister (rn i) st;
          right = readRegister (rm i) st;
          (v, ge) = foldl (\<lambda>(v, ge) lane.
              let sum = (drop_bit (lane * 8) left AND 0xff) + (drop_bit (lane * 8) right AND 0xff)
              in (v OR push_bit (lane * 8) (sum AND 0xff),
                  if sum \<ge> 0x100 then ge OR push_bit (16 + lane) 1 else ge)) (0, 0) [0..<4];
          st' = writeRegister (rd i) v st
      in st'\<lparr>xpsr := (xpsr st' AND NOT xpsr_ge_mask) OR ge\<rparr>)"

definition jit_sel :: "DecodedInstruction \<Rightarrow> CpuState \<Rightarrow> CpuState" where
  "jit_sel i st =
     (let left = readRegister (rn i) st;
          right = readRegister (rm i) st;
          v = foldl (\<lambda>v lane.
                let use_left = (xpsr st AND push_bit (16 + lane) 1 \<noteq> 0)
                in v OR push_bit (lane * 8) (drop_bit (lane * 8) (if use_left then left else right) AND 0xff))
              0 [0..<4]
      in writeRegister (rd i) v st)"

definition jit_dsp :: "DecodedInstruction \<Rightarrow> CpuState \<Rightarrow> CpuState" where
  "jit_dsp i st =
     (if kind i = I_bfc \<or> kind i = I_ubfx then jit_field i st
      else if kind i \<in> {I_uxtb, I_uxth, I_sxtb, I_sxth} then jit_extend i st
      else if kind i = I_uadd8 then jit_uadd8 i st
      else jit_sel i st)"

section \<open>Handlers that branch indirectly or access memory\<close>

definition jit_bx :: "DecodedInstruction \<Rightarrow> 'd Core \<Rightarrow> bool \<times> 'd Core" where
  "jit_bx i c =
     (let target = readRegister (rm i) (cpu c)
      in if kind i = I_bx \<and> isExceptionReturn target then
           (True, c\<lparr>cpu := (cpu c)\<lparr>pending_exc_return := Some target\<rparr>\<rparr>)
         else
           (let (ok, st) = branchWritePc target (cpu c)
            in if \<not> ok then (False, c\<lparr>cpu := st\<rparr>) else (True, c\<lparr>cpu := st\<rparr>)))"

definition jit_context :: "bool \<Rightarrow> u32 \<Rightarrow> AccessContext" where
  "jit_context store pc = \<lparr>ctx_type = (if store then AT_data_write else AT_data_read), ctx_pc = pc\<rparr>"

text \<open>
  Register lists in transfer order: \<open>dense\<close> is the word buffer, \<open>w\<close> the position of the
  next listed register in it.
\<close>

fun scatter :: "u16 \<Rightarrow> nat list \<Rightarrow> nat \<Rightarrow> u32 list \<Rightarrow> CpuState \<Rightarrow> CpuState" where
  "scatter l [] w dense st = st"
| "scatter l (n # ns) w dense st =
     (if \<not> listed l n then scatter l ns w dense st
      else scatter l ns (w + 1) dense (writeRegister n (dense ! w) st))"

fun locate_pc :: "u16 \<Rightarrow> nat list \<Rightarrow> nat \<Rightarrow> u32 list \<Rightarrow> u32 \<Rightarrow> u32" where
  "locate_pc l [] w dense word = word"
| "locate_pc l (n # ns) w dense word =
     (if \<not> listed l n then locate_pc l ns w dense word
      else locate_pc l ns (w + 1) dense (if n = 15 then dense ! w else word))"

definition gather :: "u16 \<Rightarrow> CpuState \<Rightarrow> u32 list" where
  "gather l st = map (\<lambda>n. readRegister n st) (filter (listed l) [0..<16])"

definition fill16 :: "u32 list \<Rightarrow> u32 list" where
  "fill16 ws = ws @ replicate (16 - length ws) 0"

definition jit_pop_pc :: "DecodedInstruction \<Rightarrow> u32 \<Rightarrow> 'd Core \<Rightarrow> bool \<times> 'd Core" where
  "jit_pop_pc i pc c =
     (let l = register_list i;
          n = popcount16 l;
          original = readRegister (rn i) (cpu c);
          before = (\<not> add i \<and> index i);
          start = (if before then original - of_nat n * 4 else original)
      in if n = 0 then (False, c)
         else case tryFastReadWords start n (jit_context False pc) (mem c) of
             None \<Rightarrow> (False, c)
           | Some (ws, bus) \<Rightarrow>
               (let c = c\<lparr>mem := bus\<rparr>;
                    dense = fill16 ws;
                    word = locate_pc l [0..<16] 0 dense 0;
                    exc_return = isExceptionReturn word
                in if \<not> exc_return \<and> word AND 1 = 0 then (False, c)
                   else
                     (let st = scatter l [0..<15] 0 dense (cpu c);
                          st = (if writeback i then
                                  writeRegister (rn i) (if before then start else original + of_nat n * 4) st
                                else st)
                      in if exc_return then (True, c\<lparr>cpu := st\<lparr>pending_exc_return := Some word\<rparr>\<rparr>)
                         else (True, c\<lparr>cpu := snd (branchWritePc word st)\<rparr>))))"

definition jit_word_gpr :: "DecodedInstruction \<Rightarrow> JitFast \<Rightarrow> u32 \<Rightarrow> 'd Core \<Rightarrow> bool \<times> 'd Core" where
  "jit_word_gpr i fast pc c =
     (let st = cpu c; a = core_r st (rn i) + imm i
      in if fast = JF_ldr_word_gpr then
           (case tryFastRead32 a (jit_context False pc) (mem c) of
              None \<Rightarrow> (False, c)
            | Some (v, bus) \<Rightarrow> (True, c\<lparr>cpu := set_r (rd i) v st, mem := bus\<rparr>))
         else
           (case tryFastWrite32 a (core_r st (rd i)) (jit_context True pc) False (mem c) of
              None \<Rightarrow> (False, c)
            | Some bus \<Rightarrow> (True, c\<lparr>mem := bus\<rparr>)))"

definition jit_base :: "DecodedInstruction \<Rightarrow> CpuState \<Rightarrow> u32" where
  "jit_base i st = (if rn i = 15 then architecturalPcForRead st AND NOT 3 else readRegister (rn i) st)"

definition jit_offset :: "DecodedInstruction \<Rightarrow> CpuState \<Rightarrow> u32" where
  "jit_offset i st = (if form i = OF_register_value then sr_value (jit_shifted i st) else imm i)"

definition jit_writeback :: "DecodedInstruction \<Rightarrow> u32 \<Rightarrow> CpuState \<Rightarrow> CpuState" where
  "jit_writeback i a st = (if writeback i then writeRegister (rn i) a st else st)"

definition jit_word :: "DecodedInstruction \<Rightarrow> JitFast \<Rightarrow> u32 \<Rightarrow> 'd Core \<Rightarrow> bool \<times> 'd Core" where
  "jit_word i fast pc c =
     (let st = cpu c; bs = jit_base i st; off = jit_offset i st;
          offset_a = (if add i then bs + off else bs - off);
          a = (if index i then offset_a else bs)
      in if fast = JF_ldr_imm then
           (case tryFastRead32 a (jit_context False pc) (mem c) of
              None \<Rightarrow> (False, c)
            | Some (v, bus) \<Rightarrow>
                (True, c\<lparr>cpu := jit_writeback i offset_a (writeRegister (rd i) v st), mem := bus\<rparr>))
         else
           (case tryFastWrite32 a (readRegister (rd i) st) (jit_context True pc) False (mem c) of
              None \<Rightarrow> (False, c)
            | Some bus \<Rightarrow> (True, c\<lparr>cpu := jit_writeback i offset_a st, mem := bus\<rparr>)))"

definition jit_sub :: "DecodedInstruction \<Rightarrow> JitFast \<Rightarrow> u32 \<Rightarrow> 'd Core \<Rightarrow> bool \<times> 'd Core" where
  "jit_sub i fast pc c =
     (let st = cpu c; bs = jit_base i st; off = jit_offset i st;
          offset_a = (if add i then bs + off else bs - off);
          a = (if index i then offset_a else bs);
          is_byte = (if fast = JF_ldr_sub then kind i = I_ldrb \<or> kind i = I_ldrsb else kind i = I_strb);
          width = (if is_byte then AS_byte else AS_halfword)
      in if fast = JF_ldr_sub then
           (case tryFastRead a width (jit_context False pc) (mem c) of
              None \<Rightarrow> (False, c)
            | Some (loaded, bus) \<Rightarrow>
                (let v = (ucast loaded :: u32);
                     v = (if kind i = I_ldrsb \<and> v AND 0x80 \<noteq> 0 then v OR 0xffffff00
                          else if kind i = I_ldrsh \<and> v AND 0x8000 \<noteq> 0 then v OR 0xffff0000 else v)
                 in (True, c\<lparr>cpu := jit_writeback i offset_a (writeRegister (rd i) v st), mem := bus\<rparr>)))
         else
           (case tryFastWrite a width (ucast (readRegister (rd i) st)) (jit_context True pc) False (mem c) of
              None \<Rightarrow> (False, c)
            | Some bus \<Rightarrow> (True, c\<lparr>cpu := jit_writeback i offset_a st, mem := bus\<rparr>)))"

definition jit_double :: "DecodedInstruction \<Rightarrow> u32 \<Rightarrow> 'd Core \<Rightarrow> bool \<times> 'd Core" where
  "jit_double i pc c =
     (let st = cpu c; load = (kind i = I_ldrd); bs = readRegister (rn i) st; off = jit_offset i st;
          offset_a = (if add i then bs + off else bs - off);
          a = (if index i then offset_a else bs)
      in if load then
           (case tryFastReadWords a 2 (jit_context False pc) (mem c) of
              None \<Rightarrow> (False, c)
            | Some (ws, bus) \<Rightarrow>
                (True, c\<lparr>cpu := jit_writeback i offset_a
                    (writeRegister (ra i) (ws ! 1) (writeRegister (rd i) (ws ! 0) st)), mem := bus\<rparr>))
         else
           (case tryFastWriteWords a [readRegister (rd i) st, readRegister (ra i) st] (jit_context True pc)
                   False (mem c) of
              None \<Rightarrow> (False, c)
            | Some bus \<Rightarrow> (True, c\<lparr>cpu := jit_writeback i offset_a st, mem := bus\<rparr>)))"

definition jit_multiple :: "DecodedInstruction \<Rightarrow> JitFast \<Rightarrow> u32 \<Rightarrow> 'd Core \<Rightarrow> bool \<times> 'd Core" where
  "jit_multiple i fast pc c =
     (let load = (if fast = JF_push_pop then kind i = I_pop else kind i = I_ldm);
          l = register_list i;
          n = popcount16 l;
          st = cpu c;
          original = readRegister (rn i) st;
          before = (\<not> add i \<and> index i);
          start = (if before then original - of_nat n * 4 else original);
          final = (if before then start else original + of_nat n * 4)
      in if n = 0 then (False, c)
         else if load then
           (case tryFastReadWords start n (jit_context False pc) (mem c) of
              None \<Rightarrow> (False, c)
            | Some (ws, bus) \<Rightarrow>
                (True, c\<lparr>cpu := jit_writeback i final (scatter l [0..<15] 0 (fill16 ws) st), mem := bus\<rparr>))
         else
           (case tryFastWriteWords start (gather l st) (jit_context True pc) False (mem c) of
              None \<Rightarrow> (False, c)
            | Some bus \<Rightarrow> (True, c\<lparr>cpu := jit_writeback i final st, mem := bus\<rparr>)))"

section \<open>Dispatch\<close>

definition jit_compute :: "DecodedInstruction \<Rightarrow> JitFast \<Rightarrow> u32 \<Rightarrow> (CpuState \<Rightarrow> CpuState) option" where
  "jit_compute i fast pc =
     (if fast = JF_nop then Some id
      else if fast = JF_b then Some (set_r 15 (jit_target pc (branch_offset i)))
      else if fast = JF_bl then
        Some (\<lambda>st. set_r 15 (jit_target pc (branch_offset i)) (set_r 14 (core_r st 15 OR 1) st))
      else if fast = JF_cbz \<or> fast = JF_cbnz then Some (jit_cb i fast pc)
      else if fast = JF_mov_reg then Some (jit_mov_reg i)
      else if fast = JF_mov_imm then Some (jit_mov_imm i)
      else if fast = JF_movw then Some (writeRegister (rd i) (imm i))
      else if fast = JF_movt then Some (jit_movt i)
      else if fast \<in> {JF_add_reg, JF_sub_reg, JF_add_imm, JF_sub_imm} then Some (jit_add_sub i fast)
      else if fast = JF_cmp_imm \<or> fast = JF_cmp_reg then Some (jit_compare i fast)
      else if fast = JF_logic_reg then Some (jit_logic i)
      else if fast = JF_mul_reg then Some (jit_mul i)
      else if fast = JF_divide then Some (jit_divide i)
      else if fast = JF_shift then Some (jit_shift i)
      else if fast = JF_mla_mls then Some (jit_mla_mls i)
      else if fast = JF_long_mul then Some (jit_long_mul i)
      else if fast = JF_alu_rsb_tst then Some (jit_rsb_tst i)
      else if fast = JF_alu_single then Some (jit_single i)
      else if fast = JF_dsp_extend then Some (jit_dsp i)
      else None)"

definition executeJitFast :: "DecodedInstruction \<Rightarrow> JitFast \<Rightarrow> u32 \<Rightarrow> 'd Core \<Rightarrow> bool \<times> 'd Core" where
  "executeJitFast i fast pc c =
     (case jit_compute i fast pc of
        Some f \<Rightarrow> (True, c\<lparr>cpu := f (cpu c)\<rparr>)
      | None \<Rightarrow>
          if fast = JF_bx_blx then jit_bx i c
          else if fast = JF_pop_pc then jit_pop_pc i pc c
          else if fast = JF_ldr_word_gpr \<or> fast = JF_str_word_gpr then jit_word_gpr i fast pc c
          else if fast = JF_ldr_imm \<or> fast = JF_str_imm then jit_word i fast pc c
          else if fast = JF_ldr_sub \<or> fast = JF_str_sub then jit_sub i fast pc c
          else if fast = JF_ldrd_strd then jit_double i pc c
          else if fast = JF_push_pop \<or> fast = JF_ldm_stm then jit_multiple i fast pc c
          else (False, c))"

end
