(* ===== verification/Step.thy ===== *)
theory Step
  imports Jit
begin

text \<open>
  The stepper of \<open>CortexM4\<close> in \<open>src/cpu/cortex_m4.cpp\<close>: fetch, decode, conditional
  execution with the inlined handlers or the executor, the restart of an instruction that
  met a trapping device, the cost of an instruction, and the run loop.
\<close>

section \<open>Results and state\<close>

record FastStepResult =
  fs_reason :: StopReason
  fs_suppress_loop_observation :: bool
  fs_size :: u8
  fs_instructions :: u32
  fs_address :: u32
  fs_raw :: u32
  fs_cycles :: u16

record StepInstruction =
  si_raw :: u32
  si_decoded :: DecodedInstruction
  si_size :: u8
  si_base_cycles :: u16
  si_divide_form :: bool
  si_jit_fast :: JitFast
  si_branch_penalty :: u16
  si_fast_unconditional :: bool
  si_suppress_loop_observation :: bool
  si_may_trap :: bool

record RunResult =
  run_reason :: StopReason
  run_instructions :: u64
  run_cycles :: u64
  run_diagnostic :: DiagnosticSnapshot

text \<open>The core with the dispatch counters of the single-instruction path.\<close>

record 'd Cortex =
  core :: "'d Core"
  single_fast :: u64
  single_decline :: u64
  single_generic :: u64

definition succeeded :: "RunResult \<Rightarrow> bool" where
  "succeeded r \<longleftrightarrow> run_reason r \<notin> {SR_bus_fault, SR_undefined_instruction, SR_invalid_state}"

definition suppressImplicitFlagsInIt :: "InstrKind \<Rightarrow> bool" where
  "suppressImplicitFlagsInIt k \<longleftrightarrow>
     k \<in> {I_mov, I_add, I_adc, I_sub, I_sbc, I_rsb, I_and, I_orr, I_eor, I_bic, I_mvn, I_orn, I_mul,
           I_lsl, I_lsr, I_asr, I_ror, I_rrx}"

definition undefinedMessage :: "u32 \<Rightarrow> u32 \<Rightarrow> u8 \<Rightarrow> string" where
  "undefinedMessage pc r sz =
     ''unimplemented instruction pc='' @ hexValue (ucast pc) 8 @ '' raw'' @ decDigits (unat sz * 8) @ ''=''
     @ hexValue (ucast r) (if sz = 2 then 4 else 8)"

definition capture :: "CpuState \<Rightarrow> DiagnosticSnapshot \<Rightarrow> DiagnosticSnapshot" where
  "capture st d =
     d\<lparr>diag_next_pc := core_r st 15, diag_registers := (core_r st)(13 := activeSp st), diag_xpsr := xpsr st\<rparr>"

text \<open>A stop before execution: the result without retired instructions, and the diagnostic.\<close>

definition stopped :: "StopReason \<Rightarrow> u32 \<Rightarrow> FastStepResult" where
  "stopped why pc =
     \<lparr>fs_reason = why, fs_suppress_loop_observation = False, fs_size = 0, fs_instructions = 0,
      fs_address = pc, fs_raw = 0, fs_cycles = 0\<rparr>"

definition diagnose :: "(DiagnosticSnapshot \<Rightarrow> DiagnosticSnapshot) \<Rightarrow> 'd Core \<Rightarrow> 'd Core" where
  "diagnose f c = c\<lparr>diag := capture (cpu c) (f (diag c))\<rparr>"

definition mmioTrapping :: "'d MemoryBus \<Rightarrow> bool" where
  "mmioTrapping bus \<longleftrightarrow> trap_shared_mmio bus \<or> trap_all_mmio bus"

section \<open>Fetch and decode\<close>

definition fetch_context :: "u32 \<Rightarrow> AccessContext" where
  "fetch_context pc = \<lparr>ctx_type = AT_instruction_fetch, ctx_pc = pc\<rparr>"

definition step_metadata :: "u32 \<Rightarrow> u8 \<Rightarrow> DecodedInstruction \<Rightarrow> StepInstruction" where
  "step_metadata r sz i =
     (let divide = (kind i = I_udiv \<or> kind i = I_sdiv);
          fast = classifyJitFast i;
          b = classifyJitBoundary i
      in \<lparr>si_raw = r, si_decoded = i, si_size = sz,
          si_base_cycles = of_nat (if divide then 7 else basePipelineCycles i),
          si_divide_form = divide, si_jit_fast = fast,
          si_branch_penalty = of_nat (takenBranchPenalty (kind i)),
          si_fast_unconditional = (condition i = C_al \<and> fast \<noteq> JF_generic),
          si_suppress_loop_observation =
            (kind i = I_bl \<or> kind i = I_blx \<or> kind i = I_bx \<and> rm i = 14
             \<or> kind i = I_mov \<and> rd i = 15 \<and> rm i = 14
             \<or> (kind i = I_pop \<or> kind i = I_ldm) \<and> listed (register_list i) 15),
          si_may_trap = (b \<noteq> JB_none \<and> b \<noteq> JB_control_flow)\<rparr>)"

definition fetch_fault :: "u32 \<Rightarrow> u32 \<Rightarrow> u8 \<Rightarrow> BusFault \<Rightarrow> string \<Rightarrow> 'd Core \<Rightarrow>
    (FastStepResult + 'a) \<times> 'd Core" where
  "fetch_fault pc r sz fault msg c =
     (Inl ((stopped SR_bus_fault pc)\<lparr>fs_raw := r, fs_size := sz\<rparr>),
      diagnose (\<lambda>d. d\<lparr>diag_instruction_address := pc, diag_raw := r, diag_instruction_size := sz,
                       diag_bus_fault := Some fault, diag_message := msg\<rparr>) c)"

definition fetch_second :: "'d CpuEnv \<Rightarrow> bool \<Rightarrow> u32 \<Rightarrow> 'd MemoryBus \<Rightarrow> u16 MemoryResult \<times> 'd MemoryBus" where
  "fetch_second env wide pc bus =
     (if \<not> wide then (Inr 0, bus)
      else if pc > 0xffffffff - 2 then
        (Inl \<lparr>reason = BF_address_overflow, fault_address = pc, fault_size = AS_word,
              fault_context = fetch_context pc, fault_region = [],
              fault_message = ''32-bit instruction fetch wraps target address space''\<rparr>, bus)
      else read16 (env_devices env) (pc + 2) (fetch_context pc) bus)"

definition decode_fetched :: "bool \<Rightarrow> u32 \<Rightarrow> u16 \<Rightarrow> u16 \<Rightarrow> 'd Core \<Rightarrow> (FastStepResult + StepInstruction) \<times> 'd Core" where
  "decode_fetched wide pc first low c =
     (let sz = (if wide then 4 else 2);
          r = (if wide then push_bit 16 (ucast first) OR ucast low else ucast first)
      in case (if wide then decode32 first low else decode16 first) of
           None \<Rightarrow>
             (Inl ((stopped SR_undefined_instruction pc)\<lparr>fs_raw := r, fs_size := sz\<rparr>),
              diagnose (\<lambda>d. d\<lparr>diag_instruction_address := pc, diag_raw := r, diag_instruction_size := sz,
                               diag_message := undefinedMessage pc r sz, diag_bus_fault := None\<rparr>) c)
         | Some i \<Rightarrow> (Inr (step_metadata r sz i), c))"

definition fetch_instruction :: "'d CpuEnv \<Rightarrow> u32 \<Rightarrow> 'd Core \<Rightarrow> (FastStepResult + StepInstruction) \<times> 'd Core" where
  "fetch_instruction env pc c =
     (case read16 (env_devices env) pc (fetch_context pc) (mem c) of
        (Inl f, bus) \<Rightarrow> fetch_fault pc 0 0 f ''instruction fetch failed'' (c\<lparr>mem := bus\<rparr>)
      | (Inr first, bus) \<Rightarrow>
          (let wide = is32BitThumbPrefix first
           in case fetch_second env wide pc bus of
                (Inl f, bus) \<Rightarrow>
                  fetch_fault pc (push_bit 16 (ucast first)) (if wide then 4 else 2) f
                    ''second instruction halfword fetch failed'' (c\<lparr>mem := bus\<rparr>)
              | (Inr low, bus) \<Rightarrow> decode_fetched wide pc first low (c\<lparr>mem := bus\<rparr>)))"

section \<open>Executing one instruction\<close>

definition enter_instruction :: "u32 \<Rightarrow> u8 \<Rightarrow> CpuState \<Rightarrow> CpuState" where
  "enter_instruction pc sz st = set_r 15 (pc + ucast sz) (st\<lparr>instruction_address := pc\<rparr>)"

definition si_cycles :: "StepInstruction \<Rightarrow> CpuState \<Rightarrow> u16" where
  "si_cycles si st =
     (if si_divide_form si then of_nat (divideCycles (readRegister (rm (si_decoded si)) st))
      else si_base_cycles si)"

definition with_penalty :: "u16 \<Rightarrow> StepInstruction \<Rightarrow> u32 \<Rightarrow> CpuState \<Rightarrow> u16" where
  "with_penalty cycles si pc st =
     (if core_r st 15 \<noteq> pc + ucast (si_size si) then cycles + si_branch_penalty si else cycles)"

definition fetched :: "StepInstruction \<Rightarrow> u32 \<Rightarrow> FastStepResult" where
  "fetched si pc =
     (stopped SR_step_complete pc)\<lparr>fs_raw := si_raw si, fs_size := si_size si,
        fs_suppress_loop_observation := si_suppress_loop_observation si\<rparr>"

text \<open>Unconditional instructions outside an IT block, directly in their inlined handler.\<close>

definition try_unconditional :: "StepInstruction \<Rightarrow> u32 \<Rightarrow> 'd Cortex \<Rightarrow> FastStepResult option \<times> 'd Cortex" where
  "try_unconditional si pc x =
     (let c = core x;
          old = instruction_address (cpu c);
          cycles = si_cycles si (cpu c);
          (ok, c') = executeJitFast (si_decoded si) (si_jit_fast si) pc
             (c\<lparr>cpu := enter_instruction pc (si_size si) (cpu c)\<rparr>)
      in if ok then
           (Some ((fetched si pc)\<lparr>fs_instructions := 1, fs_cycles := with_penalty cycles si pc (cpu c')\<rparr>),
            x\<lparr>core := c', single_fast := single_fast x + 1\<rparr>)
         else
           (None, x\<lparr>core := c'\<lparr>cpu := set_r 15 pc ((cpu c')\<lparr>instruction_address := old\<rparr>)\<rparr>\<rparr>))"

definition effective_condition :: "DecodedInstruction \<Rightarrow> CpuState \<Rightarrow> Condition" where
  "effective_condition i st =
     (if kind i = I_it then C_al
      else if inItBlock (it_state st) then currentItCondition (it_state st) else condition i)"

definition condition_passed :: "DecodedInstruction \<Rightarrow> CpuState \<Rightarrow> bool" where
  "condition_passed i st =
     (effective_condition i st = C_al \<or> conditionPasses (effective_condition i st) (xpsr st))"

text \<open>Inside an IT block the 16-bit data-processing forms do not set the flags.\<close>

definition it_adjusted :: "DecodedInstruction \<Rightarrow> bool \<Rightarrow> DecodedInstruction" where
  "it_adjusted i was_in_it =
     (if was_in_it \<and> set_flags i \<and> suppressImplicitFlagsInIt (kind i) then i\<lparr>set_flags := False\<rparr> else i)"

text \<open>
  The instruction itself, with its condition passed: the inlined handler when it is
  allowed and accepts, else the executor; and the dispatch counters.
\<close>

definition dispatch :: "'d CpuEnv \<Rightarrow> bool \<Rightarrow> bool \<Rightarrow> bool \<Rightarrow> DecodedInstruction \<Rightarrow> JitFast \<Rightarrow> u32 \<Rightarrow>
    'd Cortex \<Rightarrow> StopReason \<times> 'd Cortex" where
  "dispatch env use_jit was_in_it declined i fast pc x =
     (let attempted = (use_jit \<and> \<not> was_in_it \<and> \<not> declined \<and> fast \<noteq> JF_generic);
          (handled, c) = (if attempted then executeJitFast i fast pc (core x) else (False, core x));
          x = x\<lparr>core := c,
                single_decline := (if attempted \<and> \<not> handled \<or> declined then single_decline x + 1 else single_decline x)\<rparr>;
          (stop, c) = (if handled then (SR_step_complete, c) else execute env i c);
          x = x\<lparr>core := c\<rparr>
      in (stop, if use_jit \<and> \<not> was_in_it
                then (if handled then x\<lparr>single_fast := single_fast x + 1\<rparr>
                      else x\<lparr>single_generic := single_generic x + 1\<rparr>)
                else x))"

definition finish_it :: "DecodedInstruction \<Rightarrow> bool \<Rightarrow> CpuState \<Rightarrow> CpuState" where
  "finish_it i was_in_it st = (if kind i \<noteq> I_it \<and> was_in_it then advanceIt st else st)"

definition step_general :: "'d CpuEnv \<Rightarrow> bool \<Rightarrow> bool \<Rightarrow> StepInstruction \<Rightarrow> u32 \<Rightarrow> 'd Cortex \<Rightarrow>
    FastStepResult \<times> 'd Cortex" where
  "step_general env use_jit declined si pc x =
     (let st = cpu (core x);
          was_in_it = inItBlock (it_state st);
          passed = condition_passed (si_decoded si) st;
          base_cycles = (if passed then si_cycles si st else 1);
          need_restart = (si_may_trap si \<and> mmioTrapping (mem (core x)));
          restart_state = st;
          x = x\<lparr>core := (core x)\<lparr>cpu := enter_instruction pc (si_size si) st\<rparr>\<rparr>;
          i = it_adjusted (si_decoded si) was_in_it;
          (stop, x) = (if passed then dispatch env use_jit was_in_it declined i (si_jit_fast si) pc x
                       else (SR_step_complete, x));
          c = (core x)\<lparr>cpu := finish_it i was_in_it (cpu (core x))\<rparr>;
          cycles = (if passed \<and> stop = SR_step_complete then with_penalty base_cycles si pc (cpu c) else base_cycles);
          res = (fetched si pc)\<lparr>fs_reason := stop, fs_instructions := 1, fs_cycles := cycles\<rparr>
      in if stop = SR_step_complete then (res, x\<lparr>core := c\<rparr>)
         else
           (let restart = (stop = SR_synchronization_required \<and> need_restart);
                c = (if restart then c\<lparr>cpu := restart_state\<rparr> else c);
                res = (if restart then res\<lparr>fs_instructions := 0, fs_cycles := 0\<rparr> else res)
            in (res, x\<lparr>core := diagnose (\<lambda>d. d\<lparr>diag_instruction_address := pc, diag_raw := si_raw si,
                         diag_instruction_size := si_size si\<rparr>) c\<rparr>)))"

definition stepFastImpl :: "'d CpuEnv \<Rightarrow> bool \<Rightarrow> bool \<Rightarrow> 'd Cortex \<Rightarrow> FastStepResult \<times> 'd Cortex" where
  "stepFastImpl env use_jit declined x =
     (let c = core x; st = cpu c; pc = core_r st 15
      in if halted st then
           (stopped SR_halted pc,
            x\<lparr>core := diagnose (\<lambda>d. d\<lparr>diag_instruction_address := pc, diag_message := ''CPU is halted'',
                                diag_bus_fault := None\<rparr>) c\<rparr>)
         else if \<not> thumb st \<or> xpsr st AND xpsr_t = 0 \<or> pc AND 1 \<noteq> 0 then
           (stopped SR_invalid_state pc,
            x\<lparr>core := diagnose (\<lambda>d. d\<lparr>diag_instruction_address := pc,
                                diag_message := ''invalid Cortex-M Thumb execution state'',
                                diag_bus_fault := None\<rparr>) (c\<lparr>cpu := st\<lparr>halted := True\<rparr>\<rparr>)\<rparr>)
         else
           case fetch_instruction env pc c of
             (Inl res, c) \<Rightarrow> (res, x\<lparr>core := c\<rparr>)
           | (Inr si, c) \<Rightarrow>
               (let x = x\<lparr>core := c\<rparr>
                in if \<not> declined \<and> use_jit \<and> it_state (cpu c) = 0 \<and> si_fast_unconditional si then
                     (case try_unconditional si pc x of
                        (Some res, x) \<Rightarrow> (res, x)
                      | (None, x) \<Rightarrow> step_general env use_jit True si pc x)
                   else step_general env use_jit declined si pc x))"

definition stepFast :: "'d CpuEnv \<Rightarrow> 'd Cortex \<Rightarrow> FastStepResult \<times> 'd Cortex" where
  "stepFast env x = stepFastImpl env False False x"

definition stepJitFast :: "'d CpuEnv \<Rightarrow> 'd Cortex \<Rightarrow> FastStepResult \<times> 'd Cortex" where
  "stepJitFast env x = stepFastImpl env True False x"

section \<open>Steps with diagnostics and runs\<close>

definition new_diagnostic :: DiagnosticSnapshot where
  "new_diagnostic =
     \<lparr>diag_instruction_address = 0, diag_next_pc = 0, diag_raw = 0, diag_instruction_size = 0,
      diag_registers = (\<lambda>_. 0), diag_xpsr = 0, diag_bus_fault = None, diag_message = []\<rparr>"

definition retired_at :: "FastStepResult \<Rightarrow> CpuState \<Rightarrow> DiagnosticSnapshot \<Rightarrow> DiagnosticSnapshot" where
  "retired_at fast st d =
     capture st (d\<lparr>diag_instruction_address := fs_address fast, diag_raw := fs_raw fast,
                   diag_instruction_size := fs_size fast\<rparr>)"

definition step :: "'d CpuEnv \<Rightarrow> 'd Cortex \<Rightarrow> RunResult \<times> 'd Cortex" where
  "step env x =
     (let (fast, x) = stepFast env x
      in (\<lparr>run_reason = fs_reason fast, run_instructions = ucast (fs_instructions fast),
           run_cycles = ucast (fs_cycles fast),
           run_diagnostic = (if fs_reason fast = SR_step_complete
                             then retired_at fast (cpu (core x)) new_diagnostic else diag (core x))\<rparr>, x))"

text \<open>
  The loop of \<open>run\<close> for the remaining budget: \<open>Inl\<close> when a step stopped it, \<open>Inr\<close> with
  the last step when the budget is used up.
\<close>

fun run_loop :: "'d CpuEnv \<Rightarrow> nat \<Rightarrow> RunResult \<Rightarrow> FastStepResult \<Rightarrow> 'd Cortex \<Rightarrow>
    (RunResult + RunResult \<times> FastStepResult) \<times> 'd Cortex" where
  "run_loop env 0 agg one x = (Inr (agg, one), x)"
| "run_loop env (Suc n) agg one x =
     (let (one, x) = stepFast env x;
          agg = agg\<lparr>run_instructions := run_instructions agg + ucast (fs_instructions one),
                    run_cycles := run_cycles agg + ucast (fs_cycles one)\<rparr>
      in if fs_reason one \<noteq> SR_step_complete
         then (Inl (agg\<lparr>run_reason := fs_reason one, run_diagnostic := diag (core x)\<rparr>), x)
         else run_loop env n agg one x)"

definition run :: "'d CpuEnv \<Rightarrow> u64 \<Rightarrow> 'd Cortex \<Rightarrow> RunResult \<times> 'd Cortex" where
  "run env budget x =
     (let st = cpu (core x);
          agg = \<lparr>run_reason = SR_instruction_budget, run_instructions = 0, run_cycles = 0,
                 run_diagnostic = capture st (new_diagnostic\<lparr>diag_instruction_address := core_r st 15\<rparr>)\<rparr>
      in case run_loop env (unat budget) agg (stopped SR_step_complete 0) x of
           (Inl agg, x) \<Rightarrow> (agg, x)
         | (Inr (agg, one), x) \<Rightarrow>
             (agg\<lparr>run_diagnostic := (if budget \<noteq> 0 then retired_at one (cpu (core x)) (run_diagnostic agg)
                                     else capture (cpu (core x)) (run_diagnostic agg))\<rparr>, x))"

section \<open>Looking ahead\<close>

text \<open>Fetch and decode without a device access; the fields of the bus that note reads may change.\<close>

definition fetchDecode :: "u32 \<Rightarrow> 'd MemoryBus \<Rightarrow> (DecodedInstruction \<times> u32 \<times> u8) option \<times> 'd MemoryBus" where
  "fetchDecode pc bus =
     (case tryFastRead pc AS_halfword (fetch_context pc) bus of
        None \<Rightarrow> (None, bus)
      | Some (first, bus) \<Rightarrow>
          if \<not> is32BitThumbPrefix (ucast first) then
            (map_option (\<lambda>i. (i, ucast first, 2)) (decode16 (ucast first)), bus)
          else if pc > 0xffffffff - 2 then (None, bus)
          else
            (case tryFastRead (pc + 2) AS_halfword (fetch_context pc) bus of
               None \<Rightarrow> (None, bus)
             | Some (second, bus) \<Rightarrow>
                 (map_option (\<lambda>i. (i, push_bit 16 (ucast first) OR ucast second, 4))
                    (decode32 (ucast first) (ucast second)), bus)))"

definition loaded_target :: "DecodedInstruction \<Rightarrow> bool" where
  "loaded_target i \<longleftrightarrow>
     (if kind i \<in> {I_tbb, I_tbh} then True
      else if kind i \<in> {I_mov, I_ldr, I_ldrb, I_ldrh, I_ldrsb, I_ldrsh, I_ldrd} then rd i = 15
      else if kind i \<in> {I_ldm, I_pop} then listed (register_list i) 15
      else False)"

text \<open>The cost of a decoded instruction whose condition passes, from the state before it.\<close>

definition peek_cost :: "DecodedInstruction \<Rightarrow> u32 \<Rightarrow> u8 \<Rightarrow> CpuState \<Rightarrow> bool \<Rightarrow> nat option" where
  "peek_cost i pc sz st upper_bound =
     (let fallthrough = pc + ucast sz;
          base = basePipelineCycles i;
          taken = (\<lambda>t. base + (if t then takenBranchPenalty (kind i) else 0))
      in if upper_bound \<and> (kind i = I_udiv \<or> kind i = I_sdiv) then Some (divideCycles (readRegister (rm i) st))
         else if upper_bound \<and> (loaded_target i \<or> rd i = 15 \<or> ra i = 15 \<or> writeback i \<and> rn i = 15) then
           Some (taken True)
         else if kind i \<in> {I_b, I_bl} then
           Some (taken (word_of_int (uint pc + 4 + branch_offset i) AND NOT 1 \<noteq> fallthrough))
         else if kind i \<in> {I_bx, I_blx} then
           (let target = readRegister (rm i) st
            in if kind i = I_bx \<and> isExceptionReturn target then Some base
               else if target AND 1 = 0 then (if \<not> upper_bound then None else Some (taken True))
               else Some (taken (target AND NOT 1 \<noteq> fallthrough)))
         else if kind i \<in> {I_cbz, I_cbnz} then
           (let zero = (readRegister (rn i) st = 0);
                take_it = (if kind i = I_cbz then zero else \<not> zero)
            in Some (taken (take_it \<and> (architecturalPcForRead st + imm i) AND NOT 1 \<noteq> fallthrough)))
         else if kind i \<in> {I_udiv, I_sdiv} then Some (divideCycles (readRegister (rm i) st))
         else Some base)"

definition peekPipelineCycles :: "bool \<Rightarrow> 'd Core \<Rightarrow> u16 option \<times> 'd Core" where
  "peekPipelineCycles upper_bound c =
     (let st = cpu c; pc = core_r st 15
      in if halted st \<or> \<not> thumb st \<or> xpsr st AND xpsr_t = 0 \<or> pc AND 1 \<noteq> 0 then (None, c)
         else case fetchDecode pc (mem c) of
             (None, bus) \<Rightarrow> (None, c\<lparr>mem := bus\<rparr>)
           | (Some (i, r, sz), bus) \<Rightarrow>
               (if loaded_target i \<and> \<not> upper_bound then None
                else if \<not> conditionPasses (effective_condition i st) (xpsr st) then Some 1
                else map_option of_nat (peek_cost i pc sz st upper_bound), c\<lparr>mem := bus\<rparr>))"

end
