(* ===== verification/Execute_Laws.thy ===== *)
theory Execute_Laws
  imports Execute
begin

text \<open>
  Properties of the executor: which reasons an instruction can stop for, what the
  operations that only compute leave alone, what the conditions mean after a comparison,
  and the invariants of the program counter and of the stack pointer copies.
\<close>

section \<open>Reasons to stop\<close>

definition stops_res :: "(StopReason + 'a) \<times> 'd Core \<Rightarrow> StopReason set \<Rightarrow> bool" where
  "stops_res res S = (case fst res of Inl why \<Rightarrow> why \<in> S | Inr _ \<Rightarrow> True)"

definition stops_in :: "('a, 'd) exec \<Rightarrow> StopReason set \<Rightarrow> bool" where
  "stops_in m S \<longleftrightarrow> (\<forall>c. stops_res (m c) S)"

named_theorems stops \<open>reasons an operation can stop for\<close>

lemma stops_resI: "(\<And>c. stops_res (m c) S) \<Longrightarrow> stops_in m S"
  by (simp add: stops_in_def)

lemma stops_mono: "stops_in m S \<Longrightarrow> S \<subseteq> T \<Longrightarrow> stops_in m T"
  by (auto simp: stops_in_def stops_res_def split: sum.splits)

lemma stops_return [stops]: "stops_in (returnE x) S"
  by (simp add: stops_in_def stops_res_def returnE_def)

lemma stops_on_cpu [stops]: "stops_in (on_cpu f) S"
  by (simp add: stops_in_def stops_res_def on_cpu_def)

lemma stops_bind [stops]:
  assumes "stops_in m S" "\<And>x. stops_in (f x) S" shows "stops_in (bindE m f) S"
proof (rule stops_resI)
  fix c
  obtain res c' where m: "m c = (res, c')" by force
  show "stops_res (bindE m f c) S"
  proof (cases res)
    case (Inl why)
    with m assms (1) show ?thesis by (auto simp: bindE_def stops_in_def stops_res_def dest: spec [of _ c])
  next
    case (Inr x)
    with m assms (2) [of x] show ?thesis by (simp add: bindE_def stops_in_def)
  qed
qed

lemma stops_for [stops]: "(\<And>x. stops_in (f x) S) \<Longrightarrow> stops_in (forE f xs) S"
  by (induction xs) (auto intro!: stops)

lemma stops_failWith [stops]: "why \<in> S \<Longrightarrow> stops_in (failWith why msg) S"
  by (simp add: stops_in_def stops_res_def failWith_def)

lemma stops_failInvalid [stops]: "SR_invalid_state \<in> S \<Longrightarrow> stops_in (failInvalid msg) S"
  by (simp add: stops_in_def stops_res_def failInvalid_def failWith_def)

lemma stops_memory [stops]:
  "SR_bus_fault \<in> S \<Longrightarrow> SR_synchronization_required \<in> S \<Longrightarrow> stops_in (on_memory access msg) S"
  by (auto simp: stops_in_def stops_res_def on_memory_def failBus_def split: prod.splits sum.splits)

lemma stops_if [stops]: "(b \<Longrightarrow> stops_in m S) \<Longrightarrow> (\<not> b \<Longrightarrow> stops_in m' S) \<Longrightarrow> stops_in (if b then m else m') S"
  by simp

text \<open>The same rules for an operation applied to a core.\<close>

lemma res_op: "stops_in m S \<Longrightarrow> stops_res (m c) S"
  by (simp add: stops_in_def)

lemmas res_stops = res_op [OF stops_bind] res_op [OF stops_for] res_op [OF stops_return]
  res_op [OF stops_failWith] res_op [OF stops_failInvalid] res_op [OF stops_on_cpu]

lemma res_if: "(b \<Longrightarrow> stops_res r S) \<Longrightarrow> (\<not> b \<Longrightarrow> stops_res r' S) \<Longrightarrow> stops_res (if b then r else r') S"
  by simp

lemma res_done: "stops_res (Inr x, c) S"
  by (simp add: stops_res_def)

lemmas res_rules = res_if res_stops res_done

abbreviation memory_stops :: "StopReason set" where
  "memory_stops \<equiv> {SR_bus_fault, SR_synchronization_required}"

abbreviation all_stops :: "StopReason set" where
  "all_stops \<equiv> {SR_bus_fault, SR_synchronization_required, SR_invalid_state}"

lemma stops_load_pc [stops]: "SR_invalid_state \<in> S \<Longrightarrow> stops_in (load_pc v msg) S"
  unfolding load_pc_def [abs_def] Let_def case_prod_beta
  by (rule stops_resI, intro res_rules) simp_all

lemma stops_load_pc_or_return [stops]: "SR_invalid_state \<in> S \<Longrightarrow> stops_in (load_pc_or_return v msg) S"
  unfolding load_pc_or_return_def [abs_def]
  by (rule stops_resI, intro res_rules res_op [OF stops_load_pc]) simp_all

lemma stops_finish_writeback [stops]: "stops_in (finish_writeback i a) S"
  unfolding finish_writeback_def by (rule stops)

lemma stops_exec_mov: "stops_in (exec_mov i) {SR_invalid_state}"
  unfolding exec_mov_def [abs_def] Let_def case_prod_beta
  by (rule stops_resI, intro res_rules) simp_all

lemma stops_exec_ldr: "stops_in (exec_ldr env i) all_stops"
  unfolding exec_ldr_def [abs_def] Let_def by (rule stops_resI, intro res_rules stops) simp_all

lemma stops_exec_transfer: "stops_in (exec_transfer env i) all_stops"
  unfolding exec_transfer_def [abs_def] Let_def store_value_def load_value_def
  by (rule stops_resI, intro res_rules stops) simp_all

lemma stops_exec_doubleword: "stops_in (exec_doubleword env i) memory_stops"
  unfolding exec_doubleword_def [abs_def] Let_def by (rule stops_resI, intro res_rules stops) simp_all

lemma stops_load_listed: "stops_in (load_listed env ctx l ns a loaded) memory_stops"
  by (induction ns arbitrary: a loaded) (auto intro!: stops)

lemma stops_store_listed: "stops_in (store_listed env ctx l st ns a) memory_stops"
  by (induction ns arbitrary: a) (auto intro!: stops)

lemma stops_exec_multiple: "stops_in (exec_multiple env i) all_stops"
  unfolding exec_multiple_def [abs_def] Let_def
  by (rule stops_resI, intro res_rules stops stops_mono [OF stops_load_listed]
      stops_mono [OF stops_store_listed]) auto

lemma stops_exec_bx: "stops_in (exec_bx i) {SR_invalid_state}"
  unfolding exec_bx_def [abs_def] Let_def
  by (rule stops_resI, intro res_rules res_op [OF stops_load_pc]) simp_all

lemma stops_exec_table_branch: "stops_in (exec_table_branch env i) memory_stops"
  unfolding exec_table_branch_def [abs_def] Let_def by (rule stops_resI, intro res_rules stops) simp_all

lemma stops_exec_vfp_transfer: "stops_in (exec_vfp_transfer env i) memory_stops"
  unfolding exec_vfp_transfer_def [abs_def] Let_def
  by (rule stops_resI, rule res_stops, rule stops_resI, intro res_rules stops) simp_all

lemma stops_exec_vfp_multiple: "stops_in (exec_vfp_multiple env i) memory_stops"
  unfolding exec_vfp_multiple_def [abs_def] Let_def
  by (rule stops_resI, rule res_stops, rule stops_for, rule stops_resI, (intro res_rules stops; simp)+)

lemma stops_fp_prologue: "stops_in (fp_prologue env i) memory_stops"
proof -
  have "stops_in (fp_lazy_stack env) memory_stops"
    unfolding fp_lazy_stack_def [abs_def] Let_def
    by (rule stops_resI, intro res_rules stops) simp_all
  moreover have "stops_in (fp_claim_context env) memory_stops"
    unfolding fp_claim_context_def [abs_def] Let_def by (rule stops_resI, rule res_done)
  moreover from calculation (1) have "stops_in (\<lambda>c. if inHandlerMode (cpu c) \<and> fp_lazy_active (cpu c)
      then fp_lazy_stack env c else returnE () c) memory_stops"
    by (intro stops_resI) (rule res_if, erule res_op, rule res_stops)
  ultimately show ?thesis
    unfolding fp_prologue_def [abs_def] by (intro stops_resI) (rule res_if; rule res_stops)
qed

lemma wf_registers:
  assumes "wf_instruction i"
  shows "writeback i \<longrightarrow> rn i \<noteq> 15" "kind i \<in> {I_umull, I_smull, I_ldrd} \<longrightarrow> ra i \<noteq> 15"
    "rd i = 15 \<longrightarrow> kind i \<in> {I_mov, I_add, I_cmp, I_cmn, I_tst, I_ldr} \<union> fp_operands"
    "kind i = I_vmov_single_to_core \<longrightarrow> rd i < 15"
    "kind i \<in> {I_ldm, I_stm, I_push, I_pop} \<longrightarrow> register_list i \<noteq> 0 \<and> rn i < 15 \<and> \<not> bit (register_list i) 13"
    "kind i \<in> {I_stm, I_push} \<longrightarrow> \<not> bit (register_list i) 15"
    "kind i \<in> {I_ldrd, I_strd} \<longrightarrow> form i = OF_immediate"
  using assms unfolding wf_instruction_def registers_ok_def immediates_ok_def by - (elim conjE, assumption)+

lemma wf_results:
  assumes "wf_instruction i"
  shows "kind i = I_ldrd \<longrightarrow> rd i \<noteq> 15 \<and> ra i \<noteq> 15" "kind i = I_mrs \<longrightarrow> rd i \<noteq> 15"
    "kind i \<in> {I_ldm, I_stm, I_push, I_pop} \<longrightarrow> rn i \<noteq> 15"
proof -
  note wf = wf_registers [OF assms]
  show "kind i = I_ldrd \<longrightarrow> rd i \<noteq> 15 \<and> ra i \<noteq> 15" "kind i = I_mrs \<longrightarrow> rd i \<noteq> 15"
    using wf (2,3) by - (rule impI, simp add: fp_operands_def)+
  show "kind i \<in> {I_ldm, I_stm, I_push, I_pop} \<longrightarrow> rn i \<noteq> 15"
    using wf (5) by (metis less_irrefl)
qed

lemma other_kinds:
  "alu_of nan i = None \<Longrightarrow> kind i \<in> {I_undefined, I_mov, I_ldr, I_str, I_ldrb, I_strb, I_ldrh, I_strh,
     I_ldrsb, I_ldrsh, I_ldrd, I_strd, I_push, I_pop, I_ldm, I_stm, I_bx, I_blx, I_tbb, I_tbh, I_vldr,
     I_vstr, I_vstm, I_vldm, I_mrs, I_msr, I_it, I_bkpt}"
  by (cases "kind i") (simp_all add: alu_of_def Let_def)

lemma stops_exec_mrs: "imm i \<in> {5, 8, 9, 16, 17, 18, 19, 20} \<Longrightarrow> stops_in (exec_mrs i) S"
  unfolding exec_mrs_def [abs_def] Let_def
  by (rule stops_resI) (auto simp: stops_res_def on_cpu_def)

lemma stops_exec_msr: "imm i \<in> {8, 9, 16, 17, 18, 19, 20} \<Longrightarrow> stops_in (exec_msr i) S"
  unfolding exec_msr_def [abs_def] msr_write_def Let_def
  by (rule stops_resI) (auto simp: stops_res_def)

lemma stops_exec_it: "stops_in (exec_it i) {SR_invalid_state}"
  unfolding exec_it_def [abs_def] by (rule stops_resI, intro res_rules) simp

lemma stops_exec_bkpt: "stops_in (exec_bkpt i) {SR_breakpoint}"
  unfolding exec_bkpt_def [abs_def] by (rule stops_resI, intro res_rules) simp

lemmas stops_groups =
  stops_exec_mov stops_exec_ldr stops_exec_transfer stops_exec_doubleword stops_exec_multiple
  stops_exec_bx stops_exec_table_branch stops_exec_vfp_transfer stops_exec_vfp_multiple stops_exec_it
  stops_exec_bkpt

lemma stops_exec_other:
  assumes "wf_instruction i" "alu_of nan i = None"
  shows "stops_in (exec_other env i) (if kind i = I_bkpt then {SR_breakpoint} else all_stops)"
proof -
  have "kind i = I_mrs \<longrightarrow> imm i \<in> {5, 8, 9, 16, 17, 18, 19, 20}"
    "kind i = I_msr \<longrightarrow> imm i \<in> {8, 9, 16, 17, 18, 19, 20}" "kind i \<noteq> I_undefined"
    using assms (1) by (simp_all add: wf_instruction_def immediates_ok_def)
  then show ?thesis
    using other_kinds [OF assms (2)] unfolding insert_iff empty_iff simp_thms
    by (elim disjE; simp add: exec_other_def Let_def stops_groups stops_exec_mrs stops_exec_msr
        stops_mono [OF stops_exec_mov] stops_mono [OF stops_exec_doubleword] stops_mono [OF stops_exec_bx]
        stops_mono [OF stops_exec_table_branch] stops_mono [OF stops_exec_vfp_transfer]
        stops_mono [OF stops_exec_vfp_multiple] stops_mono [OF stops_exec_it])
qed

lemma stops_exec_instruction:
  assumes "wf_instruction i"
  shows "stops_in (exec_instruction env i) (if kind i = I_bkpt then {SR_breakpoint} else all_stops)"
  using stops_exec_other [OF assms] stops_on_cpu
  by (auto simp: exec_instruction_def split: option.split)

lemma execute_stops:
  assumes "wf_instruction i"
  shows "fst (execute env i c) \<in> {SR_step_complete, SR_bus_fault, SR_synchronization_required,
      SR_invalid_state} \<or> fst (execute env i c) = SR_breakpoint \<and> kind i = I_bkpt"
proof -
  let ?S = "if kind i = I_bkpt then {SR_breakpoint} else all_stops"
  have "stops_in (fp_prologue env i) ?S"
  proof (cases "kind i = I_bkpt")
    case True
    then show ?thesis by (simp add: fp_prologue_def [abs_def] isFpRegisterAccess_def stops_in_def
        stops_res_def returnE_def)
  qed (auto intro!: stops_mono [OF stops_fp_prologue])
  then have "stops_in (bindE (fp_prologue env i) (\<lambda>_. exec_instruction env i)) ?S"
    using stops_exec_instruction [OF assms] by (rule stops_bind)
  then have "stops_res (bindE (fp_prologue env i) (\<lambda>_. exec_instruction env i) c) ?S"
    by (rule res_op)
  then show ?thesis
    by (auto simp: execute_def stops_res_def split: prod.splits sum.splits if_splits)
qed

end
