(* ===== verification/Memory_Laws.thy ===== *)
theory Memory_Laws
  imports Memory_Bus
begin

text \<open>
  The invariant of the address map, its preservation by every operation that builds or
  stores, the abstract view of the bus as a partial map from addresses to bytes, and the
  refinement of that view by the checked reads and writes.
\<close>

section \<open>Invariant\<close>

definition wf_region :: "Region \<Rightarrow> bool" where
  "wf_region r \<longleftrightarrow>
     validRange (region_base r) (region_len r)
     \<and> (backed (rkind (info r)) \<longrightarrow> length (bytes r) = unat (region_len r))"

definition wf_bus :: "'d MemoryBus \<Rightarrow> bool" where
  "wf_bus bus \<longleftrightarrow>
     index_sorted region_base region_len (regions bus) \<and> list_all wf_region (regions bus)"

text \<open>What no access changes: everything of the regions but the contents of their bytes.\<close>

definition layout :: "'d MemoryBus \<Rightarrow> (MemoryRegionInfo \<times> u32 \<times> nat \<times> nat) list" where
  "layout bus = map (\<lambda>r. (info r, alias_target r, device r, length (bytes r))) (regions bus)"

text \<open>The abstract memory: the byte of every directly backed address.\<close>

definition byte_at :: "'d MemoryBus \<Rightarrow> u32 \<Rightarrow> u8 option" where
  "byte_at bus a =
     (case region_at bus a of
        None \<Rightarrow> None
      | Some r \<Rightarrow> if backed (rkind (info r)) then Some (bytes r ! unat (a - region_base r)) else None)"

text \<open>Where an access ends up after alias translation: the region and the address in it.\<close>

function resolve :: "'d MemoryBus \<Rightarrow> u32 \<Rightarrow> nat \<Rightarrow> nat \<Rightarrow> (nat \<times> u32) option" where
  "resolve bus a width depth =
     (if \<not> validRange a (of_nat width) then None
      else case find_region bus a of
        None \<Rightarrow> None
      | Some ri \<Rightarrow>
          (let r = regions bus ! ri
           in if \<not> containsRange r a width then None
              else if rkind (info r) = RK_alias
              then (if depth \<ge> maximum_alias_depth then None
                    else resolve bus (alias_target r + (a - region_base r)) width (depth + 1))
              else Some (ri, a)))"
  by pat_completeness auto
termination
  by (relation "measure (\<lambda>(bus, a, width, depth). 9 - depth)") auto

declare resolve.simps [simp del]

definition le_byte :: "u64 \<Rightarrow> nat \<Rightarrow> u8" where
  "le_byte value i = ucast (drop_bit (i * 8) value)"

text \<open>The abstract store: \<open>width\<close> little-endian bytes of a value from an address on.\<close>

definition put_bytes :: "(u32 \<Rightarrow> u8 option) \<Rightarrow> u32 \<Rightarrow> nat \<Rightarrow> u64 \<Rightarrow> u32 \<Rightarrow> u8 option" where
  "put_bytes m a width value x =
     (if unat a \<le> unat x \<and> unat x < unat a + width then Some (le_byte value (unat x - unat a)) else m x)"

section \<open>The interval index of the bus\<close>

interpretation rix: interval_index region_base region_len contains
  by unfold_locales (simp add: contains_def region_end_def word_le_nat_alt)

lemma find_region_Some:
  assumes "wf_bus bus"
  shows "find_region bus a = Some i \<longleftrightarrow> i < length (regions bus) \<and> contains (regions bus ! i) a"
proof
  assume "find_region bus a = Some i"
  then show "i < length (regions bus) \<and> contains (regions bus ! i) a"
    by (auto simp: find_region_def split: option.splits if_splits dest: rix.upper_bound_prev_less)
next
  assume "i < length (regions bus) \<and> contains (regions bus ! i) a"
  then show "find_region bus a = Some i"
    using assms rix.upper_bound_prev_found [of "regions bus" i a]
    by (simp add: find_region_def wf_bus_def)
qed

lemma find_region_None:
  assumes "wf_bus bus"
  shows "find_region bus a = None \<longleftrightarrow> (\<forall>r \<in> set (regions bus). \<not> contains r a)"
proof -
  have "(\<exists>i. find_region bus a = Some i) \<longleftrightarrow> (\<exists>r \<in> set (regions bus). contains r a)"
    by (auto simp: find_region_Some [OF assms] in_set_conv_nth Bex_def)
  then show ?thesis by (cases "find_region bus a") auto
qed

lemma find_region_less: "find_region bus a = Some i \<Longrightarrow> i < length (regions bus)"
  by (auto simp: find_region_def split: option.splits if_splits dest: rix.upper_bound_prev_less)

lemma find_region_contains: "find_region bus a = Some i \<Longrightarrow> contains (regions bus ! i) a"
  by (auto simp: find_region_def split: option.splits if_splits)

lemma wf_region_nth: "wf_bus bus \<Longrightarrow> i < length (regions bus) \<Longrightarrow> wf_region (regions bus ! i)"
  by (simp add: wf_bus_def list_all_length)

lemma overlaps_disjoint: "\<not> overlaps r existing \<longleftrightarrow> disjoint_from region_base region_len r existing"
  by (simp add: overlaps_def disjoint_from_def region_end_def stop_of_def)

lemma wf_new_MemoryBus: "wf_bus (new_MemoryBus d)"
  by (simp add: wf_bus_def new_MemoryBus_def)

lemma addRegion_wf:
  assumes "wf_bus bus" "wf_region r" "addRegion r bus = Inr bus'"
  shows "wf_bus bus'"
proof -
  have valid: "validRange (region_base r) (region_len r)"
    and none: "List.find (overlaps r) (regions bus) = None"
    and bus': "regions bus' = sort_key region_base (regions bus @ [r])"
    using assms(3) by (auto simp: addRegion_def split: if_splits option.splits)
  have "0 < unat (region_len r)" using valid by (simp add: validRange_iff unat_gt_0)
  moreover have "\<forall>r' \<in> set (regions bus). disjoint_from region_base region_len r r'"
    using none by (simp add: find_None_iff overlaps_disjoint [symmetric])
  ultimately have "index_sorted region_base region_len (regions bus')"
    using rix.ordered_append_sort [of "regions bus" r] assms(1) by (simp add: bus' wf_bus_def)
  then show ?thesis using assms(1,2) by (simp add: wf_bus_def bus' list_all_iff)
qed

lemma addRegion_regions:
  "addRegion r bus = Inr bus' \<Longrightarrow> set (regions bus') = insert r (set (regions bus))"
  by (auto simp: addRegion_def split: if_splits option.splits)

lemma wf_mk_region: "validRange (base i) (rsize i) \<Longrightarrow>
    wf_region (mk_region i (fill_bytes (base i) (rsize i) v))"
  by (simp add: wf_region_def mk_region_def fill_bytes_def)

lemma addRegion_valid: "addRegion r bus = Inr bus' \<Longrightarrow> validRange (region_base r) (region_len r)"
  by (auto simp: addRegion_def split: if_splits)

lemma addRegion_filled_wf:
  assumes "addRegion (mk_region i (fill_bytes b n v)) bus = Inr bus'" "wf_bus bus"
    and "base i = b" "rsize i = n"
  shows "wf_bus bus'"
  using addRegion_wf [OF assms(2) _ assms(1)] addRegion_valid [OF assms(1)] wf_mk_region [of i v]
  by (simp add: mk_region_def assms(3,4))

lemma mapRam_wf: "wf_bus bus \<Longrightarrow> mapRam b n nm ex bus = Inr bus' \<Longrightarrow> wf_bus bus'"
  unfolding mapRam_def by (erule (1) addRegion_filled_wf) simp_all

lemma mapRom_wf: "wf_bus bus \<Longrightarrow> mapRom b n nm ex bus = Inr bus' \<Longrightarrow> wf_bus bus'"
  unfolding mapRom_def by (erule (1) addRegion_filled_wf) simp_all

lemma mapFlash_wf: "wf_bus bus \<Longrightarrow> mapFlash b n nm ex bus = Inr bus' \<Longrightarrow> wf_bus bus'"
  unfolding mapFlash_def by (erule (1) addRegion_filled_wf) simp_all

lemma addRegion_unbacked_wf:
  assumes "wf_bus bus" "\<not> backed (rkind (info r))" "addRegion r bus = Inr bus'"
  shows "wf_bus bus'"
  using addRegion_wf [OF assms(1) _ assms(3)] addRegion_valid [OF assms(3)] assms(2)
  by (simp add: wf_region_def)

lemma mapMmio_wf: "wf_bus bus \<Longrightarrow> mapMmio b n dev nm bus = Inr bus' \<Longrightarrow> wf_bus bus'"
  unfolding mapMmio_def by (erule addRegion_unbacked_wf [rotated 2]) (simp_all add: backed_def)

lemma mapAlias_wf:
  assumes "wf_bus bus" "mapAlias b t n nm bus = Inr bus'"
  shows "wf_bus bus'"
  using assms(2) unfolding mapAlias_def
  by (auto simp: Let_def backed_def split: if_splits option.splits
      elim!: addRegion_unbacked_wf [OF assms(1), rotated])


section \<open>What the stores leave alone\<close>

lemma length_layout: "length (layout bus) = length (regions bus)"
  by (simp add: layout_def)

lemma layout_length: "layout bus' = layout bus \<Longrightarrow> length (regions bus') = length (regions bus)"
  by (simp flip: length_layout)

lemma layout_nth:
  assumes "layout bus' = layout bus" "i < length (regions bus)"
  shows "info (regions bus' ! i) = info (regions bus ! i)"
    "alias_target (regions bus' ! i) = alias_target (regions bus ! i)"
    "device (regions bus' ! i) = device (regions bus ! i)"
    "length (bytes (regions bus' ! i)) = length (bytes (regions bus ! i))"
proof -
  have len: "length (regions bus') = length (regions bus)"
    by (rule layout_length [OF assms(1)])
  have "layout bus' ! i = layout bus ! i" by (simp add: assms(1))
  then show "info (regions bus' ! i) = info (regions bus ! i)"
    "alias_target (regions bus' ! i) = alias_target (regions bus ! i)"
    "device (regions bus' ! i) = device (regions bus ! i)"
    "length (bytes (regions bus' ! i)) = length (bytes (regions bus ! i))"
    using assms(2) len by (auto simp: layout_def)
qed

lemma map_info_layout: "map info (regions bus) = map fst (layout bus)"
  by (simp add: layout_def)

lemma index_sorted_map:
  "index_sorted (\<lambda>r. f (info r)) (\<lambda>r. g (info r)) rs = index_sorted f g (map info rs)"
  by (induction rs) (auto simp: stop_of_def)

lemma upper_bound_prev_map:
  "upper_bound_prev (\<lambda>r. f (info r)) a rs = upper_bound_prev f a (map info rs)"
  by (simp add: upper_bound_prev_def takeWhile_map comp_def)

lemma find_region_layout:
  assumes "layout bus' = layout bus"
  shows "find_region bus' a = find_region bus a"
proof -
  have infos: "map info (regions bus') = map info (regions bus)"
    by (simp add: map_info_layout assms)
  have "contains (regions bus' ! i) a = contains (regions bus ! i) a"
    if "upper_bound_prev region_base a (regions bus) = Some i" for i
    using layout_nth(1) [OF assms rix.upper_bound_prev_less [OF that]]
    by (simp add: contains_def region_end_def)
  then show ?thesis
    by (auto simp: find_region_def upper_bound_prev_map [of base] infos split: option.splits)
qed

lemma wf_bus_layout:
  assumes "layout bus' = layout bus" "wf_bus bus"
  shows "wf_bus bus'"
proof -
  have infos: "map info (regions bus') = map info (regions bus)"
    by (simp add: map_info_layout assms)
  then have len: "length (regions bus') = length (regions bus)" by (metis length_map)
  have "wf_region (regions bus' ! i)" if "i < length (regions bus)" for i
    using wf_region_nth [OF assms(2) that] layout_nth(1,4) [OF assms(1) that]
    by (simp add: wf_region_def)
  then show ?thesis using assms(2) infos
    by (simp add: wf_bus_def index_sorted_map [of base rsize] list_all_length len)
qed

lemma set_bytes_layout [simp]:
  "ri < length (regions bus) \<Longrightarrow> length bs = length (bytes (regions bus ! ri)) \<Longrightarrow>
   layout (set_bytes ri bs bus) = layout bus"
  by (simp add: layout_def set_bytes_def map_update) (metis (no_types, lifting) length_map list_update_id nth_map)

lemma regions_set_bytes [simp]:
  "regions (set_bytes ri bs bus) = (regions bus)[ri := (regions bus ! ri)\<lparr>bytes := bs\<rparr>]"
  by (simp add: set_bytes_def)

lemma regions_recordMutation [simp]: "regions (recordMutation a old ext bus) = regions bus"
  by (simp add: recordMutation_def Let_def)

lemma regions_addStoreFootprint [simp]: "regions (addStoreFootprint a w ctx bus) = regions bus"
  by (simp add: addStoreFootprint_def log_access_def Let_def)

lemma regions_addAccessFootprint [simp]: "regions (addAccessFootprint a w bus) = regions bus"
  by (simp add: addAccessFootprint_def log_access_def Let_def)

lemma regions_note_data_read [simp]: "regions (note_data_read a w ctx bus) = regions bus"
  by (simp add: note_data_read_def)

lemma regions_bump_execution [simp]: "regions (bump_execution r bus) = regions bus"
  by (simp add: bump_execution_def)

lemma layout_cong: "regions bus' = regions bus \<Longrightarrow> layout bus' = layout bus"
  by (simp add: layout_def)

lemma devices_frame [simp]:
  "devices (recordMutation a old ext bus) = devices bus"
  "devices (addStoreFootprint a w ctx bus) = devices bus"
  "devices (addAccessFootprint a w bus) = devices bus"
  "devices (note_data_read a w ctx bus) = devices bus"
  "devices (bump_execution r bus) = devices bus"
  "devices (set_bytes ri bs bus) = devices bus"
  by (simp_all add: recordMutation_def addStoreFootprint_def addAccessFootprint_def log_access_def
      note_data_read_def bump_execution_def set_bytes_def Let_def)

section \<open>The byte stores\<close>

lemma storeByte_regions:
  assumes "ri < length (regions bus)"
  shows "regions (storeByte ri offset a value ext i bus) =
    (regions bus)[ri := (regions bus ! ri)\<lparr>bytes := (bytes (regions bus ! ri))[offset + i := le_byte value i]\<rparr>]"
  using assms by (simp add: storeByte_def Let_def le_byte_def)

lemma storeByte_layout:
  assumes "ri < length (regions bus)"
  shows "layout (storeByte ri offset a value ext i bus) = layout bus"
  using assms set_bytes_layout [of ri bus]
  by (simp add: layout_cong [where bus' = "storeByte ri offset a value ext i bus"
        and bus = "set_bytes ri ((bytes (regions bus ! ri))[offset + i := le_byte value i]) bus"]
      storeByte_regions)

lemma storeByte_devices [simp]: "devices (storeByte ri offset a value ext i bus) = devices bus"
  by (simp add: storeByte_def Let_def)

lemma storeLoop_devices [simp]: "devices (storeLoop ri offset a value ext w bus) = devices bus"
  unfolding storeLoop_def by (induction w) simp_all

lemma storeLoop_Suc:
  "storeLoop ri offset a value ext (Suc w) bus =
   storeByte ri offset a value ext w (storeLoop ri offset a value ext w bus)"
  by (simp add: storeLoop_def)

lemma storeLoop_0 [simp]: "storeLoop ri offset a value ext 0 bus = bus"
  by (simp add: storeLoop_def)

lemma storeLoop_layout:
  assumes "ri < length (regions bus)"
  shows "layout (storeLoop ri offset a value ext w bus) = layout bus"
proof (induction w)
  case (Suc w)
  have "ri < length (regions (storeLoop ri offset a value ext w bus))"
    using assms layout_length [OF Suc] by simp
  with Suc show ?case by (simp add: storeLoop_Suc storeByte_layout)
qed simp

text \<open>The loop writes exactly the bytes of the access in the byte vector of its region.\<close>

lemma storeLoop_regions:
  assumes "ri < length (regions bus)"
  shows "regions (storeLoop ri offset a value ext w bus) =
    (regions bus)[ri := (regions bus ! ri)
       \<lparr>bytes := fold (\<lambda>i bs. bs[offset + i := le_byte value i]) [0..<w] (bytes (regions bus ! ri))\<rparr>]"
proof (induction w)
  case (Suc w)
  then show ?case using assms by (simp add: storeLoop_Suc storeByte_regions)
qed simp

lemma fold_bytes_nth:
  assumes "offset + w \<le> length bs" "j < length bs"
  shows "fold (\<lambda>i bs. bs[offset + i := le_byte value i]) [0..<w] bs ! j =
    (if offset \<le> j \<and> j < offset + w then le_byte value (j - offset) else bs ! j)"
  using assms
proof (induction w)
  case (Suc w)
  have "length (fold (\<lambda>i bs. bs[offset + i := le_byte value i]) [0..<w] bs) = length bs"
    by (induction w) simp_all
  with Suc show ?case by (auto simp: nth_list_update)
qed auto


lemma length_fold_bytes [simp]:
  "length (fold (\<lambda>i bs. bs[offset + i := le_byte value i]) is bs) = length bs"
  by (induction "is" arbitrary: bs) simp_all

lemma contains_offset:
  assumes "wf_bus bus" "i < length (regions bus)" "backed (rkind (info (regions bus ! i)))"
    and "containsRange (regions bus ! i) a n"
  shows "unat (a - region_base (regions bus ! i)) + n \<le> length (bytes (regions bus ! i))"
  using assms(4) wf_region_nth [OF assms(1,2)] assms(3)
  by (auto simp: wf_region_def containsRange_def region_end_def unat_sub_le word_le_nat_alt)

lemma byte_at_found:
  assumes "wf_bus bus" "i < length (regions bus)" "contains (regions bus ! i) a"
  shows "byte_at bus a =
    (if backed (rkind (info (regions bus ! i)))
     then Some (bytes (regions bus ! i) ! unat (a - region_base (regions bus ! i))) else None)"
  using find_region_Some [OF assms(1), of a i] assms(2,3) by (simp add: byte_at_def region_at_def)

lemma byte_at_regions: "regions bus' = regions bus \<Longrightarrow> byte_at bus' = byte_at bus"
  by (rule ext) (simp add: byte_at_def region_at_def find_region_layout [OF layout_cong, of bus' bus])

lemma byte_at_update:
  assumes wf: "wf_bus bus" and ri: "ri < length (regions bus)"
    and upd: "regions bus' = (regions bus)[ri := (regions bus ! ri)\<lparr>bytes := bs\<rparr>]"
    and len: "length bs = length (bytes (regions bus ! ri))"
    and bk: "backed (rkind (info (regions bus ! ri)))"
  shows "byte_at bus' x =
    (if contains (regions bus ! ri) x then Some (bs ! unat (x - region_base (regions bus ! ri)))
     else byte_at bus x)"
proof -
  have lay: "layout bus' = layout bus"
    using set_bytes_layout [OF ri len] by (simp add: layout_cong [of bus' "set_bytes ri bs bus"] upd)
  have fr: "find_region bus' x = find_region bus x" by (rule find_region_layout [OF lay])
  show ?thesis
  proof (cases "contains (regions bus ! ri) x")
    case True
    then have "find_region bus x = Some ri" using find_region_Some [OF wf] ri by simp
    then show ?thesis using True ri bk by (simp add: byte_at_def region_at_def fr upd)
  next
    case False
    then have "find_region bus x \<noteq> Some ri" using find_region_Some [OF wf] by simp
    then show ?thesis using False ri
      by (auto simp: byte_at_def region_at_def fr upd split: option.splits)
  qed
qed

lemma storeLoop_byte_at:
  assumes wf: "wf_bus bus" and ri: "ri < length (regions bus)"
    and bk: "backed (rkind (info (regions bus ! ri)))"
    and rng: "containsRange (regions bus ! ri) a w"
    and off: "offset = unat (a - region_base (regions bus ! ri))"
  shows "byte_at (storeLoop ri offset a value ext w bus) = put_bytes (byte_at bus) a w value"
proof
  fix x
  let ?r = "regions bus ! ri"
  let ?bs = "fold (\<lambda>i bs. bs[offset + i := le_byte value i]) [0..<w] (bytes ?r)"
  have upd: "byte_at (storeLoop ri offset a value ext w bus) x =
    (if contains ?r x then Some (?bs ! unat (x - region_base ?r)) else byte_at bus x)"
    by (rule byte_at_update [OF wf ri storeLoop_regions [OF ri] _ bk]) simp
  have fit: "offset + w \<le> length (bytes ?r)" using contains_offset [OF wf ri bk rng] off by simp
  show "byte_at (storeLoop ri offset a value ext w bus) x = put_bytes (byte_at bus) a w value x"
  proof (cases "contains ?r x")
    case True
    then have base_le: "region_base ?r \<le> x" and lt: "unat (x - region_base ?r) < length (bytes ?r)"
      using wf_region_nth [OF wf ri] bk
      by (auto simp: contains_def wf_region_def region_end_def unat_sub_le word_le_nat_alt)
    have le: "region_base ?r \<le> a" using rng by (simp add: containsRange_def)
    have "byte_at bus x = Some (bytes ?r ! unat (x - region_base ?r))"
      using byte_at_found [OF wf ri True] bk by simp
    then show ?thesis using True upd fold_bytes_nth [OF fit lt, of "value"] base_le le
      by (auto simp: put_bytes_def off unat_sub_le word_le_nat_alt)
  next
    case False
    then show ?thesis using rng
      by (auto simp: upd put_bytes_def contains_def containsRange_def word_le_nat_alt)
  qed
qed

section \<open>Little-endian values\<close>

lemma bit_decode:
  assumes "w \<le> 8"
  shows "bit (decodeLittleEndianBytes bs offset w) n \<longleftrightarrow>
    n < 8 * w \<and> bit (bs ! (offset + n div 8)) (n mod 8)"
  using assms
proof (induction w)
  case 0
  then show ?case by (simp add: decodeLittleEndianBytes_def)
next
  case (Suc w)
  have step: "decodeLittleEndianBytes bs offset (Suc w) =
    decodeLittleEndianBytes bs offset w OR push_bit (w * 8) (ucast (bs ! (offset + w)))"
    by (simp add: decodeLittleEndianBytes_def)
  have high: "bit (push_bit (w * 8) (ucast (bs ! (offset + w)) :: u64)) n \<longleftrightarrow>
    8 * w \<le> n \<and> n < 8 * Suc w \<and> bit (bs ! (offset + w)) (n - 8 * w)"
    using Suc.prems by (auto simp: bit_push_bit_iff bit_ucast_iff mult.commute
        dest: bit_imp_le_length)
  have "n div 8 = w \<and> n mod 8 = n - 8 * w" if "8 * w \<le> n" "n < 8 * Suc w"
    using that by (auto simp: div_nat_eqI modulo_nat_def)
  then show ?case using Suc by (auto simp: step bit_or_iff high)
qed

lemma le_byte_decode:
  assumes "w \<le> 8" "i < w"
  shows "le_byte (decodeLittleEndianBytes bs offset w) i = bs ! (offset + i)"
proof (rule bit_word_eqI)
  fix n assume n: "n < LENGTH(8)"
  then have "(n + i * 8) div 8 = i" "(n + i * 8) mod 8 = n" "n + i * 8 < 64" using assms by auto
  then show "bit (le_byte (decodeLittleEndianBytes bs offset w) i) n = bit (bs ! (offset + i)) n"
    using assms n by (simp add: le_byte_def bit_ucast_iff bit_drop_bit_eq bit_decode add.commute)
qed

lemma decode_bounded:
  assumes "w \<le> 8"
  shows "take_bit (8 * w) (decodeLittleEndianBytes bs offset w) = decodeLittleEndianBytes bs offset w"
  by (rule bit_eqI) (auto simp: bit_take_bit_iff bit_decode [OF assms])

lemma le_byte_eqI:
  assumes "w \<le> 8" "\<And>i. i < w \<Longrightarrow> le_byte v i = le_byte v' i"
  shows "take_bit (8 * w) v = take_bit (8 * w) (v' :: u64)"
proof (rule bit_eqI)
  fix n
  show "bit (take_bit (8 * w) v) n = bit (take_bit (8 * w) v') n"
  proof (cases "n < 8 * w")
    case True
    then have "le_byte v (n div 8) = le_byte v' (n div 8)" using assms(2) by simp
    then have "bit (le_byte v (n div 8)) (n mod 8) = bit (le_byte v' (n div 8)) (n mod 8)" by simp
    then show ?thesis using True
      by (simp add: bit_take_bit_iff le_byte_def bit_ucast_iff bit_drop_bit_eq mult.commute [of _ 8])
  qed (simp add: bit_take_bit_iff)
qed

end
