(* ===== verification/Memory_Refine.thy ===== *)
theory Memory_Refine
  imports Memory_Laws
begin

text \<open>
  The checked accesses against the abstract memory: what a read returns, what a write
  changes, that faults change nothing, that aliases are transparent, and that the fast
  paths are the checked paths.
\<close>

section \<open>Alias permissions\<close>

text \<open>An alias carries the permissions of one region that holds its whole target range.\<close>

definition alias_ok :: "Region list \<Rightarrow> Region \<Rightarrow> bool" where
  "alias_ok rs r \<longleftrightarrow>
     (rkind (info r) = RK_alias \<longrightarrow>
      list_ex (\<lambda>t. containsRange t (alias_target r) (unat (region_len r))
                  \<and> readable (info t) = readable (info r)
                  \<and> writable (info t) = writable (info r)
                  \<and> executable (info t) = executable (info r)) rs)"

definition wf_aliases :: "'d MemoryBus \<Rightarrow> bool" where
  "wf_aliases bus \<longleftrightarrow> list_all (alias_ok (regions bus)) (regions bus)"

lemma alias_ok_mono: "set rs \<subseteq> set rs' \<Longrightarrow> alias_ok rs r \<Longrightarrow> alias_ok rs' r"
  by (auto simp: alias_ok_def list_ex_iff)

lemma addRegion_aliases:
  assumes "wf_aliases bus" "addRegion r bus = Inr bus'" "alias_ok (regions bus) r"
  shows "wf_aliases bus'"
  using assms(1,3) addRegion_regions [OF assms(2)] alias_ok_mono [of "regions bus" "regions bus'"]
  by (auto simp: wf_aliases_def list_all_iff)

lemma mapRam_aliases: "wf_aliases bus \<Longrightarrow> mapRam b n nm ex bus = Inr bus' \<Longrightarrow> wf_aliases bus'"
  unfolding mapRam_def by (erule (1) addRegion_aliases) (simp add: alias_ok_def mk_region_def)

lemma mapRom_aliases: "wf_aliases bus \<Longrightarrow> mapRom b n nm ex bus = Inr bus' \<Longrightarrow> wf_aliases bus'"
  unfolding mapRom_def by (erule (1) addRegion_aliases) (simp add: alias_ok_def mk_region_def)

lemma mapFlash_aliases: "wf_aliases bus \<Longrightarrow> mapFlash b n nm ex bus = Inr bus' \<Longrightarrow> wf_aliases bus'"
  unfolding mapFlash_def by (erule (1) addRegion_aliases) (simp add: alias_ok_def mk_region_def)

lemma mapMmio_aliases: "wf_aliases bus \<Longrightarrow> mapMmio b n dev nm bus = Inr bus' \<Longrightarrow> wf_aliases bus'"
  unfolding mapMmio_def by (erule (1) addRegion_aliases) (simp add: alias_ok_def)

lemma mapAlias_aliases:
  assumes "wf_aliases bus" "mapAlias b t n nm bus = Inr bus'"
  shows "wf_aliases bus'"
  using assms(2) unfolding mapAlias_def
  by (auto simp: Let_def alias_ok_def list_ex_iff split: if_splits option.splits
      elim!: addRegion_aliases [OF assms(1)] dest!: find_region_less intro: bexI [OF _ nth_mem])

section \<open>Resolution\<close>

lemma resolve_cases:
  assumes "resolve bus a w d = Some (ri, t)"
  obtains (direct) "t = a" "validRange a (of_nat w)" "find_region bus a = Some ri"
      "containsRange (regions bus ! ri) a w" "rkind (info (regions bus ! ri)) \<noteq> RK_alias"
    | (step) i where "validRange a (of_nat w)" "find_region bus a = Some i"
      "containsRange (regions bus ! i) a w" "rkind (info (regions bus ! i)) = RK_alias"
      "\<not> maximum_alias_depth \<le> d"
      "resolve bus (alias_target (regions bus ! i) + (a - region_base (regions bus ! i))) w (d + 1) = Some (ri, t)"
  using assms by (subst (asm) resolve.simps) (auto simp: Let_def split: if_splits option.splits)

lemma resolve_rule [consumes 1, case_names direct step]:
  assumes "resolve bus a w d = Some (ri, t)"
    and "\<And>d. validRange t (of_nat w) \<Longrightarrow> find_region bus t = Some ri \<Longrightarrow>
      containsRange (regions bus ! ri) t w \<Longrightarrow> rkind (info (regions bus ! ri)) \<noteq> RK_alias \<Longrightarrow> P t d"
    and "\<And>a d i. validRange a (of_nat w) \<Longrightarrow> find_region bus a = Some i \<Longrightarrow>
      containsRange (regions bus ! i) a w \<Longrightarrow> rkind (info (regions bus ! i)) = RK_alias \<Longrightarrow>
      \<not> maximum_alias_depth \<le> d \<Longrightarrow>
      P (alias_target (regions bus ! i) + (a - region_base (regions bus ! i))) (d + 1) \<Longrightarrow> P a d"
  shows "P a d"
  using assms(1)
proof (induction "9 - d" arbitrary: a d rule: less_induct)
  case less
  from less.prems show ?case
    by (rule resolve_cases) (use assms(2,3) less.hyps in \<open>simp_all\<close>)
qed

lemma resolve_found:
  "resolve bus a w d = Some (ri, t) \<Longrightarrow>
   find_region bus t = Some ri \<and> containsRange (regions bus ! ri) t w
   \<and> validRange t (of_nat w) \<and> rkind (info (regions bus ! ri)) \<noteq> RK_alias"
  by (induction rule: resolve_rule) simp_all

lemma bus_write_resolve:
  assumes "resolve bus a (byteCount sz) d = Some (ri, t)"
  shows "bus_write ops a sz v ctx d bus = bus_write ops t sz v ctx 0 bus"
  using assms
proof (induction rule: resolve_rule)
  case (direct d)
  then show ?case by (subst (1 2) bus_write.simps) simp
next
  case (step a d i)
  then show ?case by (subst bus_write.simps) (simp add: Let_def)
qed

lemma bus_read_resolve:
  assumes "resolve bus a (byteCount sz) d = Some (ri, t)" "bus_read ops a sz ctx d bus = (Inr v, bus')"
  shows "bus_read ops t sz ctx 0 bus = (Inr v, bus')"
  using assms
proof (induction rule: resolve_rule)
  case (direct d)
  then have "bus_read ops t sz ctx 0 bus = bus_read ops t sz ctx d bus"
    by (subst (1 2) bus_read.simps) (simp add: Let_def)
  with direct show ?case by simp
next
  case (step a d i)
  from step.prems step.hyps
  have "bus_read ops (alias_target (regions bus ! i) + (a - region_base (regions bus ! i))) sz ctx (d + 1) bus
    = (Inr v, bus')"
    by (subst (asm) bus_read.simps) (simp add: Let_def split: if_splits)
  then show ?case by (rule step.IH)
qed

lemma bus_write_unresolved:
  assumes "resolve bus a (byteCount sz) d = None"
  shows "\<exists>f. bus_write ops a sz v ctx d bus = (Inl f, bus)"
  using assms
proof (induction "9 - d" arbitrary: a d rule: less_induct)
  case less
  from less.prems show ?case
    by (subst (asm) resolve.simps, subst bus_write.simps)
      (auto simp: Let_def less.hyps split: if_splits option.splits)
qed

lemma bus_read_unresolved:
  assumes "resolve bus a (byteCount sz) d = None"
  shows "\<exists>f. bus_read ops a sz ctx d bus = (Inl f, bus)"
  using assms
proof (induction "9 - d" arbitrary: a d rule: less_induct)
  case less
  from less.prems show ?case
    by (subst (asm) resolve.simps, subst bus_read.simps)
      (auto simp: Let_def less.hyps split: if_splits option.splits)
qed


section \<open>Accesses to backed regions\<close>

lemma containsRange_valid:
  assumes "wf_bus bus" "i < length (regions bus)" "containsRange (regions bus ! i) a n" "0 < n" "n \<le> 8"
  shows "validRange a (of_nat n)"
proof -
  have "unat (of_nat n :: u32) = n"
    using assms(5) by (simp add: unsigned_of_nat take_bit_nat_eq_self)
  moreover from this have "of_nat n \<noteq> (0 :: u32)" using assms(4) by (metis unsigned_0 less_numeral_extra(3))
  ultimately show ?thesis using assms(3) wf_region_nth [OF assms(1,2)]
    by (simp add: validRange_iff wf_region_def containsRange_def region_end_def)
qed

lemma find_region_range:
  assumes "wf_bus bus" "find_region bus a = Some ri" "containsRange (regions bus ! ri) a (byteCount sz)"
  shows "validRange a (of_nat (byteCount sz))"
  using containsRange_valid [OF assms(1) find_region_less [OF assms(2)] assms(3)] byteCount_le_8 by simp

lemma backed_kinds: "backed k \<Longrightarrow> k \<noteq> RK_alias" "backed k \<Longrightarrow> k \<noteq> RK_mmio"
  by (auto simp: backed_def)

lemma bus_write_backed:
  assumes "wf_bus bus" "find_region bus a = Some ri"
    and "fast_writable (regions bus ! ri) a (byteCount sz) (reversible_ram_only bus)"
  shows "bus_write ops a sz v ctx d bus =
    (Inr 0, bump_execution (regions bus ! ri)
       (storeLoop ri (unat (a - region_base (regions bus ! ri))) a v (ctx_pc ctx = 0) (byteCount sz)
          (addStoreFootprint a (byteCount sz) ctx bus)))"
proof -
  have r: "containsRange (regions bus ! ri) a (byteCount sz)" "backed (rkind (info (regions bus ! ri)))"
    "writable (info (regions bus ! ri))"
    "\<not> (reversible_ram_only bus \<and> (rkind (info (regions bus ! ri)) \<noteq> RK_ram \<or> executable (info (regions bus ! ri))))"
    using assms(3) by (auto simp: fast_writable_def)
  show ?thesis
    using r(1,3,4) assms(2) backed_kinds [OF r(2)] find_region_range [OF assms(1,2) r(1)]
    by (subst bus_write.simps) (simp add: Let_def bump_execution_def)
qed

lemma bus_write_backed_ok:
  assumes "wf_bus bus" "find_region bus a = Some ri" "backed (rkind (info (regions bus ! ri)))"
    and "bus_write ops a sz v ctx d bus = (Inr u, bus')"
  shows "fast_writable (regions bus ! ri) a (byteCount sz) (reversible_ram_only bus)"
  using assms(4) assms(2,3) backed_kinds [OF assms(3)]
  by (subst (asm) bus_write.simps) (auto simp: Let_def fast_writable_def split: if_splits)

lemma bus_read_backed:
  assumes "wf_bus bus" "find_region bus a = Some ri"
    and "fast_readable (regions bus ! ri) a (byteCount sz) ctx"
  shows "bus_read ops a sz ctx d bus =
    (Inr (decodeLittleEndianBytes (bytes (regions bus ! ri)) (unat (a - region_base (regions bus ! ri))) (byteCount sz)),
     note_data_read a (byteCount sz) ctx bus)"
proof -
  have r: "containsRange (regions bus ! ri) a (byteCount sz)" "backed (rkind (info (regions bus ! ri)))"
    "readable (info (regions bus ! ri))"
    "\<not> (ctx_type ctx = AT_instruction_fetch \<and> \<not> executable (info (regions bus ! ri)))"
    using assms(3) by (auto simp: fast_readable_def)
  show ?thesis
    using r(1,3,4) assms(2) backed_kinds [OF r(2)] find_region_range [OF assms(1,2) r(1)]
    by (subst bus_read.simps) (simp add: Let_def note_data_read_def)
qed

lemma bus_read_backed_ok:
  assumes "wf_bus bus" "find_region bus a = Some ri" "backed (rkind (info (regions bus ! ri)))"
    and "bus_read ops a sz ctx d bus = (Inr v, bus')"
  shows "fast_readable (regions bus ! ri) a (byteCount sz) ctx"
  using assms(4) assms(2,3) backed_kinds [OF assms(3)]
  by (subst (asm) bus_read.simps) (auto simp: Let_def fast_readable_def split: if_splits)

lemma resolved_write:
  assumes "wf_bus bus" "resolve bus a (byteCount sz) 0 = Some (ri, t)"
    and "backed (rkind (info (regions bus ! ri)))"
    and "bus_write ops a sz v ctx 0 bus = (Inr u, bus')"
  shows "find_region bus t = Some ri"
    and "fast_writable (regions bus ! ri) t (byteCount sz) (reversible_ram_only bus)"
    and "bus' = bump_execution (regions bus ! ri)
       (storeLoop ri (unat (t - region_base (regions bus ! ri))) t v (ctx_pc ctx = 0) (byteCount sz)
          (addStoreFootprint t (byteCount sz) ctx bus))"
proof -
  have w: "bus_write ops t sz v ctx 0 bus = (Inr u, bus')"
    using assms(4) bus_write_resolve [OF assms(2)] by simp
  show f: "find_region bus t = Some ri" using resolve_found [OF assms(2)] by simp
  show fw: "fast_writable (regions bus ! ri) t (byteCount sz) (reversible_ram_only bus)"
    by (rule bus_write_backed_ok [OF assms(1) f assms(3) w])
  show "bus' = bump_execution (regions bus ! ri)
       (storeLoop ri (unat (t - region_base (regions bus ! ri))) t v (ctx_pc ctx = 0) (byteCount sz)
          (addStoreFootprint t (byteCount sz) ctx bus))"
    using bus_write_backed [OF assms(1) f fw] w by simp
qed


section \<open>Reads and writes refine the abstract memory\<close>

lemma storeLoop_addStoreFootprint_byte_at:
  assumes "wf_bus bus" "ri < length (regions bus)" "fast_writable (regions bus ! ri) a w b"
  shows "byte_at (bump_execution r (storeLoop ri (unat (a - region_base (regions bus ! ri))) a v ext w
      (addStoreFootprint a w' ctx bus))) = put_bytes (byte_at bus) a w v"
proof -
  let ?bus = "addStoreFootprint a w' ctx bus"
  have wf: "wf_bus ?bus" by (rule wf_bus_layout [OF layout_cong assms(1)]) simp
  have "byte_at (storeLoop ri (unat (a - region_base (regions bus ! ri))) a v ext w ?bus) =
      put_bytes (byte_at ?bus) a w v"
    by (rule storeLoop_byte_at [OF wf]) (use assms(2,3) in \<open>simp_all add: fast_writable_def\<close>)
  then show ?thesis
    by (simp only: byte_at_regions [OF regions_bump_execution] byte_at_regions [OF regions_addStoreFootprint])
qed

text \<open>A successful write to backed memory is the abstract store at the resolved address.\<close>

lemma bus_write_refines:
  assumes "wf_bus bus" "resolve bus a (byteCount sz) 0 = Some (ri, t)"
    and "backed (rkind (info (regions bus ! ri)))"
    and "bus_write ops a sz v ctx 0 bus = (Inr u, bus')"
  shows "byte_at bus' = put_bytes (byte_at bus) t (byteCount sz) v"
    and "devices bus' = devices bus" and "layout bus' = layout bus"
proof -
  note rw = resolved_write [OF assms]
  have ri: "ri < length (regions bus)" by (rule find_region_less [OF rw(1)])
  show "byte_at bus' = put_bytes (byte_at bus) t (byteCount sz) v"
    unfolding rw(3) by (rule storeLoop_addStoreFootprint_byte_at [OF assms(1) ri rw(2)])
  show "devices bus' = devices bus" unfolding rw(3) by simp
  have "layout bus' = layout (storeLoop ri (unat (t - region_base (regions bus ! ri))) t v (ctx_pc ctx = 0)
      (byteCount sz) (addStoreFootprint t (byteCount sz) ctx bus))"
    unfolding rw(3) by (rule layout_cong) simp
  also have "\<dots> = layout (addStoreFootprint t (byteCount sz) ctx bus)"
    using ri by (simp add: storeLoop_layout)
  also have "\<dots> = layout bus" by (rule layout_cong) simp
  finally show "layout bus' = layout bus" .
qed

text \<open>A successful read of backed memory returns the little-endian value of its bytes.\<close>

lemma unat_range_offset:
  assumes "containsRange r t w" "i < w" "unat (region_base r) + unat (region_len r) \<le> 2 ^ 32"
  shows "unat (t + of_nat i) = unat t + i" "contains r (t + of_nat i)"
    "unat (t + of_nat i - region_base r) = unat (t - region_base r) + i"
proof -
  show u: "unat (t + of_nat i) = unat t + i"
    using assms by (intro unat_add_no_wrap) (simp add: containsRange_def region_end_def)
  then show c: "contains r (t + of_nat i)"
    using assms by (simp add: contains_def containsRange_def word_le_nat_alt)
  show "unat (t + of_nat i - region_base r) = unat (t - region_base r) + i"
    using u c assms(1) by (simp add: unat_sub_le contains_def containsRange_def word_le_nat_alt)
qed

lemma bus_read_refines:
  assumes "wf_bus bus" "resolve bus a (byteCount sz) 0 = Some (ri, t)"
    and "backed (rkind (info (regions bus ! ri)))"
    and "bus_read ops a sz ctx 0 bus = (Inr v, bus')"
  shows "i < byteCount sz \<Longrightarrow> byte_at bus (t + of_nat i) = Some (le_byte v i)"
    and "take_bit (8 * byteCount sz) v = v" and "byte_at bus' = byte_at bus" and "devices bus' = devices bus"
proof -
  have r: "bus_read ops t sz ctx 0 bus = (Inr v, bus')" by (rule bus_read_resolve [OF assms(2,4)])
  have f: "find_region bus t = Some ri" and rng: "containsRange (regions bus ! ri) t (byteCount sz)"
    using resolve_found [OF assms(2)] by auto
  have fr: "fast_readable (regions bus ! ri) t (byteCount sz) ctx"
    by (rule bus_read_backed_ok [OF assms(1) f assms(3) r])
  have eq: "v = decodeLittleEndianBytes (bytes (regions bus ! ri))
      (unat (t - region_base (regions bus ! ri))) (byteCount sz)"
    "bus' = note_data_read t (byteCount sz) ctx bus"
    using bus_read_backed [OF assms(1) f fr, of ops 0] r by auto
  have ri: "ri < length (regions bus)" by (rule find_region_less [OF f])
  have fit: "unat (region_base (regions bus ! ri)) + unat (region_len (regions bus ! ri)) \<le> 2 ^ 32"
    using wf_region_nth [OF assms(1) ri] by (simp add: wf_region_def validRange_iff)
  show "byte_at bus (t + of_nat i) = Some (le_byte v i)" if "i < byteCount sz"
    using byte_at_found [OF assms(1) ri] unat_range_offset [OF rng that fit] assms(3)
    by (simp add: eq(1) le_byte_decode [OF byteCount_le_8 that])
  show "take_bit (8 * byteCount sz) v = v" unfolding eq(1) by (rule decode_bounded [OF byteCount_le_8])
  show "byte_at bus' = byte_at bus" unfolding eq(2) by (rule byte_at_regions) simp
  show "devices bus' = devices bus" unfolding eq(2) by simp
qed


section \<open>Faults and aliases\<close>

text \<open>A write that faults outside a device leaves the bus as it was.\<close>

lemma bus_write_fault:
  assumes wf: "wf_bus bus" and w: "bus_write ops a sz v ctx 0 bus = (Inl f, bus')"
    and nd: "\<And>ri t. resolve bus a (byteCount sz) 0 = Some (ri, t) \<Longrightarrow> rkind (info (regions bus ! ri)) \<noteq> RK_mmio"
  shows "bus' = bus"
proof (cases "resolve bus a (byteCount sz) 0")
  case None
  then show ?thesis using bus_write_unresolved [OF None, of ops v ctx] w by auto
next
  case (Some rt)
  then obtain ri t where rt: "resolve bus a (byteCount sz) 0 = Some (ri, t)" by (cases rt) auto
  have fr: "find_region bus t = Some ri" and k: "rkind (info (regions bus ! ri)) \<noteq> RK_alias"
    using resolve_found [OF rt] by auto
  have "bus_write ops t sz v ctx 0 bus = (Inl f, bus')" using w bus_write_resolve [OF rt] by simp
  then show ?thesis using fr k nd [OF rt]
    by (subst (asm) bus_write.simps) (auto simp: Let_def split: if_splits)
qed

lemma alias_target_region:
  assumes wf: "wf_bus bus" and al: "wf_aliases bus" and f: "find_region bus a = Some ri"
    and k: "rkind (info (regions bus ! ri)) = RK_alias" and rng: "containsRange (regions bus ! ri) a n" and n: "0 < n"
  obtains ti where "find_region bus (alias_target (regions bus ! ri) + (a - region_base (regions bus ! ri))) = Some ti"
    "containsRange (regions bus ! ti) (alias_target (regions bus ! ri) + (a - region_base (regions bus ! ri))) n"
    "readable (info (regions bus ! ti)) = readable (info (regions bus ! ri))"
    "writable (info (regions bus ! ti)) = writable (info (regions bus ! ri))"
    "executable (info (regions bus ! ti)) = executable (info (regions bus ! ri))"
proof -
  let ?r = "regions bus ! ri"
  let ?o = "unat (a - region_base ?r)"
  have ri: "ri < length (regions bus)" by (rule find_region_less [OF f])
  have "alias_ok (regions bus) ?r" using al ri by (simp add: wf_aliases_def list_all_length)
  then obtain ti where ti: "ti < length (regions bus)"
    and c: "containsRange (regions bus ! ti) (alias_target ?r) (unat (region_len ?r))"
    and p: "readable (info (regions bus ! ti)) = readable (info ?r)"
      "writable (info (regions bus ! ti)) = writable (info ?r)"
      "executable (info (regions bus ! ti)) = executable (info ?r)"
    using k by (auto simp: alias_ok_def list_ex_iff in_set_conv_nth)
  have fit: "unat (region_base (regions bus ! ti)) + unat (region_len (regions bus ! ti)) \<le> 2 ^ 32"
    using wf_region_nth [OF wf ti] by (simp add: wf_region_def validRange_iff)
  have o: "?o + n \<le> unat (region_len ?r)"
    using rng by (auto simp: containsRange_def region_end_def unat_sub_le word_le_nat_alt)
  have lt: "?o < unat (region_len ?r)" using o n by simp
  have idx: "of_nat ?o = a - region_base ?r" by simp
  note ro = unat_range_offset [OF c lt fit, unfolded idx]
  have "containsRange (regions bus ! ti) (alias_target ?r + (a - region_base ?r)) n"
    using ro(1,2) c o by (simp add: containsRange_def contains_def)
  moreover have "find_region bus (alias_target ?r + (a - region_base ?r)) = Some ti"
    using find_region_Some [OF wf] ti ro(2) by simp
  ultimately show thesis using that p by blast
qed

text \<open>An access through an alias of an unaliased region is the access to its target.\<close>

lemma alias_region_transparent:
  assumes wf: "wf_bus bus" and al: "wf_aliases bus" and f: "find_region bus a = Some ri"
    and k: "rkind (info (regions bus ! ri)) = RK_alias"
    and rng: "containsRange (regions bus ! ri) a (byteCount sz)"
    and t: "t = alias_target (regions bus ! ri) + (a - region_base (regions bus ! ri))"
    and nt: "\<And>ti. find_region bus t = Some ti \<Longrightarrow> rkind (info (regions bus ! ti)) \<noteq> RK_alias"
  shows "readable (info (regions bus ! ri)) \<Longrightarrow>
      (ctx_type ctx = AT_instruction_fetch \<longrightarrow> executable (info (regions bus ! ri))) \<Longrightarrow>
      bus_read ops a sz ctx 0 bus = bus_read ops t sz ctx 0 bus"
    and "bus_write ops a sz v ctx 0 bus = bus_write ops t sz v ctx 0 bus"
proof -
  obtain ti where ti: "find_region bus t = Some ti" "containsRange (regions bus ! ti) t (byteCount sz)"
    using alias_target_region [OF wf al f k rng byteCount_pos] unfolding t by blast
  have va: "validRange a (of_nat (byteCount sz))" by (rule find_region_range [OF wf f rng])
  have vt: "validRange t (of_nat (byteCount sz))" by (rule find_region_range [OF wf ti])
  have rd: "bus_read ops t sz ctx 1 bus = bus_read ops t sz ctx 0 bus"
    using nt [OF ti(1)] ti vt by (subst (1 2) bus_read.simps) (simp add: Let_def)
  show "bus_read ops a sz ctx 0 bus = bus_read ops t sz ctx 0 bus"
    if "readable (info (regions bus ! ri))" "ctx_type ctx = AT_instruction_fetch \<longrightarrow> executable (info (regions bus ! ri))"
    using that f k rng va rd by (subst bus_read.simps) (auto simp: Let_def t [symmetric])
  have "resolve bus a (byteCount sz) 0 = Some (ti, t)"
    using f k rng va vt ti nt [OF ti(1)] by (subst resolve.simps, simp add: Let_def t [symmetric], subst resolve.simps, simp)
  then show "bus_write ops a sz v ctx 0 bus = bus_write ops t sz v ctx 0 bus" by (rule bus_write_resolve)
qed

end
