(* ===== verification/Memory_Fast.thy ===== *)
theory Memory_Fast
  imports Memory_Refine
begin

text \<open>
  The optimised paths of the bus: the bit-parallel count of changed bytes, the word store
  with fixed journal lanes, the fast reads and writes and their bulk variants. Each is
  shown equal, in value and in every field of the bus, to the checked byte loop it
  replaces.
\<close>

section \<open>Counting changed bytes in a word\<close>

lemma smear_bits:
  fixes d :: u32
  defines "c1 \<equiv> d OR drop_bit 4 d"
  defines "c2 \<equiv> c1 OR drop_bit 2 c1"
  defines "c3 \<equiv> c2 OR drop_bit 1 c2"
  shows "bit c3 n \<longleftrightarrow> (\<exists>k<8. bit d (n + k))"
proof -
  have b1: "bit c1 m \<longleftrightarrow> bit d m \<or> bit d (m + 4)" for m
    by (simp add: c1_def bit_or_iff bit_drop_bit_eq add.commute)
  have b2: "bit c2 m \<longleftrightarrow> bit c1 m \<or> bit c1 (m + 2)" for m
    by (simp add: c2_def bit_or_iff bit_drop_bit_eq add.commute)
  have b3: "bit c3 m \<longleftrightarrow> bit c2 m \<or> bit c2 (m + 1)" for m
    by (simp add: c3_def bit_or_iff bit_drop_bit_eq add.commute)
  have ar: "n + 1 + 2 = n + 3" "n + 1 + 4 = n + 5" "n + 2 + 4 = n + 6" "n + 3 + 4 = n + 7" "n + 0 = n" by simp_all
  show ?thesis unfolding b3 b2 b1 ex_less_8 ar by blast
qed

lemma bit_spread: "bit (0x01010101 :: u32) n \<longleftrightarrow> n = 0 \<or> n = 8 \<or> n = 16 \<or> n = 24"
proof (cases "n < 32")
  case True
  moreover have "\<forall>n<32. bit (0x01010101 :: u32) n \<longleftrightarrow> n = 0 \<or> n = 8 \<or> n = 16 \<or> n = 24"
    unfolding all_less_32 by simp
  ultimately show ?thesis by blast
qed (auto dest: bit_imp_le_length)

lemma smear_lanes:
  fixes d :: u32
  defines "c1 \<equiv> d OR drop_bit 4 d"
  defines "c2 \<equiv> c1 OR drop_bit 2 c1"
  defines "c3 \<equiv> c2 OR drop_bit 1 c2"
  shows "c3 AND 0x01010101 =
   (if d AND push_bit 0 0xff = 0 then 0 else 2^0) OR
   (if d AND push_bit 8 0xff = 0 then 0 else 2^8) OR
   (if d AND push_bit 16 0xff = 0 then 0 else 2^16) OR
   (if d AND push_bit 24 0xff = 0 then 0 else 2^24)" (is "_ = ?r 0 OR ?r 8 OR ?r 16 OR ?r 24")
proof (rule bit_word_eqI)
  fix n assume "n < LENGTH(32)"
  have r: "bit (if d AND push_bit m 0xff = 0 then 0 else 2^m :: u32) n \<longleftrightarrow> (n = m \<and> (\<exists>k<8. bit d (n + k)))" if "m < 32" for m
    using that unfolding byte_zero by (auto simp: bit_exp_iff)
  have rs: "bit (?r 0) n \<longleftrightarrow> n = 0 \<and> (\<exists>k<8. bit d (n + k))"
    "bit (?r 8) n \<longleftrightarrow> n = 8 \<and> (\<exists>k<8. bit d (n + k))"
    "bit (?r 16) n \<longleftrightarrow> n = 16 \<and> (\<exists>k<8. bit d (n + k))"
    "bit (?r 24) n \<longleftrightarrow> n = 24 \<and> (\<exists>k<8. bit d (n + k))"
    by (rule r; simp)+
  have c3: "bit c3 n \<longleftrightarrow> (\<exists>k<8. bit d (n + k))"
    unfolding c3_def c2_def c1_def by (rule smear_bits)
  show "bit (c3 AND 0x01010101) n = bit (?r 0 OR ?r 8 OR ?r 16 OR ?r 24) n"
    unfolding bit_and_iff bit_or_iff bit_spread rs c3 by blast
qed

lemma count_changed_lanes: "count_changed d =
   (if d AND push_bit 0 0xff = 0 then 0 else 1) +
   (if d AND push_bit 8 0xff = 0 then 0 else 1) +
   (if d AND push_bit 16 0xff = 0 then 0 else 1) +
   (if d AND push_bit 24 0xff = 0 then 0 else 1)"
  unfolding count_changed_def Let_def smear_lanes by simp

section \<open>The byte loop in closed form\<close>

text \<open>One lane of a store: a byte that changes is journaled at the current sequence number.\<close>

definition lane :: "u8 list \<Rightarrow> nat \<Rightarrow> u32 \<Rightarrow> u64 \<Rightarrow> bool \<Rightarrow> nat
    \<Rightarrow> (nat \<Rightarrow> BackedMutation) \<times> u64 \<Rightarrow> (nat \<Rightarrow> BackedMutation) \<times> u64" where
  "lane bs offset a v ext i js =
     (let (journal, sequence) = js
      in if bs ! (offset + i) = le_byte v i then js
         else (journal(unat sequence mod mutation_journal_capacity :=
                 \<lparr>mut_address = a + of_nat i, old_value = bs ! (offset + i), external = ext\<rparr>),
               sequence + 1))"

definition lanes where
  "lanes bs offset a v ext w js = fold (lane bs offset a v ext) [0..<w] js"

lemma lanes_Suc: "lanes bs offset a v ext (Suc w) js = lane bs offset a v ext w (lanes bs offset a v ext w js)"
  by (simp add: lanes_def)

definition stored :: "nat \<Rightarrow> u8 list \<Rightarrow> (nat \<Rightarrow> BackedMutation) \<times> u64 \<Rightarrow> 'd MemoryBus \<Rightarrow> 'd MemoryBus" where
  "stored ri bs js bus =
     bus\<lparr>regions := (regions bus)[ri := (regions bus ! ri)\<lparr>bytes := bs\<rparr>],
         mutation_journal := (if write_journal_tracking bus then fst js else mutation_journal bus),
         mutation_sequence := snd js,
         side_effect_generation := side_effect_generation bus + (snd js - mutation_sequence bus)\<rparr>"

lemma stored_same:
  "ri < length (regions bus) \<Longrightarrow> stored ri (bytes (regions bus ! ri)) (mutation_journal bus, mutation_sequence bus) bus = bus"
  by (simp add: stored_def)

lemma storeByte_stored:
  assumes ri: "ri < length (regions bus)" and j: "offset + w < length bs" and old: "bs ! (offset + w) = old ! (offset + w)"
  shows "storeByte ri offset a v ext w (stored ri bs js bus) =
    stored ri (bs[offset + w := le_byte v w]) (lane old offset a v ext w js) bus"
proof (cases js)
  case (Pair J s)
  show ?thesis
  proof (cases "old ! (offset + w) = le_byte v w")
    case True
    then show ?thesis using ri old
      by (simp add: storeByte_def stored_def lane_def Pair Let_def le_byte_def set_bytes_def)
  next
    case False
    then show ?thesis using ri old
      by (simp add: storeByte_def stored_def lane_def Pair Let_def le_byte_def set_bytes_def
          recordMutation_def journal_slot_def add_diff_eq)
  qed
qed

lemma storeLoop_stored:
  assumes ri: "ri < length (regions bus)" and fit: "offset + w \<le> length (bytes (regions bus ! ri))"
  shows "storeLoop ri offset a v ext w bus =
    stored ri (fold (\<lambda>i bs. bs[offset + i := le_byte v i]) [0..<w] (bytes (regions bus ! ri)))
      (lanes (bytes (regions bus ! ri)) offset a v ext w (mutation_journal bus, mutation_sequence bus)) bus"
  using fit
proof (induction w)
  case 0
  then show ?case using ri by (simp add: lanes_def stored_same)
next
  case (Suc w)
  let ?bs = "bytes (regions bus ! ri)"
  let ?cur = "fold (\<lambda>i bs. bs[offset + i := le_byte v i]) [0..<w] ?bs"
  have "?cur ! (offset + w) = ?bs ! (offset + w)"
    using Suc.prems fold_bytes_nth [of offset w ?bs "offset + w" v] by simp
  then show ?case using Suc.IH Suc.prems ri
    by (simp add: storeLoop_Suc lanes_Suc storeByte_stored)
qed

section \<open>The word store\<close>

lemma bit_get_word: "bit (get_word bs offset) n \<longleftrightarrow> n < 32 \<and> bit (bs ! (offset + n div 8)) (n mod 8)"
  by (simp add: get_word_def bit_ucast_iff bit_decode)

lemma le_byte_bit:
  "le_byte (ucast (value :: u32)) i = b \<longleftrightarrow> (\<forall>k<8. bit b k = bit value (i * 8 + k))" if "i < 4"
proof -
  have "bit (le_byte (ucast value) i) k = bit value (i * 8 + k)" if "k < 8" for k
    using \<open>i < 4\<close> that by (auto simp: le_byte_def bit_ucast_iff bit_drop_bit_eq)
  then show ?thesis by (auto simp: word_bits_iff)
qed

lemma lane_changed:
  assumes "i < 4"
  shows "(get_word bs offset XOR value) AND push_bit (i * 8) 0xff = 0 \<longleftrightarrow>
    bs ! (offset + i) = le_byte (ucast value) i"
proof -
  have "bit (get_word bs offset) (i * 8 + k) = bit (bs ! (offset + i)) k" if "k < 8" for k
    using assms that by (simp add: bit_get_word)
  then have "(\<forall>k<8. \<not> bit (get_word bs offset XOR value) (i * 8 + k)) \<longleftrightarrow>
      (\<forall>k<8. bit (bs ! (offset + i)) k = bit value (i * 8 + k))"
    by (auto simp: bit_xor_iff)
  then show ?thesis unfolding byte_zero using le_byte_bit [OF assms, of "value" "bs ! (offset + i)"] by auto
qed

lemma lane_old:
  assumes "i < 4"
  shows "ucast (drop_bit (i * 8) (get_word bs offset)) = bs ! (offset + i)"
  unfolding word_bits_iff using assms by (auto simp: bit_ucast_iff bit_drop_bit_eq bit_get_word)

lemma record_lane_eq:
  assumes "i < 4"
  shows "record_lane (get_word bs offset XOR value) (get_word bs offset) a ext (i * 8) js =
    lane bs offset a (ucast value) ext i js"
  using lane_changed [OF assms, of bs offset "value"] lane_old [OF assms, of bs offset]
  by (cases js) (simp add: record_lane_def lane_def)

lemmas record_lane_cases =
  record_lane_eq [of 0, simplified] record_lane_eq [of 1, simplified]
  record_lane_eq [of 2, simplified] record_lane_eq [of 3, simplified]

lemma upt_4: "[0..<4] = [0, 1, 2, 3 :: nat]"
  by (simp add: upt_rec)

lemma put_word_eq: "put_word bs offset value = fold (\<lambda>i bs. bs[offset + i := le_byte (ucast value) i]) [0..<4] bs"
proof -
  have "ucast (drop_bit n (ucast value :: u64)) = (ucast (drop_bit n value) :: u8)" if "n + 8 \<le> 32" for n
    unfolding word_bits_iff using that by (auto simp: bit_ucast_iff bit_drop_bit_eq)
  from this [of 0] this [of 8] this [of 16] this [of 24] show ?thesis
    by (simp add: put_word_def upt_4 le_byte_def)
qed

lemma count_changed_eq:
  "snd (lanes bs offset a (ucast value) ext 4 (J, s)) = s + count_changed (get_word bs offset XOR value)"
  unfolding count_changed_lanes
  using lane_changed [of 0 bs offset "value"] lane_changed [of 1 bs offset "value"]
    lane_changed [of 2 bs offset "value"] lane_changed [of 3 bs offset "value"]
  by (simp add: lanes_def upt_4 lane_def)

lemma lanes_record_lane:
  "lanes bs offset a (ucast value) ext 4 js =
   (let d = get_word bs offset XOR value; old = get_word bs offset
    in record_lane d old a ext 24 (record_lane d old a ext 16 (record_lane d old a ext 8 (record_lane d old a ext 0 js))))"
  by (simp add: lanes_def upt_4 record_lane_cases Let_def)

lemma get_word_eq_lanes:
  assumes "get_word bs offset = value"
  shows "lanes bs offset a (ucast value) ext 4 js = js" and "i < 4 \<Longrightarrow> le_byte (ucast value) i = bs ! (offset + i)"
proof -
  show b: "le_byte (ucast value) i = bs ! (offset + i)" if "i < 4" for i
    using lane_changed [OF that, of bs offset "value"] assms by simp
  show "lanes bs offset a (ucast value) ext 4 js = js"
    using b [of 0] b [of 1] b [of 2] b [of 3] by (simp add: lanes_def upt_4 lane_def)
qed

text \<open>The word store is the checked byte loop, in every field of the bus.\<close>

lemma storeBackedWord_eq:
  assumes ri: "ri < length (regions bus)" and fit: "offset + 4 \<le> length (bytes (regions bus ! ri))"
    and a: "a = region_base (regions bus ! ri) + of_nat offset"
  shows "storeBackedWord ri offset value ext bus = storeLoop ri offset a (ucast value) ext 4 bus"
proof -
  let ?bs = "bytes (regions bus ! ri)"
  let ?js = "lanes ?bs offset a (ucast value) ext 4 (mutation_journal bus, mutation_sequence bus)"
  note loop = storeLoop_stored [OF ri fit, of a "ucast value" ext]
  show ?thesis
  proof (cases "get_word ?bs offset = value")
    case True
    have "put_word ?bs offset value = ?bs"
      using get_word_eq_lanes(2) [OF True] by (simp add: put_word_eq upt_4)
    then show ?thesis unfolding loop put_word_eq [symmetric] get_word_eq_lanes(1) [OF True]
      using True ri by (simp add: storeBackedWord_def stored_same)
  next
    case False
    obtain J s where js: "?js = (J, s)" by (cases ?js)
    have s: "s = mutation_sequence bus + count_changed (get_word ?bs offset XOR value)"
      using count_changed_eq [of ?bs offset a "value" ext "mutation_journal bus" "mutation_sequence bus"]
      by (simp add: js)
    show ?thesis unfolding loop put_word_eq [symmetric] js
      using False js s unfolding lanes_record_lane Let_def
      by (simp add: storeBackedWord_def stored_def set_bytes_def Let_def a)
  qed
qed

section \<open>Fast accesses are checked accesses\<close>

lemma set_bytes_same: "ri < length (regions bus) \<Longrightarrow> set_bytes ri (bytes (regions bus ! ri)) bus = bus"
  by (simp add: set_bytes_def)

lemma storeChangedByte_eq:
  assumes "ri < length (regions bus)"
  shows "storeChangedByte ri offset a v ext i bus = storeByte ri offset a v ext i bus"
  using assms by (auto simp: storeChangedByte_def storeByte_def Let_def set_bytes_same
      dest: sym intro: set_bytes_same [symmetric])

lemma storeChangedBytes_eq:
  assumes "ri < length (regions bus)"
  shows "fold (storeChangedByte ri offset a v ext) [0..<w] bus = storeLoop ri offset a v ext w bus"
proof (induction w)
  case (Suc w)
  have "ri < length (regions (storeLoop ri offset a v ext w bus))"
    using assms layout_length [OF storeLoop_layout [OF assms]] by simp
  with Suc show ?case by (simp add: storeLoop_Suc storeChangedByte_eq)
qed simp

lemma storeLoop_cong:
  assumes "\<And>i. i < w \<Longrightarrow> le_byte v i = le_byte v' i"
  shows "storeLoop ri offset a v ext w bus = storeLoop ri offset a v' ext w bus"
  using assms
proof (induction w)
  case (Suc w)
  then have "storeByte ri offset a v ext w b = storeByte ri offset a v' ext w b" for b :: "'a MemoryBus"
    using Suc.prems [of w] by (simp add: storeByte_def le_byte_def)
  with Suc show ?case by (simp add: storeLoop_Suc)
qed simp

lemma le_byte_ucast_ucast:
  assumes "i < 4"
  shows "le_byte (ucast (ucast (v :: u64) :: u32)) i = le_byte v i"
  unfolding word_bits_iff using assms by (auto simp: le_byte_def bit_ucast_iff bit_drop_bit_eq)

lemma region_base_offset:
  "containsRange r a n \<Longrightarrow> a = region_base r + of_nat (unat (a - region_base r))"
  by simp

lemma fast_writable_weaken: "fast_writable r a w (b \<or> c) \<Longrightarrow> fast_writable r a w b"
  by (auto simp: fast_writable_def)

lemma storeBackedWord_fast:
  assumes "wf_bus bus" "ri < length (regions bus)" "fast_writable (regions bus ! ri) a 4 b"
    and "regions bus' = regions bus"
  shows "storeBackedWord ri (unat (a - region_base (regions bus ! ri))) value ext bus' =
    storeLoop ri (unat (a - region_base (regions bus ! ri))) a (ucast value) ext 4 bus'"
  using assms contains_offset [OF assms(1,2), of a 4]
  by (intro storeBackedWord_eq) (simp_all add: fast_writable_def)

lemma tryFastRead_checked:
  assumes "wf_bus bus" "tryFastRead a sz ctx bus = Some (v, bus')"
  shows "bus_read ops a sz ctx d bus = (Inr v, bus')"
proof -
  obtain ri where "find_region bus a = Some ri" "fast_readable (regions bus ! ri) a (byteCount sz) ctx"
    "v = decodeLittleEndianBytes (bytes (regions bus ! ri)) (unat (a - region_base (regions bus ! ri))) (byteCount sz)"
    "bus' = note_data_read a (byteCount sz) ctx bus"
    using assms(2) by (auto simp: tryFastRead_def Let_def split: if_splits option.splits)
  with bus_read_backed [OF assms(1)] show ?thesis by simp
qed

lemma tryFastRead32_checked:
  assumes "wf_bus bus" "tryFastRead32 a ctx bus = Some (v, bus')"
  shows "map_value ucast (bus_read ops a AS_word ctx d bus) = (Inr v, bus')"
proof -
  obtain ri where "find_region bus a = Some ri" "fast_readable (regions bus ! ri) a 4 ctx"
    "v = get_word (bytes (regions bus ! ri)) (unat (a - region_base (regions bus ! ri)))"
    "bus' = note_data_read a 4 ctx bus"
    using assms(2) by (auto simp: tryFastRead32_def Let_def split: if_splits option.splits)
  with bus_read_backed [OF assms(1), of a ri AS_word ctx ops d] show ?thesis
    by (simp add: map_value_def get_word_def)
qed

lemma tryFastWrite32_checked:
  assumes "wf_bus bus" "tryFastWrite32 a v ctx req bus = Some bus'"
  shows "bus_write ops a AS_word (ucast v) ctx d bus = (Inr 0, bus')"
proof -
  obtain ri where f: "find_region bus a = Some ri"
    and w: "fast_writable (regions bus ! ri) a 4 (reversible_ram_only bus \<or> req)"
    and b: "bus' = bump_execution (regions bus ! ri)
      (storeBackedWord ri (unat (a - region_base (regions bus ! ri))) v (ctx_pc ctx = 0) (addStoreFootprint a 4 ctx bus))"
    using assms(2) by (auto simp: tryFastWrite32_def Let_def split: if_splits option.splits)
  have w': "fast_writable (regions bus ! ri) a (byteCount AS_word) (reversible_ram_only bus)"
    using fast_writable_weaken [OF w] by simp
  show ?thesis
    using bus_write_backed [OF assms(1) f w'] storeBackedWord_fast [OF assms(1) find_region_less [OF f] w, of "addStoreFootprint a 4 ctx bus"]
    by (simp add: b)
qed

lemma tryFastWrite_checked:
  assumes "wf_bus bus" "tryFastWrite a sz v ctx req bus = Some bus'"
  shows "bus_write ops a sz v ctx d bus = (Inr 0, bus')"
proof -
  let ?w = "byteCount sz"
  obtain ri where f: "find_region bus a = Some ri"
    and w: "fast_writable (regions bus ! ri) a ?w (reversible_ram_only bus \<or> req)"
    and b: "bus' = bump_execution (regions bus ! ri)
      (let bus1 = addStoreFootprint a ?w ctx bus; offset = unat (a - region_base (regions bus ! ri))
       in if ?w = 4 then storeBackedWord ri offset (ucast v) (ctx_pc ctx = 0) bus1
          else fold (storeChangedByte ri offset a v (ctx_pc ctx = 0)) [0..<?w] bus1)"
    using assms(2) by (auto simp: tryFastWrite_def Let_def split: if_splits option.splits)
  have ri: "ri < length (regions (addStoreFootprint a ?w ctx bus))" using find_region_less [OF f] by simp
  have "bus' = bump_execution (regions bus ! ri) (storeLoop ri (unat (a - region_base (regions bus ! ri))) a v
      (ctx_pc ctx = 0) ?w (addStoreFootprint a ?w ctx bus))"
  proof (cases "?w = 4")
    case True
    with w have w4: "fast_writable (regions bus ! ri) a 4 (reversible_ram_only bus \<or> req)" by simp
    show ?thesis
      using storeBackedWord_fast [OF assms(1) find_region_less [OF f] w4, of "addStoreFootprint a ?w ctx bus"]
        storeLoop_cong [of 4 "ucast (ucast v :: u32)" v _ _ _ _ "addStoreFootprint a ?w ctx bus"]
        le_byte_ucast_ucast [of _ v] True
      by (simp add: b Let_def)
  next
    case False
    then show ?thesis using storeChangedBytes_eq [OF ri] by (simp add: b Let_def)
  qed
  with bus_write_backed [OF assms(1) f fast_writable_weaken [OF w]] show ?thesis by simp
qed


lemma read32_checked:
  assumes "wf_bus bus"
  shows "read32 ops a ctx bus = map_value ucast (bus_read ops a AS_word ctx 0 bus)"
  using tryFastRead32_checked [OF assms, of a ctx]
  by (auto simp: read32_def split: option.splits)

lemma read8_checked:
  assumes "wf_bus bus"
  shows "read8 ops a ctx bus = map_value ucast (bus_read ops a AS_byte ctx 0 bus)"
  using tryFastRead_checked [OF assms, of a AS_byte ctx]
  by (auto simp: read8_def map_value_def split: option.splits)

lemma read16_checked:
  assumes "wf_bus bus"
  shows "read16 ops a ctx bus = map_value ucast (bus_read ops a AS_halfword ctx 0 bus)"
  using tryFastRead_checked [OF assms, of a AS_halfword ctx]
  by (auto simp: read16_def map_value_def split: option.splits)

lemma write8_checked:
  "wf_bus bus \<Longrightarrow> write8 ops a v ctx bus = bus_write ops a AS_byte (ucast v) ctx 0 bus"
  using tryFastWrite_checked [of bus a AS_byte "ucast v" ctx False]
  by (auto simp: write8_def split: option.splits)

lemma write16_checked:
  "wf_bus bus \<Longrightarrow> write16 ops a v ctx bus = bus_write ops a AS_halfword (ucast v) ctx 0 bus"
  using tryFastWrite_checked [of bus a AS_halfword "ucast v" ctx False]
  by (auto simp: write16_def split: option.splits)

lemma write32_checked:
  "wf_bus bus \<Longrightarrow> write32 ops a v ctx bus = bus_write ops a AS_word (ucast v) ctx 0 bus"
  using tryFastWrite32_checked [of bus a v ctx False]
  by (auto simp: write32_def split: option.splits)

end
