(* ===== verification/Memory_Bulk.thy ===== *)
theory Memory_Bulk
  imports Memory_Fast
begin

text \<open>
  The bulk transfers of load and store multiple: \<open>tryFastReadWords\<close> and
  \<open>tryFastWriteWords\<close> against the sequence of single-word fast accesses they stand for.
\<close>

fun readWordsSeq :: "u32 \<Rightarrow> nat \<Rightarrow> AccessContext \<Rightarrow> 'd MemoryBus \<Rightarrow> (u32 list \<times> 'd MemoryBus) option" where
  "readWordsSeq a 0 ctx bus = Some ([], bus)"
| "readWordsSeq a (Suc n) ctx bus =
     (case tryFastRead32 a ctx bus of
        None \<Rightarrow> None
      | Some (v, bus1) \<Rightarrow>
          (case readWordsSeq (a + 4) n ctx bus1 of
             None \<Rightarrow> None
           | Some (vs, bus2) \<Rightarrow> Some (v # vs, bus2)))"

fun writeWordsSeq :: "u32 \<Rightarrow> u32 list \<Rightarrow> AccessContext \<Rightarrow> bool \<Rightarrow> 'd MemoryBus \<Rightarrow> 'd MemoryBus option" where
  "writeWordsSeq a [] ctx req bus = Some bus"
| "writeWordsSeq a (v # vs) ctx req bus =
     (case tryFastWrite32 a v ctx req bus of
        None \<Rightarrow> None
      | Some bus1 \<Rightarrow> writeWordsSeq (a + 4) vs ctx req bus1)"

text \<open>The fields a bulk store does not advance word by word.\<close>

definition unlogged :: "'d MemoryBus \<Rightarrow> 'd MemoryBus" where
  "unlogged bus = bus\<lparr>execution_generation := 0, access_watch_log := []\<rparr>"

section \<open>Reads\<close>

lemma upt_Suc0: "[0..<Suc n] = 0 # map Suc [0..<n]"
  by (simp add: upt_conv_Cons map_Suc_upt del: upt_Suc)

lemma fold_upt_Suc: "fold f [0..<Suc n] s = fold (\<lambda>w. f (Suc w)) [0..<n] (f 0 s)"
  unfolding upt_Suc0 by (simp add: fold_map comp_def)

lemma map_upt_Suc0: "map f [0..<Suc n] = f 0 # map (\<lambda>w. f (Suc w)) [0..<n]"
  unfolding upt_Suc0 by simp

lemma next_word:
  assumes "wf_bus bus" "find_region bus a = Some ri" "containsRange (regions bus ! ri) a (4 * Suc n)" "n \<noteq> 0"
  shows "find_region bus (a + 4) = Some ri" "containsRange (regions bus ! ri) (a + 4) (4 * n)"
    "unat (a + 4 - region_base (regions bus ! ri)) = unat (a - region_base (regions bus ! ri)) + 4"
    "unat (a + 4) = unat a + 4"
proof -
  let ?r = "regions bus ! ri"
  have ri: "ri < length (regions bus)" by (rule find_region_less [OF assms(2)])
  have fit: "unat (region_base ?r) + unat (region_len ?r) \<le> 2 ^ 32"
    using wf_region_nth [OF assms(1) ri] by (simp add: wf_region_def validRange_iff)
  have "4 < 4 * Suc n" using assms(4) by simp
  note off = unat_range_offset [OF assms(3) this fit, simplified]
  show "find_region bus (a + 4) = Some ri" using find_region_Some [OF assms(1)] off(2) ri by simp
  show "containsRange ?r (a + 4) (4 * n)"
    using assms(3) off(1,2) by (simp add: containsRange_def contains_def)
  show "unat (a + 4 - region_base ?r) = unat (a - region_base ?r) + 4" by (rule off(3))
  show "unat (a + 4) = unat a + 4" by (rule off(1))
qed

lemma readWordsSeq_eq:
  assumes "wf_bus bus" "find_region bus a = Some ri" "containsRange (regions bus ! ri) a (4 * n)"
    and "backed (rkind (info (regions bus ! ri)))" "readable (info (regions bus ! ri))"
    and "ctx_type ctx \<noteq> AT_instruction_fetch"
  shows "readWordsSeq a n ctx bus =
    Some (map (\<lambda>w. get_word (bytes (regions bus ! ri)) (unat (a - region_base (regions bus ! ri)) + w * 4)) [0..<n],
          fold (\<lambda>w. note_data_read (a + of_nat (w * 4)) 4 ctx) [0..<n] bus)"
  using assms
proof (induction n arbitrary: a bus)
  case (Suc n)
  let ?bus = "note_data_read a 4 ctx bus"
  have fr: "fast_readable (regions bus ! ri) a 4 ctx"
    using Suc.prems by (simp add: fast_readable_def containsRange_def)
  have lay: "layout ?bus = layout bus" by (rule layout_cong) simp
  have rd: "tryFastRead32 a ctx bus =
    Some (get_word (bytes (regions bus ! ri)) (unat (a - region_base (regions bus ! ri))), ?bus)"
    using Suc.prems(2) fr by (simp add: tryFastRead32_def Let_def)
  show ?case
  proof (cases "n = 0")
    case True
    then show ?thesis by (simp add: rd)
  next
    case False
    note nw = next_word [OF Suc.prems(1-3) False]
    have "readWordsSeq (a + 4) n ctx ?bus =
      Some (map (\<lambda>w. get_word (bytes (regions bus ! ri)) (unat (a - region_base (regions bus ! ri)) + 4 + w * 4)) [0..<n],
            fold (\<lambda>w. note_data_read (a + 4 + of_nat (w * 4)) 4 ctx) [0..<n] ?bus)"
      using Suc.IH [OF wf_bus_layout [OF lay Suc.prems(1)], of "a + 4"] Suc.prems(4,5,6) nw(1,2)
      unfolding find_region_layout [OF lay] regions_note_data_read nw(3) by blast
    then show ?thesis unfolding map_upt_Suc0 fold_upt_Suc readWordsSeq.simps rd
      by (simp add: add.assoc)
  qed
qed simp

lemma note_data_read_idle:
  "\<not> (read_footprint_tracking bus \<and> ctx_type ctx = AT_data_read \<and> ctx_pc ctx \<noteq> 0) \<Longrightarrow>
   \<not> (access_watch_log_enabled bus \<and> ctx_type ctx = AT_data_read \<and> ctx_pc ctx \<noteq> 0) \<Longrightarrow>
   note_data_read a w ctx bus = bus"
  by (auto simp: note_data_read_def addAccessFootprint_def)

lemma fold_note_idle:
  "\<not> (read_footprint_tracking bus \<and> ctx_type ctx = AT_data_read \<and> ctx_pc ctx \<noteq> 0) \<Longrightarrow>
   \<not> (access_watch_log_enabled bus \<and> ctx_type ctx = AT_data_read \<and> ctx_pc ctx \<noteq> 0) \<Longrightarrow>
   fold (\<lambda>w. note_data_read (f w) k ctx) ws bus = bus"
  by (induction ws) (simp_all add: note_data_read_idle)

lemma tryFastReadWords_Some:
  assumes "tryFastReadWords a n ctx bus = Some (vs, bus')"
  obtains ri where "find_region bus a = Some ri" "containsRange (regions bus ! ri) a (n * 4)"
    "backed (rkind (info (regions bus ! ri)))" "readable (info (regions bus ! ri))"
    "vs = map (\<lambda>w. get_word (bytes (regions bus ! ri)) (unat (a - region_base (regions bus ! ri)) + w * 4)) [0..<n]"
    "bus' = (if (read_footprint_tracking bus \<or> access_watch_log_enabled bus) \<and> ctx_type ctx = AT_data_read \<and> ctx_pc ctx \<noteq> 0
       then fold (\<lambda>w. addAccessFootprint (a + of_nat (w * 4)) 4) [0..<n] bus else bus)"
proof (cases "find_region bus a")
  case None
  then show thesis using assms by (simp add: tryFastReadWords_def split: if_splits)
next
  case (Some ri)
  let ?r = "regions bus ! ri"
  have g: "backed (rkind (info ?r)) \<and> readable (info ?r) \<and> containsRange ?r a (n * 4)" "n \<noteq> 0" "\<not> n * 4 > 4294967295"
    using assms Some by (auto simp: tryFastReadWords_def Let_def split: if_splits)
  have sw: "(if \<not> (p \<and> q) \<and> \<not> (l \<and> q) then x else y) = (if (p \<or> l) \<and> q then y else x)" for p q l and x y :: "'a MemoryBus"
    by auto
  show thesis
    by (rule that [OF Some])
      (use assms Some g in \<open>simp_all only: tryFastReadWords_def Let_def sw option.case option.inject prod.inject if_False
         simp_thms\<close>)
qed

lemma tryFastReadWords_seq:
  assumes "wf_bus bus" "tryFastReadWords a n ctx bus = Some (vs, bus')"
    and "ctx_type ctx \<noteq> AT_instruction_fetch"
  shows "readWordsSeq a n ctx bus = Some (vs, bus')"
  using assms(2)
proof (rule tryFastReadWords_Some)
  fix ri
  let ?r = "regions bus ! ri"
  let ?noted = "ctx_type ctx = AT_data_read \<and> ctx_pc ctx \<noteq> 0"
  assume f: "find_region bus a = Some ri" and c: "containsRange ?r a (n * 4)"
    and p: "backed (rkind (info ?r))" "readable (info ?r)"
    and vs: "vs = map (\<lambda>w. get_word (bytes ?r) (unat (a - region_base ?r) + w * 4)) [0..<n]"
    and bus': "bus' = (if (read_footprint_tracking bus \<or> access_watch_log_enabled bus) \<and> ?noted
       then fold (\<lambda>w. addAccessFootprint (a + of_nat (w * 4)) 4) [0..<n] bus else bus)"
  have "fold (\<lambda>w. note_data_read (a + of_nat (w * 4)) 4 ctx) [0..<n] bus = bus'"
  proof (cases "(read_footprint_tracking bus \<or> access_watch_log_enabled bus) \<and> ?noted")
    case True
    then have "note_data_read x 4 ctx = (addAccessFootprint x 4 :: 'a MemoryBus \<Rightarrow> _)" for x
      by (simp add: note_data_read_def fun_eq_iff)
    then show ?thesis by (simp only: bus' [unfolded if_P [OF True]])
  next
    case False
    then have "fold (\<lambda>w. note_data_read (a + of_nat (w * 4)) 4 ctx) [0..<n] bus = bus"
      by (intro fold_note_idle) blast+
    then show ?thesis by (simp only: bus' [unfolded if_not_P [OF False]])
  qed
  with readWordsSeq_eq [OF assms(1) f _ p assms(3), of n] c vs show ?thesis by (simp add: mult.commute)
qed

lemma unat_drop2: "unat (drop_bit 2 (x :: u32)) = unat x div 4"
  by (simp add: drop_bit_eq_div unat_div)

lemma unat_word_floor: "unat ((a :: u32) AND NOT 3) = 4 * (unat a div 4)"
proof -
  have m: "(3 :: u32) = mask 2" by (simp add: mask_eq_exp_minus_1)
  have idx: "Suc (Suc (n - 2)) = n" if "\<not> n < 2" for n using that by simp
  have "a AND NOT 3 = push_bit 2 (drop_bit 2 a)"
    unfolding m by (rule bit_word_eqI) (auto simp: bit_simps idx)
  then have "unat (a AND NOT 3) = take_bit 32 (push_bit 2 (unat (drop_bit 2 a)))"
    by (simp only: unsigned_push_bit_eq len_num1 len_num0 len_bit0 len_bit1) simp
  then have "unat (a AND NOT 3) = take_bit 32 (4 * (unat a div 4))"
    unfolding unat_drop2 by (simp add: push_bit_eq_mult mult.commute)
  moreover have "4 * (unat a div 4) \<le> unat a" by simp
  ultimately show ?thesis using unat_max_32 [of a] by (simp add: take_bit_nat_eq_self)
qed

text \<open>Every byte of a recorded span is in the footprint afterwards.\<close>


section \<open>Writes\<close>

lemma unlogged_storeLoop: "unlogged (storeLoop ri offset a v ext w bus) = storeLoop ri offset a v ext w (unlogged bus)"
proof (induction w)
  case (Suc w)
  have "unlogged (storeByte ri offset a v ext w b) = storeByte ri offset a v ext w (unlogged b)" for b :: "'a MemoryBus"
    by (simp add: unlogged_def storeByte_def recordMutation_def set_bytes_def Let_def)
  with Suc show ?case by (simp add: storeLoop_Suc)
qed (simp add: unlogged_def)

text \<open>The store footprint without the log entry that comes with it.\<close>

definition mark_store :: "u32 \<Rightarrow> nat \<Rightarrow> AccessContext \<Rightarrow> 'd MemoryBus \<Rightarrow> 'd MemoryBus" where
  "mark_store a width ctx bus =
     (if ctx_pc ctx = 0 \<or> width = 0 \<or> \<not> store_footprint_tracking bus then bus
      else bus\<lparr>read_footprint := addSpanFootprint (read_footprint bus) a width\<rparr>)"

lemma unlogged_addStoreFootprint: "unlogged (addStoreFootprint a w ctx bus) = mark_store a w ctx (unlogged bus)"
  by (simp add: unlogged_def addStoreFootprint_def mark_store_def log_access_def Let_def)

lemma storeBackedWord_mark:
  "storeBackedWord ri offset v ext (mark_store a w ctx bus) = mark_store a w ctx (storeBackedWord ri offset v ext bus)"
  by (simp add: mark_store_def storeBackedWord_def set_bytes_def Let_def case_prod_beta)

text \<open>Marking a word twice is marking it once, so adjacent spans make one span.\<close>

lemma footprint_set_same: "footprint_set (footprint_set fp b) b = footprint_set fp b"
  by (simp add: footprint_set_def or.assoc)

lemma footprint_set_commute: "footprint_set (footprint_set fp b) c = footprint_set (footprint_set fp c) b"
  by (cases "unat (drop_bit 6 b) = unat (drop_bit 6 c)") (auto simp: footprint_set_def fun_upd_twist or.assoc or.commute or.left_commute)

lemma addReadFootprint_same: "addReadFootprint (addReadFootprint fp a) a = addReadFootprint fp a"
  by (simp add: addReadFootprint_def footprint_set_same footprint_set_commute [of _ "snd _" "fst _"])

lemma word_floor_next:
  assumes "unat (a + 4 :: u32) = unat a + 4"
  shows "(a + 4) AND NOT 3 = (a AND NOT 3) + 4" "unat ((a AND NOT 3) + 4 :: u32) = unat (a AND NOT 3) + 4"
proof -
  have "unat (a AND NOT 3) \<le> unat a" using unat_word_floor [of a] by simp
  moreover have "unat a + 4 < 2 ^ 32" using assms unat_max_32 [of "a + 4"] by simp
  ultimately show u: "unat ((a AND NOT 3) + 4 :: u32) = unat (a AND NOT 3) + 4" by (simp add: unat_word_ariths)
  have "unat ((a + 4) AND NOT 3) = unat ((a AND NOT 3) + 4)" using assms u unat_word_floor [of a] unat_word_floor [of "a + 4"] div_add_self2 [of 4 "unat a"] by simp
  then show "(a + 4) AND NOT 3 = (a AND NOT 3) + 4" by (rule unsigned_word_eqI)
qed

lemma fold_add_of_nat:
  "fold (\<lambda>i fp. addReadFootprint fp (w + of_nat (4 * i))) [0..<Suc n] fp =
   fold (\<lambda>i fp. addReadFootprint fp (w + 4 + of_nat (4 * i))) [0..<n] (addReadFootprint fp w)"
  unfolding fold_upt_Suc by (simp add: add.assoc)

lemma span_append:
  assumes "unat (a + 4) = unat a + 4" "0 < n"
  shows "addSpanFootprint (addSpanFootprint fp a 4) (a + 4) n = addSpanFootprint fp a (4 + n)"
proof -
  define w where "w = a AND NOT 3"
  define k where "k = unat a - unat w"
  have k: "unat a = unat w + k" "k < 4" using unat_word_floor [of a] by (simp_all add: k_def w_def)
  note nx = word_floor_next [OF assms(1), folded w_def]
  have m: "addSpanFootprint fp a (4 + n) = fold (\<lambda>i fp. addReadFootprint fp (w + of_nat (4 * i))) [0..<Suc ((k + n + 3) div 4)] fp" for fp
  proof -
    have "(unat w + k + (4 + n) - unat w + 3) div 4 = Suc ((k + n + 3) div 4)" by simp
    then show ?thesis by (simp only: addSpanFootprint_def w_def [symmetric] k(1) Let_def)
  qed
  have r: "addSpanFootprint fp (a + 4) n = fold (\<lambda>i fp. addReadFootprint fp (w + 4 + of_nat (4 * i))) [0..<(k + n + 3) div 4] fp" for fp
    unfolding addSpanFootprint_def nx Let_def assms(1) k(1) by simp
  obtain j where j: "(k + n + 3) div 4 = Suc j" using assms(2) by (cases "(k + n + 3) div 4") auto
  show ?thesis
  proof (cases "k = 0")
    case True
    then have "addSpanFootprint fp a 4 = addReadFootprint fp w"
      unfolding addSpanFootprint_def w_def [symmetric] k(1) Let_def by simp
    then show ?thesis unfolding m r fold_add_of_nat by simp
  next
    case False
    have "(unat w + k + 4 - unat w + 3) div 4 = Suc 1" using False k(2) by simp
    then have "addSpanFootprint fp a 4 = addReadFootprint (addReadFootprint fp w) (w + 4)"
      unfolding addSpanFootprint_def w_def [symmetric] k(1) Let_def by (simp only: fold_add_of_nat) simp
    then show ?thesis unfolding m r j by (simp only: fold_add_of_nat addReadFootprint_same)
  qed
qed

lemma mark_store_append:
  assumes "unat (a + 4) = unat a + 4"
  shows "mark_store (a + 4) (4 * n) ctx (mark_store a 4 ctx bus) = mark_store a (4 * Suc n) ctx bus"
  using span_append [OF assms, of "4 * n"] by (cases "n = 0") (simp_all add: mark_store_def)

lemma unlogged_bump [simp]: "unlogged (bump_execution r bus) = unlogged bus"
  by (simp add: unlogged_def bump_execution_def)

lemma regions_unlogged [simp]: "regions (unlogged bus) = regions bus"
  by (simp add: unlogged_def)

lemma storeBackedWord_fields [simp]:
  "store_footprint_tracking (storeBackedWord ri offset v ext bus) = store_footprint_tracking bus"
  "reversible_ram_only (storeBackedWord ri offset v ext bus) = reversible_ram_only bus"
  by (simp_all add: storeBackedWord_def set_bytes_def Let_def case_prod_beta)

lemma addStoreFootprint_fields [simp]:
  "store_footprint_tracking (addStoreFootprint a w ctx bus) = store_footprint_tracking bus"
  "reversible_ram_only (addStoreFootprint a w ctx bus) = reversible_ram_only bus"
  by (simp_all add: addStoreFootprint_def log_access_def Let_def)

lemma bump_execution_fields [simp]:
  "store_footprint_tracking (bump_execution r bus) = store_footprint_tracking bus"
  "reversible_ram_only (bump_execution r bus) = reversible_ram_only bus"
  by (simp_all add: bump_execution_def)

lemma unlogged_storeBackedWord:
  "unlogged (storeBackedWord ri offset v ext bus) = storeBackedWord ri offset v ext (unlogged bus)"
  by (simp add: unlogged_def storeBackedWord_def set_bytes_def Let_def case_prod_beta)

lemma storeBackedWord_layout:
  assumes "ri < length (regions bus)" "offset + 4 \<le> length (bytes (regions bus ! ri))"
  shows "layout (storeBackedWord ri offset v ext bus) = layout bus"
  using storeBackedWord_eq [OF assms refl] storeLoop_layout [OF assms(1)] by simp

lemma writeWordsSeq_eq:
  assumes "wf_bus bus" "find_region bus a = Some ri"
    and "fast_writable (regions bus ! ri) a (4 * length vs) (reversible_ram_only bus \<or> req)"
  shows "\<exists>bus'. writeWordsSeq a vs ctx req bus = Some bus' \<and> unlogged bus' =
     fold (\<lambda>w. storeBackedWord ri (unat (a - region_base (regions bus ! ri)) + w * 4) (vs ! w) (ctx_pc ctx = 0))
       [0..<length vs] (mark_store a (4 * length vs) ctx (unlogged bus))"
  using assms
proof (induction vs arbitrary: a bus)
  case (Cons v vs)
  let ?r = "regions bus ! ri"
  let ?off = "unat (a - region_base ?r)"
  let ?b1 = "storeBackedWord ri ?off v (ctx_pc ctx = 0) (addStoreFootprint a 4 ctx bus)"
  let ?bus = "bump_execution ?r ?b1"
  have fw: "fast_writable ?r a 4 (reversible_ram_only bus \<or> req)"
    using Cons.prems(3) by (auto simp: fast_writable_def containsRange_def)
  have ri: "ri < length (regions bus)" by (rule find_region_less [OF Cons.prems(2)])
  have fit: "?off + 4 \<le> length (bytes ?r)"
    using contains_offset [OF Cons.prems(1) ri, of a 4] fw by (simp add: fast_writable_def)
  have wr: "tryFastWrite32 a v ctx req bus = Some ?bus"
    using Cons.prems(2) fw by (simp add: tryFastWrite32_def Let_def)
  have "layout ?bus = layout ?b1" by (rule layout_cong) simp
  also have "\<dots> = layout (addStoreFootprint a 4 ctx bus)"
    by (rule storeBackedWord_layout) (use ri fit in simp_all)
  also have "\<dots> = layout bus" by (rule layout_cong) simp
  finally have lay: "layout ?bus = layout bus" .
  have un: "unlogged ?b1 = storeBackedWord ri ?off v (ctx_pc ctx = 0) (mark_store a 4 ctx (unlogged bus))"
    by (simp add: unlogged_storeBackedWord unlogged_addStoreFootprint)
  show ?case
  proof (cases "vs = []")
    case True
    then show ?thesis by (simp add: wr un)
  next
    case False
    have "containsRange ?r a (4 * Suc (length vs))" using Cons.prems(3) by (simp add: fast_writable_def)
    note nw = next_word [OF Cons.prems(1,2) this, simplified, OF False]
    have inf: "info (regions ?bus ! ri) = info ?r" by (rule layout_nth(1) [OF lay ri])
    have fw': "fast_writable (regions ?bus ! ri) (a + 4) (4 * length vs) (reversible_ram_only ?bus \<or> req)"
      using Cons.prems(3) nw(2) inf by (simp add: fast_writable_def containsRange_def region_end_def)
    obtain bus' where b: "writeWordsSeq (a + 4) vs ctx req ?bus = Some bus'"
      and u: "unlogged bus' = fold (\<lambda>w. storeBackedWord ri (?off + 4 + w * 4) (vs ! w) (ctx_pc ctx = 0))
         [0..<length vs] (mark_store (a + 4) (4 * length vs) ctx (unlogged ?bus))"
      using Cons.IH [OF wf_bus_layout [OF lay Cons.prems(1)] _ fw']
      unfolding find_region_layout [OF lay] inf nw(1,3) by auto
    have len: "length (v # vs) = Suc (length vs)" by simp
    show ?thesis
      unfolding writeWordsSeq.simps wr option.case len fold_upt_Suc
      by (rule exI [of _ bus']) (simp add: b u un add.assoc storeBackedWord_mark [symmetric] mark_store_append [OF nw(4), simplified])
  qed
qed (simp add: mark_store_def)

lemma unlogged_fold_store:
  "unlogged (fold (\<lambda>w. storeBackedWord ri (f w) (g w) ext) ws bus) =
   fold (\<lambda>w. storeBackedWord ri (f w) (g w) ext) ws (unlogged bus)"
  by (induction ws arbitrary: bus) (simp_all add: unlogged_storeBackedWord)

lemma tryFastWriteWords_Some:
  assumes "tryFastWriteWords a vs ctx req bus = Some bus'"
  obtains ri where "find_region bus a = Some ri" "vs \<noteq> []"
    "fast_writable (regions bus ! ri) a (length vs * 4) (reversible_ram_only bus \<or> req)"
    "bus' = bump_execution (regions bus ! ri)
      (fold (\<lambda>w. storeBackedWord ri (unat (a - region_base (regions bus ! ri)) + w * 4) (vs ! w) (ctx_pc ctx = 0))
         [0..<length vs] (addStoreFootprint a (length vs * 4) ctx bus))"
  using assms unfolding tryFastWriteWords_def
  by (auto simp: Let_def split: if_splits option.splits)

text \<open>A bulk store is the sequence of its word stores, but for the generation and the log.\<close>

lemma tryFastWriteWords_seq:
  assumes "wf_bus bus" "tryFastWriteWords a vs ctx req bus = Some bus'"
  shows "\<exists>bus''. writeWordsSeq a vs ctx req bus = Some bus'' \<and> unlogged bus'' = unlogged bus'"
  using assms(2)
proof (rule tryFastWriteWords_Some)
  fix ri
  assume f: "find_region bus a = Some ri"
    and w: "fast_writable (regions bus ! ri) a (length vs * 4) (reversible_ram_only bus \<or> req)"
    and b: "bus' = bump_execution (regions bus ! ri)
      (fold (\<lambda>w. storeBackedWord ri (unat (a - region_base (regions bus ! ri)) + w * 4) (vs ! w) (ctx_pc ctx = 0))
         [0..<length vs] (addStoreFootprint a (length vs * 4) ctx bus))"
  show ?thesis using writeWordsSeq_eq [OF assms(1) f, of vs req ctx] w
    by (simp add: b unlogged_fold_store unlogged_addStoreFootprint mult.commute)
qed

lemma storeBackedWord_log [simp]:
  "access_watch_log (storeBackedWord ri offset v ext bus) = access_watch_log bus"
  by (simp add: storeBackedWord_def set_bytes_def Let_def case_prod_beta)

lemma fold_store_log:
  "access_watch_log (fold (\<lambda>w. storeBackedWord ri (f w) (g w) ext) ws bus) = access_watch_log bus"
  by (induction ws arbitrary: bus) simp_all

lemma storeBackedWord_generation [simp]:
  "execution_generation (storeBackedWord ri offset v ext bus) = execution_generation bus"
  by (simp add: storeBackedWord_def set_bytes_def Let_def case_prod_beta)

lemma fold_store_generation:
  "execution_generation (fold (\<lambda>w. storeBackedWord ri (f w) (g w) ext) ws bus) = execution_generation bus"
  by (induction ws arbitrary: bus) simp_all

lemma tryFastWriteWords_generation:
  assumes "tryFastWriteWords a vs ctx req bus = Some bus'"
  shows "\<exists>ri. find_region bus a = Some ri \<and> execution_generation bus' =
    execution_generation bus + (if executable (info (regions bus ! ri)) then 1 else 0)"
  using assms
  by (rule tryFastWriteWords_Some)
    (simp add: bump_execution_def fold_store_generation addStoreFootprint_def log_access_def Let_def)

text \<open>The watch log of a bulk store: one entry at its first address, at most eight bytes wide.\<close>

lemma tryFastWriteWords_log:
  assumes "tryFastWriteWords a vs ctx req bus = Some bus'" "access_watch_log_enabled bus" "ctx_pc ctx \<noteq> 0"
  shows "access_watch_log bus' = access_watch_log bus @
    [\<lparr>watch_address = a, watch_width = of_nat (min (length vs * 4) 8), watch_write = True\<rparr>]"
  using assms(1)
  by (rule tryFastWriteWords_Some)
    (use assms(2,3) in \<open>simp add: bump_execution_def fold_store_log addStoreFootprint_def log_access_def Let_def\<close>)

end
