(* ===== verification/Word_Memory.thy ===== *)
theory Word_Memory
  imports Memory_Bulk
begin

text \<open>
  The contract between the memory and the code that keeps words in it, the stack of the
  processor above all: words stored to a usable range are what later loads of the range
  return. \<open>word_memory\<close> states the contract, proves what sequences of stores and loads do
  under it, and is interpreted on the word accesses of the bus.
\<close>

section \<open>Sequences of word accesses\<close>

primrec storeWords :: "(u32 \<Rightarrow> u32 \<Rightarrow> 'm \<Rightarrow> u64 MemoryResult \<times> 'm) \<Rightarrow> u32 \<Rightarrow> u32 list \<Rightarrow> 'm \<Rightarrow> unit MemoryResult \<times> 'm" where
  "storeWords store a [] m = (Inr (), m)"
| "storeWords store a (v # vs) m =
     (case store a v m of (Inl f, m') \<Rightarrow> (Inl f, m') | (Inr _, m') \<Rightarrow> storeWords store (a + 4) vs m')"

primrec loadWords :: "(u32 \<Rightarrow> 'm \<Rightarrow> u32 MemoryResult \<times> 'm) \<Rightarrow> u32 \<Rightarrow> nat \<Rightarrow> 'm \<Rightarrow> u32 list MemoryResult \<times> 'm" where
  "loadWords load a 0 m = (Inr [], m)"
| "loadWords load a (Suc n) m =
     (case load a m of
        (Inl f, m') \<Rightarrow> (Inl f, m')
      | (Inr v, m') \<Rightarrow>
          (case loadWords load (a + 4) n m' of
             (Inl f, m'') \<Rightarrow> (Inl f, m'')
           | (Inr vs, m'') \<Rightarrow> (Inr (v # vs), m'')))"

abbreviation slot :: "u32 \<Rightarrow> nat \<Rightarrow> u32" where
  "slot a k \<equiv> a + of_nat (4 * k)"

lemma slot_Suc: "slot (a + 4) k = slot a (Suc k)"
  by simp

text \<open>
  \<open>usable m a n\<close>: the \<open>n\<close> words from \<open>a\<close> on can be stored and loaded; \<open>holds m a v\<close>: the word
  at \<open>a\<close> is \<open>v\<close>; \<open>frame m\<close>: what no access of a usable word changes.
\<close>

locale word_memory =
  fixes load :: "u32 \<Rightarrow> 'm \<Rightarrow> u32 MemoryResult \<times> 'm"
    and store :: "u32 \<Rightarrow> u32 \<Rightarrow> 'm \<Rightarrow> u64 MemoryResult \<times> 'm"
    and usable :: "'m \<Rightarrow> u32 \<Rightarrow> nat \<Rightarrow> bool"
    and holds :: "'m \<Rightarrow> u32 \<Rightarrow> u32 \<Rightarrow> bool"
    and frame :: "'m \<Rightarrow> 'f"
  assumes store_ok: "usable m a n \<Longrightarrow> k < n \<Longrightarrow> \<exists>m'. store (slot a k) v m = (Inr 0, m')
      \<and> usable m' a n \<and> holds m' (slot a k) v \<and> frame m' = frame m
      \<and> (\<forall>j w. j < n \<longrightarrow> j \<noteq> k \<longrightarrow> holds m (slot a j) w \<longrightarrow> holds m' (slot a j) w)"
    and load_ok: "usable m a n \<Longrightarrow> k < n \<Longrightarrow> holds m (slot a k) v \<Longrightarrow> \<exists>m'. load (slot a k) m = (Inr v, m')
      \<and> usable m' a n \<and> frame m' = frame m
      \<and> (\<forall>j w. j < n \<longrightarrow> holds m (slot a j) w \<longrightarrow> holds m' (slot a j) w)"
begin

lemma store_from:
  "usable m a n \<Longrightarrow> k + length vs \<le> n \<Longrightarrow> \<exists>m'. storeWords store (slot a k) vs m = (Inr (), m')
    \<and> usable m' a n \<and> frame m' = frame m \<and> (\<forall>j < length vs. holds m' (slot a (k + j)) (vs ! j))
    \<and> (\<forall>j < k. \<forall>w. holds m (slot a j) w \<longrightarrow> holds m' (slot a j) w)"
proof (induction vs arbitrary: k m)
  case (Cons v vs)
  then obtain m1 where m1: "store (slot a k) v m = (Inr 0, m1)" "usable m1 a n" "holds m1 (slot a k) v"
    "frame m1 = frame m" "\<And>j w. j < n \<Longrightarrow> j \<noteq> k \<Longrightarrow> holds m (slot a j) w \<Longrightarrow> holds m1 (slot a j) w"
    using store_ok [of m a n k v] by auto
  obtain m2 where m2: "storeWords store (slot a (Suc k)) vs m1 = (Inr (), m2)" "usable m2 a n"
    "frame m2 = frame m1" "\<And>j. j < length vs \<Longrightarrow> holds m2 (slot a (Suc k + j)) (vs ! j)"
    "\<And>j w. j < Suc k \<Longrightarrow> holds m1 (slot a j) w \<Longrightarrow> holds m2 (slot a j) w"
    using Cons.IH [of m1 "Suc k"] m1(2) Cons.prems(2) by auto
  have "holds m2 (slot a (k + j)) ((v # vs) ! j)" if "j < length (v # vs)" for j
    using that m1(3) m2(4) m2(5) [of k v] by (cases j) simp_all
  moreover have "holds m2 (slot a j) w" if "j < k" "holds m (slot a j) w" for j w
    using that m1(5) [of j w] m2(5) [of j w] Cons.prems(2) by simp
  moreover have "storeWords store (slot a k) (v # vs) m = (Inr (), m2)"
    using m1(1) m2(1) by (simp add: ac_simps)
  ultimately show ?case using m1(4) m2(2,3) by (intro exI [of _ m2]) simp
qed simp

lemma load_from:
  "usable m a n \<Longrightarrow> k + length vs \<le> n \<Longrightarrow> \<forall>j < length vs. holds m (slot a (k + j)) (vs ! j) \<Longrightarrow>
    \<exists>m'. loadWords load (slot a k) (length vs) m = (Inr vs, m') \<and> usable m' a n \<and> frame m' = frame m"
proof (induction vs arbitrary: k m)
  case (Cons v vs)
  have "holds m (slot a k) v" using Cons.prems(3) by force
  then obtain m1 where m1: "load (slot a k) m = (Inr v, m1)" "usable m1 a n" "frame m1 = frame m"
    "\<And>j w. j < n \<Longrightarrow> holds m (slot a j) w \<Longrightarrow> holds m1 (slot a j) w"
    using load_ok [of m a n k v] Cons.prems(1,2) by auto
  have "holds m1 (slot a (Suc k + j)) (vs ! j)" if "j < length vs" for j
    using Cons.prems(3) [rule_format, of "Suc j"] Cons.prems(2) m1(4) [of "Suc k + j" "vs ! j"] that by simp
  then obtain m2 where "loadWords load (slot a (Suc k)) (length vs) m1 = (Inr vs, m2)" "usable m2 a n"
    "frame m2 = frame m1"
    using Cons.IH [of m1 "Suc k"] m1(2) Cons.prems(2) by auto
  then show ?case using m1(1,3) by (simp add: ac_simps)
qed simp

lemma store_words:
  "usable m a (length vs) \<Longrightarrow> \<exists>m'. storeWords store a vs m = (Inr (), m') \<and> usable m' a (length vs)
    \<and> frame m' = frame m \<and> (\<forall>j < length vs. holds m' (slot a j) (vs ! j))"
  using store_from [of m a "length vs" 0 vs] by simp

lemma load_words:
  "usable m a (length vs) \<Longrightarrow> \<forall>j < length vs. holds m (slot a j) (vs ! j) \<Longrightarrow>
    \<exists>m'. loadWords load a (length vs) m = (Inr vs, m') \<and> usable m' a (length vs) \<and> frame m' = frame m"
  using load_from [of m a "length vs" 0 vs] by simp

lemma store_then_load:
  assumes "usable m a (length vs)"
  shows "\<exists>m1 m2. storeWords store a vs m = (Inr (), m1) \<and> loadWords load a (length vs) m1 = (Inr vs, m2)
    \<and> frame m2 = frame m"
proof -
  obtain m1 where m1: "storeWords store a vs m = (Inr (), m1)" "usable m1 a (length vs)"
    "frame m1 = frame m" "\<forall>j < length vs. holds m1 (slot a j) (vs ! j)"
    using store_words [OF assms] by blast
  with load_words [OF m1(2,4)] show ?thesis by auto
qed

end

section \<open>The bus as a word memory\<close>

definition word_usable :: "'d MemoryBus \<Rightarrow> u32 \<Rightarrow> nat \<Rightarrow> bool" where
  "word_usable bus a n \<longleftrightarrow>
     wf_bus bus
     \<and> (case find_region bus a of
          None \<Rightarrow> n = 0
        | Some ri \<Rightarrow> fast_writable (regions bus ! ri) a (4 * n) (reversible_ram_only bus)
            \<and> readable (info (regions bus ! ri)))"

definition word_holds :: "'d MemoryBus \<Rightarrow> u32 \<Rightarrow> u32 \<Rightarrow> bool" where
  "word_holds bus a v \<longleftrightarrow> (\<forall>i < 4. byte_at bus (a + of_nat i) = Some (le_byte (ucast v) i))"

definition bus_frame :: "'d MemoryBus \<Rightarrow> 'd \<times> (MemoryRegionInfo \<times> u32 \<times> nat \<times> nat) list \<times> bool \<times> bool" where
  "bus_frame bus = (devices bus, layout bus, reversible_ram_only bus, trap_all_mmio bus)"

abbreviation load_context :: "u32 \<Rightarrow> AccessContext" where
  "load_context pc \<equiv> \<lparr>ctx_type = AT_data_read, ctx_pc = pc\<rparr>"

abbreviation store_context :: "u32 \<Rightarrow> AccessContext" where
  "store_context pc \<equiv> \<lparr>ctx_type = AT_data_write, ctx_pc = pc\<rparr>"

lemma mode_storeByte:
  "reversible_ram_only (storeByte ri offset a v ext i bus) = reversible_ram_only bus"
  "trap_all_mmio (storeByte ri offset a v ext i bus) = trap_all_mmio bus"
  by (simp_all add: storeByte_def Let_def recordMutation_def set_bytes_def)

lemma mode_storeLoop:
  "reversible_ram_only (storeLoop ri offset a v ext w bus) = reversible_ram_only bus"
  "trap_all_mmio (storeLoop ri offset a v ext w bus) = trap_all_mmio bus"
  by (induction w) (simp_all add: storeLoop_Suc mode_storeByte)

lemma mode_notes:
  "reversible_ram_only (bump_execution r bus) = reversible_ram_only bus"
  "trap_all_mmio (bump_execution r bus) = trap_all_mmio bus"
  "reversible_ram_only (addStoreFootprint a w ctx bus) = reversible_ram_only bus"
  "trap_all_mmio (addStoreFootprint a w ctx bus) = trap_all_mmio bus"
  "reversible_ram_only (note_data_read a w ctx bus) = reversible_ram_only bus"
  "trap_all_mmio (note_data_read a w ctx bus) = trap_all_mmio bus"
  by (simp_all add: bump_execution_def addStoreFootprint_def note_data_read_def addAccessFootprint_def
      log_access_def Let_def)

lemma usable_slot:
  assumes "word_usable bus a n" "k < n"
  obtains ri where "find_region bus (slot a k) = Some ri" "ri < length (regions bus)"
    "fast_writable (regions bus ! ri) (slot a k) 4 (reversible_ram_only bus)"
    "fast_readable (regions bus ! ri) (slot a k) 4 (load_context pc)"
    "unat (slot a k) = unat a + 4 * k" "unat a + 4 * n \<le> 2 ^ 32"
proof -
  have wf: "wf_bus bus" using assms by (simp add: word_usable_def)
  obtain ri where ri: "find_region bus a = Some ri"
    "fast_writable (regions bus ! ri) a (4 * n) (reversible_ram_only bus)" "readable (info (regions bus ! ri))"
    using assms by (auto simp: word_usable_def split: option.splits)
  have less: "ri < length (regions bus)" by (rule find_region_less [OF ri(1)])
  have c: "containsRange (regions bus ! ri) a (4 * n)" using ri(2) by (simp add: fast_writable_def)
  have fit: "unat (region_base (regions bus ! ri)) + unat (region_len (regions bus ! ri)) \<le> 2 ^ 32"
    using wf_region_nth [OF wf less] by (simp add: wf_region_def validRange_iff)
  have off: "4 * k < 4 * n" using assms(2) by simp
  note o = unat_range_offset [OF c off fit]
  have "containsRange (regions bus ! ri) (slot a k) 4"
    using c o assms(2) by (simp add: containsRange_def contains_def)
  then show thesis
    using that [of ri] find_region_Some [OF wf] o c ri less fit
    by (simp add: fast_writable_def fast_readable_def containsRange_def region_end_def)
qed

lemma unat_slot_byte:
  assumes "unat a + 4 * n \<le> 2 ^ 32" "j < n" "i < 4"
  shows "unat (slot a j + of_nat i) = unat a + 4 * j + i"
proof -
  have "unat (a + of_nat (4 * j + i)) = unat a + (4 * j + i)"
    using assms by (intro unat_add_no_wrap) simp
  then show ?thesis by (simp add: add.assoc)
qed

text \<open>What a store of one word does to the words of the range.\<close>

lemma holds_put_bytes:
  assumes "byte_at bus' = put_bytes (byte_at bus) (slot a k) 4 (ucast v)"
    and "unat a + 4 * n \<le> 2 ^ 32" "k < n" "j < n"
  shows "j = k \<Longrightarrow> word_holds bus' (slot a j) v"
    and "j \<noteq> k \<Longrightarrow> word_holds bus (slot a j) w \<Longrightarrow> word_holds bus' (slot a j) w"
proof -
  have k: "unat (slot a k) = unat a + 4 * k" using unat_slot_byte [OF assms(2,3), of 0] by simp
  have *: "byte_at bus' (slot a j + of_nat i) =
      (if j = k then Some (le_byte (ucast v) i) else byte_at bus (slot a j + of_nat i))" if "i < 4" for i
  proof (cases "j = k")
    case True
    then show ?thesis using unat_slot_byte [OF assms(2,3) that] k that unfolding assms(1) put_bytes_def by simp
  next
    case False
    then have "4 * j + i < 4 * k \<or> 4 * k + 4 \<le> 4 * j + i" using that by auto
    then show ?thesis using unat_slot_byte [OF assms(2,4) that] k False unfolding assms(1) put_bytes_def by auto
  qed
  show "j = k \<Longrightarrow> word_holds bus' (slot a j) v" using * by (simp add: word_holds_def)
  show "j \<noteq> k \<Longrightarrow> word_holds bus (slot a j) w \<Longrightarrow> word_holds bus' (slot a j) w"
    using * by (simp add: word_holds_def)
qed

lemma usable_frame: "word_usable bus a n \<Longrightarrow> bus_frame bus' = bus_frame bus \<Longrightarrow> word_usable bus' a n"
proof -
  assume u: "word_usable bus a n" and f: "bus_frame bus' = bus_frame bus"
  then have lay: "layout bus' = layout bus" and mode: "reversible_ram_only bus' = reversible_ram_only bus"
    by (simp_all add: bus_frame_def)
  have wf: "wf_bus bus'" using wf_bus_layout [OF lay] u by (simp add: word_usable_def)
  show ?thesis
  proof (cases "find_region bus a")
    case (Some ri)
    then have "info (regions bus' ! ri) = info (regions bus ! ri)"
      by (intro layout_nth(1) [OF lay] find_region_less)
    then show ?thesis
      using u wf Some mode unfolding word_usable_def find_region_layout [OF lay]
      by (simp add: fast_writable_def containsRange_def region_end_def)
  qed (use u wf in \<open>simp add: word_usable_def find_region_layout [OF lay]\<close>)
qed

lemma bus_store_ok:
  assumes "word_usable bus a n" "k < n"
  shows "\<exists>bus'. write32 ops (slot a k) v (store_context pc) bus = (Inr 0, bus')
    \<and> word_usable bus' a n \<and> word_holds bus' (slot a k) v \<and> bus_frame bus' = bus_frame bus
    \<and> (\<forall>j w. j < n \<longrightarrow> j \<noteq> k \<longrightarrow> word_holds bus (slot a j) w \<longrightarrow> word_holds bus' (slot a j) w)"
proof -
  have wf: "wf_bus bus" using assms by (simp add: word_usable_def)
  obtain ri where ri: "find_region bus (slot a k) = Some ri" "ri < length (regions bus)"
    "fast_writable (regions bus ! ri) (slot a k) 4 (reversible_ram_only bus)" "unat a + 4 * n \<le> 2 ^ 32"
    using usable_slot [OF assms] by blast
  let ?r = "regions bus ! ri"
  let ?loop = "storeLoop ri (unat (slot a k - region_base ?r)) (slot a k) (ucast v) (pc = 0) 4
    (addStoreFootprint (slot a k) 4 (store_context pc) bus)"
  let ?bus = "bump_execution ?r ?loop"
  have w: "write32 ops (slot a k) v (store_context pc) bus = (Inr 0, ?bus)"
    using bus_write_backed [OF wf ri(1), of AS_word ops "ucast v" "store_context pc"] ri(3)
    by (simp add: write32_checked [OF wf])
  have b: "byte_at ?bus = put_bytes (byte_at bus) (slot a k) 4 (ucast v)"
    by (rule storeLoop_addStoreFootprint_byte_at [OF wf ri(2,3)])
  have "layout ?bus = layout ?loop" by (rule layout_cong) simp
  also have "\<dots> = layout (addStoreFootprint (slot a k) 4 (store_context pc) bus)"
    using ri(2) by (intro storeLoop_layout) simp
  also have "\<dots> = layout bus" by (rule layout_cong) simp
  finally have f: "bus_frame ?bus = bus_frame bus"
    by (simp add: bus_frame_def mode_storeLoop mode_notes)
  show ?thesis
    using w f usable_frame [OF assms(1) f] holds_put_bytes [OF b ri(4) assms(2)] assms(2) by blast
qed

lemma ucast_take_32:
  assumes "take_bit 32 x = take_bit 32 (ucast v :: u64)" shows "ucast x = (v :: u32)"
proof (rule bit_word_eqI)
  fix n :: nat assume "n < LENGTH(32)"
  moreover have "bit (take_bit 32 x) n = bit (take_bit 32 (ucast v :: u64)) n" by (simp only: assms)
  ultimately show "bit (ucast x :: u32) n = bit v n" by (simp add: bit_simps)
qed

lemma bus_load_ok:
  assumes "word_usable bus a n" "k < n" "word_holds bus (slot a k) v"
  shows "\<exists>bus'. read32 ops (slot a k) (load_context pc) bus = (Inr v, bus')
    \<and> word_usable bus' a n \<and> bus_frame bus' = bus_frame bus
    \<and> (\<forall>j w. j < n \<longrightarrow> word_holds bus (slot a j) w \<longrightarrow> word_holds bus' (slot a j) w)"
proof -
  have wf: "wf_bus bus" using assms by (simp add: word_usable_def)
  obtain ri where ri: "find_region bus (slot a k) = Some ri" "ri < length (regions bus)"
    "fast_readable (regions bus ! ri) (slot a k) 4 (load_context pc)"
    using usable_slot [OF assms(1,2)] by blast
  let ?r = "regions bus ! ri"
  let ?v = "decodeLittleEndianBytes (bytes ?r) (unat (slot a k - region_base ?r)) 4"
  let ?bus = "note_data_read (slot a k) 4 (load_context pc) bus"
  have r: "bus_read ops (slot a k) AS_word (load_context pc) 0 bus = (Inr ?v, ?bus)"
    using bus_read_backed [OF wf ri(1), of AS_word "load_context pc" ops 0] ri(3) by simp
  have res: "resolve bus (slot a k) (byteCount AS_word) 0 = Some (ri, slot a k)"
    using ri find_region_range [OF wf ri(1), of AS_word] backed_kinds
    by (subst resolve.simps) (simp add: fast_readable_def)
  have bk: "backed (rkind (info ?r))" using ri(3) by (simp add: fast_readable_def)
  have "le_byte ?v i = le_byte (ucast v) i" if "i < 4" for i
    using bus_read_refines(1) [OF wf res bk r, of i] assms(3) that by (simp add: word_holds_def)
  then have "take_bit 32 ?v = take_bit 32 (ucast v :: u64)" using le_byte_eqI [of 4 ?v "ucast v"] by simp
  then have v: "ucast ?v = v" by (rule ucast_take_32)
  have f: "bus_frame ?bus = bus_frame bus"
    using layout_cong [OF regions_note_data_read] by (simp add: bus_frame_def mode_notes)
  have "byte_at ?bus = byte_at bus" by (rule byte_at_regions) simp
  then have "word_holds ?bus x w = word_holds bus x w" for x w by (simp add: word_holds_def)
  moreover have "read32 ops (slot a k) (load_context pc) bus = (Inr v, ?bus)"
    using r v by (simp add: read32_checked [OF wf] map_value_def)
  ultimately show ?thesis using f usable_frame [OF assms(1) f] by blast
qed

interpretation bus_words: word_memory
  "\<lambda>a. read32 ops a (load_context pc)" "\<lambda>a v. write32 ops a v (store_context pc)" word_usable word_holds bus_frame
  for ops :: "'d MmioDevice" and pc :: u32
  by unfold_locales (fact bus_store_ok, fact bus_load_ok)

end
