(* ===== verification/Stack_Laws.thy ===== *)
theory Stack_Laws
  imports Execute_Laws Word_Memory
begin

text \<open>
  Register lists on the stack: the multiple transfers as sequences of word accesses, and
  what a push followed by a pop does.
\<close>

section \<open>Multiple transfers as word sequences\<close>

definition listed_regs :: "u16 \<Rightarrow> nat list" where
  "listed_regs l = filter (listed l) [0..<16]"

lemma store_listed_words:
  "store_listed env ctx l st ns a c =
     on_memory (storeWords (\<lambda>a v. write32 (env_devices env) a v ctx) a
       (map (\<lambda>n. readRegister n st) (filter (listed l) ns))) ''multiple-register store failed'' c"
  by (induction ns arbitrary: a c)
    (auto simp: bindE_def on_memory_def returnE_def failBus_def split: prod.split sum.split)

lemma load_listed_words:
  "load_listed env ctx l ns a loaded c =
     bindE (on_memory (loadWords (\<lambda>a. read32 (env_devices env) a ctx) a (length (filter (listed l) ns)))
        ''multiple-register load failed'')
       (\<lambda>vs. returnE (fold (\<lambda>(n, v) f. f(n := v)) (zip (filter (listed l) ns) vs) loaded)) c"
proof (induction ns arbitrary: a loaded c)
  case (Cons n ns)
  then show ?case
    by (auto simp: bindE_def on_memory_def returnE_def failBus_def fun_upd_def split: prod.split sum.split)
qed (simp add: bindE_def on_memory_def returnE_def)

lemma popcount_listed: "popcount16 l = length (listed_regs l)"
proof -
  have "listed l = bit l" by (simp only: fun_eq_iff listed_def and_pow2_ne_0 simp_thms)
  then show ?thesis by (simp add: popcount16_def listed_regs_def)
qed

lemma loaded_nth:
  fixes rs :: "nat list" and loaded :: "nat \<Rightarrow> u32"
  shows "distinct rs \<Longrightarrow> length vs = length rs \<Longrightarrow> k < length rs \<Longrightarrow>
    fold (\<lambda>(n, v) f. f(n := v)) (zip rs vs) loaded (rs ! k) = vs ! k"
proof (induction rs arbitrary: vs k loaded)
  case (Cons r rs)
  then obtain v vs' where vs: "vs = v # vs'" by (cases vs) auto
  have other: "n \<notin> set rs' \<Longrightarrow> fold (\<lambda>(n, v) f. f(n := v)) (zip rs' ws) g n = g n" for n rs' ws and g :: "nat \<Rightarrow> u32"
    by (induction rs' arbitrary: ws g) (auto simp: zip_Cons1 split: list.split)
  show ?case
  proof (cases k)
    case 0
    then show ?thesis using Cons.prems(1) other [of r rs vs' "loaded(r := v)"] by (simp add: vs fun_upd_def)
  next
    case (Suc j)
    then show ?thesis using Cons.IH [of vs' j "loaded(r := v)"] Cons.prems by (simp add: vs fun_upd_def)
  qed
qed simp

text \<open>Registers after a group of register writes.\<close>

lemma readRegister_core: "n < 15 \<Longrightarrow> n \<noteq> 13 \<Longrightarrow> readRegister n st = core_r st n"
  by (simp add: readRegister_def)

lemma core_r_write: "n < 15 \<Longrightarrow> n \<noteq> 13 \<Longrightarrow> m < 15 \<Longrightarrow> core_r (writeRegister m v st) n = (if n = m then v else core_r st n)"
  by (simp add: writeRegister_def set_r_def set_activeSp_def)

lemma write_listed_reads:
  assumes "n < 15" "n \<noteq> 13"
  shows "core_r (write_listed l f st) n = (if listed l n then f n else core_r st n)"
proof -
  have "list_all (\<lambda>m. m < 15) ns \<Longrightarrow> distinct ns \<Longrightarrow>
     core_r (foldl (\<lambda>st m. if listed l m then writeRegister m (f m) st else st) st ns) n =
       (if n \<in> set ns \<and> listed l n then f n else core_r st n)" for ns st
    using assms by (induction ns arbitrary: st) (auto simp: core_r_write)
  then show ?thesis using assms by (simp add: write_listed_def list_all_iff)
qed

lemma activeSp_write13 [simp]: "activeSp (writeRegister 13 v st) = v"
  by (cases "uses_msp st"; simp add: writeRegister_def set_r_def set_activeSp_def activeSp_def uses_msp_def inHandlerMode_def ipsr_def)

lemma activeSp_branch: "activeSp (snd (branchWritePc v st)) = activeSp st"
proof -
  have "(xpsr st OR xpsr_t) AND xpsr_ipsr_mask = xpsr st AND xpsr_ipsr_mask"
    by (simp add: xpsr_defs bit.conj_disj_distrib2)
  then show ?thesis
    by (auto simp: branchWritePc_def set_r_def activeSp_def uses_msp_def inHandlerMode_def ipsr_def)
qed

lemma core_r_branch: "n < 15 \<Longrightarrow> core_r (snd (branchWritePc v st)) n = core_r st n"
  by (simp add: branchWritePc_def set_r_def)

section \<open>Push and pop\<close>

text \<open>
  A push stores the listed registers below the stack pointer, in order, and moves the
  stack pointer down; a pop is the reverse.
\<close>

lemma pc_of_context: "data_context False st = load_context (currentInstrAddr st)"
    "data_context True st = store_context (currentInstrAddr st)"
  by (simp_all add: data_context_def)

lemma execute_other:
  "alu_of (env_nan env) i = None \<Longrightarrow> \<not> isFpRegisterAccess (kind i) \<Longrightarrow>
    execute env i c = (case exec_other env i c of (Inl why, c') \<Rightarrow> (why, c') | (Inr _, c') \<Rightarrow> (SR_step_complete, c'))"
  by (simp add: execute_def bindE_def fp_prologue_def returnE_def exec_instruction_def)

lemma execute_multiple:
  "kind i \<in> {I_push, I_pop} \<Longrightarrow> execute env i c =
    (case exec_multiple env i c of (Inl why, c') \<Rightarrow> (why, c') | (Inr _, c') \<Rightarrow> (SR_step_complete, c'))"
  by (elim insertE emptyE; subst execute_other; simp add: alu_of_def isFpRegisterAccess_def exec_other_def Let_def)

lemma push_effect:
  assumes "misc_push x = Some i" "word_usable (mem c) sp n"
    and "n = length (listed_regs (register_list i))" "sp = activeSp (cpu c) - of_nat (4 * n)"
  shows "\<exists>bus. execute env i c = (SR_step_complete, c\<lparr>cpu := writeRegister 13 sp (cpu c), mem := bus\<rparr>)
    \<and> word_usable bus sp n \<and> bus_frame bus = bus_frame (mem c)
    \<and> (\<forall>k < n. word_holds bus (slot sp k) (readRegister (listed_regs (register_list i) ! k) (cpu c)))"
proof -
  have i: "kind i = I_push" "rn i = 13" "writeback i" "\<not> add i" "index i"
    using assms(1) by (auto simp: misc_push_def Let_def base16_def split: if_splits)
  let ?vs = "map (\<lambda>n. readRegister n (cpu c)) (listed_regs (register_list i))"
  obtain bus where bus: "storeWords (\<lambda>a v. write32 (env_devices env) a v (store_context (currentInstrAddr (cpu c))))
      sp ?vs (mem c) = (Inr (), bus)" "word_usable bus sp n" "bus_frame bus = bus_frame (mem c)"
      "\<forall>k < n. word_holds bus (slot sp k) (?vs ! k)"
    using bus_words.store_words [of "mem c" sp ?vs "env_devices env" "currentInstrAddr (cpu c)"] assms(2,3)
    by auto
  have st: "store_listed env (data_context True (cpu c)) (register_list i) (cpu c) [0..<16] sp c = (Inr (), c\<lparr>mem := bus\<rparr>)"
    using bus(1) by (simp only: store_listed_words pc_of_context listed_regs_def on_memory_def) simp
  have r: "readRegister 13 (cpu c) = activeSp (cpu c)" by (simp add: readRegister_def)
  have start: "multiple_start i (popcount16 (register_list i)) (activeSp (cpu c)) = sp"
    "multiple_final i (popcount16 (register_list i)) (activeSp (cpu c)) = sp"
    using i assms(3,4) by (simp_all add: multiple_start_def multiple_final_def decrement_before_def popcount_listed mult.commute)
  have "exec_multiple env i c = (Inr (), c\<lparr>cpu := writeRegister 13 sp (cpu c), mem := bus\<rparr>)"
    using st i(1-3) by (simp add: exec_multiple_def Let_def r start bindE_def on_cpu_def)
  then show ?thesis using i(1) bus(2-4) assms(3) by (intro exI [of _ bus]) (simp add: execute_multiple)
qed

lemma distinct_listed: "distinct (listed_regs l)" "n \<in> set (listed_regs l) \<longleftrightarrow> listed l n \<and> n < 16"
  by (auto simp: listed_regs_def)

definition loaded_regs :: "u16 \<Rightarrow> u32 list \<Rightarrow> nat \<Rightarrow> u32" where
  "loaded_regs l vs = fold (\<lambda>(n, v) f. f(n := v)) (zip (listed_regs l) vs) (\<lambda>_. 0)"

lemma loaded_regs_nth: "length vs = length (listed_regs l) \<Longrightarrow> k < length vs \<Longrightarrow> loaded_regs l vs (listed_regs l ! k) = vs ! k"
  using loaded_nth [of "listed_regs l" vs k] distinct_listed(1) by (simp add: loaded_regs_def)

lemma loaded_regs_pc:
  assumes "length vs = length (listed_regs l)" "listed l 15"
  shows "loaded_regs l vs 15 = last vs"
proof -
  have "[0..<16] = [0..<15] @ [15 :: nat]" by (simp add: upt_rec)
  then have "listed_regs l = filter (listed l) [0..<15] @ [15]" using assms(2) by (simp add: listed_regs_def)
  then have "listed_regs l ! (length vs - 1) = 15" "vs \<noteq> []" using assms(1) by (auto simp: nth_append)
  then show ?thesis using loaded_regs_nth [OF assms(1), of "length vs - 1"] by (simp add: last_conv_nth)
qed

text \<open>The state after the registers are loaded, before the branch to a loaded program counter.\<close>

definition popped :: "u16 \<Rightarrow> u32 list \<Rightarrow> CpuState \<Rightarrow> CpuState" where
  "popped l vs st = writeRegister 13 (activeSp st + of_nat (4 * length vs)) (write_listed l (loaded_regs l vs) st)"

lemma popped_regs:
  "n < 15 \<Longrightarrow> n \<noteq> 13 \<Longrightarrow> core_r (popped l vs st) n = (if listed l n then loaded_regs l vs n else core_r st n)"
  by (simp add: popped_def core_r_write write_listed_reads)

lemma pop_exec:
  assumes "misc_pop y = Some j" "word_usable (mem c) (activeSp (cpu c)) (length vs)"
    and "length vs = length (listed_regs (register_list j))"
    and "\<forall>k < length vs. word_holds (mem c) (slot (activeSp (cpu c)) k) (vs ! k)"
    and "listed (register_list j) 15 \<Longrightarrow> last vs AND 1 \<noteq> 0 \<and> \<not> isExceptionReturn (last vs)"
  shows "\<exists>bus. execute env j c = (SR_step_complete, c\<lparr>mem := bus, cpu :=
    (if listed (register_list j) 15 then snd (branchWritePc (last vs) (popped (register_list j) vs (cpu c)))
     else popped (register_list j) vs (cpu c))\<rparr>)"
proof -
  have i: "kind j = I_pop" "rn j = 13" "writeback j" "add j" "\<not> index j"
    using assms(1) by (auto simp: misc_pop_def Let_def base16_def split: if_splits)
  let ?sp = "activeSp (cpu c)" let ?rs = "listed_regs (register_list j)" let ?l = "register_list j"
  obtain bus where bus: "loadWords (\<lambda>a. read32 (env_devices env) a (load_context (currentInstrAddr (cpu c))))
      ?sp (length ?rs) (mem c) = (Inr vs, bus)"
    using bus_words.load_words [of "mem c" ?sp vs "env_devices env" "currentInstrAddr (cpu c)"] assms(2-4) by auto
  have "load_listed env (data_context False (cpu c)) ?l [0..<16] ?sp (\<lambda>_. 0) c =
      (Inr (loaded_regs ?l vs), c\<lparr>mem := bus\<rparr>)"
    using bus unfolding load_listed_words pc_of_context loaded_regs_def listed_regs_def
    by (simp add: on_memory_def bindE_def returnE_def)
  then have "exec_multiple env j c = (Inr (), c\<lparr>mem := bus, cpu :=
      (if listed ?l 15 then snd (branchWritePc (last vs) (popped ?l vs (cpu c))) else popped ?l vs (cpu c))\<rparr>)"
    using i assms(5) loaded_regs_pc [OF assms(3)]
    by (simp add: exec_multiple_def Let_def readRegister_def multiple_start_def multiple_final_def popped_def
        decrement_before_def popcount_listed assms(3) bindE_def on_cpu_def returnE_def load_pc_or_return_def
        load_pc_def branchWritePc_def mult.commute)
  then show ?thesis using i(1) by (intro exI [of _ bus]) (simp add: execute_multiple)
qed

text \<open>
  What a push stored, a pop of as many registers restores: register by register, with the
  stack pointer back where it was, and with a return to the pushed address when the
  program counter is popped.
\<close>

lemma push_pop:
  assumes push: "misc_push x = Some i" and pop: "misc_pop y = Some j"
    and len: "length (listed_regs (register_list j)) = n" "length (listed_regs (register_list i)) = n"
    and ram: "word_usable (mem c) (activeSp (cpu c) - of_nat (4 * n)) n"
    and c1: "execute env i c = (SR_step_complete, c1)" "mem c2 = mem c1" "activeSp (cpu c2) = activeSp (cpu c1)"
    and r: "r = readRegister (last (listed_regs (register_list i))) (cpu c)"
    and ret: "listed (register_list j) 15 \<Longrightarrow> r AND 1 \<noteq> 0 \<and> \<not> isExceptionReturn r"
  shows "\<exists>c'. execute env j c2 = (SR_step_complete, c') \<and> activeSp (cpu c') = activeSp (cpu c)
    \<and> (\<forall>k < n. listed_regs (register_list j) ! k < 13 \<longrightarrow>
         readRegister (listed_regs (register_list j) ! k) (cpu c') =
           readRegister (listed_regs (register_list i) ! k) (cpu c))
    \<and> (listed (register_list j) 15 \<longrightarrow> core_r (cpu c') 15 = r AND NOT 1)"
proof -
  let ?sp = "activeSp (cpu c) - of_nat (4 * n)" let ?l = "register_list j"
  define vs where "vs = map (\<lambda>m. readRegister m (cpu c)) (listed_regs (register_list i))"
  have vs: "length vs = n" "vs \<noteq> [] \<Longrightarrow> last vs = r" by (simp_all add: vs_def len last_map r)
  obtain bus where "execute env i c = (SR_step_complete, c\<lparr>cpu := writeRegister 13 ?sp (cpu c), mem := bus\<rparr>)"
    "word_usable bus ?sp n" "\<forall>k < n. word_holds bus (slot ?sp k) (vs ! k)"
    using push_effect [OF push ram] len(2) by (auto simp: vs_def)
  then have st: "word_usable (mem c2) (activeSp (cpu c2)) (length vs)" "activeSp (cpu c2) = ?sp"
    "\<forall>k < length vs. word_holds (mem c2) (slot (activeSp (cpu c2)) k) (vs ! k)"
    using c1 vs by auto
  have pc: "listed ?l 15 \<Longrightarrow> last vs = r"
    using distinct_listed(2) [of 15 ?l] len(1) vs by (cases "vs = []") auto
  obtain bus' where e: "execute env j c2 = (SR_step_complete, c2\<lparr>mem := bus', cpu :=
      (if listed ?l 15 then snd (branchWritePc (last vs) (popped ?l vs (cpu c2))) else popped ?l vs (cpu c2))\<rparr>)"
    (is "_ = (_, ?c)")
    using pop_exec [OF pop st(1) _ st(3)] len(1) vs(1) ret pc by auto
  have reg: "readRegister m (cpu ?c) = loaded_regs ?l vs m" if "listed ?l m" "m < 13" for m
    using that by (simp add: readRegister_core core_r_branch popped_regs)
  have "readRegister (listed_regs ?l ! k) (cpu ?c) = vs ! k" if "k < n" "listed_regs ?l ! k < 13" for k
    using reg [of "listed_regs ?l ! k"] loaded_regs_nth [of vs ?l k] that len(1) vs(1) distinct_listed(2) nth_mem by metis
  moreover have "activeSp (cpu ?c) = activeSp (cpu c)"
    using st(2) vs(1) by (simp add: activeSp_branch popped_def)
  moreover have "listed ?l 15 \<Longrightarrow> core_r (cpu ?c) 15 = r AND NOT 1"
    using ret pc by (simp add: branchWritePc_def set_r_def)
  ultimately show ?thesis using e len(2) by (intro exI [of _ ?c]) (simp add: vs_def)
qed

end
