(* ===== verification/Execute_Inv.thy ===== *)
theory Execute_Inv
  imports Execute_Laws
begin

text \<open>
  The invariant of the architectural state that every decoded instruction keeps: the
  program counter and the address of the current instruction are even, and the copy of
  the stack pointer in \<open>r[13]\<close> is the active stack pointer. Writing \<open>CONTROL\<close> with
  \<open>MSR\<close> can select the other stack pointer without refreshing the copy; it is the only
  instruction that does not keep the second part.
\<close>

section \<open>Operations that keep a predicate of the state\<close>

definition keeps :: "(CpuState \<Rightarrow> bool) \<Rightarrow> ('a, 'd) exec \<Rightarrow> bool" where
  "keeps P m \<longleftrightarrow> (\<forall>c. P (cpu c) \<longrightarrow> P (cpu (snd (m c))))"

named_theorems keep \<open>operations that keep a predicate of the state\<close>

lemma keepsI: "(\<And>c. P (cpu c) \<Longrightarrow> P (cpu (snd (m c)))) \<Longrightarrow> keeps P m"
  by (simp add: keeps_def)

lemma keepsD: "keeps P m \<Longrightarrow> P (cpu c) \<Longrightarrow> P (cpu (snd (m c)))"
  by (simp add: keeps_def)

lemma keeps_return [keep]: "keeps P (returnE x)"
  by (simp add: keeps_def returnE_def)

lemma keeps_on_cpu [keep]: "(\<And>st. P st \<Longrightarrow> P (f st)) \<Longrightarrow> keeps P (on_cpu f)"
  by (simp add: keeps_def on_cpu_def)

lemma keeps_bind [keep]:
  fixes m :: "('a, 'b) exec"
  assumes "keeps P m" "\<And>x. keeps P (f x)" shows "keeps P (bindE m f)"
  unfolding keeps_def
proof (intro allI impI)
  fix c :: "'b Core"
  assume "P (cpu c)"
  then have "P (cpu (snd (m c)))" using assms (1) by (simp add: keeps_def)
  then show "P (cpu (snd (bindE m f c)))"
    using assms (2) by (auto simp: bindE_def keeps_def split: prod.split sum.split)
qed

lemma keeps_for [keep]: "(\<And>x. keeps P (f x)) \<Longrightarrow> keeps P (forE f xs)"
  by (induction xs) (auto intro!: keep)

lemma keeps_failWith [keep]: "keeps P (failWith why msg)"
  by (simp add: keeps_def failWith_def)

lemma keeps_memory [keep]: "keeps P (on_memory access msg)"
  by (auto simp: keeps_def on_memory_def failBus_def split: prod.split sum.split)

lemma keeps_if [keep]: "(b \<Longrightarrow> keeps P m) \<Longrightarrow> (\<not> b \<Longrightarrow> keeps P m') \<Longrightarrow> keeps P (if b then m else m')"
  by simp

section \<open>The invariant\<close>

definition cpu_inv :: "CpuState \<Rightarrow> bool" where
  "cpu_inv st \<longleftrightarrow> \<not> bit (core_r st 15) 0 \<and> \<not> bit (instruction_address st) 0 \<and> core_r st 13 = activeSp st"

text \<open>Updates of the status register outside the exception number.\<close>

definition same_ipsr :: "u32 \<Rightarrow> u32 \<Rightarrow> bool" where
  "same_ipsr x y \<longleftrightarrow> x AND 0x1ff = y AND 0x1ff"

lemma same_ipsr_refl [simp]: "same_ipsr x x" by (simp add: same_ipsr_def)

lemma same_ipsr_or: "same_ipsr x y \<Longrightarrow> m AND 0x1ff = 0 \<Longrightarrow> same_ipsr (x OR m) y"
  by (simp add: same_ipsr_def bit.conj_disj_distrib2)

lemma same_ipsr_clear: "same_ipsr x y \<Longrightarrow> m AND 0x1ff = 0 \<Longrightarrow> same_ipsr (x AND NOT m) y"
proof -
  assume s: "same_ipsr x y" and m: "m AND 0x1ff = 0"
  have "(x AND NOT m) AND 0x1ff = (x AND 0x1ff) AND NOT (m AND 0x1ff)"
    by (rule bit_word_eqI) (auto simp: bit_simps)
  then show ?thesis using s m by (simp add: same_ipsr_def)
qed

lemma flag_mask [simp]: "m AND 0x1ff = 0 \<Longrightarrow> flag b m AND 0x1ff = 0"
  by (simp add: flag_def)

lemma cpu_inv_xpsr: "cpu_inv st \<Longrightarrow> same_ipsr x (xpsr st) \<Longrightarrow> cpu_inv (st\<lparr>xpsr := x\<rparr>)"
  by (simp add: cpu_inv_def activeSp_def uses_msp_def inHandlerMode_def ipsr_def xpsr_ipsr_mask_def same_ipsr_def)

lemma cpu_inv_fields [simp]:
  "cpu_inv (st\<lparr>halted := h\<rparr>) = cpu_inv st" "cpu_inv (st\<lparr>thumb := b\<rparr>) = cpu_inv st"
  "cpu_inv (st\<lparr>primask := v\<rparr>) = cpu_inv st" "cpu_inv (st\<lparr>faultmask := v\<rparr>) = cpu_inv st"
  "cpu_inv (st\<lparr>basepri := v\<rparr>) = cpu_inv st" "cpu_inv (st\<lparr>fpscr := v\<rparr>) = cpu_inv st"
  "cpu_inv (st\<lparr>pending_exception := e\<rparr>) = cpu_inv st"
  "cpu_inv (st\<lparr>pending_exc_return := p\<rparr>) = cpu_inv st"
  "cpu_inv (st\<lparr>fp_lazy_active := b\<rparr>) = cpu_inv st" "cpu_inv (st\<lparr>it_state := t\<rparr>) = cpu_inv st"
  "cpu_inv (st\<lparr>fp_s := s\<rparr>) = cpu_inv st" "cpu_inv (set_s n v st) = cpu_inv st"
  by (simp_all add: cpu_inv_def activeSp_def uses_msp_def inHandlerMode_def ipsr_def set_s_def)

lemma cpu_inv_write: "cpu_inv st \<Longrightarrow> n \<noteq> 15 \<Longrightarrow> cpu_inv (writeRegister n v st)"
  by (auto simp: cpu_inv_def writeRegister_def set_r_def set_activeSp_def activeSp_def uses_msp_def
      inHandlerMode_def ipsr_def)

lemma cpu_inv_pc: "cpu_inv st \<Longrightarrow> \<not> bit v 0 \<Longrightarrow> cpu_inv (set_r 15 v st)"
  by (simp add: cpu_inv_def set_r_def activeSp_def uses_msp_def inHandlerMode_def ipsr_def)

lemma cpu_inv_lr: "cpu_inv st \<Longrightarrow> cpu_inv (set_r 14 v st)"
  by (simp add: cpu_inv_def set_r_def activeSp_def uses_msp_def inHandlerMode_def ipsr_def)

lemma even_not_1: "\<not> bit (v AND NOT 1 :: u32) 0"
  by (simp add: bit_and_iff bit_not_iff)

lemma it_bits_high: "\<not> bit (u :: u8) 0 \<Longrightarrow> push_bit 8 (ucast u :: u32) AND 0x1ff = 0"
proof -
  assume u: "\<not> bit u 0"
  have m: "(0x1ff :: u32) = mask 9" by (simp add: mask_eq_exp_minus_1)
  have "n < 9 \<Longrightarrow> 8 \<le> n \<Longrightarrow> \<not> bit u (n - 8)" for n :: nat
    using u by (cases "n = 8") simp_all
  then show ?thesis unfolding m by (intro bit_word_eqI) (auto simp: bit_simps)
qed

lemma it_bits_low: "push_bit 25 (ucast (u :: u8) :: u32) AND 0x1ff = 0"
proof -
  have m: "(0x1ff :: u32) = mask 9" by (simp add: mask_eq_exp_minus_1)
  then show ?thesis unfolding m by (intro bit_word_eqI) (auto simp: bit_simps)
qed

lemma cpu_inv_flags:
  assumes "cpu_inv st"
  shows "cpu_inv (setNz v st)" "cpu_inv (setNzc v c st)" "cpu_inv (setNzcv res st)" "cpu_inv (setItState t st)"
proof -
  show nz: "cpu_inv (setNz v st)" unfolding setNz_def
    by (intro cpu_inv_xpsr same_ipsr_or same_ipsr_clear assms) (simp_all add: xpsr_defs bit.conj_disj_distrib2)
  show "cpu_inv (setNzc v c st)" unfolding setNzc_def Let_def
    by (intro cpu_inv_xpsr same_ipsr_or same_ipsr_clear nz) (simp_all add: xpsr_defs bit.conj_disj_distrib2)
  show "cpu_inv (setNzcv res st)" unfolding setNzcv_def
    by (intro cpu_inv_xpsr same_ipsr_or same_ipsr_clear assms) (simp_all add: xpsr_defs bit.conj_disj_distrib2)
  have "setItState t st = (st\<lparr>xpsr := (xpsr st AND NOT xpsr_it_mask)
      OR push_bit 25 (ucast (t AND 0x03) :: u32) OR push_bit 8 (ucast (t AND 0xfc) :: u32)\<rparr>)\<lparr>it_state := t\<rparr>"
    by (simp add: setItState_def)
  moreover have "push_bit 8 (ucast (t AND 0xfc) :: u32) AND 0x1ff = 0"
    by (rule it_bits_high) (simp add: bit_and_iff)
  ultimately show "cpu_inv (setItState t st)"
    by (simp only: cpu_inv_fields)
      (intro cpu_inv_xpsr same_ipsr_or same_ipsr_clear assms,
       simp_all only: bit.conj_disj_distrib2 it_bits_low, simp_all add: xpsr_defs)
qed

lemma cpu_inv_branch: "cpu_inv st \<Longrightarrow> cpu_inv (snd (branchWritePc v st))"
proof -
  assume inv: "cpu_inv st"
  then have "cpu_inv (st\<lparr>thumb := True\<rparr>)" by simp
  then have "cpu_inv (st\<lparr>thumb := True, xpsr := xpsr st OR xpsr_t\<rparr>)"
    by (rule cpu_inv_xpsr) (simp add: same_ipsr_or xpsr_defs)
  from cpu_inv_pc [OF this even_not_1] show ?thesis
    unfolding branchWritePc_def by (cases "v AND 1 = 0") (simp_all add: inv)
qed

lemmas cpu_inv_rules = cpu_inv_write cpu_inv_pc cpu_inv_lr cpu_inv_flags cpu_inv_branch even_not_1

section \<open>Operations that only compute\<close>

lemma cpu_inv_writeAluResult: "cpu_inv st \<Longrightarrow> cpu_inv (writeAluResult d v st)"
  unfolding writeAluResult_def by (cases "d = 15") (simp_all only: if_True if_False cpu_inv_rules simp_thms)

lemma cpu_inv_uadd8: "cpu_inv st \<Longrightarrow> rd i \<noteq> 15 \<Longrightarrow> cpu_inv (alu_uadd8 i st)"
proof -
  assume "cpu_inv st" "rd i \<noteq> 15"
  then have w: "cpu_inv (writeRegister (rd i) v st)" for v by (rule cpu_inv_write)
  show ?thesis unfolding alu_uadd8_def Let_def
    by (intro cpu_inv_xpsr w same_ipsr_or same_ipsr_clear)
      (simp_all add: xpsr_defs upt_rec bit.conj_disj_distrib2)
qed

lemma cpu_inv_vmrs: "cpu_inv st \<Longrightarrow> cpu_inv (alu_vmrs st)"
  unfolding alu_vmrs_def Let_def
  by (intro cpu_inv_xpsr same_ipsr_or same_ipsr_clear)
    (simp_all add: xpsr_defs bit.conj_disj_distrib2 and.assoc)

lemma pc_read_even: "cpu_inv st \<Longrightarrow> \<not> bit (architecturalPcForRead st) 0"
  by (simp add: architecturalPcForRead_def currentInstrAddr_def cpu_inv_def bit_0)

lemma cpu_inv_if: "cpu_inv s \<Longrightarrow> cpu_inv s' \<Longrightarrow> cpu_inv (if b then s else s')"
  by simp

lemma cpu_inv_no_result:
  assumes "cpu_inv st"
  shows "cpu_inv (alu_add i st)" "cpu_inv (alu_compare i st)" "cpu_inv (alu_tst i st)" "cpu_inv (alu_b i st)"
    "cpu_inv (alu_bl i st)" "cpu_inv (alu_compare_branch i st)" "cpu_inv (alu_vcvt i st)"
    "cpu_inv (alu_varith nan i st)" "cpu_inv (alu_vcmp i st)" "cpu_inv (alu_cps i st)"
proof -
  note inv = cpu_inv_if cpu_inv_writeAluResult cpu_inv_rules assms
  show "cpu_inv (alu_add i st)" unfolding alu_add_def Let_def by (intro inv)
  show "cpu_inv (alu_compare i st)" unfolding alu_compare_def Let_def by (intro inv)
  show "cpu_inv (alu_tst i st)" unfolding alu_tst_def Let_def by (intro inv)
  show "cpu_inv (alu_b i st)" unfolding alu_b_def by (intro inv)
  show "cpu_inv (alu_bl i st)" unfolding alu_bl_def Let_def by (intro cpu_inv_pc cpu_inv_lr inv)
  show "cpu_inv (alu_compare_branch i st)" unfolding alu_compare_branch_def Let_def by (intro inv)
qed (simp_all add: alu_vcvt_def alu_varith_def alu_vcmp_def alu_cps_def Let_def assms)

lemma cpu_inv_result:
  assumes "cpu_inv st" "rd i \<noteq> 15"
  shows "cpu_inv (alu_movw i st)" "cpu_inv (alu_movt i st)" "cpu_inv (alu_rsb i st)" "cpu_inv (alu_logic i st)"
    "cpu_inv (alu_mul i st)" "cpu_inv (alu_mla i st)" "cpu_inv (alu_udiv i st)" "cpu_inv (alu_sdiv i st)"
    "cpu_inv (alu_sel i st)" "cpu_inv (alu_clz i st)" "cpu_inv (alu_bfc i st)" "cpu_inv (alu_ubfx i st)"
    "cpu_inv (alu_extend i st)" "cpu_inv (alu_reverse i st)" "cpu_inv (alu_shift i st)"
  using cpu_inv_write [OF assms] cpu_inv_flags [OF cpu_inv_write [OF assms]]
  by (simp_all add: alu_movw_def alu_movt_def alu_rsb_def alu_logic_def alu_mul_def alu_mla_def alu_udiv_def
      alu_sdiv_def alu_sel_def alu_clz_def alu_bfc_def alu_ubfx_def alu_extend_def alu_reverse_def alu_shift_def
      Let_def)

lemma cpu_inv_two_results:
  assumes "cpu_inv st" "rd i \<noteq> 15" "ra i \<noteq> 15"
  shows "cpu_inv (alu_umull i st)" "cpu_inv (alu_smull i st)"
  using assms by (simp_all add: alu_umull_def alu_smull_def Let_def cpu_inv_write)

lemma cpu_inv_vmov:
  "cpu_inv st \<Longrightarrow> (kind i = I_vmov_single_to_core \<longrightarrow> rd i \<noteq> 15) \<Longrightarrow> cpu_inv (alu_vmov i st)"
  by (simp add: alu_vmov_def cpu_inv_write)

lemma alu_keeps_inv:
  assumes i: "wf_instruction i" and f: "alu_of nan i = Some f" and inv: "cpu_inv st"
  shows "cpu_inv (f st)"
proof -
  have "rd i \<noteq> 15 \<or> kind i \<in> {I_mov, I_add, I_cmp, I_cmn, I_tst, I_ldr} \<union> fp_operands"
    "kind i \<in> {I_umull, I_smull} \<Longrightarrow> ra i \<noteq> 15" "kind i = I_vmov_single_to_core \<Longrightarrow> rd i \<noteq> 15"
    using i by (auto simp: wf_instruction_def registers_ok_def)
  then show ?thesis
    using f inv unfolding alu_of_def Let_def fp_operands_def
    by (cases "kind i"; auto simp: cpu_inv_no_result cpu_inv_result cpu_inv_two_results cpu_inv_vmov
        cpu_inv_uadd8 cpu_inv_vmrs)
qed

section \<open>Operations that access memory or can stop\<close>

lemma inv_if:
  "(b \<Longrightarrow> cpu_inv (cpu (snd r))) \<Longrightarrow> (\<not> b \<Longrightarrow> cpu_inv (cpu (snd r'))) \<Longrightarrow>
    cpu_inv (cpu (snd (if b then r else r')))"
  by simp

lemma inv_bind:
  "cpu_inv (cpu c) \<Longrightarrow> keeps cpu_inv m \<Longrightarrow> (\<And>x. keeps cpu_inv (f x)) \<Longrightarrow> cpu_inv (cpu (snd (bindE m f c)))"
  by (rule keepsD [OF keeps_bind])

lemma inv_for:
  "cpu_inv (cpu c) \<Longrightarrow> (\<And>x. keeps cpu_inv (f x)) \<Longrightarrow> cpu_inv (cpu (snd (forE f xs c)))"
  by (rule keepsD [OF keeps_for])

lemma keeps_failInvalid [keep]: "keeps cpu_inv (failInvalid msg)"
  by (simp add: keeps_def failInvalid_def failWith_def)

lemma keeps_load_pc [keep]: "keeps cpu_inv (load_pc v msg)"
proof (rule keepsI)
  fix c :: "'a Core"
  assume inv: "cpu_inv (cpu c)"
  show "cpu_inv (cpu (snd (load_pc v msg c)))"
    using cpu_inv_branch [OF inv, of v] by (simp add: load_pc_def case_prod_beta keepsD [OF keeps_failInvalid inv])
qed

lemma keeps_load_pc_or_return [keep]: "keeps cpu_inv (load_pc_or_return v msg)"
  using keepsD [OF keeps_load_pc] by (auto intro!: keepsI simp: load_pc_or_return_def)

lemma keeps_write [keep]: "n \<noteq> 15 \<Longrightarrow> keeps cpu_inv (on_cpu (writeRegister n v))"
  by (intro keep cpu_inv_write)

lemma keeps_finish_writeback [keep]: "(writeback i \<Longrightarrow> rn i \<noteq> 15) \<Longrightarrow> keeps cpu_inv (finish_writeback i a)"
  unfolding finish_writeback_def by (intro keep) (simp add: cpu_inv_write)

lemma keeps_exec_mov: "keeps cpu_inv (exec_mov i)"
proof (rule keepsI)
  fix c :: "'a Core"
  assume inv: "cpu_inv (cpu c)"
  show "cpu_inv (cpu (snd (exec_mov i c)))"
    using cpu_inv_branch [OF inv] cpu_inv_write [OF inv]
    by (simp add: exec_mov_def Let_def case_prod_beta cpu_inv_flags keepsD [OF keeps_failInvalid inv])
qed

lemma keeps_exec_ldr:
  assumes "writeback i \<Longrightarrow> rn i \<noteq> 15" shows "keeps cpu_inv (exec_ldr env i)"
  by (rule keepsI, unfold exec_ldr_def Let_def, erule inv_bind)
    (rule keep assms cpu_inv_write | assumption)+

lemma keeps_exec_transfer:
  assumes "writeback i \<Longrightarrow> rn i \<noteq> 15" shows "keeps cpu_inv (exec_transfer env i)"
  by (rule keepsI, unfold exec_transfer_def Let_def store_value_def load_value_def, erule inv_bind)
    (rule keep assms cpu_inv_write | assumption)+

lemma keeps_exec_doubleword:
  assumes "writeback i \<Longrightarrow> rn i \<noteq> 15" "kind i = I_ldrd \<longrightarrow> rd i \<noteq> 15 \<and> ra i \<noteq> 15"
  shows "keeps cpu_inv (exec_doubleword env i)"
  by (rule keepsI, unfold exec_doubleword_def Let_def, erule inv_bind)
    (rule keep assms cpu_inv_write assms (2) [THEN mp, THEN conjunct1] assms (2) [THEN mp, THEN conjunct2]
      | assumption)+

lemma keeps_load_listed [keep]: "keeps P (load_listed env ctx l ns a loaded)"
  by (induction ns arbitrary: a loaded) (auto intro!: keep)

lemma keeps_store_listed [keep]: "keeps P (store_listed env ctx l st ns a)"
  by (induction ns arbitrary: a) (auto intro!: keep)

lemma cpu_inv_write_listed: "cpu_inv st \<Longrightarrow> cpu_inv (write_listed l loaded st)"
proof -
  have "list_all (\<lambda>n. n \<noteq> 15) ns \<Longrightarrow> cpu_inv st \<Longrightarrow>
      cpu_inv (foldl (\<lambda>st n. if listed l n then writeRegister n (loaded n) st else st) st ns)" for ns
    by (induction ns arbitrary: st) (simp_all add: cpu_inv_write)
  moreover have "list_all (\<lambda>n. n \<noteq> 15) [0..<15]" by (simp add: list_all_iff)
  moreover assume "cpu_inv st"
  ultimately show ?thesis unfolding write_listed_def by blast
qed

lemma keeps_exec_multiple: "rn i \<noteq> 15 \<Longrightarrow> keeps cpu_inv (exec_multiple env i)"
  unfolding exec_multiple_def [abs_def] Let_def
  by (rule keepsI, rule inv_if; erule inv_bind; intro keep)
    (simp_all add: cpu_inv_write cpu_inv_write_listed)

lemma keeps_exec_bx: "keeps cpu_inv (exec_bx i)"
  unfolding exec_bx_def [abs_def] Let_def
  by (rule keepsI, rule inv_if, simp_all add: cpu_inv_lr keepsD [OF keeps_load_pc])

lemma keeps_exec_table_branch: "keeps cpu_inv (exec_table_branch env i)"
proof -
  have "cpu_inv st \<Longrightarrow> \<not> bit (architecturalPcForRead st + e * 2) 0" for st e
    using pc_read_even [of st] by (simp add: bit_0)
  then show ?thesis
    unfolding exec_table_branch_def [abs_def] Let_def
    by (intro keepsI, elim inv_bind; intro keep cpu_inv_pc; simp)
qed

lemma keeps_exec_vfp_transfer: "keeps cpu_inv (exec_vfp_transfer env i)"
  unfolding exec_vfp_transfer_def [abs_def] Let_def
  by (rule keepsI, erule inv_for, rule keepsI, rule inv_if; erule inv_bind; intro keep; simp)

lemma keeps_exec_vfp_multiple:
  assumes "writeback i \<Longrightarrow> rn i \<noteq> 15" shows "keeps cpu_inv (exec_vfp_multiple env i)"
proof -
  have "keeps cpu_inv (\<lambda>c. if b then bindE (on_memory m msg) (\<lambda>v. on_cpu (set_s n v)) c
      else bindE (on_memory (m' c) msg') (\<lambda>_. returnE ()) c)" for b m msg n msg' and m' :: "'a Core \<Rightarrow> _"
    by (rule keepsI, rule inv_if; erule inv_bind; intro keep; simp)
  with assms show ?thesis
    unfolding exec_vfp_multiple_def [abs_def] Let_def
    by (intro keepsI, elim inv_bind) (intro keep; assumption)+
qed

lemma keeps_exec_mrs: "rd i \<noteq> 15 \<Longrightarrow> keeps cpu_inv (exec_mrs i)"
  unfolding exec_mrs_def [abs_def] Let_def
  by (rule keepsI) (auto simp: on_cpu_def failWith_def cpu_inv_write split: option.split)

lemma keeps_exec_msr: "imm i \<noteq> 20 \<Longrightarrow> keeps cpu_inv (exec_msr i)"
proof (rule keepsI)
  fix c :: "'a Core"
  assume i: "imm i \<noteq> 20" and inv: "cpu_inv (cpu c)"
  have "msr_write (imm i) v st = Some st' \<Longrightarrow> cpu_inv st \<Longrightarrow> cpu_inv st'" for v st st'
    using i by (auto simp: msr_write_def Let_def cpu_inv_def set_r_def activeSp_def uses_msp_def
        inHandlerMode_def ipsr_def split: if_splits)
  then show "cpu_inv (cpu (snd (exec_msr i c)))"
    using inv by (simp add: exec_msr_def failWith_def split: option.split)
qed

lemma keeps_exec_it: "keeps cpu_inv (exec_it i)"
  unfolding exec_it_def [abs_def]
  by (rule keepsI, rule inv_if, simp_all add: on_cpu_def cpu_inv_flags keepsD [OF keeps_failInvalid])

lemma keeps_exec_bkpt: "keeps cpu_inv (exec_bkpt i)"
  by (simp add: exec_bkpt_def keeps_def failWith_def)

lemma keeps_fp_prologue: "keeps cpu_inv (fp_prologue env i)"
proof -
  have "cpu_inv (st\<lparr>control := control st OR 4\<rparr>) = cpu_inv st" for st
  proof -
    have "(control st OR 4) AND 2 = control st AND 2" by (simp add: bit.conj_disj_distrib2)
    then show ?thesis
      by (simp add: cpu_inv_def activeSp_def uses_msp_def inHandlerMode_def ipsr_def)
  qed
  then have "keeps cpu_inv (fp_claim_context env)"
    by (simp add: keeps_def fp_claim_context_def Let_def)
  moreover have lazy: "keeps cpu_inv (fp_lazy_stack env)"
    unfolding fp_lazy_stack_def [abs_def] Let_def
    by (rule keepsI, erule inv_bind; intro keep) simp
  moreover have "keeps cpu_inv (\<lambda>c. if inHandlerMode (cpu c) \<and> fp_lazy_active (cpu c)
      then fp_lazy_stack env c else returnE () c)"
    using lazy by (simp add: keeps_def returnE_def)
  ultimately show ?thesis
    unfolding fp_prologue_def [abs_def]
    by (intro keepsI inv_if inv_bind) (simp_all add: returnE_def keepsD)
qed

lemma exec_other_keeps_inv:
  assumes i: "wf_instruction i" and k: "alu_of nan i = None" and c: "\<not> (kind i = I_msr \<and> imm i = 20)"
  shows "keeps cpu_inv (exec_other env i)"
proof -
  note wf = wf_registers (1) [OF i] wf_results [OF i]
  note groups = keeps_exec_mov keeps_exec_ldr keeps_exec_transfer keeps_exec_doubleword keeps_exec_multiple
    keeps_exec_bx keeps_exec_table_branch keeps_exec_vfp_transfer keeps_exec_vfp_multiple keeps_exec_mrs
    keeps_exec_msr keeps_exec_it keeps_exec_bkpt keeps_failWith
  show ?thesis
    using other_kinds [OF k] wf c unfolding insert_iff empty_iff simp_thms
    by (elim disjE; simp add: exec_other_def Let_def groups)
qed

lemma execute_keeps_inv:
  assumes "wf_instruction i" "\<not> (kind i = I_msr \<and> imm i = 20)" "cpu_inv (cpu c)"
  shows "cpu_inv (cpu (snd (execute env i c)))"
proof -
  have "keeps cpu_inv (exec_instruction env i)"
  proof (cases "alu_of (env_nan env) i")
    case None
    then show ?thesis using exec_other_keeps_inv assms (1,2) by (simp add: exec_instruction_def)
  next
    case (Some f)
    then show ?thesis using alu_keeps_inv [OF assms (1)]
      by (auto simp: exec_instruction_def intro!: keep)
  qed
  then have "cpu_inv (cpu (snd (bindE (fp_prologue env i) (\<lambda>_. exec_instruction env i) c)))"
    by (intro inv_bind assms keeps_fp_prologue)
  then show ?thesis
    by (auto simp: execute_def split: prod.splits sum.splits)
qed

end
