(* ===== verification/Jit_Laws.thy ===== *)
theory Jit_Laws
  imports Jit Stack_Laws Execute_Inv
begin

text \<open>
  The inlined handlers against the executor: a handler that retires an instruction
  leaves the core the executor leaves, but for the two fields of the bus that a bulk
  store advances once instead of word by word; a handler that declines leaves the
  architectural state alone.
\<close>

section \<open>Flags\<close>

lemma and_one_bit:
  assumes "m = push_bit k 1" shows "v AND m = flag (bit v k) (m :: u32)"
proof -
  have "bit m n \<longleftrightarrow> n = k \<and> k < 32" for n
    unfolding assms by (simp only: bit_push_bit_iff bit_1_iff possible_bit_word) auto
  then show ?thesis unfolding flag_def by (intro bit_word_eqI) (auto simp: bit_and_iff)
qed

lemma flag_and_n: "v AND xpsr_n = flag (v AND 0x80000000 \<noteq> 0) xpsr_n"
  using and_one_bit [of xpsr_n 31 v] by (simp only: and_sign) (simp add: xpsr_defs)

lemma flag_if: "(if b then m else 0) = flag b m"
  by (simp add: flag_def)

lemma jitSetNz_eq: "jitSetNz v st = setNz v st"
  unfolding jitSetNz_def setNz_def flag_and_n flag_if by (simp only: or.assoc)

lemma clear_later:
  fixes x a f g c h :: u32
  assumes "f AND c = 0" "g AND c = 0"
  shows "(x AND NOT (a OR b OR c)) OR f OR g OR h = ((x AND NOT (a OR b)) OR f OR g) AND NOT c OR h"
proof -
  have "\<not> (bit f n \<and> bit c n)" "\<not> (bit g n \<and> bit c n)" for n
    using assms by (metis bit_0_eq bit_and_iff bot_apply bot_bool_def)+
  then show ?thesis by (intro bit_word_eqI) (auto simp: bit_simps)
qed

lemma jitSetNzc_eq: "jitSetNzc v carry st = setNzc v carry st"
proof -
  have "flag b xpsr_n AND xpsr_c = 0" "flag b xpsr_z AND xpsr_c = 0" for b
    by (simp_all add: flag_def xpsr_defs)
  note eq = clear_later [OF this, of "xpsr st" xpsr_n xpsr_z "v AND 0x80000000 \<noteq> 0" "v = 0" "flag carry xpsr_c"]
  show ?thesis
    unfolding jitSetNzc_def setNzc_def setNz_def flag_and_n flag_if Let_def using eq by simp
qed

lemma wide_carry:
  fixes x y :: u32 and c :: bool
  defines "w \<equiv> (ucast x :: u64) + ucast y + (if c then 1 else 0)"
  shows "push_bit 29 (ucast (drop_bit 32 w)) = flag (drop_bit 32 w \<noteq> 0) xpsr_c"
proof -
  have two: "0 \<le> k \<Longrightarrow> k < 2 \<Longrightarrow> k = 0 \<or> k = 1" for k :: int by linarith
  have "uint w < 8589934592"
    unfolding w_def addWithCarry_wide using uint_bounds [of x] uint_bounds [of y] by (simp add: carry_int_def)
  then have "uint (drop_bit 32 w) < 2" by (simp add: drop_bit_eq_div uint_div_distrib)
  then have "uint (drop_bit 32 w) = uint (0 :: u64) \<or> uint (drop_bit 32 w) = uint (1 :: u64)"
    using two [OF uint_ge_0] by simp
  then have "drop_bit 32 w = 0 \<or> drop_bit 32 w = 1" by (simp only: word_uint_eq_iff)
  then show ?thesis by (auto simp: flag_def xpsr_defs)
qed

lemma jitAdd_eq:
  "jitAdd x y c flags st =
     (ar_value (addWithCarry x y c), if flags then setNzcv (addWithCarry x y c) st else st)"
proof -
  have "drop_bit 3 v AND xpsr_v = flag (v AND 0x80000000 \<noteq> 0) xpsr_v" for v :: u32
    using and_one_bit [of xpsr_v 28 "drop_bit 3 v"] by (simp only: and_sign) (simp add: xpsr_defs bit_drop_bit_eq)
  then show ?thesis
    unfolding jitAdd_def addWithCarry_def setNzcv_def Let_def wide_carry flag_and_n flag_if
    by (simp only: AddResult.simps)
qed

section \<open>Handlers that compute\<close>

lemma jit_shifted_eq: "form i \<noteq> OF_immediate \<Longrightarrow> jit_shifted i st = shiftedOperand i st"
  by (simp add: jit_shifted_def shiftedOperand_def carryFlag_def)

lemma xpsr_writeRegister [simp]: "xpsr (writeRegister n v st) = xpsr st"
  by (simp add: writeRegister_def set_r_def set_activeSp_def)

lemma write_after_xpsr:
  assumes "same_ipsr x (xpsr st)"
  shows "writeRegister n v (st\<lparr>xpsr := x\<rparr>) = (writeRegister n v st)\<lparr>xpsr := x\<rparr>"
proof -
  have "uses_msp (st\<lparr>xpsr := x\<rparr>) = uses_msp st"
    using assms by (simp add: uses_msp_def inHandlerMode_def ipsr_def xpsr_ipsr_mask_def same_ipsr_def)
  then show ?thesis by (simp add: writeRegister_def set_r_def set_activeSp_def)
qed

lemma write_after_flags: "writeRegister n v (setNzcv res st) = setNzcv res (writeRegister n v st)"
  unfolding setNzcv_def xpsr_writeRegister
  by (rule write_after_xpsr, intro same_ipsr_or same_ipsr_clear same_ipsr_refl)
    (simp_all add: xpsr_defs bit.conj_disj_distrib2)

lemma jit_add_sub_eq:
  assumes "rd i \<noteq> 15"
  shows "kind i \<in> {I_add, I_adc} \<Longrightarrow> form i = OF_immediate \<Longrightarrow> jit_add_sub i JF_add_imm st = alu_add i st"
    "kind i \<in> {I_add, I_adc} \<Longrightarrow> form i = OF_register_value \<Longrightarrow> jit_add_sub i JF_add_reg st = alu_add i st"
    "kind i \<in> {I_sub, I_sbc} \<Longrightarrow> form i = OF_immediate \<Longrightarrow> jit_add_sub i JF_sub_imm st = alu_add i st"
    "kind i \<in> {I_sub, I_sbc} \<Longrightarrow> form i = OF_register_value \<Longrightarrow> jit_add_sub i JF_sub_reg st = alu_add i st"
  using assms unfolding jit_add_sub_def alu_add_def operand2_def Let_def jitAdd_eq writeAluResult_def
  by - (elim insertE emptyE; simp add: shiftedOperand_def jit_shifted_def carryFlag_def write_after_flags)+

lemma jit_compare_eq:
  assumes "kind i \<in> {I_cmp, I_cmn}"
  shows "form i = OF_immediate \<Longrightarrow> jit_compare i JF_cmp_imm st = alu_compare i st"
    "form i = OF_register_value \<Longrightarrow> jit_compare i JF_cmp_reg st = alu_compare i st"
  using assms unfolding jit_compare_def alu_compare_def operand2_def Let_def jitAdd_eq
  by - (elim insertE emptyE; simp add: shiftedOperand_def jit_shifted_def carryFlag_def)+

lemma jit_logic_eq:
  assumes "kind i \<in> {I_and, I_orr, I_eor, I_bic, I_mvn, I_orn}" "form i = OF_register_value"
  shows "jit_logic i st = alu_logic i st"
  using assms unfolding jit_logic_def alu_logic_def Let_def jitSetNzc_eq
  by (elim insertE; simp add: jit_shifted_eq)

lemma jit_rsb_tst_eq:
  assumes "form i = OF_immediate \<or> form i = OF_register_value"
  shows "kind i = I_tst \<Longrightarrow> jit_rsb_tst i st = alu_tst i st" "kind i = I_rsb \<Longrightarrow> jit_rsb_tst i st = alu_rsb i st"
  using assms unfolding jit_rsb_tst_def alu_tst_def alu_rsb_def Let_def jitSetNzc_eq jitAdd_eq operand2_def
  by - (elim disjE; simp add: shiftedOperand_def jit_shifted_def carryFlag_def write_after_flags)+

lemma jit_divide_eq:
  "kind i = I_udiv \<Longrightarrow> jit_divide i st = alu_udiv i st" "kind i = I_sdiv \<Longrightarrow> jit_divide i st = alu_sdiv i st"
  by (simp_all add: jit_divide_def alu_udiv_def alu_sdiv_def Let_def)

lemma jit_long_mul_eq:
  "kind i = I_umull \<Longrightarrow> jit_long_mul i st = alu_umull i st" "kind i = I_smull \<Longrightarrow> jit_long_mul i st = alu_smull i st"
  by (simp_all add: jit_long_mul_def alu_umull_def alu_smull_def Let_def)

lemma jit_single_eq:
  "kind i = I_clz \<Longrightarrow> jit_single i st = alu_clz i st"
  "kind i \<in> {I_rev, I_rev16, I_revsh} \<Longrightarrow> jit_single i st = alu_reverse i st"
  by (auto simp: jit_single_def alu_clz_def alu_reverse_def sign_fill_def Let_def)

lemma jit_uadd8_eq: "jit_uadd8 i st = alu_uadd8 i st"
  by (simp add: jit_uadd8_def alu_uadd8_def uadd8_lane_def Let_def upt_rec)

lemma jit_dsp_eq:
  "kind i = I_bfc \<Longrightarrow> jit_dsp i st = alu_bfc i st" "kind i = I_ubfx \<Longrightarrow> jit_dsp i st = alu_ubfx i st"
  "kind i = I_uadd8 \<Longrightarrow> jit_dsp i st = alu_uadd8 i st" "kind i = I_sel \<Longrightarrow> jit_dsp i st = alu_sel i st"
  by (simp_all add: jit_dsp_def jit_field_def jit_uadd8_eq alu_bfc_def alu_ubfx_def jit_sel_def alu_sel_def Let_def)

lemma jit_extend_eq:
  "kind i \<in> {I_uxtb, I_uxth, I_sxtb, I_sxth} \<Longrightarrow> jit_dsp i st = alu_extend i st"
  by (elim insertE emptyE; simp add: jit_dsp_def jit_extend_def alu_extend_def sign_fill_def Let_def)

lemma jit_simple_eq:
  "jit_mul i st = alu_mul i st" "jit_mla_mls i st = alu_mla i st" "jit_shift i st = alu_shift i st"
  "jit_movt i st = alu_movt i st"
  by (simp_all add: jit_mul_def alu_mul_def jit_mla_mls_def alu_mla_def jit_shift_def alu_shift_def jit_movt_def
      alu_movt_def Let_def jitSetNzc_eq jitSetNz_eq carryFlag_def)

lemma jit_branch_eq:
  assumes "instruction_address st = pc"
  shows "set_r 15 (jit_target pc (branch_offset i)) st = alu_b i st"
    "set_r 15 (jit_target pc (branch_offset i)) (set_r 14 (core_r st 15 OR 1) st) = alu_bl i st"
    "kind i = I_cbz \<Longrightarrow> jit_cb i JF_cbz pc st = alu_compare_branch i st"
    "kind i = I_cbnz \<Longrightarrow> jit_cb i JF_cbnz pc st = alu_compare_branch i st"
  using assms
  by (simp_all add: jit_target_def alu_b_def alu_bl_def branchTarget_def currentInstrAddr_def jit_cb_def
      alu_compare_branch_def architecturalPcForRead_def Let_def set_r_def)

lemma jit_mov_eq:
  assumes "kind i = I_mov" "rd i \<noteq> 15"
  shows "form i = OF_immediate \<Longrightarrow> exec_mov i c = (Inr (), c\<lparr>cpu := jit_mov_imm i (cpu c)\<rparr>)"
    "form i = OF_register_value \<Longrightarrow> exec_mov i c = (Inr (), c\<lparr>cpu := jit_mov_reg i (cpu c)\<rparr>)"
  using assms
  by (simp_all add: exec_mov_def jit_mov_imm_def jit_mov_reg_def Let_def jitSetNzc_eq jit_shifted_eq)
    (simp_all add: shiftedOperand_def carryFlag_def)

lemmas jit_eqs = jit_add_sub_eq jit_compare_eq jit_logic_eq jit_rsb_tst_eq jit_divide_eq jit_long_mul_eq
  jit_single_eq jit_dsp_eq jit_extend_eq jit_simple_eq jit_branch_eq jit_mov_eq

lemmas jit_dispatch = classifyJitFast_def jit_compute_def by_form_def no_pc_operand_def direct_form_def
        exec_instruction_def alu_of_def on_cpu_def exec_other_def alu_movw_def Let_def

lemma jit_compute_exec:
  assumes "instruction_address (cpu c) = pc" "jit_compute i (classifyJitFast i) pc = Some f"
  shows "exec_instruction env i c = (Inr (), c\<lparr>cpu := f (cpu c)\<rparr>)"
  using assms by (cases "kind i"; auto simp: jit_dispatch jit_eqs split: if_splits)

section \<open>Handlers that access memory\<close>

lemma loadWords_seq:
  "readWordsSeq a n ctx bus = Some (vs, bus') \<Longrightarrow> loadWords (\<lambda>a. read32 ops a ctx) a n bus = (Inr vs, bus')"
  by (induction n arbitrary: a bus vs) (auto simp: read32_def split: option.splits)

lemma storeWords_seq:
  "writeWordsSeq a vs ctx False bus = Some bus' \<Longrightarrow> storeWords (\<lambda>a v. write32 ops a v ctx) a vs bus = (Inr (), bus')"
  by (induction vs arbitrary: a bus) (auto simp: write32_def split: option.splits)

lemma bulk_load:
  assumes "wf_bus bus" "tryFastReadWords a n (load_context pc) bus = Some (vs, bus')"
  shows "loadWords (\<lambda>a. read32 ops a (load_context pc)) a n bus = (Inr vs, bus')"
  by (rule loadWords_seq [OF tryFastReadWords_seq [OF assms]]) simp

lemma bulk_store:
  assumes "wf_bus bus" "tryFastWriteWords a vs ctx False bus = Some bus'"
  shows "\<exists>bus''. storeWords (\<lambda>a v. write32 ops a v ctx) a vs bus = (Inr (), bus'') \<and> unlogged bus'' = unlogged bus'"
  using tryFastWriteWords_seq [OF assms] storeWords_seq by blast

lemma jit_contexts: "jit_context False pc = load_context pc" "jit_context True pc = store_context pc"
  by (simp_all add: jit_context_def)

lemma length_bulk_load: "tryFastReadWords a n ctx bus = Some (vs, bus') \<Longrightarrow> length vs = n"
  by (auto simp: tryFastReadWords_def Let_def split: option.splits if_splits)

text \<open>Scattering a word buffer is writing the listed registers from it.\<close>

lemma scatter_foldl:
  assumes "\<forall>k < length (filter (listed l) ns). dense ! (w + k) = f (filter (listed l) ns ! k)"
  shows "scatter l ns w dense st = foldl (\<lambda>st n. if listed l n then writeRegister n (f n) st else st) st ns"
  using assms
proof (induction ns arbitrary: w st)
  case (Cons n ns)
  show ?case
  proof (cases "listed l n")
    case True
    have "dense ! (Suc w + k) = f (filter (listed l) ns ! k)" if "k < length (filter (listed l) ns)" for k
      using Cons.prems [rule_format, of "Suc k"] that True by simp
    moreover have "dense ! w = f n" using Cons.prems [rule_format, of 0] True by simp
    ultimately show ?thesis using Cons.IH [of "Suc w"] True by simp
  qed (use Cons in simp)
qed simp

lemma listed_split: "listed_regs l = filter (listed l) [0..<15] @ (if listed l 15 then [15] else [])"
proof -
  have "[0..<16] = [0..<15] @ [15 :: nat]" by (simp add: upt_rec)
  then show ?thesis by (simp add: listed_regs_def)
qed

lemma scatter_listed:
  assumes "length ws = length (listed_regs l)"
  shows "scatter l [0..<15] 0 (fill16 ws) st = write_listed l (loaded_regs l ws) st"
  unfolding write_listed_def
proof (rule scatter_foldl, intro allI impI)
  fix k assume k: "k < length (filter (listed l) [0..<15])"
  then have "k < length ws" "listed_regs l ! k = filter (listed l) [0..<15] ! k"
    using assms by (simp_all add: listed_split nth_append)
  then show "fill16 ws ! (0 + k) = loaded_regs l ws (filter (listed l) [0..<15] ! k)"
    using loaded_regs_nth [OF assms, of k] by (simp add: fill16_def nth_append)
qed

lemma locate_pc_append:
  "locate_pc l (ns @ ms) w dense v = locate_pc l ms (w + length (filter (listed l) ns)) dense (locate_pc l ns w dense v)"
  by (induction ns arbitrary: w v) simp_all

lemma locate_pc_none: "15 \<notin> set ns \<Longrightarrow> locate_pc l ns w dense v = v"
  by (induction ns arbitrary: w v) auto

lemma locate_pc_last:
  assumes "length ws = length (listed_regs l)" "listed l 15"
  shows "locate_pc l [0..<16] 0 (fill16 ws) 0 = last ws"
proof -
  have "[0..<16] = [0..<15] @ [15 :: nat]" by (simp add: upt_rec)
  then have "locate_pc l [0..<16] 0 (fill16 ws) 0 = fill16 ws ! length (filter (listed l) [0..<15])"
    using assms(2) by (simp add: locate_pc_append locate_pc_none)
  moreover have "length ws = Suc (length (filter (listed l) [0..<15]))" using assms by (simp add: listed_split)
  ultimately show ?thesis by (simp add: fill16_def nth_append last_conv_nth) (metis diff_Suc_1 last_conv_nth length_0_conv nat.simps(3))
qed

definition core_sim :: "'d Core \<Rightarrow> 'd Core \<Rightarrow> bool" where
  "core_sim c c' \<longleftrightarrow> cpu c = cpu c' \<and> diag c = diag c' \<and> unlogged (mem c) = unlogged (mem c')"

lemma core_sim_refl [simp]: "core_sim c c" by (simp add: core_sim_def)

text \<open>What a retiring handler has to match: the executor completes, in the same core.\<close>

definition completes_as :: "(unit, 'd) exec \<Rightarrow> 'd Core \<Rightarrow> 'd Core \<Rightarrow> bool" where
  "completes_as m c c' \<longleftrightarrow> (\<exists>c''. m c = (Inr (), c'') \<and> core_sim c' c'')"

lemma completes_exact: "m c = (Inr (), c') \<Longrightarrow> completes_as m c c'"
  by (auto simp: completes_as_def)

lemma jit_bx_exec:
  assumes "kind i = I_bx" "jit_bx i c = (ok, c')"
  shows "ok \<Longrightarrow> exec_bx i c = (Inr (), c')" "\<not> ok \<Longrightarrow> c' = c"
  using assms by (auto simp: jit_bx_def exec_bx_def load_pc_def Let_def branchWritePc_def split: if_splits)

lemma jit_addresses:
  "jit_base i st = load_base i st" "jit_offset i st = load_offset i st"
  "jit_writeback i a st = (if writeback i then writeRegister (rn i) a st else st)"
  by (simp_all add: jit_base_def load_base_def jit_offset_def load_offset_def jit_shifted_def carryFlag_def
      jit_writeback_def)

lemma context_at: "instruction_address st = pc \<Longrightarrow> data_context s st = (if s then store_context pc else load_context pc)"
  by (simp add: data_context_def currentInstrAddr_def)

lemma jit_word_gpr_exec:
  assumes "instruction_address (cpu c) = pc" "word_gpr_form i" 
  shows "kind i = I_ldr \<Longrightarrow> jit_word_gpr i JF_ldr_word_gpr pc c = (True, c') \<Longrightarrow> exec_ldr env i c = (Inr (), c')"
    "kind i = I_str \<Longrightarrow> jit_word_gpr i JF_str_word_gpr pc c = (True, c') \<Longrightarrow> exec_transfer env i c = (Inr (), c')"
  using assms
  by (auto simp: jit_word_gpr_def word_gpr_form_def exec_ldr_def exec_transfer_def store_value_def isStore_def Let_def access_address_def
      offset_address_def load_base_def load_offset_def readRegister_def context_at jit_contexts read32_def write32_def
      on_memory_def bindE_def returnE_def on_cpu_def finish_writeback_def writeRegister_def split: option.splits)

lemma jit_word_exec:
  assumes "instruction_address (cpu c) = pc" "rd i \<noteq> 15"
  shows "kind i = I_ldr \<Longrightarrow> jit_word i JF_ldr_imm pc c = (True, c') \<Longrightarrow> exec_ldr env i c = (Inr (), c')"
    "kind i = I_str \<Longrightarrow> jit_word i JF_str_imm pc c = (True, c') \<Longrightarrow> exec_transfer env i c = (Inr (), c')"
  using assms
  by (auto simp: jit_word_def exec_ldr_def exec_transfer_def store_value_def isStore_def Let_def access_address_def
      offset_address_def jit_addresses context_at jit_contexts read32_def write32_def
      on_memory_def bindE_def returnE_def on_cpu_def finish_writeback_def split: option.splits)

lemma fast_read_narrow:
  assumes "tryFastRead a sz ctx bus = Some (v, bus')" shows "take_bit (8 * byteCount sz) v = v"
  using assms decode_bounded [OF byteCount_le_8, of sz]
  by (auto simp: tryFastRead_def Let_def split: if_splits option.splits)

lemma narrow_value:
  "take_bit 8 v = v \<Longrightarrow> ucast (ucast (v :: u64) :: u8) = (ucast v :: u32)"
  "take_bit 16 v = v \<Longrightarrow> ucast (ucast (v :: u64) :: u16) = (ucast v :: u32)"
proof -
  have *: "bit v n \<Longrightarrow> n < w" if "take_bit w v = v" for n w using that by (metis bit_take_bit_iff)
  show "take_bit 8 v = v \<Longrightarrow> ucast (ucast v :: u8) = (ucast v :: u32)"
    using * [of 8] by (intro bit_word_eqI) (auto simp: bit_simps)
  show "take_bit 16 v = v \<Longrightarrow> ucast (ucast v :: u16) = (ucast v :: u32)"
    using * [of 16] by (intro bit_word_eqI) (auto simp: bit_simps)
qed

lemma storeChangedByte_narrow:
  "i < 1 \<Longrightarrow> storeChangedByte ri off a (ucast (v :: u32)) ext i bus =
     storeChangedByte ri off a (ucast (ucast v :: u8)) ext i bus"
  "i < 2 \<Longrightarrow> storeChangedByte ri off a (ucast (v :: u32)) ext i bus =
     storeChangedByte ri off a (ucast (ucast v :: u16)) ext i bus"
proof -
  have "i < 1 \<Longrightarrow> (ucast (drop_bit (i * 8) (ucast v :: u64)) :: u8) = ucast (drop_bit (i * 8) (ucast (ucast v :: u8) :: u64))"
    "i < 2 \<Longrightarrow> (ucast (drop_bit (i * 8) (ucast v :: u64)) :: u8) = ucast (drop_bit (i * 8) (ucast (ucast v :: u16) :: u64))"
    by (intro bit_word_eqI; auto simp: bit_simps)+
  then show "i < 1 \<Longrightarrow> storeChangedByte ri off a (ucast (v :: u32)) ext i bus =
     storeChangedByte ri off a (ucast (ucast v :: u8)) ext i bus"
  "i < 2 \<Longrightarrow> storeChangedByte ri off a (ucast (v :: u32)) ext i bus =
     storeChangedByte ri off a (ucast (ucast v :: u16)) ext i bus"
    by (simp_all add: storeChangedByte_def)
qed

lemma fast_write_narrow:
  "tryFastWrite a AS_byte (ucast (v :: u32)) ctx r bus = tryFastWrite a AS_byte (ucast (ucast v :: u8)) ctx r bus"
  "tryFastWrite a AS_halfword (ucast (v :: u32)) ctx r bus = tryFastWrite a AS_halfword (ucast (ucast v :: u16)) ctx r bus"
  by (simp add: tryFastWrite_def Let_def storeChangedByte_narrow(1) split: option.split)
    (simp add: tryFastWrite_def Let_def upt_rec storeChangedByte_narrow(2) split: option.split)

lemma jit_sub_load_exec:
  assumes pc: "instruction_address (cpu c) = pc" and rd: "rd i \<noteq> 15"
    and k: "kind i \<in> {I_ldrb, I_ldrh, I_ldrsb, I_ldrsh}" and j: "jit_sub i JF_ldr_sub pc c = (True, c')"
  shows "exec_transfer env i c = (Inr (), c')"
proof -
  let ?sz = "if kind i = I_ldrb \<or> kind i = I_ldrsb then AS_byte else AS_halfword"
  obtain v bus where v: "tryFastRead (access_address i (cpu c)) ?sz (load_context pc) (mem c) = Some (v, bus)"
    using j by (auto simp: jit_sub_def Let_def jit_addresses access_address_def offset_address_def jit_contexts
        split: option.splits if_splits)
  note narrow_value [of v] fast_read_narrow [OF v]
  then show ?thesis
    using k j v pc rd
    by (elim insertE emptyE; auto simp: jit_sub_def exec_transfer_def load_value_def isStore_def Let_def access_address_def
      offset_address_def jit_addresses context_at jit_contexts read8_def read16_def sign_fill_def
      on_memory_def bindE_def returnE_def on_cpu_def finish_writeback_def split: if_splits)
qed

lemma jit_sub_store_exec:
  assumes pc: "instruction_address (cpu c) = pc"
    and k: "kind i \<in> {I_strb, I_strh}" and j: "jit_sub i JF_str_sub pc c = (True, c')"
  shows "exec_transfer env i c = (Inr (), c')"
  using k j pc
  by (elim insertE emptyE; auto simp: jit_sub_def exec_transfer_def store_value_def isStore_def Let_def access_address_def
      offset_address_def jit_addresses context_at jit_contexts write8_def write16_def fast_write_narrow
      on_memory_def bindE_def returnE_def on_cpu_def finish_writeback_def split: if_splits option.splits)

lemma two_loads:
  assumes "loadWords load a 2 (mem c) = (Inr ws, bus)"
  shows "bindE (on_memory (load a) m1) (\<lambda>v. bindE (on_memory (load (a + 4)) m2) (\<lambda>w. k v w)) c =
    k (ws ! 0) (ws ! 1) (c\<lparr>mem := bus\<rparr>)"
  using assms by (auto simp: numeral_2_eq_2 on_memory_def bindE_def split: prod.splits sum.splits)

lemma two_stores:
  assumes "storeWords store a [v, w] (mem c) = (Inr (), bus)"
  shows "bindE (on_memory (store a v) m1) (\<lambda>_. bindE (on_memory (store (a + 4) w) m2) (\<lambda>_. k)) c =
    k (c\<lparr>mem := bus\<rparr>)"
  using assms by (auto simp: on_memory_def bindE_def split: prod.splits sum.splits)

lemma bindE_assoc: "bindE (bindE m f) g = bindE m (\<lambda>x. bindE (f x) g)"
  by (auto simp: fun_eq_iff bindE_def split: prod.split sum.split)

lemma jit_double_load_exec:
  assumes "instruction_address (cpu c) = pc" "kind i = I_ldrd" "form i = OF_immediate" "wf_bus (mem c)"
    and "jit_double i pc c = (True, c')"
  shows "exec_doubleword env i c = (Inr (), c')"
proof -
  have j: "jit_double i pc c = (case tryFastReadWords (double_address i (cpu c)) 2 (load_context pc) (mem c) of
      None \<Rightarrow> (False, c)
    | Some (ws, bus) \<Rightarrow> (True, c\<lparr>cpu := jit_writeback i (double_offset i (cpu c))
        (writeRegister (ra i) (ws ! 1) (writeRegister (rd i) (ws ! 0) (cpu c))), mem := bus\<rparr>))"
    unfolding jit_double_def Let_def jit_offset_def jit_contexts double_offset_def double_address_def
    using assms(2,3) by simp
  obtain ws bus where ws: "tryFastReadWords (double_address i (cpu c)) 2 (load_context pc) (mem c) = Some (ws, bus)"
    using assms(5) unfolding j by (auto split: option.splits)
  then show ?thesis
    using assms(1,2,5) unfolding j ws
    by (simp add: exec_doubleword_def Let_def context_at bindE_assoc two_loads [OF bulk_load [OF assms(4) ws]])
      (auto simp: jit_addresses bindE_def on_cpu_def finish_writeback_def)
qed

lemma jit_double_store_exec:
  assumes "instruction_address (cpu c) = pc" "kind i = I_strd" "form i = OF_immediate" "wf_bus (mem c)"
    and "jit_double i pc c = (True, c')"
  shows "completes_as (exec_doubleword env i) c c'"
proof -
  let ?vs = "[readRegister (rd i) (cpu c), readRegister (ra i) (cpu c)]"
  have j: "jit_double i pc c = (case tryFastWriteWords (double_address i (cpu c)) ?vs (store_context pc) False (mem c) of
      None \<Rightarrow> (False, c)
    | Some bus \<Rightarrow> (True, c\<lparr>cpu := jit_writeback i (double_offset i (cpu c)) (cpu c), mem := bus\<rparr>))"
    unfolding jit_double_def Let_def jit_offset_def jit_contexts double_offset_def double_address_def
    using assms(2,3) by simp
  obtain bus where ws: "tryFastWriteWords (double_address i (cpu c)) ?vs (store_context pc) False (mem c) = Some bus"
    using assms(5) unfolding j by (auto split: option.splits)
  obtain bus' where "storeWords (\<lambda>a v. write32 (env_devices env) a v (store_context pc))
      (double_address i (cpu c)) ?vs (mem c) = (Inr (), bus')" and u: "unlogged bus' = unlogged bus"
    using bulk_store [OF assms(4) ws] by blast
  note st = two_stores [OF this(1)]
  show ?thesis
    using assms(1,2,5) u unfolding j ws completes_as_def
    by (simp add: exec_doubleword_def Let_def context_at bindE_assoc st)
      (auto simp: jit_addresses bindE_def returnE_def on_cpu_def finish_writeback_def core_sim_def)
qed

lemma exec_multiple_load:
  assumes "kind i \<in> {I_pop, I_ldm}" "instruction_address (cpu c) = pc"
    and "loadWords (\<lambda>a. read32 (env_devices env) a (load_context pc))
      (multiple_start i (popcount16 (register_list i)) (readRegister (rn i) (cpu c)))
      (popcount16 (register_list i)) (mem c) = (Inr vs, bus)"
  shows "exec_multiple env i c =
    bindE (on_cpu (\<lambda>st. jit_writeback i (multiple_final i (popcount16 (register_list i)) (readRegister (rn i) (cpu c)))
        (write_listed (register_list i) (loaded_regs (register_list i) vs) st)))
      (\<lambda>_. if listed (register_list i) 15
            then load_pc_or_return (loaded_regs (register_list i) vs 15) ''POP/LDM selected non-Thumb state''
            else returnE ()) (c\<lparr>mem := bus\<rparr>)"
proof -
  have "load_listed env (load_context pc) (register_list i) [0..<16]
      (multiple_start i (popcount16 (register_list i)) (readRegister (rn i) (cpu c))) (\<lambda>_. 0) c =
      (Inr (loaded_regs (register_list i) vs), c\<lparr>mem := bus\<rparr>)"
    using assms(3) unfolding load_listed_words loaded_regs_def listed_regs_def popcount_listed
    by (simp add: on_memory_def bindE_def returnE_def)
  then show ?thesis
    using assms(1,2) by (auto simp: exec_multiple_def Let_def context_at jit_writeback_def bindE_def)
qed

lemma exec_multiple_store:
  assumes "kind i \<in> {I_push, I_stm}" "instruction_address (cpu c) = pc"
    and "storeWords (\<lambda>a v. write32 (env_devices env) a v (store_context pc))
      (multiple_start i (popcount16 (register_list i)) (readRegister (rn i) (cpu c)))
      (gather (register_list i) (cpu c)) (mem c) = (Inr (), bus)"
  shows "exec_multiple env i c = (Inr (), c\<lparr>mem := bus,
    cpu := jit_writeback i (multiple_final i (popcount16 (register_list i)) (readRegister (rn i) (cpu c))) (cpu c)\<rparr>)"
proof -
  have "store_listed env (store_context pc) (register_list i) (cpu c) [0..<16]
      (multiple_start i (popcount16 (register_list i)) (readRegister (rn i) (cpu c))) c = (Inr (), c\<lparr>mem := bus\<rparr>)"
    using assms(3) unfolding store_listed_words gather_def by (simp add: on_memory_def)
  then show ?thesis
    using assms(1,2) by (auto simp: exec_multiple_def Let_def context_at jit_writeback_def bindE_def on_cpu_def)
qed

lemma jit_start: 
  "(if \<not> add i \<and> index i then b - of_nat n * 4 else b) = multiple_start i n b"
  "(if \<not> add i \<and> index i then multiple_start i n b else b + of_nat n * 4) = multiple_final i n b"
  by (simp_all add: multiple_start_def multiple_final_def decrement_before_def)

abbreviation list_start :: "DecodedInstruction \<Rightarrow> CpuState \<Rightarrow> u32" where
  "list_start i st \<equiv> multiple_start i (popcount16 (register_list i)) (readRegister (rn i) st)"

abbreviation list_final :: "DecodedInstruction \<Rightarrow> CpuState \<Rightarrow> u32" where
  "list_final i st \<equiv> multiple_final i (popcount16 (register_list i)) (readRegister (rn i) st)"

lemma jit_multiple_load_exec:
  assumes "instruction_address (cpu c) = pc" "wf_bus (mem c)" "\<not> listed (register_list i) 15"
    and "fast = JF_push_pop \<and> kind i = I_pop \<or> fast = JF_ldm_stm \<and> kind i = I_ldm"
    and "jit_multiple i fast pc c = (True, c')"
  shows "exec_multiple env i c = (Inr (), c')"
proof -
  have k: "kind i \<in> {I_pop, I_ldm}" using assms(4) by auto
  obtain ws bus where ws: "tryFastReadWords (list_start i (cpu c)) (popcount16 (register_list i)) (load_context pc) (mem c)
      = Some (ws, bus)"
    and c': "c' = c\<lparr>cpu := jit_writeback i (list_final i (cpu c)) (scatter (register_list i) [0..<15] 0 (fill16 ws) (cpu c)),
      mem := bus\<rparr>"
    using assms(4,5) unfolding jit_multiple_def Let_def jit_start jit_contexts by (auto split: if_splits option.splits)
  have "length ws = length (listed_regs (register_list i))"
    using length_bulk_load [OF ws] by (simp add: popcount_listed)
  then show ?thesis
    using assms(3) exec_multiple_load [OF k assms(1) bulk_load [OF assms(2) ws]]
    by (simp add: c' scatter_listed bindE_def on_cpu_def returnE_def)
qed

lemma jit_multiple_store_exec:
  assumes "instruction_address (cpu c) = pc" "wf_bus (mem c)"
    and "fast = JF_push_pop \<and> kind i = I_push \<or> fast = JF_ldm_stm \<and> kind i = I_stm"
    and "jit_multiple i fast pc c = (True, c')"
  shows "completes_as (exec_multiple env i) c c'"
proof -
  have k: "kind i \<in> {I_push, I_stm}" using assms(3) by auto
  obtain bus where ws: "tryFastWriteWords (list_start i (cpu c)) (gather (register_list i) (cpu c)) (store_context pc) False (mem c)
      = Some bus"
    and c': "c' = c\<lparr>cpu := jit_writeback i (list_final i (cpu c)) (cpu c), mem := bus\<rparr>"
    using assms(3,4) unfolding jit_multiple_def Let_def jit_start jit_contexts by (auto split: if_splits option.splits)
  obtain bus' where "storeWords (\<lambda>a v. write32 (env_devices env) a v (store_context pc)) (list_start i (cpu c))
      (gather (register_list i) (cpu c)) (mem c) = (Inr (), bus')" "unlogged bus' = unlogged bus"
    using bulk_store [OF assms(2) ws] by blast
  then show ?thesis
    using exec_multiple_store [OF k assms(1), of env] by (simp add: c' completes_as_def core_sim_def)
qed

lemma jit_pop_pc_exec:
  assumes "instruction_address (cpu c) = pc" "wf_bus (mem c)" "listed (register_list i) 15" "kind i \<in> {I_pop, I_ldm}"
    and "jit_pop_pc i pc c = (True, c')"
  shows "exec_multiple env i c = (Inr (), c')"
proof -
  let ?l = "register_list i"
  obtain ws bus where ws: "tryFastReadWords (list_start i (cpu c)) (popcount16 ?l) (load_context pc) (mem c) = Some (ws, bus)"
    using assms(5) unfolding jit_pop_pc_def Let_def jit_start jit_contexts by (auto split: if_splits option.splits)
  have len: "length ws = length (listed_regs ?l)"
    using length_bulk_load [OF ws] by (simp add: popcount_listed)
  note e = exec_multiple_load [OF assms(4,1) bulk_load [OF assms(2) ws]]
  show ?thesis
    using assms(3,5) unfolding e jit_pop_pc_def Let_def jit_start jit_contexts ws
    by (auto simp: locate_pc_last [OF len] scatter_listed [OF len] loaded_regs_pc [OF len] bindE_def on_cpu_def
        load_pc_or_return_def load_pc_def jit_writeback_def branchWritePc_def split: if_splits)
qed

section \<open>A retiring handler is the executor\<close>

lemma listed_bit: "listed l n \<longleftrightarrow> bit l n"
  by (simp only: listed_def and_pow2_ne_0)

lemma fast_not_fp: "classifyJitFast i \<noteq> JF_generic \<Longrightarrow> \<not> isFpRegisterAccess (kind i)"
  by (cases "kind i"; simp add: classifyJitFast_def isFpRegisterAccess_def)

lemma fast_kinds:
  "classifyJitFast i \<noteq> JF_generic \<Longrightarrow> jit_compute i (classifyJitFast i) pc = None \<Longrightarrow> alu_of nan i = None \<and>
       kind i \<in> {I_bx, I_ldr, I_str, I_ldrb, I_ldrh, I_ldrsb, I_ldrsh, I_strb, I_strh, I_ldrd, I_strd,
         I_push, I_pop, I_ldm, I_stm}"
  by (cases "kind i"; simp add: jit_dispatch split: if_splits)

lemma fast_transfer_exec:
  assumes pc: "instruction_address (cpu c) = pc"
    and k: "kind i \<in> {I_ldr, I_str, I_ldrb, I_ldrh, I_ldrsb, I_ldrsh, I_strb, I_strh}"
    and j: "executeJitFast i (classifyJitFast i) pc c = (True, c')"
  shows "exec_other env i c = (Inr (), c')"
  using k j
    jit_word_gpr_exec [OF pc] jit_word_exec [OF pc] jit_sub_load_exec [OF pc] jit_sub_store_exec [OF pc]
  by (elim insertE emptyE; simp add: executeJitFast_def exec_other_def jit_compute_def classifyJitFast_def split: if_splits)

lemma fast_multiple_exec:
  assumes wf: "wf_instruction i" and pc: "instruction_address (cpu c) = pc" and bus: "wf_bus (mem c)"
    and k: "kind i \<in> {I_push, I_pop, I_ldm, I_stm}"
    and j: "executeJitFast i (classifyJitFast i) pc c = (True, c')"
  shows "completes_as (exec_multiple env i) c c'"
proof (cases "listed (register_list i) 15")
  case True
  then have "kind i \<in> {I_pop, I_ldm}" using k wf_registers (6) [OF wf] by (auto simp: listed_bit)
  then show ?thesis
    using True j jit_pop_pc_exec [OF pc bus True]
    by (elim insertE emptyE; simp add: executeJitFast_def jit_compute_def classifyJitFast_def completes_exact)
next
  case False
  then show ?thesis
    using k j jit_multiple_load_exec [OF pc bus False] jit_multiple_store_exec [OF pc bus]
    by (elim insertE emptyE; simp add: executeJitFast_def jit_compute_def classifyJitFast_def completes_exact)
qed

lemma fast_double_exec:
  assumes wf: "wf_instruction i" and pc: "instruction_address (cpu c) = pc" and bus: "wf_bus (mem c)"
    and k: "kind i \<in> {I_ldrd, I_strd}"
    and j: "executeJitFast i (classifyJitFast i) pc c = (True, c')"
  shows "completes_as (exec_doubleword env i) c c'"
  using k j wf_registers (7) [OF wf] jit_double_load_exec [OF pc _ _ bus] jit_double_store_exec [OF pc _ _ bus]
  by (elim insertE emptyE; simp add: executeJitFast_def jit_compute_def classifyJitFast_def completes_exact direct_form_def)

lemma fast_exec:
  assumes "wf_instruction i" "instruction_address (cpu c) = pc" "wf_bus (mem c)"
    and j: "executeJitFast i (classifyJitFast i) pc c = (True, c')" and fast: "classifyJitFast i \<noteq> JF_generic"
  shows "completes_as (exec_instruction env i) c c'"
proof (cases "jit_compute i (classifyJitFast i) pc")
  case None
  note k = fast_kinds [OF fast None, of "env_nan env"]
  then have "completes_as (exec_other env i) c c'"
  proof (cases "kind i = I_bx")
    case True
    then have "jit_bx i c = (True, c')" using j by (simp add: executeJitFast_def jit_compute_def classifyJitFast_def)
    then show ?thesis using True jit_bx_exec (1) [OF True, of c True c'] by (simp add: exec_other_def completes_exact)
  next
    case False
    then show ?thesis
      using k fast_transfer_exec [OF assms(2) _ j] fast_multiple_exec [OF assms(1-3) _ j] fast_double_exec [OF assms(1-3) _ j]
      by (auto simp: exec_other_def completes_exact)
  qed
  then show ?thesis using k by (simp add: exec_instruction_def)
next
  case (Some f)
  then show ?thesis using j jit_compute_exec [OF assms(2) Some] by (simp add: executeJitFast_def completes_exact)
qed

lemma jit_retires:
  assumes "wf_instruction i" "instruction_address (cpu c) = pc" "wf_bus (mem c)"
    and "executeJitFast i (classifyJitFast i) pc c = (True, c')"
  shows "\<exists>c''. execute env i c = (SR_step_complete, c'') \<and> core_sim c' c''"
proof -
  have fast: "classifyJitFast i \<noteq> JF_generic" using assms(4) by (auto simp: executeJitFast_def jit_compute_def)
  show ?thesis
    using fast_exec [OF assms fast, of env] fast_not_fp [OF fast]
    by (auto simp: execute_def bindE_def fp_prologue_def returnE_def completes_as_def)
qed

lemma fast_declines:
  assumes "executeJitFast i fast pc c = (False, c')"
  shows "cpu c' = cpu c \<and> diag c' = diag c \<and> (fast \<noteq> JF_pop_pc \<longrightarrow> c' = c)"
  using assms
  by (auto simp: executeJitFast_def jit_word_gpr_def jit_word_def jit_sub_def jit_double_def jit_multiple_def
      jit_pop_pc_def jit_bx_def branchWritePc_def Let_def split: option.splits if_splits)

end
