(* ===== verification/Step_Laws.thy ===== *)
theory Step_Laws
  imports Step Jit_Laws
begin

text \<open>
  Laws of the stepper: stepping with the inlined handlers is stepping with the executor,
  what a stop leaves behind, and what a run has retired when it returns.
\<close>

section \<open>Reading twice\<close>

text \<open>A read only adds bits to the footprint, so that noting the same read again changes nothing.\<close>

definition sets_bits :: "(ReadFootprint \<Rightarrow> ReadFootprint) \<Rightarrow> bool" where
  "sets_bits f \<longleftrightarrow> (\<exists>m. \<forall>fp. f fp = fp\<lparr>words := \<lambda>k. words fp k OR m k\<rparr>)"

lemma sets_bits_id: "sets_bits (\<lambda>fp. fp)"
  unfolding sets_bits_def by (intro exI [of _ "\<lambda>_. 0"]) simp

lemma sets_bits_comp: "sets_bits f \<Longrightarrow> sets_bits g \<Longrightarrow> sets_bits (\<lambda>fp. g (f fp))"
  unfolding sets_bits_def
proof (elim exE)
  fix m m' assume "\<forall>fp. f fp = fp\<lparr>words := \<lambda>k. words fp k OR m k\<rparr>" "\<forall>fp. g fp = fp\<lparr>words := \<lambda>k. words fp k OR m' k\<rparr>"
  then show "\<exists>m. \<forall>fp. g (f fp) = fp\<lparr>words := \<lambda>k. words fp k OR m k\<rparr>"
    by (intro exI [of _ "\<lambda>k. m k OR m' k"]) (simp add: or.assoc)
qed

lemma sets_bits_fold: "(\<And>x. sets_bits (f x)) \<Longrightarrow> sets_bits (fold f xs)"
proof (induction xs)
  case Nil
  then show ?case using sets_bits_id by (simp add: id_def)
next
  case (Cons x xs)
  then show ?case using sets_bits_comp [of "f x" "fold f xs"] by (simp add: comp_def)
qed

lemma sets_bits_once: "sets_bits f \<Longrightarrow> f (f fp) = f fp"
  unfolding sets_bits_def by (elim exE) (simp add: or.assoc)

lemma sets_bits_read: "sets_bits (\<lambda>fp. addReadFootprint fp a)"
proof -
  have "sets_bits (\<lambda>fp. footprint_set fp b)" for b
    unfolding sets_bits_def footprint_set_def
    by (intro exI [of _ "(\<lambda>_. 0)(unat (drop_bit 6 b) := push_bit (unat (b AND 63)) 1)"]) (auto simp: fun_eq_iff)
  from sets_bits_comp [OF this this] show ?thesis by (simp add: addReadFootprint_def)
qed

lemma sets_bits_span: "sets_bits (\<lambda>fp. addSpanFootprint fp a w)"
  unfolding addSpanFootprint_def Let_def by (intro sets_bits_fold sets_bits_read)

definition note_bits :: "u32 \<Rightarrow> nat \<Rightarrow> ReadFootprint \<Rightarrow> ReadFootprint" where
  "note_bits a w fp = (if w = 0 then fp else if a AND 3 = 0 \<and> w \<le> 4 then addReadFootprint fp a else addSpanFootprint fp a w)"

lemma sets_bits_note: "sets_bits (note_bits a w)"
  unfolding note_bits_def [abs_def]
  using sets_bits_id sets_bits_read [of a] sets_bits_span [of a w] by (cases "w = 0"; cases "a AND 3 = 0"; cases "w \<le> 4"; simp)

lemma unlogged_note:
  "unlogged (addAccessFootprint a w bus) =
     (unlogged bus)\<lparr>read_footprint := (if read_footprint_tracking bus then note_bits a w (read_footprint bus)
                                      else read_footprint bus)\<rparr>"
  "read_footprint_tracking (addAccessFootprint a w bus) = read_footprint_tracking bus"
  "access_watch_log_enabled (addAccessFootprint a w bus) = access_watch_log_enabled bus"
  "store_footprint_tracking (addAccessFootprint a w bus) = store_footprint_tracking bus"
  "mmioTrapping (addAccessFootprint a w bus) = mmioTrapping bus"
  "read_footprint (addAccessFootprint a w bus) = (if read_footprint_tracking bus then note_bits a w (read_footprint bus)
                                      else read_footprint bus)"
  by (simp_all add: addAccessFootprint_def note_bits_def unlogged_def log_access_def mmioTrapping_def Let_def)

lemma unlogged_notes:
  fixes bus :: "'d MemoryBus" and f :: "'a \<Rightarrow> u32"
  defines "notes \<equiv> fold (\<lambda>w. addAccessFootprint (f w) 4)"
  shows "unlogged (notes ws bus) =
     (unlogged bus)\<lparr>read_footprint := (if read_footprint_tracking bus then fold (\<lambda>w. note_bits (f w) 4) ws (read_footprint bus)
                                      else read_footprint bus)\<rparr>"
    "read_footprint_tracking (notes ws bus) = read_footprint_tracking bus"
    "access_watch_log_enabled (notes ws bus) = access_watch_log_enabled bus"
    "store_footprint_tracking (notes ws bus) = store_footprint_tracking bus"
    "mmioTrapping (notes ws bus) = mmioTrapping bus" "regions (notes ws bus) = regions bus"
    "read_footprint (notes ws bus) = (if read_footprint_tracking bus then fold (\<lambda>w. note_bits (f w) 4) ws (read_footprint bus)
                                      else read_footprint bus)"
  unfolding notes_def by (induction ws arbitrary: bus) (simp_all add: unlogged_note, simp_all add: unlogged_def)

lemma read_words_again:
  assumes "tryFastReadWords a n ctx bus = Some (ws, bus1)"
  shows "\<exists>bus2. tryFastReadWords a n ctx bus1 = Some (ws, bus2) \<and> unlogged bus2 = unlogged bus1"
    "regions bus1 = regions bus" "mmioTrapping bus1 = mmioTrapping bus"
proof -
  let ?notes = "fold (\<lambda>w. addAccessFootprint (a + of_nat (w * 4)) 4) [0..<n]"
  have b: "bus1 = bus \<or> bus1 = ?notes bus" using assms by (auto simp: tryFastReadWords_def Let_def split: option.splits if_splits)
  then show r: "regions bus1 = regions bus" "mmioTrapping bus1 = mmioTrapping bus" by (auto simp: unlogged_notes)
  have f: "find_region bus1 a = find_region bus a" unfolding find_region_def r ..
  have m: "read_footprint_tracking bus1 = read_footprint_tracking bus" "access_watch_log_enabled bus1 = access_watch_log_enabled bus"
    using b by (auto simp: unlogged_notes)
  let ?quiet = "\<not> (read_footprint_tracking bus \<and> ctx_type ctx = AT_data_read \<and> ctx_pc ctx \<noteq> 0)
      \<and> \<not> (access_watch_log_enabled bus \<and> ctx_type ctx = AT_data_read \<and> ctx_pc ctx \<noteq> 0)"
  have e: "tryFastReadWords a n ctx bus1 = map_option (\<lambda>(ws, _). (ws, if ?quiet then bus1 else ?notes bus1)) (tryFastReadWords a n ctx bus)"
    unfolding tryFastReadWords_def f r m Let_def by (auto split: option.split)
  have "bus1 = (if ?quiet then bus else ?notes bus)"
    using assms by (auto simp: tryFastReadWords_def Let_def split: option.splits if_splits)
  moreover have "unlogged (?notes (?notes bus)) = unlogged (?notes bus)"
    by (simp add: unlogged_notes sets_bits_once [OF sets_bits_fold [OF sets_bits_note]])
  ultimately show "\<exists>bus2. tryFastReadWords a n ctx bus1 = Some (ws, bus2) \<and> unlogged bus2 = unlogged bus1"
    unfolding e assms by simp
qed

section \<open>Fetching\<close>

text \<open>What a fetch keeps of the bus.\<close>

definition fetch_keeps :: "'d MemoryBus \<Rightarrow> 'd MemoryBus \<Rightarrow> bool" where
  "fetch_keeps bus bus' \<longleftrightarrow> regions bus' = regions bus \<and> store_footprint_tracking bus' = store_footprint_tracking bus"

lemma fetch_keeps_trans: "fetch_keeps b b' \<Longrightarrow> fetch_keeps b' b'' \<Longrightarrow> fetch_keeps b b''"
  by (simp add: fetch_keeps_def)

lemma fetch_keeps_note [simp]:
  "fetch_keeps bus (note_data_read a w ctx bus)" "fetch_keeps bus (addAccessFootprint a w bus)" "fetch_keeps bus bus"
  by (simp_all add: fetch_keeps_def note_data_read_def unlogged_note)

lemma snd_result: "snd (case q of Inl f \<Rightarrow> (Inl f, b) | Inr v \<Rightarrow> (Inr (g v), b)) = b"
  by (cases q) simp_all

lemma fetch_keeps_mmio [simp]: "fetch_keeps bus (snd (mmio_read ops r a sz ctx bus))"
  by (simp add: fetch_keeps_def mmio_read_def count_mmio_def log_access_def Let_def case_prod_beta snd_result)

lemma fetch_keeps_bus_read: "fetch_keeps bus (snd (bus_read ops a sz ctx d bus))"
proof (induction "9 - d" arbitrary: a d rule: less_induct)
  case less
  have IH: "fetch_keeps bus (snd (bus_read ops x sz ctx (Suc d) bus))" if "\<not> maximum_alias_depth \<le> d" for x
    using that by (intro less) simp
  show ?case by (cases "find_region bus a"; subst bus_read.simps) (simp_all add: Let_def IH)
qed

lemma fetch_keeps_fast: "tryFastRead a sz ctx bus = Some (v, bus') \<Longrightarrow> fetch_keeps bus bus'"
  by (auto simp: tryFastRead_def Let_def split: option.splits if_splits)

lemma fetch_keeps_read16: "read16 ops a ctx bus = (r, bus') \<Longrightarrow> fetch_keeps bus bus'"
  using fetch_keeps_bus_read [of bus ops a AS_halfword ctx 0]
  by (auto simp: read16_def map_value_def Let_def split: option.splits prod.splits sum.splits dest: fetch_keeps_fast)

lemma si_decoded_metadata [simp]: "si_decoded (step_metadata r sz i) = i" "si_jit_fast (step_metadata r sz i) = classifyJitFast i"
  "si_fast_unconditional (step_metadata r sz i) = (condition i = C_al \<and> classifyJitFast i \<noteq> JF_generic)"
  by (simp_all add: step_metadata_def Let_def)

text \<open>A fetched instruction is well formed, and its metadata is that of the decoded instruction.\<close>

lemma fetch_instruction_ok:
  assumes "fetch_instruction env pc c = (Inr si, c')"
  shows "wf_instruction (si_decoded si)" "\<exists>r sz. si = step_metadata r sz (si_decoded si)"
    "cpu c' = cpu c" "diag c' = diag c" "fetch_keeps (mem c) (mem c')"
proof -
  obtain first bus1 low bus2 where f: "read16 (env_devices env) pc (fetch_context pc) (mem c) = (Inr first, bus1)"
    and l: "fetch_second env (is32BitThumbPrefix first) pc bus1 = (Inr low, bus2)"
    and d: "decode_fetched (is32BitThumbPrefix first) pc first low (c\<lparr>mem := bus2\<rparr>) = (Inr si, c')"
    using assms by (auto simp: fetch_instruction_def fetch_fault_def Let_def split: prod.splits sum.splits)
  have "decodes_ok (if is32BitThumbPrefix first then decode32 first low else decode16 first)" using decode16_ok decode32_ok by simp
  with d obtain r sz where "wf_instruction (si_decoded si)" "si = step_metadata r sz (si_decoded si)" and c': "c' = c\<lparr>mem := bus2\<rparr>"
    unfolding decode_fetched_def Let_def by (auto simp del: if_split split: option.splits)
  then show "wf_instruction (si_decoded si)" "\<exists>r sz. si = step_metadata r sz (si_decoded si)" "cpu c' = cpu c" "diag c' = diag c"
    by (simp, blast, simp_all)
  have "fetch_keeps bus1 bus2"
    using l unfolding fetch_second_def by (auto simp: fetch_keeps_note split: if_splits dest: fetch_keeps_read16)
  then show "fetch_keeps (mem c) (mem c')" using fetch_keeps_trans [OF fetch_keeps_read16 [OF f]] c' by simp
qed

section \<open>The inlined handlers do not change what a step does\<close>

text \<open>A declining handler leaves the executor the same instruction to execute.\<close>

lemma declined_exec:
  assumes "wf_instruction i" "instruction_address (cpu c) = pc" "wf_bus (mem c)"
    and "executeJitFast i (classifyJitFast i) pc c = (False, c')"
  shows "fst (execute env i c') = fst (execute env i c) \<and> core_sim (snd (execute env i c')) (snd (execute env i c))"
proof (cases "c' = c")
  case False
  then have "classifyJitFast i = JF_pop_pc" using fast_declines [OF assms(4)] by blast
  then have l: "listed (register_list i) 15" and k: "kind i \<in> {I_pop, I_ldm}"
    using wf_registers (6) [OF assms(1)]
    by (auto simp: classifyJitFast_def by_form_def Let_def listed_bit split: if_splits)
  have "jit_pop_pc i pc c = (False, c')"
    using assms(4) \<open>classifyJitFast i = JF_pop_pc\<close> by (simp add: executeJitFast_def jit_compute_def)
  then obtain ws bus where ws: "tryFastReadWords (list_start i (cpu c)) (popcount16 (register_list i)) (load_context pc) (mem c)
      = Some (ws, bus)" and c': "c' = c\<lparr>mem := bus\<rparr>"
    using False unfolding jit_pop_pc_def Let_def jit_start jit_contexts by (auto split: if_splits option.splits)
  obtain bus2 where again: "tryFastReadWords (list_start i (cpu c)) (popcount16 (register_list i)) (load_context pc) bus = Some (ws, bus2)"
    "unlogged bus2 = unlogged bus" using read_words_again (1) [OF ws] by blast
  have wf': "wf_bus bus" using assms(3) by (rule wf_bus_layout [OF layout_cong [OF read_words_again (2) [OF ws]]])
  note e = exec_multiple_load [OF k assms(2) bulk_load [OF assms(3) ws]]
    exec_multiple_load [OF k, of c' pc env ws bus2, unfolded c', simplified, OF assms(2) bulk_load [OF wf' again(1)]]
  have x: "execute env i d = (case exec_multiple env i d of (Inl why, c') \<Rightarrow> (why, c') | (Inr _, c') \<Rightarrow> (SR_step_complete, c'))" for d
    using k by (elim insertE emptyE; subst execute_other; simp add: alu_of_def isFpRegisterAccess_def exec_other_def Let_def)
  show ?thesis
    using again(2) unfolding x c' e
    by (auto simp: bindE_def on_cpu_def load_pc_or_return_def load_pc_def failInvalid_def failWith_def branchWritePc_def
        returnE_def core_sim_def Let_def)
qed simp


text \<open>Two ways of dispatching an instruction that do the same, up to the access log.\<close>

definition same_step :: "'a \<times> 'd Cortex \<Rightarrow> 'a \<times> 'd Cortex \<Rightarrow> bool" where
  "same_step r s \<longleftrightarrow> fst r = fst s \<and> core_sim (core (snd r)) (core (snd s))"

lemma dispatch_sim:
  assumes "wf_instruction i" "instruction_address (cpu (core y)) = pc" "wf_bus (mem (core y))"
    and "if declined then executeJitFast i (classifyJitFast i) pc (core y) = (False, core x) else core x = core y"
  shows "same_step (dispatch env True False declined i (classifyJitFast i) pc x) (dispatch env False False False i fast pc y)"
proof (cases declined)
  case True
  then show ?thesis
    using assms(4) declined_exec [OF assms(1-3), of "core x" env]
    by (auto simp: dispatch_def same_step_def Let_def case_prod_beta)
next
  case False
  then have c: "core x = core y" using assms(4) by simp
  obtain ok c' where j: "executeJitFast i (classifyJitFast i) pc (core y) = (ok, c')" by fastforce
  show ?thesis
  proof (cases "classifyJitFast i = JF_generic")
    case True
    then show ?thesis using False c by (simp add: dispatch_def same_step_def Let_def case_prod_beta)
  next
    case fast: False
    show ?thesis
    proof (cases ok)
      case True
      then obtain c'' where "execute env i (core y) = (SR_step_complete, c'')" "core_sim c' c''"
        using jit_retires [OF assms(1-3), of c' env] j by auto
      then show ?thesis using True False c fast j by (simp add: dispatch_def same_step_def Let_def)
    next
      case d: False
      then show ?thesis
        using declined_exec [OF assms(1-3), of c' env] False c fast j
        by (simp add: dispatch_def same_step_def Let_def case_prod_beta)
    qed
  qed
qed

lemma dispatch_in_it: 
  "same_step (dispatch env True True False i fast pc y) (dispatch env False True False i fast' pc y)"
  by (simp add: dispatch_def same_step_def Let_def case_prod_beta)


abbreviation entered :: "StepInstruction \<Rightarrow> u32 \<Rightarrow> 'd Cortex \<Rightarrow> 'd Cortex" where
  "entered si pc x \<equiv> x\<lparr>core := (core x)\<lparr>cpu := enter_instruction pc (si_size si) (cpu (core x))\<rparr>\<rparr>"

lemma step_general_cong:
  assumes "cpu (core x) = st" "cpu (core y) = st" "mmioTrapping (mem (core x)) = mmioTrapping (mem (core y))"
    and "condition_passed (si_decoded si) st \<Longrightarrow>
      same_step (dispatch env j (inItBlock (it_state st)) d (it_adjusted (si_decoded si) (inItBlock (it_state st)))
          (si_jit_fast si) pc (entered si pc x))
        (dispatch env j' (inItBlock (it_state st)) d' (it_adjusted (si_decoded si) (inItBlock (it_state st)))
          (si_jit_fast si) pc (entered si pc y))"
    and "\<not> condition_passed (si_decoded si) st \<Longrightarrow> core_sim (core x) (core y)"
  shows "same_step (step_general env j d si pc x) (step_general env j' d' si pc y)"
proof (cases "condition_passed (si_decoded si) st")
  case True
  show ?thesis
    using assms(1-3) assms(4) [OF True] True
    by (auto simp: step_general_def Let_def case_prod_beta same_step_def core_sim_def diagnose_def)
next
  case False
  show ?thesis
    using assms(1-3) assms(5) [OF False] False
    by (auto simp: step_general_def Let_def case_prod_beta same_step_def core_sim_def)
qed


lemma unconditional_passes:
  "condition i = C_al \<Longrightarrow> it_state st = 0 \<Longrightarrow> condition_passed i st" "inItBlock 0 = False" "it_adjusted i False = i"
  by (simp_all add: condition_passed_def effective_condition_def inItBlock_def it_adjusted_def)

lemma declined_trapping:
  "executeJitFast i fast pc c = (False, c') \<Longrightarrow> mmioTrapping (mem c') = mmioTrapping (mem c)"
proof (cases "fast = JF_pop_pc")
  case True
  moreover assume "executeJitFast i fast pc c = (False, c')"
  ultimately show ?thesis
    by (auto simp: executeJitFast_def jit_compute_def jit_pop_pc_def Let_def read_words_again (3) split: if_splits option.splits)
qed (auto dest: fast_declines)

text \<open>The direct path of the unconditional handlers, retired or declined.\<close>

lemma try_unconditional_sim:
  assumes wf: "wf_instruction (si_decoded si)" and bus: "wf_bus (mem (core y))"
    and fast: "si_jit_fast si = classifyJitFast (si_decoded si)" and al: "condition (si_decoded si) = C_al" "it_state (cpu (core y)) = 0"
    and pc: "pc = core_r (cpu (core y)) 15"
  shows "same_step (case try_unconditional si pc y of (Some res, x) \<Rightarrow> (res, x) | (None, x) \<Rightarrow> step_general env True True si pc x)
    (step_general env False False si pc y)"
proof -
  let ?c = "core (entered si pc y)" and ?i = "si_decoded si"
  obtain ok c' where j: "executeJitFast ?i (classifyJitFast ?i) pc ?c = (ok, c')" by fastforce
  have at: "instruction_address (cpu ?c) = pc" "wf_bus (mem ?c)"
    using bus by (simp_all add: enter_instruction_def set_r_def)
  note ps = unconditional_passes (1) [OF al] unconditional_passes (2,3)
  show ?thesis
  proof (cases ok)
    case True
    then obtain c'' where "execute env ?i ?c = (SR_step_complete, c'')" "core_sim c' c''"
      using jit_retires [OF wf at, of c' env] j by auto
    then show ?thesis
      using True j ps al by (simp add: try_unconditional_def step_general_def dispatch_def fast same_step_def Let_def core_sim_def
          finish_it_def fetched_def stopped_def)
  next
    case False
    let ?x = "y\<lparr>core := (core y)\<lparr>mem := mem c'\<rparr>\<rparr>"
    have c': "c' = ?c\<lparr>mem := mem c'\<rparr>" using fast_declines [of ?i _ pc ?c c'] j False by simp
    have "set_r 15 pc ((enter_instruction pc (si_size si) (cpu (core y)))\<lparr>instruction_address := instruction_address (cpu (core y))\<rparr>)
        = cpu (core y)" by (simp add: enter_instruction_def set_r_def pc)
    then have t: "try_unconditional si pc y = (None, ?x)"
      using j False by (subst (asm) c') (simp add: try_unconditional_def fast Let_def)
    have trap: "mmioTrapping (mem c') = mmioTrapping (mem (core y))"
      using declined_trapping j False by fastforce
    have "same_step (step_general env True True si pc ?x) (step_general env False False si pc y)"
    proof (rule step_general_cong [of _ "cpu (core y)"])
      have "core (entered si pc ?x) = c'" by (subst c') simp
      then show "same_step (dispatch env True (inItBlock (it_state (cpu (core y)))) True
            (it_adjusted ?i (inItBlock (it_state (cpu (core y))))) (si_jit_fast si) pc (entered si pc ?x))
          (dispatch env False (inItBlock (it_state (cpu (core y)))) False
            (it_adjusted ?i (inItBlock (it_state (cpu (core y))))) (si_jit_fast si) pc (entered si pc y))"
        unfolding al(2) ps fast using j False by (intro dispatch_sim [OF wf at]) simp_all
    qed (use ps trap in simp_all)
    then show ?thesis unfolding t by simp
  qed
qed


definition running :: "CpuState \<Rightarrow> bool" where
  "running st \<longleftrightarrow> \<not> halted st \<and> thumb st \<and> xpsr st AND xpsr_t \<noteq> 0 \<and> core_r st 15 AND 1 = 0"

lemma step_not_running:
  "\<not> running (cpu (core x)) \<Longrightarrow> stepFastImpl env j d x = stepFastImpl env False False x"
  "fetch_instruction env (core_r (cpu (core x)) 15) (core x) = (Inl res, c) \<Longrightarrow>
    stepFastImpl env j d x = stepFastImpl env False False x"
  by (auto simp: running_def stepFastImpl_def Let_def)

lemma step_running:
  assumes "running (cpu (core x))" "fetch_instruction env (core_r (cpu (core x)) 15) (core x) = (Inr si, c)"
  shows "stepFast env x = step_general env False False si (core_r (cpu (core x)) 15) (x\<lparr>core := c\<rparr>)"
    "stepJitFast env x = (if it_state (cpu c) = 0 \<and> si_fast_unconditional si then
       (case try_unconditional si (core_r (cpu (core x)) 15) (x\<lparr>core := c\<rparr>) of
          (Some res, x) \<Rightarrow> (res, x)
        | (None, y) \<Rightarrow> step_general env True True si (core_r (cpu (core x)) 15) y)
     else step_general env True False si (core_r (cpu (core x)) 15) (x\<lparr>core := c\<rparr>))"
  using assms by (simp_all add: running_def stepFast_def stepJitFast_def stepFastImpl_def Let_def)

lemma stepJitFast_agrees:
  assumes "wf_bus (mem (core x))"
  shows "same_step (stepJitFast env x) (stepFast env x)"
proof -
  let ?pc = "core_r (cpu (core x)) 15"
  consider (stopped) "stepJitFast env x = stepFast env x"
    | (fetched) si c where "running (cpu (core x))" "fetch_instruction env ?pc (core x) = (Inr si, c)"
    using step_not_running unfolding stepFast_def stepJitFast_def by (metis surj_pair sumE)
  then show ?thesis
  proof cases
    case stopped
    then show ?thesis by (simp add: same_step_def)
  next
    case (fetched si c)
    note ok = fetch_instruction_ok [OF fetched(2)]
    have si: "si_jit_fast si = classifyJitFast (si_decoded si)"
      "si_fast_unconditional si \<Longrightarrow> condition (si_decoded si) = C_al"
      using ok(2) by (metis si_decoded_metadata)+
    have bus: "wf_bus (mem c)"
      using ok(5) assms wf_bus_layout [OF layout_cong] unfolding fetch_keeps_def by blast
    show ?thesis
    proof (cases "it_state (cpu c) = 0 \<and> si_fast_unconditional si")
      case True
      then show ?thesis
        unfolding step_running [OF fetched] if_P [OF True] using si ok(3) bus
        by (intro try_unconditional_sim [OF ok(1)]) simp_all
    next
      case False
      let ?in = "inItBlock (it_state (cpu c))" and ?y = "x\<lparr>core := c\<rparr>"
      have "same_step (dispatch env True ?in False (it_adjusted (si_decoded si) ?in) (si_jit_fast si) ?pc (entered si ?pc ?y))
          (dispatch env False ?in False (it_adjusted (si_decoded si) ?in) (si_jit_fast si) ?pc (entered si ?pc ?y))"
        by (cases ?in) (use bus ok(1) si(1) in
          \<open>simp_all add: dispatch_in_it unconditional_passes dispatch_sim enter_instruction_def set_r_def\<close>)
      then show ?thesis
        unfolding step_running [OF fetched] if_not_P [OF False] by (intro step_general_cong [of _ "cpu c"]) simp_all
    qed
  qed
qed

section \<open>Stops, retired instructions and runs\<close>

lemma wf_it_adjusted: "wf_instruction i \<Longrightarrow> wf_instruction (it_adjusted i b)"
proof -
  have "branch_reach (i\<lparr>set_flags := v\<rparr>) = branch_reach i" for v by (simp add: branch_reach_def)
  then show "wf_instruction i \<Longrightarrow> wf_instruction (it_adjusted i b)"
    unfolding it_adjusted_def wf_instruction_def registers_ok_def immediates_ok_def by simp
qed

lemma dispatch_stop:
  assumes "wf_instruction i"
  shows "fst (dispatch env j b d i fast pc x) \<notin> {SR_instruction_budget, SR_halted, SR_undefined_instruction}"
  using execute_stops [OF assms, of env "if j \<and> \<not> b \<and> \<not> d \<and> fast \<noteq> JF_generic then snd (executeJitFast i fast pc (core x)) else core x"]
  by (auto simp: dispatch_def Let_def case_prod_beta)

text \<open>The outcome of \<open>step_general\<close> in terms of the dispatched instruction.\<close>

definition dispatched :: "'d CpuEnv \<Rightarrow> bool \<Rightarrow> bool \<Rightarrow> StepInstruction \<Rightarrow> u32 \<Rightarrow> 'd Cortex \<Rightarrow> StopReason \<times> 'd Cortex" where
  "dispatched env j d si pc x =
     (let was_in_it = inItBlock (it_state (cpu (core x)))
      in if condition_passed (si_decoded si) (cpu (core x))
         then dispatch env j was_in_it d (it_adjusted (si_decoded si) was_in_it) (si_jit_fast si) pc (entered si pc x)
         else (SR_step_complete, entered si pc x))"

definition restarts :: "StepInstruction \<Rightarrow> StopReason \<Rightarrow> 'd Cortex \<Rightarrow> bool" where
  "restarts si stop x \<longleftrightarrow> stop = SR_synchronization_required \<and> si_may_trap si \<and> mmioTrapping (mem (core x))"

lemma step_general_outcome:
  assumes "dispatched env j d si pc x = (stop, y)"
  shows "fs_reason (fst (step_general env j d si pc x)) = stop"
    "fs_instructions (fst (step_general env j d si pc x)) = (if restarts si stop x then 0 else 1)"
    "cpu (core (snd (step_general env j d si pc x))) = (if restarts si stop x then cpu (core x)
       else finish_it (si_decoded si) (inItBlock (it_state (cpu (core x)))) (cpu (core y)))"
    "mem (core (snd (step_general env j d si pc x))) = mem (core y)"
  using assms unfolding dispatched_def Let_def step_general_def restarts_def
  by (simp_all add: case_prod_beta Let_def fetched_def stopped_def diagnose_def finish_it_def it_adjusted_def)

lemma dispatched_stop:
  assumes "wf_instruction (si_decoded si)"
  shows "fst (dispatched env j d si pc x) \<notin> {SR_instruction_budget, SR_halted, SR_undefined_instruction}"
  by (simp add: dispatched_def Let_def dispatch_stop [OF wf_it_adjusted [OF assms], simplified])

lemma step_general_result:
  assumes "wf_instruction (si_decoded si)"
  shows "fs_reason (fst (step_general env j d si pc x)) \<notin> {SR_instruction_budget, SR_halted, SR_undefined_instruction}"
    "fs_instructions (fst (step_general env j d si pc x)) \<le> 1"
    "fs_reason (fst (step_general env j d si pc x)) = SR_step_complete \<longrightarrow> fs_instructions (fst (step_general env j d si pc x)) = 1"
  using dispatched_stop [OF assms, of env j d pc x]
  by (cases "dispatched env j d si pc x"; simp add: step_general_outcome restarts_def)+

lemma step_cases:
  obtains (stopped) "fs_instructions (fst (stepFast env x)) = 0"
      "fs_reason (fst (stepFast env x)) \<in> {SR_halted, SR_invalid_state, SR_bus_fault, SR_undefined_instruction}"
  | (fetched) si c where "running (cpu (core x))" "fetch_instruction env (core_r (cpu (core x)) 15) (core x) = (Inr si, c)"
proof (cases "running (cpu (core x))")
  case False
  then have "fs_instructions (fst (stepFast env x)) = 0" "fs_reason (fst (stepFast env x)) \<in> {SR_halted, SR_invalid_state}"
    by (auto simp: running_def stepFast_def stepFastImpl_def Let_def stopped_def)
  then show ?thesis by (intro stopped) auto
next
  case True
  obtain r c where f: "fetch_instruction env (core_r (cpu (core x)) 15) (core x) = (r, c)" by fastforce
  show ?thesis
  proof (cases r)
    case (Inl res)
    have "fs_instructions res = 0" "fs_reason res \<in> {SR_bus_fault, SR_undefined_instruction}"
      using f Inl by (auto simp: fetch_instruction_def fetch_fault_def decode_fetched_def stopped_def Let_def
          split: prod.splits sum.splits option.splits)
    moreover have "fst (stepFast env x) = res"
      using True f Inl by (simp add: running_def stepFast_def stepFastImpl_def Let_def)
    ultimately show ?thesis by (intro stopped) auto
  next
    case (Inr si)
    then show ?thesis using True f by (intro fetched) simp_all
  qed
qed

lemma step_result:
  "fs_reason (fst (stepFast env x)) \<noteq> SR_instruction_budget"
  "fs_instructions (fst (stepFast env x)) \<le> 1"
  "fs_reason (fst (stepFast env x)) = SR_step_complete \<longrightarrow> fs_instructions (fst (stepFast env x)) = 1"
  by (cases rule: step_cases [of env x];
      auto simp: step_running dest: step_general_result [OF fetch_instruction_ok (1), rotated])+

lemma run_loop_add:
  "run_loop env (m + n) agg one x =
     (case run_loop env m agg one x of
        (Inl r, x) \<Rightarrow> (Inl r, x)
      | (Inr (agg, one), x) \<Rightarrow> run_loop env n agg one x)"
  by (induction m arbitrary: agg one x) (simp_all add: Let_def case_prod_beta)

lemma count_step:
  assumes "(k :: u32) \<le> 1" "unat (v :: u64) + 1 < 2 ^ 64"
  shows "unat (v + ucast k) = unat v + unat k"
proof -
  have "k = 0 \<or> k = 1" using assms(1) by (metis le_less less_one word_less_nat_alt unat_1 unat_eq_zero)
  then show ?thesis using unat_add_no_wrap_64 [of v 1] assms(2) by auto
qed

lemma run_loop_counts:
  assumes "unat (run_instructions agg) + n < 2 ^ 64"
  shows "case run_loop env n agg one x of
      (Inl r, _) \<Rightarrow> run_reason r \<noteq> SR_instruction_budget \<and> unat (run_instructions r) \<le> unat (run_instructions agg) + n
    | (Inr (agg', _), _) \<Rightarrow> run_reason agg' = run_reason agg \<and> unat (run_instructions agg') = unat (run_instructions agg) + n"
  using assms
proof (induction n arbitrary: agg one x)
  case (Suc n)
  obtain res y where s: "stepFast env x = (res, y)" by fastforce
  note r = step_result [of env x, unfolded s fst_conv]
  let ?agg = "agg\<lparr>run_instructions := run_instructions agg + ucast (fs_instructions res),
                    run_cycles := run_cycles agg + ucast (fs_cycles res)\<rparr>"
  have c: "unat (run_instructions ?agg) = unat (run_instructions agg) + unat (fs_instructions res)"
    using count_step [OF r(2)] Suc.prems by simp
  have "unat (fs_instructions res) \<le> 1" using r(2) by (simp add: word_le_nat_alt)
  then show ?case
    using Suc.IH [of ?agg res y] Suc.prems c r s
    by (cases "fs_reason res = SR_step_complete") (auto simp: Let_def split: sum.splits prod.splits)
qed simp

end
