(* ===== verification/Straight_Line.thy ===== *)
theory Straight_Line
  imports Jit_Laws
begin

text \<open>
  Straight-line instructions, the classes \<open>none\<close> and \<open>memory_may_trap\<close> of
  \<open>classifyJitBoundary\<close>: executing one never changes the program counter. The plan of a
  block (\<open>planJitBlock\<close>) is the longest prefix of such instructions, with the branch after
  it when there is one.
\<close>

definition straight :: "DecodedInstruction \<Rightarrow> bool" where
  "straight i \<longleftrightarrow> classifyJitBoundary i \<in> {JB_none, JB_memory_may_trap}"

definition pc_is :: "u32 \<Rightarrow> CpuState \<Rightarrow> bool" where
  "pc_is a st \<longleftrightarrow> core_r st 15 = a"

lemma pc_write: "pc_is a st \<Longrightarrow> n \<noteq> 15 \<Longrightarrow> pc_is a (writeRegister n v st)"
  by (auto simp: pc_is_def writeRegister_def set_r_def set_activeSp_def)

lemma pc_flags:
  "pc_is a (setNz v st) = pc_is a st" "pc_is a (setNzc v c st) = pc_is a st" "pc_is a (setNzcv res st) = pc_is a st"
  by (simp_all add: pc_is_def setNz_def setNzc_def setNzcv_def Let_def)

lemma pc_result:
  assumes "pc_is a st" "rd i \<noteq> 15"
  shows "pc_is a (alu_add i st)" "pc_is a (alu_movw i st)" "pc_is a (alu_movt i st)" "pc_is a (alu_rsb i st)" "pc_is a (alu_logic i st)"
    "pc_is a (alu_mul i st)" "pc_is a (alu_mla i st)" "pc_is a (alu_udiv i st)" "pc_is a (alu_sdiv i st)"
    "pc_is a (alu_sel i st)" "pc_is a (alu_clz i st)" "pc_is a (alu_bfc i st)" "pc_is a (alu_ubfx i st)"
    "pc_is a (alu_extend i st)" "pc_is a (alu_reverse i st)" "pc_is a (alu_shift i st)" "pc_is a (alu_uadd8 i st)"
  using pc_write [OF assms]
  by (simp_all add: pc_flags alu_add_def writeAluResult_def assms(2) alu_movw_def alu_movt_def alu_rsb_def alu_logic_def alu_mul_def alu_mla_def alu_udiv_def
      alu_sdiv_def alu_sel_def alu_clz_def alu_bfc_def alu_ubfx_def alu_extend_def alu_reverse_def alu_shift_def
      alu_uadd8_def Let_def) (simp add: pc_is_def)

lemma pc_no_result:
  assumes "pc_is a st"
  shows "pc_is a (alu_compare i st)" "pc_is a (alu_tst i st)"
  using assms by (simp_all add: alu_compare_def alu_tst_def Let_def pc_flags)

lemma pc_two_results:
  assumes "pc_is a st" "rd i \<noteq> 15" "ra i \<noteq> 15"
  shows "pc_is a (alu_umull i st)" "pc_is a (alu_smull i st)"
  using assms by (simp_all add: alu_umull_def alu_smull_def Let_def pc_write)

lemma straight_rd:
  assumes "straight i" "wf_instruction i" "kind i \<notin> {I_cmp, I_cmn, I_tst}"
  shows "rd i \<noteq> 15"
proof
  assume "rd i = 15"
  then have "kind i \<in> {I_mov, I_add, I_ldr} \<union> fp_operands" using wf_registers(3) [OF assms(2)] assms(3) by auto
  then show False using assms(1) \<open>rd i = 15\<close>
    unfolding fp_operands_def Un_iff insert_iff empty_iff simp_thms
    by (elim disjE; simp add: straight_def classifyJitBoundary_def)
qed

lemma alu_keeps_pc:
  assumes i: "straight i" "wf_instruction i" and f: "alu_of nan i = Some f" and inv: "pc_is a st"
  shows "pc_is a (f st)"
proof -
  have "rd i \<noteq> 15 \<or> kind i \<in> {I_cmp, I_cmn, I_tst}" "kind i \<in> {I_umull, I_smull} \<Longrightarrow> ra i \<noteq> 15"
    using straight_rd [OF i] wf_registers(2) [OF i(2)] by auto
  then show ?thesis
    using f inv i(1) unfolding alu_of_def Let_def straight_def classifyJitBoundary_def
    by (cases "kind i"; auto simp: pc_result pc_no_result pc_two_results)
qed

text \<open>The memory operations, when the program counter is not among their targets.\<close>

lemma keeps_pc_mov: "rd i \<noteq> 15 \<Longrightarrow> keeps (pc_is a) (exec_mov i)"
  by (rule keepsI) (simp add: exec_mov_def Let_def case_prod_beta pc_flags pc_write)

lemma keeps_pc_write: "n \<noteq> 15 \<Longrightarrow> keeps (pc_is a) (on_cpu (writeRegister n v))"
  by (intro keep pc_write)

lemma keeps_pc_writeback: "(writeback i \<Longrightarrow> rn i \<noteq> 15) \<Longrightarrow> keeps (pc_is a) (finish_writeback i v)"
  unfolding finish_writeback_def by (intro keep) (simp add: pc_write)

lemma pc_bind:
  "pc_is a (cpu c) \<Longrightarrow> keeps (pc_is a) m \<Longrightarrow> (\<And>x. keeps (pc_is a) (f x)) \<Longrightarrow> pc_is a (cpu (snd (bindE m f c)))"
  by (rule keepsD [OF keeps_bind])

lemma pc_if:
  "(b \<Longrightarrow> pc_is a (cpu (snd r))) \<Longrightarrow> (\<not> b \<Longrightarrow> pc_is a (cpu (snd r'))) \<Longrightarrow> pc_is a (cpu (snd (if b then r else r')))"
  by simp

lemma keeps_pc_ldr:
  assumes "writeback i \<Longrightarrow> rn i \<noteq> 15" "rd i \<noteq> 15" shows "keeps (pc_is a) (exec_ldr env i)"
  unfolding exec_ldr_def [abs_def] Let_def if_not_P [OF assms(2)]
  by (rule keepsI, erule pc_bind) (rule keep keeps_pc_write keeps_pc_writeback pc_write assms | assumption)+

lemma keeps_pc_transfer:
  assumes "writeback i \<Longrightarrow> rn i \<noteq> 15" "rd i \<noteq> 15" shows "keeps (pc_is a) (exec_transfer env i)"
  unfolding exec_transfer_def [abs_def] Let_def store_value_def load_value_def if_not_P [OF assms(2)]
  by (rule keepsI, erule pc_bind) (rule keep keeps_pc_write keeps_pc_writeback pc_write assms | assumption)+

lemma keeps_pc_doubleword:
  assumes "writeback i \<Longrightarrow> rn i \<noteq> 15" "kind i = I_ldrd \<longrightarrow> rd i \<noteq> 15 \<and> ra i \<noteq> 15"
  shows "keeps (pc_is a) (exec_doubleword env i)"
  unfolding exec_doubleword_def [abs_def] Let_def
  by (rule keepsI, erule pc_bind) (rule keep keeps_pc_write keeps_pc_writeback pc_write assms assms (2) [THEN mp, THEN conjunct1]
      assms (2) [THEN mp, THEN conjunct2] | assumption)+

lemma pc_write_listed: "pc_is a st \<Longrightarrow> pc_is a (write_listed l loaded st)"
proof -
  have "list_all (\<lambda>n. n \<noteq> 15) ns \<Longrightarrow> pc_is a st \<Longrightarrow>
      pc_is a (foldl (\<lambda>st n. if listed l n then writeRegister n (loaded n) st else st) st ns)" for ns
    by (induction ns arbitrary: st) (simp_all add: pc_write)
  moreover have "list_all (\<lambda>n. n \<noteq> 15) [0..<15]" by (simp add: list_all_iff)
  moreover assume "pc_is a st"
  ultimately show ?thesis unfolding write_listed_def by blast
qed

lemma keeps_pc_multiple: "rn i \<noteq> 15 \<Longrightarrow> \<not> listed (register_list i) 15 \<Longrightarrow> keeps (pc_is a) (exec_multiple env i)"
  unfolding exec_multiple_def [abs_def] Let_def
  by (rule keepsI, rule pc_if; erule pc_bind; intro keep)
    (simp_all add: pc_write pc_write_listed)

lemma other_keeps_pc:
  assumes i: "straight i" "wf_instruction i" and k: "alu_of nan i = None"
  shows "keeps (pc_is a) (exec_other env i)"
proof -
  note wf = wf_registers (1) [OF i(2)] wf_results [OF i(2)]
  have rd: "rd i \<noteq> 15 \<or> kind i \<in> {I_cmp, I_cmn, I_tst}" using straight_rd [OF i] by blast
  have l: "kind i \<in> {I_pop, I_ldm} \<Longrightarrow> \<not> listed (register_list i) 15"
    using i(1) by (auto simp: straight_def classifyJitBoundary_def split: if_splits)
  have s: "kind i \<in> {I_push, I_stm} \<Longrightarrow> \<not> listed (register_list i) 15"
    using wf_registers (6) [OF i(2)] by (auto simp: listed_bit)
  note groups = keeps_pc_mov keeps_pc_ldr keeps_pc_transfer keeps_pc_doubleword keeps_pc_multiple keeps_failWith
  show ?thesis
    using other_kinds [OF k] wf rd l s i(1) unfolding insert_iff empty_iff simp_thms
    by (elim disjE; simp add: exec_other_def Let_def groups straight_def classifyJitBoundary_def)
qed

lemma straight_not_fp: "straight i \<Longrightarrow> \<not> isFpRegisterAccess (kind i)"
  by (cases "kind i"; simp add: straight_def classifyJitBoundary_def isFpRegisterAccess_def)

lemma straight_keeps_pc:
  assumes "straight i" "wf_instruction i"
  shows "core_r (cpu (snd (execute env i c))) 15 = core_r (cpu c) 15"
proof -
  have "keeps (pc_is (core_r (cpu c) 15)) (exec_instruction env i)"
  proof (cases "alu_of (env_nan env) i")
    case None
    then show ?thesis using other_keeps_pc [OF assms] by (simp add: exec_instruction_def)
  next
    case (Some f)
    then show ?thesis using alu_keeps_pc [OF assms] by (auto simp: exec_instruction_def intro!: keep)
  qed
  then have "pc_is (core_r (cpu c) 15) (cpu (snd (exec_instruction env i c)))" by (rule keepsD) (simp add: pc_is_def)
  then show ?thesis using straight_not_fp [OF assms(1)]
    by (auto simp: execute_def bindE_def fp_prologue_def returnE_def pc_is_def split: prod.splits sum.splits)
qed

section \<open>Block plans\<close>

text \<open>A plan for a list of instructions that all fit below the limit, in terms of its straight-line prefix.\<close>

lemma plan_from_eq:
  "plan_from is n =
    (let k = length (takeWhile straight is)
     in if k = length is then \<lparr>translated_instructions = n + k, boundary = JB_none, ends_with_branch = False\<rparr>
        else if classifyJitBoundary (is ! k) = JB_control_flow
        then \<lparr>translated_instructions = n + k + 1, boundary = JB_control_flow, ends_with_branch = True\<rparr>
        else \<lparr>translated_instructions = n + k, boundary = classifyJitBoundary (is ! k), ends_with_branch = False\<rparr>)"
  by (induction "is" n rule: plan_from.induct) (auto simp: straight_def Let_def)

lemma plan_cases:
  assumes "p = planJitBlock is n" "k = translated_instructions p" "l = min n (length is)"
  shows "k \<le> l"
    "j < (if ends_with_branch p then k - 1 else k) \<Longrightarrow> straight (is ! j)"
    "case boundary p of
        JB_none \<Rightarrow> k = l \<and> \<not> ends_with_branch p
      | JB_control_flow \<Rightarrow> 0 < k \<and> ends_with_branch p \<and> classifyJitBoundary (is ! (k - 1)) = JB_control_flow
      | b \<Rightarrow> k < l \<and> \<not> ends_with_branch p \<and> \<not> straight (is ! k) \<and> classifyJitBoundary (is ! k) = b" (is ?B)
proof -
  define q where "q = length (takeWhile straight (take n is))"
  have q: "q \<le> l" using length_takeWhile_le [of straight "take n is"] by (simp add: q_def assms(3))
  have s: "j < q \<Longrightarrow> straight (is ! j)" for j
    using set_takeWhileD [OF nth_mem [of j "takeWhile straight (take n is)"]] q by (simp add: q_def takeWhile_nth assms(3))
  have l: "length (take n is) = l" by (simp add: assms(3))
  have i: "q < l \<Longrightarrow> take n is ! q = is ! q" by (simp add: assms(3))
  have e: "\<not> straight (is ! q)" if "q < l"
    using nth_length_takeWhile [of straight "take n is", folded q_def] that by (simp add: i assms(3))
  have p: "p = (if q = l then \<lparr>translated_instructions = q, boundary = JB_none, ends_with_branch = False\<rparr>
        else if classifyJitBoundary (is ! q) = JB_control_flow
        then \<lparr>translated_instructions = q + 1, boundary = JB_control_flow, ends_with_branch = True\<rparr>
        else \<lparr>translated_instructions = q, boundary = classifyJitBoundary (is ! q), ends_with_branch = False\<rparr>)"
    using q i unfolding assms(1) planJitBlock_def plan_from_eq q_def [symmetric] Let_def l by simp
  consider (all) "q = l" | (branch) "q < l" "classifyJitBoundary (is ! q) = JB_control_flow"
    | (stop) "q < l" "classifyJitBoundary (is ! q) \<noteq> JB_control_flow" using q by linarith
  note c = this
  show "k \<le> l" "j < (if ends_with_branch p then k - 1 else k) \<Longrightarrow> straight (is ! j)"
    by (cases rule: c; use p s q assms(2) in simp)+
  show "?B"
  proof (cases rule: c)
    case stop
    then show ?thesis using p e assms(2) by (cases "classifyJitBoundary (is ! q)") (simp_all add: straight_def)
  qed (use p assms(2) in simp_all)
qed

end
