(* ===== verification/Memory_Journal.thy ===== *)
theory Memory_Journal
  imports Memory_Bulk
begin

text \<open>
  The transaction operations of the bus (\<open>sideEffectCheckpoint\<close> to \<open>restoreSideEffects\<close>
  of \<open>src/mem/memory_bus.cpp\<close>), the sequences of accesses between a checkpoint and its
  validation, and what the journal promises over them: restoring gives back the memory of
  the checkpoint, and the two validation predicates are sound.

  A window of the journal is read with sequence numbers below \<open>2\<^sup>6\<^sup>4\<close>; the loops of the
  source would not end on a bus that had journaled \<open>2\<^sup>6\<^sup>4 - 1\<close> bytes.
\<close>

section \<open>Operations\<close>

definition sideEffectCheckpoint :: "'d MemoryBus \<Rightarrow> SideEffectCheckpoint" where
  "sideEffectCheckpoint bus =
     \<lparr>cp_mutation_sequence = mutation_sequence bus, cp_mmio_generation = mmio_generation bus,
      cp_journal_generation = journal_generation bus\<rparr>"

text \<open>The \<open>i\<close>-th journal entry after sequence number \<open>s\<close>.\<close>

definition entry :: "u64 \<Rightarrow> 'd MemoryBus \<Rightarrow> nat \<Rightarrow> BackedMutation" where
  "entry s bus i = mutation_journal bus (journal_slot (s + of_nat (Suc i)))"

definition window_size :: "SideEffectCheckpoint \<Rightarrow> 'd MemoryBus \<Rightarrow> nat" where
  "window_size cp bus = unat (mutation_sequence bus - cp_mutation_sequence cp)"

definition first_for_address :: "u64 \<Rightarrow> 'd MemoryBus \<Rightarrow> nat \<Rightarrow> bool" where
  "first_for_address s bus i \<longleftrightarrow>
     list_all (\<lambda>j. mut_address (entry s bus j) \<noteq> mut_address (entry s bus i)) [0..<i]"

definition only_external :: "u64 \<Rightarrow> 'd MemoryBus \<Rightarrow> nat \<Rightarrow> nat \<Rightarrow> bool" where
  "only_external s bus n i \<longleftrightarrow>
     external (entry s bus i)
     \<and> list_all (\<lambda>j. mut_address (entry s bus j) = mut_address (entry s bus i) \<longrightarrow> external (entry s bus j))
         [Suc i..<n]"

text \<open>A test of the current byte at a journaled address; it fails off backed memory.\<close>

definition entry_holds :: "(u8 \<Rightarrow> bool) \<Rightarrow> BackedMutation \<Rightarrow> 'd MemoryBus \<Rightarrow> bool" where
  "entry_holds P e bus =
     (case region_at bus (mut_address e) of
        None \<Rightarrow> False
      | Some region \<Rightarrow>
          if rkind (info region) = RK_mmio \<or> rkind (info region) = RK_alias then False
          else P (bytes region ! unat (mut_address e - region_base region)))"

definition sideEffectsRestoredSince :: "SideEffectCheckpoint \<Rightarrow> 'd MemoryBus \<Rightarrow> bool" where
  "sideEffectsRestoredSince cp bus =
     (if cp_mmio_generation cp \<noteq> mmio_generation bus
         \<or> cp_journal_generation cp \<noteq> journal_generation bus then False
      else if cp_mutation_sequence cp = mutation_sequence bus then True
      else if \<not> write_journal_tracking bus \<or> cp_mutation_sequence cp > mutation_sequence bus
         \<or> window_size cp bus > mutation_journal_capacity then False
      else list_all (\<lambda>i.
             let current = entry (cp_mutation_sequence cp) bus i
             in first_for_address (cp_mutation_sequence cp) bus i \<longrightarrow>
                entry_holds (\<lambda>byte. byte = old_value current) current bus)
           [0..<window_size cp bus])"

definition sideEffectsCompatibleSince :: "SideEffectCheckpoint \<Rightarrow> ReadFootprint \<Rightarrow> 'd MemoryBus \<Rightarrow> bool" where
  "sideEffectsCompatibleSince cp footprint bus =
     (if cp_mmio_generation cp \<noteq> mmio_generation bus
         \<or> cp_journal_generation cp \<noteq> journal_generation bus then False
      else if cp_mutation_sequence cp = mutation_sequence bus then True
      else if \<not> complete footprint \<or> \<not> write_journal_tracking bus
         \<or> cp_mutation_sequence cp > mutation_sequence bus
         \<or> window_size cp bus > mutation_journal_capacity then False
      else list_all (\<lambda>i.
             let first = entry (cp_mutation_sequence cp) bus i
             in first_for_address (cp_mutation_sequence cp) bus i \<longrightarrow>
                entry_holds (\<lambda>byte. \<not> (byte \<noteq> old_value first
                    \<and> (\<not> only_external (cp_mutation_sequence cp) bus (window_size cp bus) i
                       \<or> footprintContains footprint (mut_address first)))) first bus)
           [0..<window_size cp bus])"

definition canRestoreSideEffects :: "SideEffectCheckpoint \<Rightarrow> 'd MemoryBus \<Rightarrow> bool" where
  "canRestoreSideEffects cp bus =
     (if cp_mmio_generation cp \<noteq> mmio_generation bus
         \<or> cp_journal_generation cp \<noteq> journal_generation bus
         \<or> cp_mutation_sequence cp > mutation_sequence bus then False
      else if cp_mutation_sequence cp = mutation_sequence bus then True
      else write_journal_tracking bus \<and> window_size cp bus \<le> mutation_journal_capacity)"

text \<open>
  The undo loop, newest entry first. It answers whether it completed and whether an
  executable region changed.
\<close>

fun restoreLoop :: "u64 \<Rightarrow> nat \<Rightarrow> bool \<Rightarrow> 'd MemoryBus \<Rightarrow> bool \<times> bool \<times> 'd MemoryBus" where
  "restoreLoop s 0 executable_changed bus = (True, executable_changed, bus)"
| "restoreLoop s (Suc k) executable_changed bus =
     (let mutation = entry s bus k
      in case find_region bus (mut_address mutation) of
        None \<Rightarrow> (False, executable_changed, bus)
      | Some ri \<Rightarrow>
          (let region = regions bus ! ri
           in if rkind (info region) = RK_mmio \<or> rkind (info region) = RK_alias
              then (False, executable_changed, bus)
              else
                (let offset = unat (mut_address mutation - region_base region);
                     bus1 = set_bytes ri ((bytes region)[offset := old_value mutation]) bus;
                     bus2 = bus1\<lparr>mutation_journal := (mutation_journal bus1)
                              (journal_slot (s + of_nat (Suc k)) := empty_mutation)\<rparr>
                 in restoreLoop s k (executable_changed \<or> executable (info region)) bus2)))"

definition restoreSideEffects :: "SideEffectCheckpoint \<Rightarrow> 'd MemoryBus \<Rightarrow> bool \<times> 'd MemoryBus" where
  "restoreSideEffects cp bus =
     (if \<not> canRestoreSideEffects cp bus then (False, bus)
      else case restoreLoop (cp_mutation_sequence cp) (window_size cp bus) False bus of
        (False, _, bus1) \<Rightarrow> (False, bus1)
      | (True, executable_changed, bus1) \<Rightarrow>
          (True,
           bus1\<lparr>mutation_sequence := cp_mutation_sequence cp,
                side_effect_generation := side_effect_generation bus1 + 1,
                execution_generation :=
                  execution_generation bus1 + (if executable_changed then 1 else 0),
                restoration_generation := restoration_generation bus1 + 1\<rparr>))"

section \<open>Sequences of accesses\<close>

text \<open>
  The accesses between two states of the bus, with the number of transfers they make: a
  transfer moves at most eight bytes, so a sized access is one transfer and a bulk store,
  which is a single call, is one for each of its words. Every store a CPU or a debugger
  makes goes through one of these operations.
\<close>

inductive bus_steps :: "'d MmioDevice \<Rightarrow> 'd MemoryBus \<Rightarrow> nat \<Rightarrow> 'd MemoryBus \<Rightarrow> bool"
  for ops :: "'d MmioDevice" and bus0 :: "'d MemoryBus" where
  steps_refl: "bus_steps ops bus0 0 bus0"
| steps_read: "bus_steps ops bus0 n bus \<Longrightarrow> bus_read ops a sz ctx 0 bus = (res, bus') \<Longrightarrow>
    bus_steps ops bus0 (Suc n) bus'"
| steps_write: "bus_steps ops bus0 n bus \<Longrightarrow> bus_write ops a sz v ctx 0 bus = (res, bus') \<Longrightarrow>
    bus_steps ops bus0 (Suc n) bus'"
| steps_fast: "bus_steps ops bus0 n bus \<Longrightarrow> tryFastWrite a sz v ctx req bus = Some bus' \<Longrightarrow>
    bus_steps ops bus0 (Suc n) bus'"
| steps_fast32: "bus_steps ops bus0 n bus \<Longrightarrow> tryFastWrite32 a w ctx req bus = Some bus' \<Longrightarrow>
    bus_steps ops bus0 (Suc n) bus'"
| steps_bulk: "bus_steps ops bus0 n bus \<Longrightarrow> tryFastWriteWords a vs ctx req bus = Some bus' \<Longrightarrow>
    bus_steps ops bus0 (n + length vs) bus'"

section \<open>The journal invariant\<close>

definition undo1 :: "BackedMutation \<Rightarrow> (u32 \<Rightarrow> u8 option) \<Rightarrow> (u32 \<Rightarrow> u8 option)" where
  "undo1 e m = m(mut_address e \<mapsto> old_value e)"

definition window :: "u64 \<Rightarrow> nat \<Rightarrow> 'd MemoryBus \<Rightarrow> BackedMutation list" where
  "window s n bus = map (entry s bus) [0..<n]"

definition undo :: "BackedMutation list \<Rightarrow> (u32 \<Rightarrow> u8 option) \<Rightarrow> (u32 \<Rightarrow> u8 option)" where
  "undo es m = foldr undo1 es m"

text \<open>
  After \<open>n\<close> journaled bytes: the map is the one of the checkpoint, and while the ring has
  not wrapped, undoing the window turns the current memory into the one of the checkpoint.
\<close>

definition journal_inv :: "'d MemoryBus \<Rightarrow> nat \<Rightarrow> 'd MemoryBus \<Rightarrow> bool" where
  "journal_inv bus0 n bus \<longleftrightarrow>
     layout bus = layout bus0 \<and> write_journal_tracking bus
     \<and> journal_generation bus = journal_generation bus0
     \<and> unat (mutation_sequence bus) = unat (mutation_sequence bus0) + n
     \<and> (n \<le> mutation_journal_capacity \<longrightarrow>
          undo (window (mutation_sequence bus0) n bus) (byte_at bus) = byte_at bus0
          \<and> (\<forall>e \<in> set (window (mutation_sequence bus0) n bus). byte_at bus0 (mut_address e) \<noteq> None))"

lemma byte_at_dom_layout:
  assumes "layout bus' = layout bus"
  shows "byte_at bus' a = None \<longleftrightarrow> byte_at bus a = None"
proof (cases "find_region bus a")
  case None
  then show ?thesis using find_region_layout [OF assms] by (simp add: byte_at_def region_at_def)
next
  case (Some i)
  then show ?thesis
    using find_region_layout [OF assms] layout_nth(1) [OF assms find_region_less [OF Some]]
    by (simp add: byte_at_def region_at_def)
qed

lemma journal_slot_window:
  assumes "unat s + i < 18446744073709551615"
  shows "journal_slot (s + of_nat (Suc i)) = (unat s + i) mod mutation_journal_capacity"
proof -
  have "s + of_nat (Suc i) - 1 = s + of_nat i" by simp
  then show ?thesis using unat_add_no_wrap_64 [of s i] assms by (simp add: journal_slot_def)
qed

lemma mod_window:
  assumes "i < j" "j - i < (m :: nat)"
  shows "(b + i) mod m \<noteq> (b + j) mod m"
proof
  assume "(b + i) mod m = (b + j) mod m"
  then have "m dvd (b + j) - (b + i)" using assms(1) mod_eq_dvd_iff_nat [of "b + i" "b + j" m] by simp
  then have "m dvd j - i" by simp
  with assms show False by (simp add: nat_dvd_not_less)
qed

lemma undo_append: "undo (es @ [e]) m = undo es (undo1 e m)"
  by (simp add: undo_def)

text \<open>The same accesses leave the memory and the journal alone, whatever else they change.\<close>

lemma journal_inv_cong:
  assumes "journal_inv bus0 n bus" "regions bus' = regions bus" "mutation_journal bus' = mutation_journal bus"
    and "mutation_sequence bus' = mutation_sequence bus" "write_journal_tracking bus' = write_journal_tracking bus"
    and "journal_generation bus' = journal_generation bus"
  shows "journal_inv bus0 n bus'"
proof -
  have "layout bus' = layout bus" "byte_at bus' = byte_at bus"
    using assms(2) by (auto intro: layout_cong byte_at_regions)
  moreover have "window s k bus' = window s k bus" for s k
    using assms(3) by (simp add: window_def entry_def)
  ultimately show ?thesis using assms(1,4,5,6) by (simp add: journal_inv_def)
qed


text \<open>Storing one changed byte of a backed region journals it.\<close>

lemma byte_at_set_byte:
  assumes wf: "wf_bus bus" and ri: "ri < length (regions bus)" and bk: "backed (rkind (info (regions bus ! ri)))"
    and x: "contains (regions bus ! ri) x"
    and upd: "regions bus' = (regions bus)[ri := (regions bus ! ri)
      \<lparr>bytes := (bytes (regions bus ! ri))[unat (x - region_base (regions bus ! ri)) := b]\<rparr>]"
  shows "byte_at bus' = (byte_at bus)(x \<mapsto> b)"
proof
  fix y
  let ?r = "regions bus ! ri"
  have lt: "unat (y - region_base ?r) < length (bytes ?r)" if "contains ?r y" for y
    using that wf_region_nth [OF wf ri] bk
    by (simp add: wf_region_def contains_def region_end_def unat_sub_le word_le_nat_alt less_diff_conv2)
  have inj: "unat (x - region_base ?r) = unat (y - region_base ?r) \<longleftrightarrow> x = y"
    by (metis diff_eq_eq word_unat_eq_iff add_diff_cancel_left' diff_add_cancel)
  show "byte_at bus' y = ((byte_at bus)(x \<mapsto> b)) y"
    using byte_at_update [OF wf ri upd _ bk, of y] byte_at_found [OF wf ri, of y] bk lt [of y] lt [OF x] x inj
    by (auto simp: nth_list_update)
qed

lemma journal_inv_record:
  assumes inv: "journal_inv bus0 n bus" and no_wrap: "unat (mutation_sequence bus0) + n < 18446744073709551615"
    and old: "byte_at bus x = Some old" and new: "byte_at bus' = (byte_at bus)(x \<mapsto> b)"
    and lay: "layout bus' = layout bus"
    and seq: "mutation_sequence bus' = mutation_sequence bus + 1"
    and jnl: "mutation_journal bus' = (mutation_journal bus)
       (journal_slot (mutation_sequence bus + 1) := \<lparr>mut_address = x, old_value = old, external = ext\<rparr>)"
    and same: "write_journal_tracking bus' = write_journal_tracking bus" "journal_generation bus' = journal_generation bus"
  shows "journal_inv bus0 (Suc n) bus'"
proof -
  let ?s = "mutation_sequence bus0"
  let ?e = "\<lparr>mut_address = x, old_value = old, external = ext\<rparr>"
  have us: "unat (mutation_sequence bus) = unat ?s + n" using inv by (simp add: journal_inv_def)
  have sn: "mutation_sequence bus = ?s + of_nat n"
    using us unat_add_no_wrap_64 [of ?s n] no_wrap by (simp add: word_unat_eq_iff)
  have unat': "unat (mutation_sequence bus') = unat ?s + Suc n"
    using us seq no_wrap unat_add_no_wrap_64 [of "mutation_sequence bus" 1] by simp
  have win: "window ?s (Suc n) bus' = window ?s n bus @ [?e]" if cap: "Suc n \<le> 8192"
  proof -
    have slot: "mutation_sequence bus + 1 = ?s + of_nat (Suc n)" by (simp add: sn)
    have keep: "entry ?s bus' i = entry ?s bus i" if "i < n" for i
    proof -
      have "journal_slot (?s + of_nat (Suc i)) \<noteq> journal_slot (?s + of_nat (Suc n))"
        using journal_slot_window [of ?s i] journal_slot_window [of ?s n] no_wrap that cap
          mod_window [of i n 8192 "unat ?s"] by simp
      then show ?thesis by (simp add: entry_def jnl slot del: of_nat_Suc)
    qed
    have "entry ?s bus' n = ?e" by (simp add: entry_def jnl slot del: of_nat_Suc)
    with keep show ?thesis by (simp add: window_def)
  qed
  have und: "undo1 ?e (byte_at bus') = byte_at bus" using old by (auto simp: undo1_def new)
  have "byte_at bus0 x \<noteq> None"
    using byte_at_dom_layout [of bus0 bus x] inv old by (simp add: journal_inv_def)
  then show ?thesis using inv same lay unat' win und
    by (simp add: journal_inv_def undo_append)
qed


section \<open>Every access keeps the journal invariant\<close>

lemma journal_inv_wf: "wf_bus bus0 \<Longrightarrow> journal_inv bus0 n bus \<Longrightarrow> wf_bus bus"
  by (auto simp: journal_inv_def intro: wf_bus_layout)

lemma storeByte_journal:
  assumes wf: "wf_bus bus0" and inv: "journal_inv bus0 n bus"
    and no_wrap: "unat (mutation_sequence bus0) + n < 18446744073709551615"
    and ri: "ri < length (regions bus)" and bk: "backed (rkind (info (regions bus ! ri)))"
    and x: "contains (regions bus ! ri) (a + of_nat i)"
    and off: "unat (a + of_nat i - region_base (regions bus ! ri)) = offset + i"
  shows "\<exists>n' \<le> Suc n. journal_inv bus0 n' (storeByte ri offset a v ext i bus)"
proof -
  let ?bus = "storeByte ri offset a v ext i bus"
  let ?old = "bytes (regions bus ! ri) ! (offset + i)"
  note wf' = journal_inv_wf [OF wf inv]
  have old: "byte_at bus (a + of_nat i) = Some ?old" using byte_at_found [OF wf' ri x] bk off by simp
  have new: "byte_at ?bus = (byte_at bus)(a + of_nat i \<mapsto> le_byte v i)"
    by (rule byte_at_set_byte [OF wf' ri bk x]) (simp add: storeByte_regions [OF ri] off)
  show ?thesis
  proof (cases "?old = le_byte v i")
    case True
    then have "?bus = bus"
      using ri by (simp add: storeByte_def Let_def le_byte_def) (metis list_update_id set_bytes_same)
    then show ?thesis using inv by (auto intro: exI [of _ n])
  next
    case False
    have trk: "write_journal_tracking bus" using inv by (simp add: journal_inv_def)
    have "journal_inv bus0 (Suc n) ?bus"
      by (rule journal_inv_record [OF inv no_wrap old new storeByte_layout [OF ri]])
        (use False trk in \<open>simp_all add: storeByte_def Let_def le_byte_def recordMutation_def set_bytes_def\<close>)
    then show ?thesis by auto
  qed
qed

lemma storeLoop_journal:
  assumes wf: "wf_bus bus0" and inv: "journal_inv bus0 n bus"
    and no_wrap: "unat (mutation_sequence bus0) + n + w \<le> 18446744073709551615"
    and ri: "ri < length (regions bus)" and bk: "backed (rkind (info (regions bus ! ri)))"
    and rng: "containsRange (regions bus ! ri) a w"
  shows "\<exists>n' \<le> n + w. journal_inv bus0 n'
    (storeLoop ri (unat (a - region_base (regions bus ! ri))) a v ext w bus)"
  using no_wrap rng
proof (induction w)
  case 0
  then show ?case using inv by auto
next
  case (Suc w)
  let ?r = "regions bus ! ri"
  let ?off = "unat (a - region_base ?r)"
  let ?bus = "storeLoop ri ?off a v ext w bus"
  have "containsRange ?r a w" using Suc.prems(2) by (simp add: containsRange_def)
  then obtain n' where n': "n' \<le> n + w" "journal_inv bus0 n' ?bus" using Suc.IH Suc.prems(1) by auto
  have lay: "layout ?bus = layout bus" by (rule storeLoop_layout [OF ri])
  have ri': "ri < length (regions ?bus)" using ri layout_length [OF lay] by simp
  have inf: "info (regions ?bus ! ri) = info ?r" by (rule layout_nth(1) [OF lay ri])
  have fit: "unat (region_base ?r) + unat (region_len ?r) \<le> 2 ^ 32"
    using wf_region_nth [OF journal_inv_wf [OF wf inv] ri] by (simp add: wf_region_def validRange_iff)
  note ro = unat_range_offset [OF Suc.prems(2) _ fit, of w, simplified]
  have "\<exists>m \<le> Suc n'. journal_inv bus0 m (storeByte ri ?off a v ext w ?bus)"
    by (rule storeByte_journal [OF wf n'(2) _ ri'])
      (use n'(1) Suc.prems(1) bk ro inf in \<open>simp_all add: contains_def region_end_def\<close>)
  then obtain m where "m \<le> Suc n'" "journal_inv bus0 m (storeByte ri ?off a v ext w ?bus)" by blast
  then show ?case using n'(1) by (intro exI [of _ m]) (simp add: storeLoop_Suc)
qed

text \<open>The fields of the journal that footprints, logs and counters do not touch.\<close>

definition same_journal :: "'d MemoryBus \<Rightarrow> 'd MemoryBus \<Rightarrow> bool" where
  "same_journal bus bus' \<longleftrightarrow>
     regions bus' = regions bus \<and> mutation_journal bus' = mutation_journal bus
     \<and> mutation_sequence bus' = mutation_sequence bus
     \<and> write_journal_tracking bus' = write_journal_tracking bus
     \<and> journal_generation bus' = journal_generation bus"

lemma journal_inv_same: "journal_inv bus0 n bus \<Longrightarrow> same_journal bus bus' \<Longrightarrow> journal_inv bus0 n bus'"
  unfolding same_journal_def by (elim conjE) (rule journal_inv_cong)

lemma same_journal_simps [simp]:
  "same_journal bus bus"
  "same_journal bus (addStoreFootprint a w ctx bus)"
  "same_journal bus (addAccessFootprint a w bus)"
  "same_journal bus (note_data_read a w ctx bus)"
  "same_journal bus (bump_execution r bus)"
  by (simp_all add: same_journal_def addStoreFootprint_def addAccessFootprint_def log_access_def
      note_data_read_def bump_execution_def Let_def)

lemma mmio_read_same: "same_journal bus (snd (mmio_read ops r a sz ctx bus))"
  by (simp add: mmio_read_def same_journal_def count_mmio_def log_access_def Let_def
      split: prod.splits sum.splits)

lemma mmio_write_same: "same_journal bus (snd (mmio_write ops r a sz v ctx bus))"
  by (simp add: mmio_write_def same_journal_def count_mmio_def log_access_def Let_def split: prod.splits)


text \<open>Device traffic: unchanged devices, or one more counted access.\<close>

definition mmio_step :: "'d MemoryBus \<Rightarrow> 'd MemoryBus \<Rightarrow> bool" where
  "mmio_step bus bus' \<longleftrightarrow>
     (mmio_generation bus' = mmio_generation bus \<and> devices bus' = devices bus)
     \<or> mmio_generation bus' = mmio_generation bus + 1"

lemma mmio_step_simps [simp]:
  "mmio_step bus bus"
  "mmio_step bus (note_data_read a w ctx bus)"
  by (simp_all add: mmio_step_def note_data_read_def addAccessFootprint_def log_access_def Let_def)

lemma mmio_read_step: "mmio_step bus (snd (mmio_read ops r a sz ctx bus))"
  by (simp add: mmio_read_def mmio_step_def count_mmio_def log_access_def Let_def split: prod.splits sum.splits)

lemma mmio_write_step: "mmio_step bus (snd (mmio_write ops r a sz v ctx bus))"
  by (simp add: mmio_write_def mmio_step_def count_mmio_def log_access_def Let_def split: prod.splits)

definition bus_effect :: "'d MemoryBus \<Rightarrow> 'd MemoryBus \<Rightarrow> bool" where
  "bus_effect bus bus' \<longleftrightarrow> same_journal bus bus' \<and> mmio_step bus bus'"

lemma bus_effect_simps [simp]:
  "bus_effect bus bus"
  "bus_effect bus (note_data_read a w ctx bus)"
  "bus_effect bus (snd (mmio_read ops r a sz ctx bus))"
  "bus_effect bus (snd (mmio_write ops r a sz v ctx bus))"
  by (simp_all add: bus_effect_def mmio_read_same mmio_read_step mmio_write_same mmio_write_step)

lemma bus_read_effect: "bus_effect bus (snd (bus_read ops a sz ctx d bus))"
proof (induction "9 - d" arbitrary: a d rule: less_induct)
  case less
  have IH: "bus_effect bus (snd (bus_read ops x sz ctx (Suc d) bus))" if "\<not> maximum_alias_depth \<le> d" for x
    using that by (intro less) simp
  have nd: "(if ctx_type ctx = AT_data_read \<and> ctx_pc ctx \<noteq> 0 then addAccessFootprint a w bus else bus)
      = note_data_read a w ctx bus" for w
    by (simp add: note_data_read_def)
  show ?case
  proof (cases "find_region bus a")
    case None
    then show ?thesis by (subst bus_read.simps) (simp add: Let_def)
  next
    case (Some ri)
    then show ?thesis by (subst bus_read.simps) (simp add: Let_def nd IH)
  qed
qed

lemma storeLoop_mmio [simp]:
  "mmio_generation (storeLoop ri offset a v ext w bus) = mmio_generation bus"
proof (induction w)
  case (Suc w)
  then show ?case by (simp add: storeLoop_Suc storeByte_def recordMutation_def set_bytes_def Let_def)
qed simp

lemma bus_write_backed_fault:
  assumes "find_region bus a = Some ri" "backed (rkind (info (regions bus ! ri)))"
    and "bus_write ops a sz v ctx d bus = (Inl f, bus')"
  shows "bus' = bus"
  using assms(3) assms(1) backed_kinds [OF assms(2)]
  by (subst (asm) bus_write.simps) (auto simp: Let_def split: if_splits)

lemma bus_write_mmio:
  assumes "find_region bus a = Some ri" "rkind (info (regions bus ! ri)) = RK_mmio"
  shows "bus_effect bus (snd (bus_write ops a sz v ctx d bus))"
  using assms by (subst bus_write.simps) (simp add: Let_def)

lemma journal_inv_kept: "journal_inv bus0 n bus \<Longrightarrow> same_journal bus bus' \<Longrightarrow> \<exists>n' \<le> n + k. journal_inv bus0 n' bus'"
  by (rule exI [of _ n]) (auto dest: journal_inv_same)

lemma store_journal:
  assumes wf: "wf_bus bus0" and inv: "journal_inv bus0 n bus"
    and no_wrap: "unat (mutation_sequence bus0) + n + w \<le> 18446744073709551615"
    and ri: "ri < length (regions bus)" and fw: "fast_writable (regions bus ! ri) a w b"
  shows "\<exists>n' \<le> n + w. journal_inv bus0 n' (bump_execution r
      (storeLoop ri (unat (a - region_base (regions bus ! ri))) a v ext w (addStoreFootprint a w' ctx bus)))"
proof -
  have "journal_inv bus0 n (addStoreFootprint a w' ctx bus)" by (rule journal_inv_same [OF inv]) simp
  then have "\<exists>n' \<le> n + w. journal_inv bus0 n'
      (storeLoop ri (unat (a - region_base (regions (addStoreFootprint a w' ctx bus) ! ri))) a v ext w
        (addStoreFootprint a w' ctx bus))"
    by (rule storeLoop_journal [OF wf _ no_wrap]) (use ri fw in \<open>simp_all add: fast_writable_def\<close>)
  then obtain n' where n': "n' \<le> n + w" "journal_inv bus0 n'
      (storeLoop ri (unat (a - region_base (regions bus ! ri))) a v ext w (addStoreFootprint a w' ctx bus))"
    by auto
  show ?thesis using n'(1) journal_inv_same [OF n'(2) same_journal_simps(5)] by blast
qed

lemma bus_write_effect:
  assumes wf: "wf_bus bus0" and inv: "journal_inv bus0 n bus"
    and no_wrap: "unat (mutation_sequence bus0) + n + 8 \<le> 18446744073709551615"
    and w: "bus_write ops a sz v ctx 0 bus = (res, bus')"
  shows "(\<exists>n' \<le> n + 8. journal_inv bus0 n' bus') \<and> mmio_step bus bus'"
proof (cases "resolve bus a (byteCount sz) 0")
  case None
  then have "bus' = bus" using bus_write_unresolved [OF None, of ops v ctx] w by auto
  then show ?thesis using journal_inv_kept [OF inv] by simp
next
  case (Some rt)
  then obtain ri t where rt: "resolve bus a (byteCount sz) 0 = Some (ri, t)" by (cases rt) auto
  have f: "find_region bus t = Some ri" and k: "rkind (info (regions bus ! ri)) \<noteq> RK_alias"
    using resolve_found [OF rt] by auto
  have w': "bus_write ops t sz v ctx 0 bus = (res, bus')" using w bus_write_resolve [OF rt] by simp
  consider "rkind (info (regions bus ! ri)) = RK_mmio" | "backed (rkind (info (regions bus ! ri)))"
    using k by (cases "rkind (info (regions bus ! ri))") (auto simp: backed_def)
  then show ?thesis
  proof cases
    case 1
    have "same_journal bus bus' \<and> mmio_step bus bus'"
      using bus_write_mmio [OF f 1, of ops sz v ctx 0] w' by (simp add: bus_effect_def)
    then show ?thesis using journal_inv_kept [OF inv] by blast
  next
    case 2
    show ?thesis
    proof (cases res)
      case (Inl e)
      then have "bus' = bus" using bus_write_backed_fault [OF f 2] w' by blast
      then show ?thesis using journal_inv_kept [OF inv] by simp
    next
      case (Inr u)
      note rw = resolved_write [OF journal_inv_wf [OF wf inv] rt 2, of ops v ctx u bus']
      have eq: "bus' = bump_execution (regions bus ! ri)
         (storeLoop ri (unat (t - region_base (regions bus ! ri))) t v (ctx_pc ctx = 0) (byteCount sz)
            (addStoreFootprint t (byteCount sz) ctx bus))"
        and fw: "fast_writable (regions bus ! ri) t (byteCount sz) (reversible_ram_only bus)"
        using rw w Inr by auto
      have "\<exists>n' \<le> n + byteCount sz. journal_inv bus0 n' bus'"
        unfolding eq
        by (rule store_journal [OF wf inv _ find_region_less [OF f] fw]) (use no_wrap byteCount_le_8 [of sz] in linarith)
      moreover have "mmio_step bus bus'"
        by (simp add: eq mmio_step_def bump_execution_def addStoreFootprint_def log_access_def Let_def)
      moreover have "n + byteCount sz \<le> n + 8" using byteCount_le_8 by simp
      ultimately show ?thesis by (meson order_trans)
    qed
  qed
qed


lemma storeBackedWord_journal:
  assumes wf: "wf_bus bus0" and inv: "journal_inv bus0 n bus"
    and no_wrap: "unat (mutation_sequence bus0) + n + 4 \<le> 18446744073709551615"
    and ri: "ri < length (regions bus)" and bk: "backed (rkind (info (regions bus ! ri)))"
    and rng: "containsRange (regions bus ! ri) a 4"
    and off: "offset = unat (a - region_base (regions bus ! ri))"
  shows "\<exists>n' \<le> n + 4. journal_inv bus0 n' (storeBackedWord ri offset v ext bus)"
proof -
  have "offset + 4 \<le> length (bytes (regions bus ! ri))"
    using contains_offset [OF journal_inv_wf [OF wf inv] ri bk rng] off by simp
  then have "storeBackedWord ri offset v ext bus = storeLoop ri offset a (ucast v) ext 4 bus"
    by (rule storeBackedWord_eq [OF ri]) (simp add: off)
  then show ?thesis unfolding off by (simp add: storeLoop_journal [OF wf inv no_wrap ri bk rng])
qed

lemma storeWords_journal:
  assumes wf: "wf_bus bus0" and inv: "journal_inv bus0 n bus"
    and ri: "ri < length (regions bus)" and bk: "backed (rkind (info (regions bus ! ri)))"
    and no_wrap: "unat (mutation_sequence bus0) + n + 4 * k \<le> 18446744073709551615"
    and rng: "containsRange (regions bus ! ri) a (4 * k)"
  shows "\<exists>n' \<le> n + 4 * k. journal_inv bus0 n'
    (fold (\<lambda>w. storeBackedWord ri (unat (a - region_base (regions bus ! ri)) + w * 4) (f w) ext) [0..<k] bus)"
  using no_wrap rng
proof (induction k)
  case 0
  then show ?case using inv by auto
next
  case (Suc k)
  let ?r = "regions bus ! ri"
  let ?bus = "fold (\<lambda>w. storeBackedWord ri (unat (a - region_base ?r) + w * 4) (f w) ext) [0..<k] bus"
  have rk: "containsRange ?r a (4 * k)" using Suc.prems(2) by (simp add: containsRange_def)
  have "4 * k \<le> 4 * Suc k" by simp
  then have "unat (mutation_sequence bus0) + n + 4 * k \<le> 18446744073709551615"
    using Suc.prems(1) by linarith
  then obtain n' where n': "n' \<le> n + 4 * k" "journal_inv bus0 n' ?bus" using Suc.IH rk by blast
  have lay: "layout ?bus = layout bus" using n'(2) inv by (simp add: journal_inv_def)
  have ri': "ri < length (regions ?bus)" using ri layout_length [OF lay] by simp
  have inf: "info (regions ?bus ! ri) = info ?r" by (rule layout_nth(1) [OF lay ri])
  have fit: "unat (region_base ?r) + unat (region_len ?r) \<le> 2 ^ 32"
    using wf_region_nth [OF journal_inv_wf [OF wf inv] ri] by (simp add: wf_region_def validRange_iff)
  have lt: "4 * k < 4 * Suc k" by simp
  note ro = unat_range_offset [OF Suc.prems(2) lt fit]
  have c1: "containsRange (regions ?bus ! ri) (a + of_nat (4 * k)) 4"
    using Suc.prems(2) ro(1,2) unfolding containsRange_def contains_def region_end_def inf by simp
  have c2: "unat (a - region_base ?r) + k * 4 = unat (a + of_nat (4 * k) - region_base (regions ?bus ! ri))"
    unfolding inf ro(3) by simp
  have "n' + 4 \<le> n + 4 * Suc k" using n'(1) by simp
  then have cap: "unat (mutation_sequence bus0) + n' + 4 \<le> 18446744073709551615"
    using Suc.prems(1) by linarith
  have "\<exists>m \<le> n' + 4. journal_inv bus0 m
      (storeBackedWord ri (unat (a - region_base ?r) + k * 4) (f k) ext ?bus)"
    by (rule storeBackedWord_journal [OF wf n'(2) cap ri' _ c1 c2]) (simp add: inf bk)
  then obtain m where "m \<le> n' + 4"
    "journal_inv bus0 m (storeBackedWord ri (unat (a - region_base ?r) + k * 4) (f k) ext ?bus)" by blast
  moreover have "n' + 4 \<le> n + 4 * Suc k" by fact
  ultimately show ?case by (intro exI [of _ m]) simp
qed

section \<open>Reachable states\<close>

definition steps_inv :: "'d MemoryBus \<Rightarrow> nat \<Rightarrow> 'd MemoryBus \<Rightarrow> bool" where
  "steps_inv bus0 k bus \<longleftrightarrow>
     (\<exists>n \<le> 8 * k. journal_inv bus0 n bus)
     \<and> (\<exists>m \<le> k. mmio_generation bus = mmio_generation bus0 + of_nat m \<and> (m = 0 \<longrightarrow> devices bus = devices bus0))"

lemma mmio_count_step:
  assumes "m \<le> k" "mmio_generation bus = mmio_generation bus0 + of_nat m" "m = 0 \<longrightarrow> devices bus = devices bus0"
    and "mmio_step bus bus'"
  shows "\<exists>m' \<le> Suc k. mmio_generation bus' = mmio_generation bus0 + of_nat m' \<and> (m' = 0 \<longrightarrow> devices bus' = devices bus0)"
  using assms(4) unfolding mmio_step_def
proof
  assume "mmio_generation bus' = mmio_generation bus \<and> devices bus' = devices bus"
  then show ?thesis using assms(1-3) by (intro exI [of _ m]) simp
next
  assume "mmio_generation bus' = mmio_generation bus + 1"
  then show ?thesis using assms(1,2) by (intro exI [of _ "Suc m"]) simp
qed

lemma steps_inv_step:
  assumes inv: "steps_inv bus0 k bus" and mm: "mmio_step bus bus'"
    and st: "\<And>n. n \<le> 8 * k \<Longrightarrow> journal_inv bus0 n bus \<Longrightarrow> \<exists>n' \<le> n + 8. journal_inv bus0 n' bus'"
  shows "steps_inv bus0 (Suc k) bus'"
proof -
  obtain n where n: "n \<le> 8 * k" "journal_inv bus0 n bus" using inv by (auto simp: steps_inv_def)
  obtain n' where "n' \<le> n + 8" "journal_inv bus0 n' bus'" using st [OF n] by blast
  then have j: "\<exists>n \<le> 8 * Suc k. journal_inv bus0 n bus'" using n(1) by (intro exI [of _ n']) simp
  obtain m where "m \<le> k" "mmio_generation bus = mmio_generation bus0 + of_nat m"
    "m = 0 \<longrightarrow> devices bus = devices bus0" using inv by (auto simp: steps_inv_def)
  from mmio_count_step [OF this mm] j show ?thesis by (simp only: steps_inv_def simp_thms)
qed

lemma steps_inv_wf: "wf_bus bus0 \<Longrightarrow> steps_inv bus0 k bus \<Longrightarrow> wf_bus bus"
  by (auto simp: steps_inv_def dest: journal_inv_wf)

lemma steps_inv_write:
  assumes wf: "wf_bus bus0" and inv: "steps_inv bus0 k bus"
    and no_wrap: "unat (mutation_sequence bus0) + 8 * Suc k \<le> 18446744073709551615"
    and w: "bus_write ops a sz v ctx 0 bus = (res, bus')"
  shows "steps_inv bus0 (Suc k) bus'"
proof -
  have eff: "(\<exists>m' \<le> m + 8. journal_inv bus0 m' bus') \<and> mmio_step bus bus'"
    if "m \<le> 8 * k" "journal_inv bus0 m bus" for m
    by (rule bus_write_effect [OF wf that(2) _ w]) (use that no_wrap in simp)
  have mm: "mmio_step bus bus'" using inv eff unfolding steps_inv_def by blast
  show ?thesis by (rule steps_inv_step [OF inv mm]) (use eff in blast)
qed

lemma storeBackedWord_mmio [simp]:
  "mmio_generation (storeBackedWord ri offset v ext bus) = mmio_generation bus"
  "devices (storeBackedWord ri offset v ext bus) = devices bus"
  by (simp_all add: storeBackedWord_def set_bytes_def Let_def case_prod_beta)

lemma fold_store_mmio:
  "mmio_generation (fold (\<lambda>w. storeBackedWord ri (f w) (g w) ext) ws bus) = mmio_generation bus"
  "devices (fold (\<lambda>w. storeBackedWord ri (f w) (g w) ext) ws bus) = devices bus"
  by (induction ws arbitrary: bus) simp_all

lemma steps_inv_bulk:
  assumes wf: "wf_bus bus0" and inv: "steps_inv bus0 k bus"
    and no_wrap: "unat (mutation_sequence bus0) + 8 * (k + length vs) \<le> 18446744073709551615"
    and w: "tryFastWriteWords a vs ctx req bus = Some bus'"
  shows "steps_inv bus0 (k + length vs) bus'"
  using w
proof (rule tryFastWriteWords_Some)
  fix ri
  let ?r = "regions bus ! ri"
  let ?b = "addStoreFootprint a (length vs * 4) ctx bus"
  let ?c = "fold (\<lambda>w. storeBackedWord ri (unat (a - region_base ?r) + w * 4) (vs ! w) (ctx_pc ctx = 0)) [0..<length vs] ?b"
  assume f: "find_region bus a = Some ri"
    and fw: "fast_writable ?r a (length vs * 4) (reversible_ram_only bus \<or> req)"
    and b: "bus' = bump_execution ?r ?c"
  obtain n where n: "n \<le> 8 * k" "journal_inv bus0 n bus" using inv by (auto simp: steps_inv_def)
  have nb: "journal_inv bus0 n ?b" by (rule journal_inv_same [OF n(2)]) simp
  have "\<exists>n' \<le> n + 4 * length vs. journal_inv bus0 n'
     (fold (\<lambda>w. storeBackedWord ri (unat (a - region_base (regions ?b ! ri)) + w * 4) (vs ! w) (ctx_pc ctx = 0))
        [0..<length vs] ?b)"
    by (rule storeWords_journal [OF wf nb])
      (use find_region_less [OF f] fw n(1) no_wrap in \<open>simp_all add: fast_writable_def mult.commute\<close>)
  then obtain n' where n': "n' \<le> n + 4 * length vs" "journal_inv bus0 n' ?c" by auto
  then have "journal_inv bus0 n' bus'" unfolding b by (intro journal_inv_same [OF n'(2)]) simp
  moreover have "n' \<le> 8 * (k + length vs)" using n'(1) n(1) by simp
  moreover have "mmio_generation bus' = mmio_generation bus" "devices bus' = devices bus"
    by (simp_all add: b bump_execution_def fold_store_mmio addStoreFootprint_def log_access_def Let_def)
  ultimately have j: "\<exists>n \<le> 8 * (k + length vs). journal_inv bus0 n bus'"
    and d: "mmio_generation bus' = mmio_generation bus" "devices bus' = devices bus" by blast+
  obtain m where "m \<le> k" "mmio_generation bus = mmio_generation bus0 + of_nat m"
    "m = 0 \<longrightarrow> devices bus = devices bus0" using inv by (auto simp: steps_inv_def)
  then have "\<exists>m \<le> k + length vs. mmio_generation bus' = mmio_generation bus0 + of_nat m
      \<and> (m = 0 \<longrightarrow> devices bus' = devices bus0)"
    by (intro exI [of _ m]) (simp add: d)
  with j show ?thesis by (simp only: steps_inv_def simp_thms)
qed

text \<open>Rule induction over the accesses.\<close>

lemma bus_steps_inv:
  assumes "wf_bus bus0" "write_journal_tracking bus0"
    and "bus_steps ops bus0 k bus" "unat (mutation_sequence bus0) + 8 * k \<le> 18446744073709551615"
  shows "steps_inv bus0 k bus"
  using assms(3,4)
proof (induction rule: bus_steps.induct)
  case steps_refl
  then show ?case using assms(2)
    by (simp add: steps_inv_def journal_inv_def window_def undo_def)
next
  case (steps_read n bus a sz ctx res bus')
  have "bus_effect bus bus'" using bus_read_effect [of bus ops a sz ctx 0] steps_read.hyps(2) by simp
  then show ?case using steps_read journal_inv_kept unfolding bus_effect_def
    by (intro steps_inv_step) auto
next
  case (steps_write n bus a sz v ctx res bus')
  then show ?case by (intro steps_inv_write [OF assms(1)]) simp_all
next
  case (steps_fast n bus a sz v ctx req bus')
  then have inv: "steps_inv bus0 n bus" by simp
  show ?case
    by (rule steps_inv_write [OF assms(1) inv steps_fast.prems
          tryFastWrite_checked [OF steps_inv_wf [OF assms(1) inv] steps_fast.hyps(2)]])
next
  case (steps_fast32 n bus a w ctx req bus')
  then have inv: "steps_inv bus0 n bus" by simp
  show ?case
    by (rule steps_inv_write [OF assms(1) inv steps_fast32.prems
          tryFastWrite32_checked [OF steps_inv_wf [OF assms(1) inv] steps_fast32.hyps(2)]])
next
  case (steps_bulk n bus a vs ctx req bus')
  then show ?case by (intro steps_inv_bulk [OF assms(1)]) simp_all
qed


section \<open>Restoring and validating\<close>

lemma entry_clear:
  assumes "i < k" "k < 8192" "unat s + k < 18446744073709551615"
    and "mutation_journal bus' = (mutation_journal bus)(journal_slot (s + of_nat (Suc k)) := e)"
  shows "entry s bus' i = entry s bus i"
proof -
  have "journal_slot (s + of_nat (Suc i)) \<noteq> journal_slot (s + of_nat (Suc k))"
    using journal_slot_window [of s i] journal_slot_window [of s k] assms(1-3) mod_window [of i k 8192 "unat s"]
    by simp
  then show ?thesis by (simp add: entry_def assms(4) del: of_nat_Suc)
qed

lemma window_Suc: "window s (Suc k) bus = window s k bus @ [entry s bus k]"
  by (simp add: window_def)

lemma byte_at_region:
  assumes "byte_at bus x \<noteq> None"
  obtains ri where "find_region bus x = Some ri" "backed (rkind (info (regions bus ! ri)))"
    "byte_at bus x = Some (bytes (regions bus ! ri) ! unat (x - region_base (regions bus ! ri)))"
  using assms by (auto simp: byte_at_def region_at_def split: option.splits if_splits)

lemma restoreLoop_undo:
  assumes "wf_bus bus" "k \<le> 8192" "unat s + k \<le> 18446744073709551615"
    and "\<forall>e \<in> set (window s k bus). byte_at bus (mut_address e) \<noteq> None"
  shows "\<exists>ex' bus'. restoreLoop s k ex bus = (True, ex', bus')
    \<and> byte_at bus' = undo (window s k bus) (byte_at bus)
    \<and> layout bus' = layout bus \<and> devices bus' = devices bus"
  using assms
proof (induction k arbitrary: ex bus)
  case 0
  then show ?case by (simp add: window_def undo_def)
next
  case (Suc k)
  let ?e = "entry s bus k"
  have "byte_at bus (mut_address ?e) \<noteq> None" using Suc.prems(4) by (simp add: window_Suc)
  then obtain ri where f: "find_region bus (mut_address ?e) = Some ri"
    and bk: "backed (rkind (info (regions bus ! ri)))" by (rule byte_at_region)
  let ?r = "regions bus ! ri"
  let ?off = "unat (mut_address ?e - region_base ?r)"
  define bus2 where "bus2 = (set_bytes ri ((bytes ?r)[?off := old_value ?e]) bus)
     \<lparr>mutation_journal := (mutation_journal bus)(journal_slot (s + of_nat (Suc k)) := empty_mutation)\<rparr>"
  have ri: "ri < length (regions bus)" by (rule find_region_less [OF f])
  have by2: "byte_at bus2 = undo1 ?e (byte_at bus)" unfolding undo1_def
    by (rule byte_at_set_byte [OF Suc.prems(1) ri bk find_region_contains [OF f]]) (simp add: bus2_def set_bytes_def)
  have "layout bus2 = layout (set_bytes ri ((bytes ?r)[?off := old_value ?e]) bus)"
    by (rule layout_cong) (simp add: bus2_def)
  also have "\<dots> = layout bus" using ri by simp
  finally have lay: "layout bus2 = layout bus" .
  have win: "window s k bus2 = window s k bus"
    unfolding window_def
    by (rule map_cong [OF refl], rule entry_clear)
      (use Suc.prems(2,3) in \<open>simp_all add: bus2_def set_bytes_def\<close>)
  have "\<forall>e \<in> set (window s k bus2). byte_at bus2 (mut_address e) \<noteq> None"
    using Suc.prems(4) byte_at_dom_layout [OF lay] by (simp add: win window_Suc)
  then obtain ex' bus' where "restoreLoop s k (ex \<or> executable (info ?r)) bus2 = (True, ex', bus')"
    "byte_at bus' = undo (window s k bus2) (byte_at bus2)" "layout bus' = layout bus2" "devices bus' = devices bus2"
    using Suc.IH [OF wf_bus_layout [OF lay Suc.prems(1)]] Suc.prems(2,3) by fastforce
  moreover have "restoreLoop s (Suc k) ex bus = restoreLoop s k (ex \<or> executable (info ?r)) bus2"
    using f backed_kinds [OF bk] by (simp add: Let_def bus2_def set_bytes_def)
  moreover have "devices bus2 = devices bus" by (simp add: bus2_def)
  ultimately show ?case using lay by (simp only: win window_Suc undo_append by2) auto
qed

lemma undo_find:
  "undo es m x = (case List.find (\<lambda>e. mut_address e = x) es of None \<Rightarrow> m x | Some e \<Rightarrow> Some (old_value e))"
  by (induction es) (auto simp: undo_def undo1_def)


lemma of_nat_64_eq_0: "m \<le> 18446744073709551615 \<Longrightarrow> (of_nat m :: u64) = 0 \<longleftrightarrow> m = 0"
  by (auto simp: word_unat_eq_iff unsigned_of_nat take_bit_nat_eq_self)

text \<open>
  What a checkpoint and a later state of a run know of each other: the journaled window,
  and whether a device was reached.
\<close>

lemma bus_steps_window:
  assumes wf: "wf_bus bus0" and trk: "write_journal_tracking bus0"
    and st: "bus_steps ops bus0 k bus"
    and cap: "unat (mutation_sequence bus0) + 8 * k \<le> 18446744073709551615"
  obtains n where "journal_inv bus0 n bus" "window_size (sideEffectCheckpoint bus0) bus = n"
    "unat (mutation_sequence bus0) + n \<le> 18446744073709551615"
    "mutation_sequence bus0 \<le> mutation_sequence bus"
    "mutation_sequence bus0 = mutation_sequence bus \<longleftrightarrow> n = 0"
    "mmio_generation bus = mmio_generation bus0 \<Longrightarrow> devices bus = devices bus0"
proof -
  have inv: "steps_inv bus0 k bus" by (rule bus_steps_inv [OF wf trk st cap])
  obtain n where n: "n \<le> 8 * k" "journal_inv bus0 n bus" using inv by (auto simp: steps_inv_def)
  obtain m where m: "m \<le> k" "mmio_generation bus = mmio_generation bus0 + of_nat m"
    "m = 0 \<longrightarrow> devices bus = devices bus0" using inv by (auto simp: steps_inv_def)
  have u: "unat (mutation_sequence bus) = unat (mutation_sequence bus0) + n"
    using n(2) by (simp add: journal_inv_def)
  have le: "mutation_sequence bus0 \<le> mutation_sequence bus" using u by (simp add: word_le_nat_alt)
  have "m = 0" if "mmio_generation bus = mmio_generation bus0"
    using that m(1,2) cap of_nat_64_eq_0 [of m] by simp
  then have "devices bus = devices bus0" if "mmio_generation bus = mmio_generation bus0"
    using that m(3) by simp
  then show thesis using that [of n] n u le cap
    by (simp add: window_size_def sideEffectCheckpoint_def unat_sub_le word_unat_eq_iff)
qed

lemma window_dom:
  assumes "journal_inv bus0 n bus" "n \<le> mutation_journal_capacity"
  shows "\<forall>e \<in> set (window (mutation_sequence bus0) n bus). byte_at bus (mut_address e) \<noteq> None"
  using assms byte_at_dom_layout [of bus bus0] by (simp add: journal_inv_def)

text \<open>Restoring a checkpoint gives back its memory and its devices.\<close>

lemma restoreSideEffects_correct:
  assumes wf: "wf_bus bus0" and trk: "write_journal_tracking bus0"
    and st: "bus_steps ops bus0 k bus"
    and cap: "unat (mutation_sequence bus0) + 8 * k \<le> 18446744073709551615"
    and can: "canRestoreSideEffects (sideEffectCheckpoint bus0) bus"
  shows "\<exists>bus'. restoreSideEffects (sideEffectCheckpoint bus0) bus = (True, bus')
    \<and> byte_at bus' = byte_at bus0 \<and> devices bus' = devices bus0 \<and> layout bus' = layout bus0
    \<and> mutation_sequence bus' = mutation_sequence bus0"
proof (rule bus_steps_window [OF wf trk st cap])
  fix n
  let ?s = "mutation_sequence bus0"
  assume inv: "journal_inv bus0 n bus" and size: "window_size (sideEffectCheckpoint bus0) bus = n"
    and nw: "unat ?s + n \<le> 18446744073709551615"
    and eq: "?s = mutation_sequence bus \<longleftrightarrow> n = 0"
    and dev: "mmio_generation bus = mmio_generation bus0 \<Longrightarrow> devices bus = devices bus0"
  have mm: "mmio_generation bus = mmio_generation bus0" and n: "n \<le> 8192"
    using can eq size by (auto simp: canRestoreSideEffects_def sideEffectCheckpoint_def split: if_splits)
  obtain ex' bus1 where r: "restoreLoop ?s n False bus = (True, ex', bus1)"
    "byte_at bus1 = undo (window ?s n bus) (byte_at bus)" "layout bus1 = layout bus" "devices bus1 = devices bus"
    using restoreLoop_undo [OF journal_inv_wf [OF wf inv] n nw window_dom [OF inv n], of False] by blast
  have cp: "cp_mutation_sequence (sideEffectCheckpoint bus0) = ?s" by (simp add: sideEffectCheckpoint_def)
  define bus' where "bus' = bus1\<lparr>mutation_sequence := ?s,
       side_effect_generation := side_effect_generation bus1 + 1,
       execution_generation := execution_generation bus1 + (if ex' then 1 else 0),
       restoration_generation := restoration_generation bus1 + 1\<rparr>"
  have "regions bus' = regions bus1" by (simp add: bus'_def)
  then have "byte_at bus' = byte_at bus1" "layout bus' = layout bus1"
    by (auto intro: byte_at_regions layout_cong)
  moreover have "restoreSideEffects (sideEffectCheckpoint bus0) bus = (True, bus')"
    using can by (simp add: restoreSideEffects_def cp size r(1) bus'_def)
  moreover have "undo (window ?s n bus) (byte_at bus) = byte_at bus0" "layout bus = layout bus0"
    using inv n by (auto simp: journal_inv_def)
  ultimately show ?thesis using r dev [OF mm] by (simp add: bus'_def)
qed


text \<open>A short run that reached no device can be restored.\<close>

lemma small_can_restore:
  assumes wf: "wf_bus bus0" and trk: "write_journal_tracking bus0"
    and st: "bus_steps ops bus0 k bus" and k: "k \<le> 1024" and mm: "mmio_generation bus = mmio_generation bus0"
    and cap: "unat (mutation_sequence bus0) + 8 * k \<le> 18446744073709551615"
  shows "canRestoreSideEffects (sideEffectCheckpoint bus0) bus"
proof -
  obtain n where n: "n \<le> 8 * k" "journal_inv bus0 n bus"
    using bus_steps_inv [OF wf trk st cap] by (auto simp: steps_inv_def)
  have u: "unat (mutation_sequence bus) = unat (mutation_sequence bus0) + n"
    using n(2) by (simp add: journal_inv_def)
  then have le: "mutation_sequence bus0 \<le> mutation_sequence bus" by (simp add: word_le_nat_alt)
  then have "window_size (sideEffectCheckpoint bus0) bus = n"
    using u by (simp add: window_size_def sideEffectCheckpoint_def unat_sub_le)
  then show ?thesis using leD [OF le] mm n k
    by (simp add: canRestoreSideEffects_def sideEffectCheckpoint_def journal_inv_def)
qed

end
