(* ===== verification/Memory_Validate.thy ===== *)
theory Memory_Validate
  imports Memory_Journal
begin

text \<open>
  What the validation predicates of the bus decide about the accesses since a checkpoint,
  and the read footprint they use: a 256-bit filter with no false negatives.
\<close>

section \<open>The first mutation of an address\<close>

lemma find_window:
  "List.find (\<lambda>e. mut_address e = x) (window s n bus) = Some e \<longleftrightarrow>
   (\<exists>i < n. e = entry s bus i \<and> mut_address e = x \<and> first_for_address s bus i)"
  by (auto simp: find_Some_iff window_def first_for_address_def list_all_iff)

lemma find_window_None:
  "List.find (\<lambda>e. mut_address e = x) (window s n bus) = None \<longleftrightarrow> (\<forall>i < n. mut_address (entry s bus i) \<noteq> x)"
  by (auto simp: find_None_iff window_def)

lemma journal_inv_old:
  assumes "journal_inv bus0 n bus" "n \<le> 8192"
  shows "byte_at bus0 x =
    (case List.find (\<lambda>e. mut_address e = x) (window (mutation_sequence bus0) n bus) of
       None \<Rightarrow> byte_at bus x | Some e \<Rightarrow> Some (old_value e))"
  using assms undo_find [of "window (mutation_sequence bus0) n bus" "byte_at bus" x]
  by (simp add: journal_inv_def)

text \<open>The byte test both predicates make at an entry, on the abstract memory.\<close>

lemma entry_test:
  assumes "byte_at bus (mut_address e) \<noteq> None"
  shows "entry_holds P e bus \<longleftrightarrow> (\<exists>b. byte_at bus (mut_address e) = Some b \<and> P b)"
  using assms by (rule byte_at_region) (auto simp: region_at_def entry_holds_def dest: backed_kinds)

lemma entry_dom:
  assumes "journal_inv bus0 n bus" "n \<le> 8192" "i < n"
  shows "byte_at bus (mut_address (entry (mutation_sequence bus0) bus i)) \<noteq> None"
  using window_dom [OF assms(1,2)] assms(3) by (simp add: window_def)

section \<open>Validation decides equality of the memory\<close>

lemma first_entries_restored:
  assumes inv: "journal_inv bus0 n bus" and n: "n \<le> 8192"
  shows "(\<forall>i < n. first_for_address (mutation_sequence bus0) bus i \<longrightarrow>
       byte_at bus (mut_address (entry (mutation_sequence bus0) bus i))
         = Some (old_value (entry (mutation_sequence bus0) bus i)))
     \<longleftrightarrow> byte_at bus = byte_at bus0" (is "?L \<longleftrightarrow> _")
proof
  assume L: ?L
  show "byte_at bus = byte_at bus0"
  proof
    fix x
    show "byte_at bus x = byte_at bus0 x"
      using L by (auto simp: journal_inv_old [OF inv n] find_window split: option.split)
  qed
next
  assume eq: "byte_at bus = byte_at bus0"
  show ?L
  proof (intro allI impI)
    fix i assume i: "i < n" "first_for_address (mutation_sequence bus0) bus i"
    let ?e = "entry (mutation_sequence bus0) bus i"
    have "List.find (\<lambda>e. mut_address e = mut_address ?e) (window (mutation_sequence bus0) n bus) = Some ?e"
      using i by (auto simp: find_window)
    then have "byte_at bus0 (mut_address ?e) = Some (old_value ?e)"
      by (simp add: journal_inv_old [OF inv n])
    then show "byte_at bus (mut_address ?e) = Some (old_value ?e)" by (simp add: eq)
  qed
qed

lemma sideEffectsRestoredSince_iff:
  assumes wf: "wf_bus bus0" and trk: "write_journal_tracking bus0"
    and st: "bus_steps ops bus0 k bus"
    and cap: "unat (mutation_sequence bus0) + 8 * k \<le> 18446744073709551615"
  shows "sideEffectsRestoredSince (sideEffectCheckpoint bus0) bus \<longleftrightarrow>
    mmio_generation bus = mmio_generation bus0 \<and> window_size (sideEffectCheckpoint bus0) bus \<le> 8192
    \<and> byte_at bus = byte_at bus0"
proof (rule bus_steps_window [OF wf trk st cap])
  fix n
  let ?s = "mutation_sequence bus0"
  let ?cp = "sideEffectCheckpoint bus0"
  assume inv: "journal_inv bus0 n bus" and size: "window_size ?cp bus = n"
    and le: "?s \<le> mutation_sequence bus" and eq: "?s = mutation_sequence bus \<longleftrightarrow> n = 0"
  have cp: "cp_mutation_sequence ?cp = ?s" "cp_mmio_generation ?cp = mmio_generation bus0"
    "cp_journal_generation ?cp = journal_generation bus"
    using inv by (simp_all add: sideEffectCheckpoint_def journal_inv_def)
  have jt: "write_journal_tracking bus" using inv by (simp add: journal_inv_def)
  have test: "entry_holds (\<lambda>b. b = old_value (entry ?s bus i)) (entry ?s bus i) bus
     \<longleftrightarrow> byte_at bus (mut_address (entry ?s bus i)) = Some (old_value (entry ?s bus i))"
    if "i < n" "n \<le> 8192" for i
    using entry_test [OF entry_dom [OF inv that(2,1)], of "\<lambda>b. b = old_value (entry ?s bus i)"] by simp
  show ?thesis
  proof (cases "n = 0 \<or> n > 8192 \<or> mmio_generation bus \<noteq> mmio_generation bus0")
    case True
    then show ?thesis using eq le jt first_entries_restored [OF inv]
      by (auto simp: sideEffectsRestoredSince_def cp size)
  next
    case False
    then show ?thesis using eq le jt first_entries_restored [OF inv] test
      by (auto simp: sideEffectsRestoredSince_def cp size Let_def list_all_iff)
  qed
qed


text \<open>A compatible window leaves every byte of the footprint at its value of the checkpoint.\<close>

lemma sideEffectsCompatibleSince_sound:
  assumes wf: "wf_bus bus0" and trk: "write_journal_tracking bus0"
    and st: "bus_steps ops bus0 k bus"
    and cap: "unat (mutation_sequence bus0) + 8 * k \<le> 18446744073709551615"
    and ok: "sideEffectsCompatibleSince (sideEffectCheckpoint bus0) fp bus"
  shows "devices bus = devices bus0 \<and> (\<forall>x. footprintContains fp x \<longrightarrow> byte_at bus x = byte_at bus0 x)"
proof (rule bus_steps_window [OF wf trk st cap])
  fix n
  let ?s = "mutation_sequence bus0"
  let ?cp = "sideEffectCheckpoint bus0"
  assume inv: "journal_inv bus0 n bus" and size: "window_size ?cp bus = n"
    and eq: "?s = mutation_sequence bus \<longleftrightarrow> n = 0"
    and dev: "mmio_generation bus = mmio_generation bus0 \<Longrightarrow> devices bus = devices bus0"
  have cp: "cp_mutation_sequence ?cp = ?s" "cp_mmio_generation ?cp = mmio_generation bus0"
    by (simp_all add: sideEffectCheckpoint_def)
  have mm: "mmio_generation bus = mmio_generation bus0"
    using ok by (auto simp: sideEffectsCompatibleSince_def cp split: if_splits)
  have n: "n \<le> 8192"
    using ok eq by (auto simp: sideEffectsCompatibleSince_def cp size split: if_splits)
  have first: "byte_at bus (mut_address (entry ?s bus i)) = Some (old_value (entry ?s bus i))"
    if i: "i < n" "first_for_address ?s bus i" and fp: "footprintContains fp (mut_address (entry ?s bus i))" for i
  proof -
    let ?e = "entry ?s bus i"
    have "n \<noteq> 0" using i by simp
    then have "entry_holds (\<lambda>b. \<not> (b \<noteq> old_value ?e
        \<and> (\<not> only_external ?s bus n i \<or> footprintContains fp (mut_address ?e)))) ?e bus"
      using ok eq i by (simp add: sideEffectsCompatibleSince_def cp size Let_def list_all_iff split: if_splits)
    then show ?thesis using entry_test [OF entry_dom [OF inv n i(1)]] fp by auto
  qed
  have "byte_at bus x = byte_at bus0 x" if "footprintContains fp x" for x
    using first that by (auto simp: journal_inv_old [OF inv n] find_window split: option.split)
  then show ?thesis using dev [OF mm] by blast
qed

section \<open>The footprint filter\<close>

lemma bit_index_bound: "unat ((b :: u8) AND 63) < 64"
proof -
  have "b AND 63 = take_bit 6 b" by (simp add: take_bit_eq_mask mask_eq_exp_minus_1)
  then have "unat (b AND 63) = take_bit 6 (unat b)" by (simp add: unsigned_take_bit_eq)
  then show ?thesis using take_bit_nat_less_exp [of 6 "unat b"] by simp
qed

lemma single_bit_word: "n < 64 \<Longrightarrow> w AND push_bit n (1 :: u64) \<noteq> 0 \<longleftrightarrow> bit w n"
  using bit_word_eqI by (auto simp: word_bits_iff bit_simps)

lemma footprint_bit_iff: "footprint_bit fp b \<longleftrightarrow> bit (words fp (unat (drop_bit 6 b))) (unat (b AND 63))"
  unfolding footprint_bit_def by (rule single_bit_word [OF bit_index_bound])

lemma footprint_bit_set: "footprint_bit (footprint_set fp b) b"
  using bit_index_bound [of b] by (simp add: footprint_bit_iff footprint_set_def bit_simps)

lemma footprint_bit_mono: "footprint_bit fp c \<Longrightarrow> footprint_bit (footprint_set fp b) c"
  by (auto simp: footprint_bit_iff footprint_set_def bit_or_iff)

lemma footprintContains_add: "footprintContains (addReadFootprint fp a) a"
  by (simp add: footprintContains_def addReadFootprint_def footprint_bit_set footprint_bit_mono)

lemma footprintContains_mono: "footprintContains fp x \<Longrightarrow> footprintContains (addReadFootprint fp a) x"
  by (simp add: footprintContains_def addReadFootprint_def footprint_bit_mono)

lemma footprintContains_word: "drop_bit 2 a = drop_bit 2 b \<Longrightarrow> footprintContains fp a = footprintContains fp b"
  by (simp add: footprintContains_def footprintBitIndices_def)

lemma fold_footprint_mono:
  "footprintContains fp x \<Longrightarrow> footprintContains (fold (\<lambda>i fp. addReadFootprint fp (f i)) is fp) x"
  by (induction "is" arbitrary: fp) (simp_all add: footprintContains_mono)

lemma fold_footprint_in:
  "i \<in> set is \<Longrightarrow> footprintContains (fold (\<lambda>i fp. addReadFootprint fp (f i)) is fp) (f i)"
  by (induction "is" arbitrary: fp) (auto simp: footprintContains_add fold_footprint_mono)

text \<open>Every byte of a recorded span is in the footprint afterwards.\<close>

lemma addSpanFootprint_in:
  assumes "i < width" "unat a + width \<le> 4294967296"
  shows "footprintContains (addSpanFootprint fp a width) (a + of_nat i)"
proof -
  let ?f = "a AND NOT 3"
  let ?cnt = "(unat a + width - unat ?f + 3) div 4"
  let ?j = "(unat a + i) div 4 - unat a div 4"
  have f: "unat ?f = 4 * (unat a div 4)" by (rule unat_word_floor)
  have le: "unat a div 4 \<le> (unat a + i) div 4" by (simp add: div_le_mono)
  have j: "unat ?f + 4 * ?j = 4 * ((unat a + i) div 4)" using le unfolding f by (simp add: diff_mult_distrib2)
  have "4 * ((unat a + i) div 4) \<le> unat a + i" by simp
  then have lt: "unat ?f + 4 * ?j < 4294967296" using assms j by linarith
  have "?j < ?cnt" using assms(1) f le by linarith
  then have mem: "?j \<in> set [0..<?cnt]" by (simp only: set_upt atLeastLessThan_iff zero_le simp_thms)
  have "unat (?f + of_nat (4 * ?j)) = 4 * ((unat a + i) div 4)"
    using unat_add_no_wrap [OF lt] j by simp
  moreover have "unat (a + of_nat i) = unat a + i" using assms by (intro unat_add_no_wrap) linarith
  ultimately have "drop_bit 2 (?f + of_nat (4 * ?j)) = drop_bit 2 (a + of_nat i)"
    by (simp only: word_unat_eq_iff unat_drop2)
  then have "footprintContains g (?f + of_nat (4 * ?j)) = footprintContains g (a + of_nat i)" for g
    by (rule footprintContains_word)
  then show ?thesis
    using fold_footprint_in [OF mem, of "\<lambda>i. ?f + of_nat (4 * i)" fp] by (simp only: addSpanFootprint_def Let_def)
qed

lemma addAccessFootprint_in:
  assumes "read_footprint_tracking bus" "i < width" "unat a + width \<le> 4294967296"
  shows "footprintContains (read_footprint (addAccessFootprint a width bus)) (a + of_nat i)"
proof (cases "a AND 3 = 0 \<and> width \<le> 4")
  case False
  then show ?thesis using addSpanFootprint_in [OF assms(2,3)] assms(1,2)
    by (auto simp: addAccessFootprint_def log_access_def Let_def)
next
  case True
  have m: "(3 :: u32) = mask 2" by (simp add: mask_eq_exp_minus_1)
  have "unat (a AND 3) = unat a mod 4"
    unfolding m by (simp add: take_bit_eq_mask [symmetric] take_bit_eq_mod unat_mod)
  then have "unat a mod 4 = 0" using True by simp
  then have "(unat a + i) div 4 = unat a div 4" using True assms(2) by (auto simp: mod_eq_0_iff_dvd elim!: dvdE)
  moreover have "unat (a + of_nat i) = unat a + i" using assms by (intro unat_add_no_wrap) linarith
  ultimately have "drop_bit 2 (a + of_nat i) = drop_bit 2 a"
    by (simp only: word_unat_eq_iff unat_drop2)
  from footprintContains_word [OF this]
  have "footprintContains (addReadFootprint g a) (a + of_nat i)" for g by (simp add: footprintContains_add)
  then show ?thesis using True assms(1,2) by (simp add: addAccessFootprint_def log_access_def Let_def)
qed


lemma bus_read_footprint:
  assumes wf: "wf_bus bus" and res: "resolve bus a (byteCount sz) 0 = Some (ri, t)"
    and bk: "backed (rkind (info (regions bus ! ri)))"
    and rd: "bus_read ops a sz ctx 0 bus = (Inr v, bus')"
    and trk: "read_footprint_tracking bus" "ctx_type ctx = AT_data_read" "ctx_pc ctx \<noteq> 0"
    and i: "i < byteCount sz"
  shows "footprintContains (read_footprint bus') (t + of_nat i)"
proof -
  have f: "find_region bus t = Some ri" and rng: "containsRange (regions bus ! ri) t (byteCount sz)"
    using resolve_found [OF res] by auto
  have r: "bus_read ops t sz ctx 0 bus = (Inr v, bus')" by (rule bus_read_resolve [OF res rd])
  have "fast_readable (regions bus ! ri) t (byteCount sz) ctx" by (rule bus_read_backed_ok [OF wf f bk r])
  then have "bus' = addAccessFootprint t (byteCount sz) bus"
    using bus_read_backed [OF wf f, of sz ctx ops 0] r trk(2,3) by (simp add: note_data_read_def)
  moreover have "unat t + byteCount sz \<le> 4294967296"
    using rng wf_region_nth [OF wf find_region_less [OF f]]
    by (simp add: containsRange_def region_end_def wf_region_def validRange_iff)
  ultimately show ?thesis using addAccessFootprint_in [OF trk(1) i] by simp
qed

end
