(* ===== verification/Bus_Properties.thy ===== *)
theory Bus_Properties
  imports Memory_Validate
begin

text \<open>
  The properties of the memory bus, stated on its operations, each with an instance on a
  small concrete map: sixteen bytes of RAM and an alias of its first half.
\<close>

section \<open>A concrete map\<close>

definition sample_ram :: Region where
  "sample_ram = mk_region
     \<lparr>base = 0x20000000, rsize = 16, rkind = RK_ram, rname = ''sram'', readable = True,
      writable = True, executable = False\<rparr> (replicate 16 0)"

definition sample_alias :: Region where
  "sample_alias =
     \<lparr>info = \<lparr>base = 0x10000000, rsize = 8, rkind = RK_alias, rname = ''alias'', readable = True,
              writable = True, executable = False\<rparr>,
      bytes = [], alias_target = 0x20000000, device = 0\<rparr>"

definition sample_bus :: "unit MemoryBus" where
  "sample_bus = (new_MemoryBus ())\<lparr>regions := [sample_alias, sample_ram]\<rparr>"

definition no_device :: "unit MmioDevice" where
  "no_device =
     \<lparr>dev_read = (\<lambda>_ off sz ctx d. (Inl (makeFault BF_device_error off sz ctx [] []), d)),
      dev_write = (\<lambda>_ off sz v ctx d. (Inl (makeFault BF_device_error off sz ctx [] []), d)),
      dev_domain = (\<lambda>_ _ _ _. MD_board_local)\<rparr>"

definition data_ctx :: "AccessType \<Rightarrow> AccessContext" where
  "data_ctx t = \<lparr>ctx_type = t, ctx_pc = 0x08000000\<rparr>"

lemmas sample_defs =
  sample_bus_def sample_ram_def sample_alias_def mk_region_def new_MemoryBus_def

lemma sample_fields [simp]:
  "regions sample_bus = [sample_alias, sample_ram]"
  "write_journal_tracking sample_bus" "read_footprint_tracking sample_bus"
  "\<not> store_footprint_tracking sample_bus" "\<not> reversible_ram_only sample_bus"
  "\<not> access_watch_log_enabled sample_bus" "mutation_sequence sample_bus = 0"
  "base (info sample_ram) = 0x20000000" "rsize (info sample_ram) = 16"
  "rkind (info sample_ram) = RK_ram" "readable (info sample_ram)" "writable (info sample_ram)"
  "\<not> executable (info sample_ram)" "bytes sample_ram = replicate 16 0"
  "base (info sample_alias) = 0x10000000" "rsize (info sample_alias) = 8"
  "rkind (info sample_alias) = RK_alias" "readable (info sample_alias)" "writable (info sample_alias)"
  "\<not> executable (info sample_alias)" "alias_target sample_alias = 0x20000000"
  by (simp_all add: sample_defs)

lemma sample_wf: "wf_bus sample_bus"
  by (simp add: wf_bus_def wf_region_def validRange_def stop_of_def backed_def)

lemma sample_aliases: "wf_aliases sample_bus"
  by (simp add: wf_aliases_def alias_ok_def containsRange_def region_end_def)

lemma sample_find: "find_region sample_bus 0x10000004 = Some 0" "find_region sample_bus 0x20000004 = Some 1"
  by (simp_all add: find_region_def upper_bound_prev_def contains_def region_end_def)

lemma sample_resolve: "resolve sample_bus 0x10000004 4 0 = Some (1, 0x20000004)"
  by (subst resolve.simps, simp add: sample_find validRange_def containsRange_def region_end_def Let_def,
      subst resolve.simps, simp add: sample_find validRange_def containsRange_def region_end_def Let_def)

lemma sample_write:
  "\<exists>bus'. bus_write no_device 0x10000004 AS_word v (data_ctx AT_data_write) 0 sample_bus = (Inr 0, bus')"
  by (subst bus_write_resolve [where ri = 1 and t = "0x20000004"], simp add: sample_resolve,
      subst bus_write_backed [OF sample_wf sample_find(2)])
    (simp_all add: fast_writable_def backed_def containsRange_def region_end_def)

lemma sample_read:
  "\<exists>bus'. bus_read no_device 0x20000004 AS_word (data_ctx AT_data_read) 0 sample_bus = (Inr 0, bus')"
  by (subst bus_read_backed [OF sample_wf sample_find(2)])
    (simp_all add: fast_readable_def backed_def containsRange_def region_end_def data_ctx_def
      decodeLittleEndianBytes_def upt_4)


section \<open>The address map\<close>

text \<open>
  C7. Every operation that maps a region keeps the invariant of the bus: regions sorted by
  base, pairwise disjoint, inside the 32-bit space, with a byte per backed address, and
  every alias carrying the permissions of the region that holds its target range.
\<close>

theorem map_operations_keep_invariant:
  assumes "wf_bus bus" "wf_aliases bus"
    and "mapRam b n nm ex bus = Inr bus' \<or> mapRom b n nm ex bus = Inr bus' \<or> mapFlash b n nm ex bus = Inr bus'
      \<or> mapAlias b t n nm bus = Inr bus' \<or> mapMmio b n dev nm bus = Inr bus'"
  shows "wf_bus bus' \<and> wf_aliases bus'"
  using assms mapRam_wf mapRom_wf mapFlash_wf mapAlias_wf mapMmio_wf
    mapRam_aliases mapRom_aliases mapFlash_aliases mapAlias_aliases mapMmio_aliases
  by metis

theorem map_operations_keep_invariant_witness:
  "\<exists>bus'. mapRam 0x30000000 16 ''x'' False sample_bus = Inr bus' \<and> wf_bus bus' \<and> wf_aliases bus'"
proof -
  obtain bus' where "mapRam 0x30000000 16 ''x'' False sample_bus = Inr bus'"
    by (simp add: mapRam_def addRegion_def mk_region_def validRange_def overlaps_def region_end_def)
  then show ?thesis
    using map_operations_keep_invariant [OF sample_wf sample_aliases, of "0x30000000" 16 "''x''" False bus'] by blast
qed

text \<open>
  C8. The binary search of \<open>find\<close> is complete: it answers the region that contains the
  address when there is one, and nothing otherwise.
\<close>

theorem find_region_complete:
  assumes "wf_bus bus"
  shows "(find_region bus a = Some i \<longleftrightarrow> i < length (regions bus) \<and> contains (regions bus ! i) a)
    \<and> (find_region bus a = None \<longleftrightarrow> (\<forall>r \<in> set (regions bus). \<not> contains r a))"
  using find_region_Some [OF assms] find_region_None [OF assms] by simp

theorem find_region_complete_witness:
  "wf_bus sample_bus \<and> find_region sample_bus 0x20000004 = Some 1"
  using find_region_complete [OF sample_wf, of "0x20000004" 1] sample_wf
  by (simp add: contains_def region_end_def)

section \<open>Checked accesses\<close>

text \<open>
  C1. A write that succeeds on backed memory, directly or through aliases, is the abstract
  little-endian store at the resolved address: the bytes of the access take the bytes of
  the value, every other byte of the address space keeps its value, the devices and the
  map are untouched.
\<close>

theorem write_refines_memory:
  assumes "wf_bus bus" "resolve bus a (byteCount sz) 0 = Some (ri, t)"
    and "backed (rkind (info (regions bus ! ri)))"
    and "bus_write ops a sz v ctx 0 bus = (Inr u, bus')"
  shows "byte_at bus' = put_bytes (byte_at bus) t (byteCount sz) v \<and> devices bus' = devices bus
    \<and> layout bus' = layout bus"
  using bus_write_refines [OF assms] by simp

theorem write_refines_memory_witness:
  "\<exists>bus'. bus_write no_device 0x10000004 AS_word 0x11223344 (data_ctx AT_data_write) 0 sample_bus = (Inr 0, bus')
     \<and> byte_at bus' = put_bytes (byte_at sample_bus) 0x20000004 4 0x11223344"
proof -
  obtain bus' where w: "bus_write no_device 0x10000004 AS_word 0x11223344 (data_ctx AT_data_write) 0 sample_bus = (Inr 0, bus')"
    using sample_write by blast
  show ?thesis
    using write_refines_memory [OF sample_wf _ _ w, of 1 "0x20000004"] w sample_resolve by (simp add: backed_def)
qed

text \<open>
  C2. A read that succeeds on backed memory returns the little-endian value of the bytes at
  the resolved address, zero-extended, and changes no byte and no device.
\<close>

theorem read_refines_memory:
  assumes "wf_bus bus" "resolve bus a (byteCount sz) 0 = Some (ri, t)"
    and "backed (rkind (info (regions bus ! ri)))"
    and "bus_read ops a sz ctx 0 bus = (Inr v, bus')"
  shows "(\<forall>i < byteCount sz. byte_at bus (t + of_nat i) = Some (le_byte v i))
    \<and> take_bit (8 * byteCount sz) v = v \<and> byte_at bus' = byte_at bus \<and> devices bus' = devices bus"
  using bus_read_refines [OF assms] by simp

lemma sample_resolve_ram: "resolve sample_bus 0x20000004 4 0 = Some (1, 0x20000004)"
  by (subst resolve.simps) (simp add: sample_find validRange_def containsRange_def region_end_def Let_def)

theorem read_refines_memory_witness:
  "\<exists>bus'. bus_read no_device 0x20000004 AS_word (data_ctx AT_data_read) 0 sample_bus = (Inr 0, bus')
     \<and> byte_at bus' = byte_at sample_bus"
proof -
  obtain bus' where r: "bus_read no_device 0x20000004 AS_word (data_ctx AT_data_read) 0 sample_bus = (Inr 0, bus')"
    using sample_read by blast
  show ?thesis
    using read_refines_memory [OF sample_wf _ _ r, of 1 "0x20000004"] r sample_resolve_ram by (simp add: backed_def)
qed

lemma resolve_direct:
  assumes "wf_bus bus" "find_region bus a = Some ri" "containsRange (regions bus ! ri) a (byteCount sz)"
    and "backed (rkind (info (regions bus ! ri)))"
  shows "resolve bus a (byteCount sz) 0 = Some (ri, a)"
  using assms(2,3) backed_kinds(1) [OF assms(4)] find_region_range [OF assms(1-3)]
  by (subst resolve.simps) (simp add: Let_def)

text \<open>
  C10. Reading back what was written: at an address whose region accepts the store and the
  load, a write followed by a read returns the written value truncated to its width.
\<close>

theorem read_after_write:
  assumes wf: "wf_bus bus" and f: "find_region bus a = Some ri"
    and fw: "fast_writable (regions bus ! ri) a (byteCount sz) (reversible_ram_only bus)"
    and fr: "fast_readable (regions bus ! ri) a (byteCount sz) ctx'"
  shows "\<exists>bus' bus''. bus_write ops a sz v ctx 0 bus = (Inr 0, bus')
    \<and> bus_read ops a sz ctx' 0 bus' = (Inr (take_bit (8 * byteCount sz) v), bus'')"
proof -
  let ?w = "byteCount sz"
  have bk: "backed (rkind (info (regions bus ! ri)))" and rng: "containsRange (regions bus ! ri) a ?w"
    using fw by (auto simp: fast_writable_def)
  obtain bus' where w: "bus_write ops a sz v ctx 0 bus = (Inr 0, bus')"
    using bus_write_backed [OF wf f fw] by blast
  note rf = bus_write_refines [OF wf resolve_direct [OF wf f rng bk] bk w]
  have ri: "ri < length (regions bus)" by (rule find_region_less [OF f])
  have inf: "info (regions bus' ! ri) = info (regions bus ! ri)" by (rule layout_nth(1) [OF rf(3) ri])
  have wf': "wf_bus bus'" by (rule wf_bus_layout [OF rf(3) wf])
  have f': "find_region bus' a = Some ri" using f find_region_layout [OF rf(3)] by simp
  have rng': "containsRange (regions bus' ! ri) a ?w" and bk': "backed (rkind (info (regions bus' ! ri)))"
    using rng bk inf by (simp_all add: containsRange_def region_end_def)
  have fr': "fast_readable (regions bus' ! ri) a ?w ctx'"
    using fr inf by (simp add: fast_readable_def containsRange_def region_end_def)
  obtain x bus'' where r: "bus_read ops a sz ctx' 0 bus' = (Inr x, bus'')"
    using bus_read_backed [OF wf' f' fr'] by blast
  note rr = bus_read_refines [OF wf' resolve_direct [OF wf' f' rng' bk'] bk' r]
  have fit: "unat (region_base (regions bus ! ri)) + unat (region_len (regions bus ! ri)) \<le> 2 ^ 32"
    using wf_region_nth [OF wf ri] by (simp add: wf_region_def validRange_iff)
  have "le_byte x i = le_byte v i" if i: "i < ?w" for i
    using rr(1) [OF i] unat_range_offset(1) [OF rng i fit] i by (simp add: rf(1) put_bytes_def)
  then have "take_bit (8 * ?w) x = take_bit (8 * ?w) v" by (rule le_byte_eqI [OF byteCount_le_8])
  then show ?thesis using w r rr(2) by auto
qed

theorem read_after_write_witness:
  "\<exists>bus' bus''. bus_write no_device 0x20000004 AS_halfword 0x11223344 (data_ctx AT_data_write) 0 sample_bus = (Inr 0, bus')
    \<and> bus_read no_device 0x20000004 AS_halfword (data_ctx AT_data_read) 0 bus' = (Inr 0x3344, bus'')"
  using read_after_write [OF sample_wf sample_find(2), of AS_halfword "data_ctx AT_data_read" no_device "0x11223344"
      "data_ctx AT_data_write"]
  by (simp add: fast_writable_def fast_readable_def backed_def containsRange_def region_end_def data_ctx_def)


text \<open>
  C13. A faulting write changes nothing: unless the access reached a device, every field of
  the bus is the one before the write.
\<close>

theorem faulting_write_changes_nothing:
  assumes "wf_bus bus" "bus_write ops a sz v ctx 0 bus = (Inl f, bus')"
    and "\<And>ri t. resolve bus a (byteCount sz) 0 = Some (ri, t) \<Longrightarrow> rkind (info (regions bus ! ri)) \<noteq> RK_mmio"
  shows "bus' = bus"
  using assms by (rule bus_write_fault)

lemma sample_unmapped: "find_region sample_bus 0 = None"
  by (simp add: find_region_def upper_bound_prev_def)

theorem faulting_write_changes_nothing_witness:
  "\<exists>f bus'. bus_write no_device 0 AS_word 1 (data_ctx AT_data_write) 0 sample_bus = (Inl f, bus')
    \<and> reason f = BF_unmapped \<and> bus' = sample_bus"
proof -
  have r: "resolve sample_bus 0 (byteCount AS_word) 0 = None"
    by (subst resolve.simps) (simp add: sample_unmapped)
  have "\<exists>f bus'. bus_write no_device 0 AS_word 1 (data_ctx AT_data_write) 0 sample_bus = (Inl f, bus') \<and> reason f = BF_unmapped"
    by (subst bus_write.simps) (auto simp: Let_def sample_unmapped validRange_def)
  then obtain f bus' where w: "bus_write no_device 0 AS_word 1 (data_ctx AT_data_write) 0 sample_bus = (Inl f, bus')"
    "reason f = BF_unmapped" by blast
  from faulting_write_changes_nothing [OF sample_wf w(1)] r w show ?thesis by auto
qed

text \<open>
  C11. An alias is transparent: an access inside an alias of an unaliased region gives the
  result, the fault and the state of the same access at the translated address. For reads
  this needs the permissions of the alias, whose own refusal names the alias.
\<close>

theorem alias_transparent:
  assumes "wf_bus bus" "wf_aliases bus" "find_region bus a = Some ri"
    and "rkind (info (regions bus ! ri)) = RK_alias" "containsRange (regions bus ! ri) a (byteCount sz)"
    and "t = alias_target (regions bus ! ri) + (a - region_base (regions bus ! ri))"
    and "\<And>ti. find_region bus t = Some ti \<Longrightarrow> rkind (info (regions bus ! ti)) \<noteq> RK_alias"
  shows "(readable (info (regions bus ! ri)) \<and> (ctx_type ctx = AT_instruction_fetch \<longrightarrow> executable (info (regions bus ! ri)))
      \<longrightarrow> bus_read ops a sz ctx 0 bus = bus_read ops t sz ctx 0 bus)
    \<and> bus_write ops a sz v ctx 0 bus = bus_write ops t sz v ctx 0 bus"
  using alias_region_transparent [OF assms] by blast

theorem alias_transparent_witness:
  "bus_write no_device 0x10000004 AS_word 7 (data_ctx AT_data_write) 0 sample_bus =
   bus_write no_device 0x20000004 AS_word 7 (data_ctx AT_data_write) 0 sample_bus"
  using alias_transparent [OF sample_wf sample_aliases sample_find(1), of AS_word "0x20000004"
      "data_ctx AT_data_write" no_device 7] sample_find
  by (simp add: containsRange_def region_end_def)

section \<open>Fast paths\<close>

text \<open>
  C4. The sized accesses, which try the fast path first, are the checked accesses: same
  value or fault and the same bus, journal, counters and footprints included.
\<close>

theorem sized_accesses_are_checked:
  assumes "wf_bus bus"
  shows "read8 ops a ctx bus = map_value ucast (bus_read ops a AS_byte ctx 0 bus)
    \<and> read16 ops a ctx bus = map_value ucast (bus_read ops a AS_halfword ctx 0 bus)
    \<and> read32 ops a ctx bus = map_value ucast (bus_read ops a AS_word ctx 0 bus)
    \<and> write8 ops a b ctx bus = bus_write ops a AS_byte (ucast b) ctx 0 bus
    \<and> write16 ops a h ctx bus = bus_write ops a AS_halfword (ucast h) ctx 0 bus
    \<and> write32 ops a w ctx bus = bus_write ops a AS_word (ucast w) ctx 0 bus"
  by (simp only: read8_checked [OF assms] read16_checked [OF assms] read32_checked [OF assms]
      write8_checked [OF assms] write16_checked [OF assms] write32_checked [OF assms] simp_thms)

theorem sized_accesses_are_checked_witness:
  "write32 no_device 0x20000004 7 (data_ctx AT_data_write) sample_bus =
   bus_write no_device 0x20000004 AS_word (ucast (7 :: u32)) (data_ctx AT_data_write) 0 sample_bus"
  using sized_accesses_are_checked [OF sample_wf] by blast

text \<open>
  C16. The bit-parallel reduction of the word store counts exactly the bytes in which two
  words differ.
\<close>

theorem count_changed_correct:
  "count_changed (x XOR y) =
     of_nat (length (filter (\<lambda>i. (ucast (drop_bit (8 * i) x) :: u8) \<noteq> ucast (drop_bit (8 * i) y)) [0, 1, 2, 3]))"
proof -
  have "(x XOR y) AND push_bit (8 * i) 0xff = 0 \<longleftrightarrow> (ucast (drop_bit (8 * i) x) :: u8) = ucast (drop_bit (8 * i) y)"
    if "i < 4" for i
  proof -
    have "(ucast (drop_bit (8 * i) x) :: u8) = ucast (drop_bit (8 * i) y) \<longleftrightarrow> (\<forall>k<8. bit x (8 * i + k) = bit y (8 * i + k))"
      unfolding word_bits_iff using that by (auto simp: bit_simps)
    then show ?thesis by (simp add: byte_zero bit_xor_iff)
  qed
  from this [of 0] this [of 1] this [of 2] this [of 3] show ?thesis
    by (simp add: count_changed_lanes)
qed




text \<open>
  C15. A bulk store is the sequence of its word stores: whenever it succeeds, storing the
  words one after the other with \<open>tryFastWrite32\<close> succeeds too, with the same memory, the
  same journal entries and mutation sequence, the same side-effect and device generations
  and the same store footprint, whatever kinds of tracking are on. Left out are only the
  watch log, and the execution generation, which the bulk store advances once, and only
  for executable memory.
\<close>

theorem bulk_write_is_sequential:
  assumes "wf_bus bus" "tryFastWriteWords a vs ctx req bus = Some bus'"
  shows "(\<exists>bus''. writeWordsSeq a vs ctx req bus = Some bus'' \<and> unlogged bus'' = unlogged bus')
    \<and> (\<exists>ri. find_region bus a = Some ri \<and> execution_generation bus' =
          execution_generation bus + (if executable (info (regions bus ! ri)) then 1 else 0))"
  using tryFastWriteWords_seq [OF assms] tryFastWriteWords_generation [OF assms(2)] by blast

definition tracked_bus :: "unit MemoryBus" where
  "tracked_bus = sample_bus\<lparr>store_footprint_tracking := True\<rparr>"

lemma tracked_bus_regions:
  "regions tracked_bus = regions sample_bus" "reversible_ram_only tracked_bus = reversible_ram_only sample_bus"
  "find_region tracked_bus a = find_region sample_bus a"
proof -
  show r: "regions tracked_bus = regions sample_bus" "reversible_ram_only tracked_bus = reversible_ram_only sample_bus"
    by (simp_all add: tracked_bus_def)
  show "find_region tracked_bus a = find_region sample_bus a" unfolding find_region_def r ..
qed

lemma tracked_bus_wf: "wf_bus tracked_bus"
  by (rule wf_bus_layout [OF layout_cong sample_wf]) (simp add: tracked_bus_def)

lemma tracked_bulk_write: "\<exists>bus'. tryFastWriteWords 0x20000004 [v, w] ctx False tracked_bus = Some bus'"
  by (simp add: tryFastWriteWords_def tracked_bus_regions sample_find Let_def fast_writable_def backed_def containsRange_def
      region_end_def)

theorem bulk_write_is_sequential_witness:
  "\<exists>bus' bus''. tryFastWriteWords 0x20000004 [1, 2] (data_ctx AT_data_write) False tracked_bus = Some bus'
    \<and> writeWordsSeq 0x20000004 [1, 2] (data_ctx AT_data_write) False tracked_bus = Some bus''
    \<and> store_footprint_tracking tracked_bus \<and> read_footprint bus'' = read_footprint bus'"
proof -
  obtain bus' where b: "tryFastWriteWords 0x20000004 [1, 2] (data_ctx AT_data_write) False tracked_bus = Some bus'"
    using tracked_bulk_write by blast
  then obtain bus'' where "writeWordsSeq 0x20000004 [1, 2] (data_ctx AT_data_write) False tracked_bus = Some bus''"
    "unlogged bus'' = unlogged bus'"
    using bulk_write_is_sequential [OF tracked_bus_wf b] by blast
  moreover have "read_footprint (unlogged x) = read_footprint x" for x :: "unit MemoryBus" by (simp add: unlogged_def)
  moreover have "store_footprint_tracking tracked_bus" by (simp add: tracked_bus_def)
  ultimately show ?thesis using b by metis
qed

section \<open>Transactions\<close>

lemma sample_step:
  obtains bus where "bus_steps no_device sample_bus 1 bus" "mmio_generation bus = mmio_generation sample_bus"
    "byte_at bus = put_bytes (byte_at sample_bus) 0x20000004 4 0x11223344"
proof -
  have fw: "fast_writable (regions sample_bus ! 1) 0x20000004 (byteCount AS_word) (reversible_ram_only sample_bus)"
    by (simp add: fast_writable_def backed_def containsRange_def region_end_def)
  obtain bus where w: "bus_write no_device 0x20000004 AS_word 0x11223344 (data_ctx AT_data_write) 0 sample_bus = (Inr 0, bus)"
    and m: "mmio_generation bus = mmio_generation sample_bus"
    using bus_write_backed [OF sample_wf sample_find(2) fw, of no_device "0x11223344" "data_ctx AT_data_write" 0]
    by (simp add: bump_execution_def addStoreFootprint_def Let_def)
  have "bus_steps no_device sample_bus (Suc 0) bus" by (rule steps_write [OF steps_refl w])
  moreover have "byte_at bus = put_bytes (byte_at sample_bus) 0x20000004 4 0x11223344"
    using bus_write_refines(1) [OF sample_wf _ _ w, of 1 "0x20000004"] sample_resolve_ram by (simp add: backed_def)
  ultimately show thesis using that m by simp
qed

text \<open>
  C9. A small journaled transaction can be undone. Take a checkpoint while the write journal
  is on, and then make at most 1024 transfers, where a sized access of any width is one
  transfer and a bulk store is one for each of its words. If they reached no device, and the
  64-bit mutation counter does not overflow, restoring the checkpoint succeeds and gives
  back every byte of backed memory, the devices, the map and the mutation sequence of the
  checkpoint.
\<close>

theorem small_transaction_restores:
  assumes "wf_bus bus0" "write_journal_tracking bus0"
    and "bus_steps ops bus0 k bus" "k \<le> 1024" "mmio_generation bus = mmio_generation bus0"
    and "unat (mutation_sequence bus0) + 8 * k \<le> 18446744073709551615"
  shows "\<exists>bus'. restoreSideEffects (sideEffectCheckpoint bus0) bus = (True, bus')
    \<and> byte_at bus' = byte_at bus0 \<and> devices bus' = devices bus0 \<and> layout bus' = layout bus0
    \<and> mutation_sequence bus' = mutation_sequence bus0"
  by (rule restoreSideEffects_correct [OF assms(1-3,6)]) (rule small_can_restore [OF assms])

theorem small_transaction_restores_witness:
  "\<exists>(bus :: unit MemoryBus) bus'. byte_at bus 0x20000004 = Some 0x44
    \<and> restoreSideEffects (sideEffectCheckpoint sample_bus) bus = (True, bus')
    \<and> byte_at bus' = byte_at sample_bus"
proof (rule sample_step)
  fix bus
  assume b: "bus_steps no_device sample_bus 1 bus" "mmio_generation bus = mmio_generation sample_bus"
    "byte_at bus = put_bytes (byte_at sample_bus) 0x20000004 4 0x11223344"
  have "byte_at bus 0x20000004 = Some 0x44" by (simp add: b(3) put_bytes_def le_byte_def)
  moreover obtain bus' where "restoreSideEffects (sideEffectCheckpoint sample_bus) bus = (True, bus')"
    "byte_at bus' = byte_at sample_bus"
    using small_transaction_restores [OF sample_wf _ b(1) _ b(2)] by auto
  ultimately show ?thesis by blast
qed

text \<open>
  C3. Whenever the bus says that a checkpoint taken with the write journal on can be restored,
  restoring it succeeds and gives back memory, devices, map and mutation sequence, whatever
  accesses were made since.
\<close>

theorem restorable_transaction_restores:
  assumes "wf_bus bus0" "write_journal_tracking bus0" "bus_steps ops bus0 k bus"
    and "unat (mutation_sequence bus0) + 8 * k \<le> 18446744073709551615"
    and "canRestoreSideEffects (sideEffectCheckpoint bus0) bus"
  shows "\<exists>bus'. restoreSideEffects (sideEffectCheckpoint bus0) bus = (True, bus')
    \<and> byte_at bus' = byte_at bus0 \<and> devices bus' = devices bus0 \<and> layout bus' = layout bus0
    \<and> mutation_sequence bus' = mutation_sequence bus0"
  using assms by (rule restoreSideEffects_correct)

theorem restorable_transaction_restores_witness:
  "\<exists>(bus :: unit MemoryBus) bus'. byte_at bus 0x20000004 = Some 0x44
    \<and> restoreSideEffects (sideEffectCheckpoint sample_bus) bus = (True, bus')
    \<and> byte_at bus' = byte_at sample_bus"
proof (rule sample_step)
  fix bus
  assume b: "bus_steps no_device sample_bus 1 bus" "mmio_generation bus = mmio_generation sample_bus"
    "byte_at bus = put_bytes (byte_at sample_bus) 0x20000004 4 0x11223344"
  have "byte_at bus 0x20000004 = Some 0x44" by (simp add: b(3) put_bytes_def le_byte_def)
  moreover obtain bus' where "restoreSideEffects (sideEffectCheckpoint sample_bus) bus = (True, bus')"
    "byte_at bus' = byte_at sample_bus"
    using restorable_transaction_restores [OF sample_wf _ b(1)] small_can_restore [OF sample_wf _ b(1) _ b(2)] by auto
  ultimately show ?thesis by blast
qed

text \<open>
  C5. The restored-since test is exact: it answers true just when no device was reached, at
  most 8192 bytes were journaled, and every byte of backed memory has its value of the
  checkpoint.
\<close>

theorem restored_since_exact:
  assumes "wf_bus bus0" "write_journal_tracking bus0" "bus_steps ops bus0 k bus"
    and "unat (mutation_sequence bus0) + 8 * k \<le> 18446744073709551615"
  shows "sideEffectsRestoredSince (sideEffectCheckpoint bus0) bus \<longleftrightarrow>
    mmio_generation bus = mmio_generation bus0 \<and> window_size (sideEffectCheckpoint bus0) bus \<le> 8192
    \<and> byte_at bus = byte_at bus0"
  using assms by (rule sideEffectsRestoredSince_iff)

theorem restored_since_exact_witness:
  "\<exists>bus. bus_steps no_device sample_bus 1 bus \<and> \<not> sideEffectsRestoredSince (sideEffectCheckpoint sample_bus) bus"
proof (rule sample_step)
  fix bus
  assume b: "bus_steps no_device sample_bus 1 bus"
    "byte_at bus = put_bytes (byte_at sample_bus) 0x20000004 4 0x11223344"
  have "byte_at bus 0x20000004 = Some 0x44" by (simp add: b(2) put_bytes_def le_byte_def)
  moreover have "byte_at sample_bus 0x20000004 = Some 0"
    using byte_at_found [OF sample_wf, of 1 "0x20000004"] by (simp add: contains_def region_end_def backed_def)
  ultimately have "byte_at bus \<noteq> byte_at sample_bus" by auto
  then show ?thesis using restored_since_exact [OF sample_wf _ b(1)] b(1) by auto
qed

text \<open>
  C6. The compatibility test is sound for replay: when it accepts, the devices are those of
  the checkpoint and every byte in the footprint has its value of the checkpoint.
\<close>

theorem compatible_since_sound:
  assumes "wf_bus bus0" "write_journal_tracking bus0" "bus_steps ops bus0 k bus"
    and "unat (mutation_sequence bus0) + 8 * k \<le> 18446744073709551615"
    and "sideEffectsCompatibleSince (sideEffectCheckpoint bus0) fp bus"
  shows "devices bus = devices bus0 \<and> (\<forall>x. footprintContains fp x \<longrightarrow> byte_at bus x = byte_at bus0 x)"
  using assms by (rule sideEffectsCompatibleSince_sound)

lemma sample_read_step:
  obtains bus where "bus_steps no_device sample_bus 1 bus" "mutation_sequence bus = mutation_sequence sample_bus"
    "mmio_generation bus = mmio_generation sample_bus" "journal_generation bus = journal_generation sample_bus"
    "footprintContains (read_footprint bus) 0x20000006"
proof -
  have fr: "fast_readable (regions sample_bus ! 1) 0x20000004 (byteCount AS_word) (data_ctx AT_data_read)"
    by (simp add: fast_readable_def backed_def containsRange_def region_end_def data_ctx_def)
  let ?bus = "note_data_read 0x20000004 4 (data_ctx AT_data_read) sample_bus"
  have st: "bus_steps no_device sample_bus (Suc 0) ?bus"
    using steps_read [OF steps_refl bus_read_backed [OF sample_wf sample_find(2) fr]] by simp
  have "footprintContains (read_footprint (addAccessFootprint 0x20000004 4 sample_bus)) (0x20000004 + of_nat 2)"
    by (rule addAccessFootprint_in) simp_all
  then show thesis using that [of ?bus] st
    by (simp add: note_data_read_def data_ctx_def addAccessFootprint_def Let_def)
qed

theorem compatible_since_sound_witness:
  "\<exists>bus. bus_steps no_device sample_bus 1 bus
    \<and> sideEffectsCompatibleSince (sideEffectCheckpoint sample_bus) (read_footprint bus) bus
    \<and> byte_at bus 0x20000006 = byte_at sample_bus 0x20000006"
proof (rule sample_read_step)
  fix bus
  assume b: "bus_steps no_device sample_bus 1 bus" "mutation_sequence bus = mutation_sequence sample_bus"
    "mmio_generation bus = mmio_generation sample_bus" "journal_generation bus = journal_generation sample_bus"
    "footprintContains (read_footprint bus) 0x20000006"
  have c: "sideEffectsCompatibleSince (sideEffectCheckpoint sample_bus) (read_footprint bus) bus"
    using b(2-4) by (simp add: sideEffectsCompatibleSince_def sideEffectCheckpoint_def)
  then have "byte_at bus 0x20000006 = byte_at sample_bus 0x20000006"
    using compatible_since_sound [OF sample_wf _ b(1) _ c] b(5) by simp
  with b(1) c show ?thesis by blast
qed

text \<open>
  C12. The footprint has no false negatives: after a tracked data read of backed memory every
  byte read is in the footprint.
\<close>

theorem tracked_reads_in_footprint:
  assumes "wf_bus bus" "resolve bus a (byteCount sz) 0 = Some (ri, t)"
    and "backed (rkind (info (regions bus ! ri)))"
    and "bus_read ops a sz ctx 0 bus = (Inr v, bus')"
    and "read_footprint_tracking bus" "ctx_type ctx = AT_data_read" "ctx_pc ctx \<noteq> 0"
    and "i < byteCount sz"
  shows "footprintContains (read_footprint bus') (t + of_nat i)"
  using assms by (rule bus_read_footprint)

theorem tracked_reads_in_footprint_witness:
  "\<exists>bus'. bus_read no_device 0x20000004 AS_word (data_ctx AT_data_read) 0 sample_bus = (Inr 0, bus')
    \<and> footprintContains (read_footprint bus') 0x20000007"
proof -
  obtain bus' where r: "bus_read no_device 0x20000004 AS_word (data_ctx AT_data_read) 0 sample_bus = (Inr 0, bus')"
    using sample_read by blast
  show ?thesis using tracked_reads_in_footprint [OF sample_wf _ _ r, of 1 "0x20000004" 3] r sample_resolve_ram
    by (simp add: backed_def data_ctx_def)
qed

end
