(* ===== verification/Cpu_Properties.thy ===== *)
theory Cpu_Properties
  imports Step_Laws Straight_Line Bus_Properties
begin

text \<open>
  The properties of the executor, the inlined handlers, the stepper and the run loop, each
  with an instance on a small concrete core: eight bytes of flash holding a few
  instructions, sixteen bytes of RAM, and no devices.
\<close>

section \<open>A concrete core\<close>

definition sample_flash :: Region where
  "sample_flash = mk_region
     \<lparr>base = 0x08000000, rsize = 8, rkind = RK_flash, rname = ''flash'', readable = True,
      writable = False, executable = True\<rparr> [0x05, 0x20, 0x01, 0xb1, 0x10, 0xb5, 0x10, 0xbd]"

definition code_bus :: "unit MemoryBus" where
  "code_bus = (new_MemoryBus ())\<lparr>regions := [sample_flash, sample_ram]\<rparr>"

definition sample_env :: "unit CpuEnv" where
  "sample_env = \<lparr>env_devices = no_device, env_fpccr = None, env_nan = (\<lambda>_. 0x7fc00000)\<rparr>"

definition sample_core :: "u32 \<Rightarrow> unit Core" where
  "sample_core pc = \<lparr>cpu = snd (cpu_reset 0x20000010 (pc OR 1)), mem = code_bus, diag = new_diagnostic\<rparr>"

definition sample_cortex :: "u32 \<Rightarrow> unit Cortex" where
  "sample_cortex pc = \<lparr>core = sample_core pc, single_fast = 0, single_decline = 0, single_generic = 0\<rparr>"

lemma code_fields [simp]:
  "regions code_bus = [sample_flash, sample_ram]"
  "\<not> store_footprint_tracking code_bus" "\<not> trap_shared_mmio code_bus" "\<not> trap_all_mmio code_bus"
  "base (info sample_flash) = 0x08000000" "rsize (info sample_flash) = 8"
  "rkind (info sample_flash) = RK_flash" "readable (info sample_flash)" "\<not> writable (info sample_flash)"
  "executable (info sample_flash)" "bytes sample_flash = [0x05, 0x20, 0x01, 0xb1, 0x10, 0xb5, 0x10, 0xbd]"
  by (simp_all add: code_bus_def sample_flash_def mk_region_def new_MemoryBus_def)

lemma code_wf: "wf_bus code_bus"
  by (simp add: wf_bus_def wf_region_def validRange_def stop_of_def backed_def)

lemma code_find: "find_region code_bus 0x08000000 = Some 0" "find_region code_bus 0x08000002 = Some 0"
  "find_region code_bus 0x08000004 = Some 0" "find_region code_bus 0x08000006 = Some 0"
  "find_region code_bus 0x20000008 = Some 1"
  by (simp_all add: find_region_def upper_bound_prev_def contains_def region_end_def)

lemma code_fetch:
  "read16 no_device 0x08000000 (fetch_context 0x08000000) code_bus = (Inr 0x2005, code_bus)"
  "read16 no_device 0x08000002 (fetch_context 0x08000002) code_bus = (Inr 0xb101, code_bus)"
  "read16 no_device 0x08000004 (fetch_context 0x08000004) code_bus = (Inr 0xb510, code_bus)"
  by (simp_all add: read16_def tryFastRead_def code_find fast_readable_def backed_def containsRange_def region_end_def
    fetch_context_def decodeLittleEndianBytes_def note_data_read_def upt_rec)



definition sample_mov :: DecodedInstruction where
  "sample_mov = (base16 0x2005 I_mov OF_immediate)\<lparr>imm := 5, set_flags := True\<rparr>"

definition sample_cbz :: DecodedInstruction where
  "sample_cbz = (base16 0xb101 I_cbz OF_immediate)\<lparr>rn := 1\<rparr>"

lemmas evaluate_decoder = decode16_def is32BitThumbPrefix_def patterns16_def row_def decodeMiscellaneous_def

lemma sample_decode: "decode16 0x2005 = Some sample_mov" "decode16 0xb101 = Some sample_cbz"
    "decode16 0xb510 = misc_push 0xb510" "decode16 0xbd10 = misc_pop 0xbd10"
  by (simp_all add: evaluate_decoder decodeImmediate8_def misc_compare_branch_def sample_mov_def sample_cbz_def
      field_def reg_def Let_def base16_def default_instruction_def)

lemmas evaluate_fetch = sample_cortex_def sample_core_def cpu_reset_def new_CpuState_def fetch_instruction_def
  sample_env_def code_fetch fetch_second_def decode_fetched_def is32BitThumbPrefix_def sample_decode xpsr_t_def

lemmas evaluate_step = stepFast_def stepFastImpl_def step_general_def condition_passed_def effective_condition_def
  inItBlock_def it_adjusted_def enter_instruction_def set_r_def dispatch_def finish_it_def execute_def bindE_def
  fp_prologue_def isFpRegisterAccess_def returnE_def exec_instruction_def alu_of_def exec_other_def Let_def

lemma sample_first_step:
  "fs_reason (fst (stepFast sample_env (sample_cortex 0x08000000))) = SR_step_complete"
  "core_r (cpu (core (snd (stepFast sample_env (sample_cortex 0x08000000))))) 0 = 5"
  by (simp_all add: evaluate_fetch evaluate_step exec_mov_def shiftedOperand_def writeRegister_def
      setNzc_def setNz_def sample_mov_def base16_def default_instruction_def fetched_def stopped_def)

lemma sample_cortex_fields [simp]:
  "mem (core (sample_cortex pc)) = code_bus" "core (sample_cortex pc) = sample_core pc" "mem (sample_core pc) = code_bus"
  by (simp_all add: sample_cortex_def sample_core_def)

section \<open>Stepping\<close>

text \<open>
  C26. Stepping with the inlined handlers is stepping with the executor: from the same
  state, \<open>stepJitFast\<close> and \<open>stepFast\<close> give the same result (stop reason, size, address,
  retired instructions and cycles), the same architectural state and diagnostic, and the
  same memory with the same journal, generations and read footprint; only the counter of
  changes to executable memory and the watch log, where a declined handler is visible,
  are left out. This covers every instruction, condition, IT block, decline and fault.
\<close>

theorem stepping_paths_agree:
  assumes "wf_bus (mem (core x))"
    and "stepJitFast env x = (res, y)" "stepFast env x = (res', z)"
  shows "res = res' \<and> cpu (core y) = cpu (core z) \<and> diag (core y) = diag (core z)
    \<and> unlogged (mem (core y)) = unlogged (mem (core z))"
  using stepJitFast_agrees [OF assms(1), of env] assms(2,3) by (simp add: same_step_def core_sim_def)

theorem stepping_paths_agree_witness:
  "wf_bus code_bus
   \<and> fs_reason (fst (stepJitFast sample_env (sample_cortex 0x08000000))) = SR_step_complete
   \<and> core_r (cpu (core (snd (stepJitFast sample_env (sample_cortex 0x08000000))))) 0 = 5"
proof -
  obtain res y res' z where s: "stepJitFast sample_env (sample_cortex 0x08000000) = (res, y)"
    "stepFast sample_env (sample_cortex 0x08000000) = (res', z)" by fastforce
  then have "res = res' \<and> cpu (core y) = cpu (core z)"
    using stepping_paths_agree [of "sample_cortex 0x08000000" sample_env res y res' z] code_wf by simp
  then show ?thesis using sample_first_step code_wf s by simp
qed

text \<open>
  C27. An inlined handler never retires anything but what the executor would: when the
  handler chosen for a decoded instruction accepts it, \<open>execute\<close> completes on the same
  core with the same architectural state, diagnostic and memory; when it declines, it has
  not touched the architectural state or the diagnostic, and only a multiple load of the
  program counter may have noted its reads.
\<close>

theorem handlers_match_executor:
  assumes "decode16 h = Some i \<or> decode32 first second = Some i" "instruction_address (cpu c) = pc"
    and "wf_bus (mem c)"
    and "executeJitFast i (classifyJitFast i) pc c = (ok, c')"
  shows "if ok then \<exists>c''. execute env i c = (SR_step_complete, c'') \<and> cpu c' = cpu c'' \<and> diag c' = diag c''
           \<and> unlogged (mem c') = unlogged (mem c'')
         else cpu c' = cpu c \<and> diag c' = diag c \<and> (classifyJitFast i \<noteq> JF_pop_pc \<longrightarrow> c' = c)"
proof -
  have "wf_instruction i" using decode16_ok [of h] decode32_ok [of first second] assms(1) by (auto simp: decodes_ok_def)
  then show ?thesis
    using jit_retires [OF _ assms(2,3), of i c' env] fast_declines [of i _ pc c c'] assms(4)
    by (auto simp: core_sim_def)
qed

theorem handlers_match_executor_witness:
  "decode16 0x2005 = Some sample_mov \<and> classifyJitFast sample_mov = JF_mov_imm
   \<and> (\<exists>c''. execute sample_env sample_mov (sample_core 0x08000000) = (SR_step_complete, c'')
        \<and> cpu (snd (executeJitFast sample_mov JF_mov_imm 0x08000000 (sample_core 0x08000000))) = cpu c'')"
proof -
  have k: "classifyJitFast sample_mov = JF_mov_imm"
    by (simp add: sample_mov_def base16_def default_instruction_def classifyJitFast_def by_form_def)
  obtain c' where j: "executeJitFast sample_mov JF_mov_imm 0x08000000 (sample_core 0x08000000) = (True, c')"
    by (simp add: executeJitFast_def jit_compute_def)
  have "instruction_address (cpu (sample_core 0x08000000)) = 0x08000000"
    by (simp add: sample_core_def cpu_reset_def Let_def)
  then show ?thesis
    using handlers_match_executor [of "0x2005" sample_mov 0 0 "sample_core 0x08000000" "0x08000000" True c' sample_env] j
      sample_decode(1) code_wf k by auto
qed

section \<open>Executing decoded instructions\<close>

text \<open>
  C28. Executing a decoded instruction never ends in the undefined-instruction stop or in
  one that belongs to the stepper: it completes, or faults on the bus, or asks for
  synchronization, or finds an invalid state, and only BKPT stops at a breakpoint.
\<close>

theorem decoded_instructions_execute:
  assumes "decode16 h = Some i \<or> decode32 first second = Some i"
  shows "fst (execute env i c) \<in> {SR_step_complete, SR_bus_fault, SR_synchronization_required, SR_invalid_state}
    \<or> fst (execute env i c) = SR_breakpoint \<and> kind i = I_bkpt"
proof -
  have "wf_instruction i" using decode16_ok [of h] decode32_ok [of first second] assms by (auto simp: decodes_ok_def)
  then show ?thesis by (rule execute_stops)
qed

theorem decoded_instructions_execute_witness:
  "decode16 0xb101 = Some sample_cbz
   \<and> fst (execute sample_env sample_cbz (sample_core 0x08000002)) \<noteq> SR_undefined_instruction"
  using decoded_instructions_execute [of "0xb101" sample_cbz 0 0 sample_env "sample_core 0x08000002"] sample_decode(2) by auto

text \<open>
  C29. Executing a decoded instruction keeps the invariant of the core: the program counter
  and the address of the current instruction stay halfword aligned, and register 13 stays
  a copy of the active stack pointer. MSR to CONTROL is the one exception, since it
  selects the other stack pointer without reloading register 13.
\<close>

theorem execute_keeps_core_invariant:
  assumes "decode16 h = Some i \<or> decode32 first second = Some i" "\<not> (kind i = I_msr \<and> imm i = 20)"
    and "\<not> bit (core_r (cpu c) 15) 0" "\<not> bit (instruction_address (cpu c)) 0" "core_r (cpu c) 13 = activeSp (cpu c)"
    and "execute env i c = (stop, c')"
  shows "\<not> bit (core_r (cpu c') 15) 0 \<and> \<not> bit (instruction_address (cpu c')) 0 \<and> core_r (cpu c') 13 = activeSp (cpu c')"
proof -
  have "wf_instruction i" using decode16_ok [of h] decode32_ok [of first second] assms(1) by (auto simp: decodes_ok_def)
  then show ?thesis
    using execute_keeps_inv [OF _ assms(2), of c env] assms(3-6) by (simp add: cpu_inv_def)
qed

theorem execute_keeps_core_invariant_witness:
  "decode16 0xb101 = Some sample_cbz \<and> core_r (cpu (sample_core 0x08000002)) 15 = 0x08000002
   \<and> \<not> bit (core_r (cpu (snd (execute sample_env sample_cbz (sample_core 0x08000002)))) 15) 0
   \<and> core_r (cpu (snd (execute sample_env sample_cbz (sample_core 0x08000002)))) 13
       = activeSp (cpu (snd (execute sample_env sample_cbz (sample_core 0x08000002))))"
proof -
  let ?c = "sample_core 0x08000002" let ?e = "execute sample_env sample_cbz ?c"
  have "core_r (cpu ?c) 15 = 0x08000002" "instruction_address (cpu ?c) = 0x08000002" "core_r (cpu ?c) 13 = activeSp (cpu ?c)"
    by (simp_all add: sample_core_def cpu_reset_def new_CpuState_def activeSp_def uses_msp_def Let_def)
  moreover have "kind sample_cbz \<noteq> I_msr" by (simp add: sample_cbz_def base16_def)
  ultimately show ?thesis
    using execute_keeps_core_invariant [of "0xb101" sample_cbz 0 0 ?c sample_env "fst ?e" "snd ?e"] sample_decode(2) by auto
qed

text \<open>
  C30. What a function prologue saves, its epilogue restores: after a PUSH, a POP of as many
  registers from the same memory and stack pointer gives every popped low register the
  value that was pushed into its slot, puts the active stack pointer back, and, when it
  pops the program counter, returns to the pushed address without its Thumb bit.
\<close>

theorem push_pop_roundtrip:
  assumes "misc_push x = Some i" "misc_pop y = Some j"
    and "length (listed_regs (register_list j)) = n" "length (listed_regs (register_list i)) = n"
    and "word_usable (mem c) (activeSp (cpu c) - of_nat (4 * n)) n"
    and "execute env i c = (SR_step_complete, c1)" "mem c2 = mem c1" "activeSp (cpu c2) = activeSp (cpu c1)"
    and "r = readRegister (last (listed_regs (register_list i))) (cpu c)"
    and "listed (register_list j) 15 \<longrightarrow> r AND 1 \<noteq> 0 \<and> \<not> isExceptionReturn r"
  shows "\<exists>c'. execute env j c2 = (SR_step_complete, c') \<and> activeSp (cpu c') = activeSp (cpu c)
    \<and> (\<forall>k < n. listed_regs (register_list j) ! k < 13 \<longrightarrow>
         readRegister (listed_regs (register_list j) ! k) (cpu c') =
           readRegister (listed_regs (register_list i) ! k) (cpu c))
    \<and> (listed (register_list j) 15 \<longrightarrow> core_r (cpu c') 15 = r AND NOT 1)"
  using push_pop [OF assms(1-9)] assms(10) by blast

definition sample_call :: "unit Core" where
  "sample_call = (sample_core 0x08000004)\<lparr>cpu := (cpu (sample_core 0x08000004))
     \<lparr>core_r := (\<lambda>_. 0)(4 := 7, 13 := 0x20000010, 14 := 0x08000001, 15 := 0x08000004)\<rparr>\<rparr>"

lemma sample_lists:
  "\<exists>i. misc_push 0xb510 = Some i \<and> register_list i = 0x4010"
  "\<exists>j. misc_pop 0xbd10 = Some j \<and> register_list j = 0x8010"
  "listed_regs 0x4010 = [4, 14]" "listed_regs 0x8010 = [4, 15]"
  by (simp_all add: misc_push_def misc_pop_def base16_def Let_def listed_regs_def listed_def upt_rec)

lemma sample_call_fields:
  "activeSp (cpu sample_call) = 0x20000010" "mem sample_call = code_bus"
  "readRegister 4 (cpu sample_call) = 7" "readRegister 14 (cpu sample_call) = 0x08000001"
  by (simp_all add: sample_call_def sample_core_def cpu_reset_def new_CpuState_def activeSp_def uses_msp_def
      inHandlerMode_def ipsr_def xpsr_t_def readRegister_def Let_def)

lemma code_usable: "word_usable code_bus 0x20000008 2"
  by (simp add: word_usable_def code_wf code_find fast_writable_def backed_def containsRange_def region_end_def)

theorem push_pop_roundtrip_witness:
  "\<exists>i j c1 c'. misc_push 0xb510 = Some i \<and> misc_pop 0xbd10 = Some j
     \<and> execute sample_env i sample_call = (SR_step_complete, c1) \<and> execute sample_env j c1 = (SR_step_complete, c')
     \<and> readRegister 4 (cpu c') = 7 \<and> activeSp (cpu c') = 0x20000010 \<and> core_r (cpu c') 15 = 0x08000000"
proof -
  obtain i j where i: "misc_push 0xb510 = Some i" "register_list i = 0x4010"
    and j: "misc_pop 0xbd10 = Some j" "register_list j = 0x8010" using sample_lists(1,2) by auto
  have n: "length (listed_regs (register_list i)) = 2" "length (listed_regs (register_list j)) = 2" by (simp_all add: i j sample_lists)
  have u: "word_usable (mem sample_call) (activeSp (cpu sample_call) - of_nat (4 * 2)) 2"
    using code_usable by (simp add: sample_call_fields)
  obtain c1 where c1: "execute sample_env i sample_call = (SR_step_complete, c1)"
    using push_effect [OF i(1) u n(1) [symmetric] refl, of sample_env] by blast
  have r: "0x08000001 = readRegister (last (listed_regs (register_list i))) (cpu sample_call)"
    by (simp add: i sample_lists sample_call_fields)
  obtain c' where c': "execute sample_env j c1 = (SR_step_complete, c')" "activeSp (cpu c') = activeSp (cpu sample_call)"
    "\<forall>k < 2. listed_regs (register_list j) ! k < 13 \<longrightarrow> readRegister (listed_regs (register_list j) ! k) (cpu c') =
       readRegister (listed_regs (register_list i) ! k) (cpu sample_call)"
    "listed (register_list j) 15 \<longrightarrow> core_r (cpu c') 15 = 0x08000001 AND NOT 1"
    using push_pop_roundtrip [OF i(1) j(1) n(2,1) u c1 refl refl r] by (auto simp: isExceptionReturn_def)
  have "readRegister 4 (cpu c') = 7" using c'(3) [rule_format, of 0] by (simp add: i j sample_lists sample_call_fields)
  moreover have "core_r (cpu c') 15 = 0x08000000" using c'(4) by (simp add: j listed_def)
  ultimately show ?thesis using i(1) j(1) c1 c'(1,2) sample_call_fields(1) by metis
qed

lemma flag_tests:
  "(w :: u32) AND xpsr_n \<noteq> 0 \<longleftrightarrow> bit w 31" "w AND xpsr_z \<noteq> 0 \<longleftrightarrow> bit w 30"
  "w AND xpsr_c \<noteq> 0 \<longleftrightarrow> bit w 29" "w AND xpsr_v \<noteq> 0 \<longleftrightarrow> bit w 28"
  using and_pow2_ne_0 [of w 31] and_pow2_ne_0 [of w 30] and_pow2_ne_0 [of w 29] and_pow2_ne_0 [of w 28]
  by (simp_all add: xpsr_n_def xpsr_z_def xpsr_c_def xpsr_v_def)

lemma setNzcv_tests:
  "xpsr (setNzcv r st) AND xpsr_n \<noteq> 0 \<longleftrightarrow> ar_n r" "xpsr (setNzcv r st) AND xpsr_z \<noteq> 0 \<longleftrightarrow> ar_z r"
  "xpsr (setNzcv r st) AND xpsr_c \<noteq> 0 \<longleftrightarrow> ar_c r" "xpsr (setNzcv r st) AND xpsr_v \<noteq> 0 \<longleftrightarrow> ar_v r"
  unfolding flag_tests
  by (simp_all add: setNzcv_def flag_def bit_simps xpsr_n_def xpsr_z_def xpsr_c_def xpsr_v_def)

text \<open>
  C31. After a compare, every condition code tests the relation it is named for: equality,
  unsigned and signed order of the two operands, whatever the flags were before.
\<close>

theorem compare_conditions:
  assumes "kind i = I_cmp" "execute env i c = (stop, c')" "x = readRegister (rn i) (cpu c)" "y = operand2 i (cpu c)"
  shows "stop = SR_step_complete
    \<and> (conditionPasses C_eq (xpsr (cpu c')) \<longleftrightarrow> x = y) \<and> (conditionPasses C_ne (xpsr (cpu c')) \<longleftrightarrow> x \<noteq> y)
    \<and> (conditionPasses C_cs (xpsr (cpu c')) \<longleftrightarrow> y \<le> x) \<and> (conditionPasses C_cc (xpsr (cpu c')) \<longleftrightarrow> x < y)
    \<and> (conditionPasses C_hi (xpsr (cpu c')) \<longleftrightarrow> y < x) \<and> (conditionPasses C_ls (xpsr (cpu c')) \<longleftrightarrow> x \<le> y)
    \<and> (conditionPasses C_ge (xpsr (cpu c')) \<longleftrightarrow> sint y \<le> sint x) \<and> (conditionPasses C_lt (xpsr (cpu c')) \<longleftrightarrow> sint x < sint y)
    \<and> (conditionPasses C_gt (xpsr (cpu c')) \<longleftrightarrow> sint y < sint x) \<and> (conditionPasses C_le (xpsr (cpu c')) \<longleftrightarrow> sint x \<le> sint y)"
proof -
  let ?r = "addWithCarry x (NOT y) True"
  have c': "stop = SR_step_complete" "xpsr (cpu c') = xpsr (setNzcv ?r (cpu c))"
    using assms by (auto simp: execute_def bindE_def fp_prologue_def isFpRegisterAccess_def returnE_def exec_instruction_def
        alu_of_def on_cpu_def alu_compare_def Let_def)
  show ?thesis
    using compare_flags (2-4) [of x y] word_eq_iff_signed [of x y]
    by (auto simp: c' conditionPasses_def setNzcv_tests Let_def not_le less_le)
qed

theorem compare_conditions_witness:
  "\<exists>i. decode16 0x2805 = Some i \<and> kind i = I_cmp \<and> operand2 i (cpu (sample_core 0x08000000)) = 5
     \<and> conditionPasses C_lt (xpsr (cpu (snd (execute sample_env i (sample_core 0x08000000)))))
     \<and> \<not> conditionPasses C_cs (xpsr (cpu (snd (execute sample_env i (sample_core 0x08000000)))))"
proof -
  let ?i = "(base16 0x2805 I_cmp OF_immediate)\<lparr>imm := 5, set_flags := True\<rparr>" let ?c = "sample_core 0x08000000"
  have d: "decode16 0x2805 = Some ?i"
    by (simp add: evaluate_decoder decodeImmediate8_def field_def reg_def Let_def base16_def default_instruction_def)
  have "kind ?i = I_cmp" "readRegister (rn ?i) (cpu ?c) = 0" "operand2 ?i (cpu ?c) = 5"
    by (simp_all add: base16_def default_instruction_def readRegister_def operand2_def shiftedOperand_def sample_core_def
        cpu_reset_def new_CpuState_def Let_def)
  then show ?thesis
    using compare_conditions [of ?i sample_env ?c "fst (execute sample_env ?i ?c)" "snd (execute sample_env ?i ?c)" 0 5] d
    by auto
qed

section \<open>Runs\<close>

text \<open>
  C33. A run retires at most its budget. When it reports that the budget is used up it has
  retired exactly the budget; every other reason comes from a step that stopped.
\<close>

theorem run_respects_budget:
  assumes "run env budget x = (r, y)"
  shows "run_instructions r \<le> budget \<and> (run_reason r = SR_instruction_budget \<longrightarrow> run_instructions r = budget)"
proof -
  define agg where "agg = \<lparr>run_reason = SR_instruction_budget, run_instructions = 0, run_cycles = 0,
      run_diagnostic = capture (cpu (core x)) (new_diagnostic\<lparr>diag_instruction_address := core_r (cpu (core x)) 15\<rparr>)\<rparr>"
  have "unat (run_instructions agg) + unat budget < 2 ^ 64" by (simp add: agg_def unsigned_less)
  note c = run_loop_counts [OF this, of env "stopped SR_step_complete 0" x]
  show ?thesis
    using assms c unfolding run_def Let_def agg_def [symmetric]
    by (auto simp: agg_def word_le_nat_alt word_unat_eq_iff split: prod.splits sum.splits)
qed

theorem run_respects_budget_witness:
  "run sample_env 1 (sample_cortex 0x08000000) = (fst (run sample_env 1 (sample_cortex 0x08000000)), snd (run sample_env 1 (sample_cortex 0x08000000)))
   \<and> run_reason (fst (run sample_env 1 (sample_cortex 0x08000000))) = SR_instruction_budget
   \<and> run_instructions (fst (run sample_env 1 (sample_cortex 0x08000000))) = 1"
proof -
  have "run_reason (fst (run sample_env 1 (sample_cortex 0x08000000))) = SR_instruction_budget"
    using sample_first_step(1) by (simp add: run_def Let_def case_prod_beta)
  then show ?thesis
    using run_respects_budget [of sample_env 1 "sample_cortex 0x08000000"
        "fst (run sample_env 1 (sample_cortex 0x08000000))" "snd (run sample_env 1 (sample_cortex 0x08000000))"] by simp
qed

text \<open>Two aggregates whose counts differ by \<open>i\<close> and \<open>c\<close>; the loop keeps the difference.\<close>

definition shifted :: "u64 \<Rightarrow> u64 \<Rightarrow> RunResult \<Rightarrow> RunResult \<Rightarrow> bool" where
  "shifted i c a b \<longleftrightarrow>
     run_reason a = run_reason b \<and> run_instructions a = i + run_instructions b \<and> run_cycles a = c + run_cycles b"

definition loop_result :: "RunResult + RunResult \<times> FastStepResult \<Rightarrow> RunResult" where
  "loop_result r = (case r of Inl a \<Rightarrow> a | Inr (a, _) \<Rightarrow> a)"

lemma run_loop_shifted:
  assumes "shifted i c a b"
  shows "snd (run_loop env n a one x) = snd (run_loop env n b one' x)
    \<and> shifted i c (loop_result (fst (run_loop env n a one x))) (loop_result (fst (run_loop env n b one' x)))"
  using assms
proof (induction n arbitrary: a b one one' x)
  case (Suc n)
  obtain res y where s: "stepFast env x = (res, y)" by fastforce
  show ?case
  proof (cases "fs_reason res = SR_step_complete")
    case True
    let ?up = "\<lambda>a. a\<lparr>run_instructions := run_instructions a + ucast (fs_instructions res),
        run_cycles := run_cycles a + ucast (fs_cycles res)\<rparr>"
    have "shifted i c (?up a) (?up b)" using Suc.prems by (simp add: shifted_def add.assoc)
    note Suc.IH [OF this, of res y res]
    then show ?thesis unfolding run_loop.simps s Let_def prod.case True simp_thms if_False .
  next
    case False
    then show ?thesis using Suc.prems unfolding run_loop.simps s Let_def prod.case
      by (simp add: shifted_def loop_result_def add.assoc)
  qed
qed (simp add: loop_result_def)

definition run_start :: "'d Cortex \<Rightarrow> RunResult" where
  "run_start x = \<lparr>run_reason = SR_instruction_budget, run_instructions = 0, run_cycles = 0,
     run_diagnostic = capture (cpu (core x)) (new_diagnostic\<lparr>diag_instruction_address := core_r (cpu (core x)) 15\<rparr>)\<rparr>"

lemma run_by_loop:
  assumes "run env m x = (r, y)"
  shows "y = snd (run_loop env (unat m) (run_start x) (stopped SR_step_complete 0) x)"
    "shifted 0 0 r (loop_result (fst (run_loop env (unat m) (run_start x) (stopped SR_step_complete 0) x)))"
  using assms unfolding run_def Let_def run_start_def [symmetric]
  by (auto simp: loop_result_def shifted_def split: prod.splits sum.splits)

lemma loop_finished:
  fixes m :: u64
  shows "run_reason (loop_result (fst (run_loop env (unat m) (run_start x) one x))) = SR_instruction_budget \<Longrightarrow>
    \<exists>a one' y. run_loop env (unat m) (run_start x) one x = (Inr (a, one'), y)"
  using run_loop_counts [of "run_start x" "unat m" env one x] unat_lt_64 [of m]
  by (auto simp: run_start_def loop_result_def unsigned_less split: prod.splits sum.splits)

text \<open>
  C34. Runs compose: when a first run uses up its budget, running the second budget from
  where it ended leaves the core exactly where one run of both budgets does, stops for the
  same reason, and the counts of the single run are the sums of the two.
\<close>

theorem runs_compose:
  assumes "run env m x = (r1, y)" "run_reason r1 = SR_instruction_budget" "run env n y = (r2, z)"
    and "unat m + unat n < 2 ^ 64"
  shows "\<exists>r. run env (m + n) x = (r, z) \<and> run_reason r = run_reason r2
    \<and> run_instructions r = run_instructions r1 + run_instructions r2 \<and> run_cycles r = run_cycles r1 + run_cycles r2"
proof -
  let ?one = "stopped SR_step_complete 0"
  note r1 = run_by_loop [OF assms(1)] and r2 = run_by_loop [OF assms(3)]
  obtain a one' where a: "run_loop env (unat m) (run_start x) ?one x = (Inr (a, one'), y)"
    using loop_finished [of env m x ?one] r1 assms(2) by (auto simp: shifted_def)
  obtain r z' where r: "run env (m + n) x = (r, z')" by fastforce
  have mn: "unat (m + n) = unat m + unat n" using assms(4) by (simp add: unat_word_ariths)
  note rr = run_by_loop [OF r, unfolded mn run_loop_add a prod.case sum.case]
  have "shifted (run_instructions r1) (run_cycles r1) a (run_start y)"
    using r1(2) a assms(2) by (auto simp: shifted_def run_start_def loop_result_def)
  note sh = run_loop_shifted [OF this, of env "unat n" one' y ?one]
  have "z' = z" using rr(1) r2(1) sh by simp
  moreover have "shifted (run_instructions r1) (run_cycles r1) r r2" using rr(2) r2(2) sh by (simp add: shifted_def)
  ultimately show ?thesis using r by (simp add: shifted_def)
qed

theorem runs_compose_witness:
  "\<exists>r. run sample_env 2 (sample_cortex 0x08000000) = (r, snd (run sample_env 1 (snd (run sample_env 1 (sample_cortex 0x08000000)))))
     \<and> run_instructions r = 1 + run_instructions (fst (run sample_env 1 (snd (run sample_env 1 (sample_cortex 0x08000000)))))"
proof -
  let ?x = "sample_cortex 0x08000000" let ?r = "run sample_env 1 ?x"
  have b: "run_reason (fst ?r) = SR_instruction_budget" "run_instructions (fst ?r) = 1"
    using sample_first_step(1) step_result(3) [of sample_env ?x] by (simp_all add: run_def Let_def case_prod_beta)
  then show ?thesis
    using runs_compose [of sample_env 1 ?x "fst ?r" "snd ?r" 1 "fst (run sample_env 1 (snd ?r))" "snd (run sample_env 1 (snd ?r))"]
    by auto
qed


section \<open>Stops for synchronization\<close>

lemma restarted_result:
  "dispatched env j d si pc x = (stop, y) \<Longrightarrow> restarts si stop x \<Longrightarrow> fs_cycles (fst (step_general env j d si pc x)) = 0"
  unfolding dispatched_def Let_def step_general_def restarts_def
  by (simp add: case_prod_beta Let_def fetched_def stopped_def)

text \<open>
  C32. An instruction that met a device needing synchronization can be restarted. While MMIO
  trapping is on, which is when the stepper keeps a restart checkpoint, a step of an
  instruction classified as able to trap that stops for synchronization counts nothing as
  retired, charges no cycles, and leaves the whole architectural state as it was before
  the step.
\<close>

theorem synchronization_restarts:
  assumes "fetch_instruction env (core_r (cpu (core x)) 15) (core x) = (Inr si, c)" "si_may_trap si" "mmioTrapping (mem c)"
    and "stepFast env x = (res, y)" "fs_reason res = SR_synchronization_required"
  shows "fs_instructions res = 0 \<and> fs_cycles res = 0 \<and> cpu (core y) = cpu (core x)"
proof (cases rule: step_cases [of env x])
  case stopped
  then show ?thesis using assms(4,5) by simp
next
  case (fetched si' c')
  let ?pc = "core_r (cpu (core x)) 15" let ?x = "x\<lparr>core := c\<rparr>"
  have s: "step_general env False False si ?pc ?x = (res, y)"
    using step_running(1) [OF fetched] fetched assms(1,4) by simp
  obtain stop z where d: "dispatched env False False si ?pc ?x = (stop, z)" by fastforce
  note o = step_general_outcome [OF d, unfolded s fst_conv snd_conv]
  have r: "restarts si stop ?x" using o(1) assms(2,3,5) by (simp add: restarts_def)
  then show ?thesis
    using o restarted_result [OF d r] s fetch_instruction_ok (3) [OF assms(1)] by simp
qed

definition trap_flash :: Region where
  "trap_flash = mk_region \<lparr>base = 0x08000000, rsize = 4, rkind = RK_flash, rname = ''flash'', readable = True,
     writable = False, executable = True\<rparr> [0x01, 0x68, 0x00, 0xbd]"

definition trap_device :: Region where
  "trap_device = mk_region \<lparr>base = 0x40000000, rsize = 16, rkind = RK_mmio, rname = ''usart'', readable = True,
     writable = True, executable = False\<rparr> []"

definition trap_bus :: "unit MemoryBus" where
  "trap_bus = (new_MemoryBus ())\<lparr>regions := [trap_flash, trap_device], trap_all_mmio := True\<rparr>"

definition trap_cortex :: "u32 \<Rightarrow> unit Cortex" where
  "trap_cortex pc = \<lparr>core = \<lparr>cpu = (snd (cpu_reset 0x40000000 (pc OR 1)))\<lparr>core_r := (\<lambda>_. 0)(0 := 0x40000000, 15 := pc)\<rparr>,
                           mem = trap_bus, diag = new_diagnostic\<rparr>,
     single_fast = 0, single_decline = 0, single_generic = 0\<rparr>"

lemma trap_fields [simp]:
  "regions trap_bus = [trap_flash, trap_device]" "trap_all_mmio trap_bus"
  "base (info trap_flash) = 0x08000000" "rsize (info trap_flash) = 4" "rkind (info trap_flash) = RK_flash"
  "readable (info trap_flash)" "executable (info trap_flash)" "bytes trap_flash = [0x01, 0x68, 0x00, 0xbd]"
  "base (info trap_device) = 0x40000000" "rsize (info trap_device) = 16" "rkind (info trap_device) = RK_mmio"
  "readable (info trap_device)"
  by (simp_all add: trap_bus_def trap_flash_def trap_device_def mk_region_def)

lemma trap_find: "find_region trap_bus 0x08000000 = Some 0" "find_region trap_bus 0x08000002 = Some 0"
  "find_region trap_bus 0x40000000 = Some 1"
  by (simp_all add: find_region_def upper_bound_prev_def contains_def region_end_def)

lemma trap_fetch:
  "read16 ops 0x08000000 (fetch_context 0x08000000) trap_bus = (Inr 0x6801, trap_bus)"
  "read16 ops 0x08000002 (fetch_context 0x08000002) trap_bus = (Inr 0xbd00, trap_bus)"
  by (simp_all add: read16_def tryFastRead_def trap_find fast_readable_def backed_def containsRange_def region_end_def
      fetch_context_def decodeLittleEndianBytes_def note_data_read_def upt_rec)

lemma trap_read:
  assumes "ctx_type ctx = AT_data_read"
  shows "read32 ops 0x40000000 ctx trap_bus = (Inl (makeFault BF_synchronization_required 0x40000000 AS_word ctx
     (rname (info trap_device)) ''MMIO access requires coordinator synchronization''), trap_bus)"
  using assms
  by (simp add: read32_def tryFastRead32_def trap_find fast_readable_def backed_def bus_read.simps validRange_def
     containsRange_def region_end_def mmio_read_def mmio_trapped_def map_value_def Let_def)

definition sample_ldr :: DecodedInstruction where
  "sample_ldr = (base16 0x6801 I_ldr OF_immediate)\<lparr>rd := 1\<rparr>"

definition sample_pop_pc :: DecodedInstruction where
  "sample_pop_pc = (base16 0xbd00 I_pop OF_register_list)\<lparr>register_list := 0x8000, rn := 13, writeback := True, index := False\<rparr>"

lemmas evaluate_trap = sample_ldr_def sample_pop_pc_def base16_def default_instruction_def classifyJitBoundary_def

lemma trap_decode: "decode16 0x6801 = Some sample_ldr" "decode16 0xbd00 = Some sample_pop_pc"
  by (simp_all add: evaluate_decoder evaluate_trap decodeImmediateTransfer_def misc_pop_def field_def reg_def Let_def)

lemma trap_instruction:
  "fetch_instruction env 0x08000000 (core (trap_cortex 0x08000000)) = (Inr (step_metadata 0x6801 2 sample_ldr), core (trap_cortex 0x08000000))"
  "fetch_instruction env 0x08000002 (core (trap_cortex 0x08000002)) = (Inr (step_metadata 0xbd00 2 sample_pop_pc), core (trap_cortex 0x08000002))"
  by (simp_all add: fetch_instruction_def trap_cortex_def trap_fetch fetch_second_def decode_fetched_def is32BitThumbPrefix_def
      trap_decode Let_def)

lemma trap_running: "running (cpu (core (trap_cortex 0x08000000)))" "core_r (cpu (core (trap_cortex 0x08000000))) 15 = 0x08000000"
  "running (cpu (core (trap_cortex 0x08000002)))" "core_r (cpu (core (trap_cortex 0x08000002))) 15 = 0x08000002"
  by (simp_all add: running_def trap_cortex_def cpu_reset_def new_CpuState_def xpsr_t_def Let_def)

lemmas evaluate_access = dispatched_def dispatch_def trap_cortex_def cpu_reset_def new_CpuState_def
  condition_passed_def effective_condition_def inItBlock_def it_adjusted_def enter_instruction_def set_r_def execute_def
  bindE_def fp_prologue_def isFpRegisterAccess_def returnE_def exec_instruction_def alu_of_def exec_other_def
  readRegister_def activeSp_def uses_msp_def inHandlerMode_def ipsr_def xpsr_t_def xpsr_ipsr_mask_def data_context_def
  on_memory_def trap_read failBus_def makeFault_def Let_def

lemma si_metadata:
  "si_size (step_metadata r sz i) = sz"
  "si_may_trap (step_metadata r sz i) = (classifyJitBoundary i \<notin> {JB_none, JB_control_flow})"
  by (simp_all add: step_metadata_def Let_def)

lemma trap_dispatched:
  "fst (dispatched env False False (step_metadata 0x6801 2 sample_ldr) 0x08000000 (trap_cortex 0x08000000)) = SR_synchronization_required"
  "fst (dispatched env False False (step_metadata 0xbd00 2 sample_pop_pc) 0x08000002 (trap_cortex 0x08000002)) = SR_synchronization_required"
  "core_r (cpu (core (snd (dispatched env False False (step_metadata 0xbd00 2 sample_pop_pc) 0x08000002 (trap_cortex 0x08000002))))) 15
    = 0x08000004"
  by (simp_all add: evaluate_access evaluate_trap si_metadata exec_ldr_def access_address_def offset_address_def load_base_def
      load_offset_def exec_multiple_def multiple_start_def decrement_before_def listed_def upt_rec)

lemma trap_step:
  "stepFast env (trap_cortex 0x08000000) = step_general env False False (step_metadata 0x6801 2 sample_ldr) 0x08000000 (trap_cortex 0x08000000)"
  "stepFast env (trap_cortex 0x08000002) = step_general env False False (step_metadata 0xbd00 2 sample_pop_pc) 0x08000002 (trap_cortex 0x08000002)"
  using step_running (1) [of "trap_cortex 0x08000000" env] step_running (1) [of "trap_cortex 0x08000002" env]
  by (simp_all add: trap_running trap_instruction)

lemma trap_outcome:
  "fs_reason (fst (stepFast env (trap_cortex 0x08000000))) = SR_synchronization_required"
  "fs_reason (fst (stepFast env (trap_cortex 0x08000002))) = SR_synchronization_required"
  "fs_instructions (fst (stepFast env (trap_cortex 0x08000002))) = 1"
  "core_r (cpu (core (snd (stepFast env (trap_cortex 0x08000002))))) 15 = 0x08000004"
proof -
  have m: "\<not> si_may_trap (step_metadata 0xbd00 2 sample_pop_pc)" by (simp add: si_metadata evaluate_trap listed_def)
  show "fs_reason (fst (stepFast env (trap_cortex 0x08000000))) = SR_synchronization_required"
    "fs_reason (fst (stepFast env (trap_cortex 0x08000002))) = SR_synchronization_required"
    "fs_instructions (fst (stepFast env (trap_cortex 0x08000002))) = 1"
    unfolding trap_step using trap_dispatched(1,2) [of env]
    by (simp_all add: step_general_outcome [OF surjective_pairing] restarts_def m)
  have "finish_it i (inItBlock (it_state (cpu (core (trap_cortex 0x08000002))))) st = st" for i st
    by (simp add: finish_it_def trap_cortex_def cpu_reset_def new_CpuState_def inItBlock_def Let_def)
  then show "core_r (cpu (core (snd (stepFast env (trap_cortex 0x08000002))))) 15 = 0x08000004"
    unfolding trap_step using trap_dispatched(3) [of env]
    by (simp add: step_general_outcome [OF surjective_pairing] restarts_def m)
qed

theorem synchronization_restarts_witness:
  "fetch_instruction sample_env 0x08000000 (core (trap_cortex 0x08000000))
     = (Inr (step_metadata 0x6801 2 sample_ldr), core (trap_cortex 0x08000000))
   \<and> si_may_trap (step_metadata 0x6801 2 sample_ldr) \<and> mmioTrapping trap_bus
   \<and> fs_reason (fst (stepFast sample_env (trap_cortex 0x08000000))) = SR_synchronization_required
   \<and> cpu (core (snd (stepFast sample_env (trap_cortex 0x08000000)))) = cpu (core (trap_cortex 0x08000000))"
proof -
  have "si_may_trap (step_metadata 0x6801 2 sample_ldr)" by (simp add: si_metadata evaluate_trap)
  moreover have "mem (core (trap_cortex pc)) = trap_bus" for pc by (simp add: trap_cortex_def)
  moreover have "mmioTrapping trap_bus" by (simp add: mmioTrapping_def)
  ultimately show ?thesis
    using synchronization_restarts [of sample_env "trap_cortex 0x08000000" "step_metadata 0x6801 2 sample_ldr"
        "core (trap_cortex 0x08000000)" "fst (stepFast sample_env (trap_cortex 0x08000000))"
        "snd (stepFast sample_env (trap_cortex 0x08000000))"]
    by (simp add: trap_instruction trap_running trap_outcome)
qed

text \<open>
  A POP of the program counter is classified as control flow, hence as unable to trap,
  although it reads memory: when its stack lies in a trapping device, the step stops for
  synchronization without a restart, with the instruction counted as retired and the
  program counter past it.
\<close>

lemma pop_pc_not_restarted:
  "let (res, y) = stepFast env (trap_cortex 0x08000002)
   in fs_reason res = SR_synchronization_required \<and> mmioTrapping (mem (core (trap_cortex 0x08000002)))
      \<and> fs_instructions res = 1 \<and> core_r (cpu (core y)) 15 = 0x08000004"
  using trap_outcome [of env] by (simp add: case_prod_beta trap_cortex_def mmioTrapping_def)

section \<open>Blocks\<close>

text \<open>
  C35. A block plan is exactly the maximal prefix that can be compiled, within the limit:
  it takes every straight-line instruction (arithmetic, or memory that leaves the program
  counter alone) up to the first other one. If there is none below the limit, the plan
  covers everything and reports no boundary; if the first other instruction is a branch, it
  is the last instruction of the plan, and the plan ends with a branch; otherwise the plan
  stops before it and reports its class.
\<close>

theorem block_plan_exact:
  assumes "p = planJitBlock is n" "k = translated_instructions p"
  shows "k \<le> min n (length is)
    \<and> (\<forall>j. j < (if ends_with_branch p then k - 1 else k) \<longrightarrow> straight (is ! j))
    \<and> (case boundary p of
          JB_none \<Rightarrow> k = min n (length is) \<and> \<not> ends_with_branch p
        | JB_control_flow \<Rightarrow> 0 < k \<and> ends_with_branch p \<and> classifyJitBoundary (is ! (k - 1)) = JB_control_flow
        | b \<Rightarrow> k < min n (length is) \<and> \<not> ends_with_branch p
            \<and> \<not> straight (is ! k) \<and> classifyJitBoundary (is ! k) = b)"
  using plan_cases [OF assms refl] by simp

theorem block_plan_exact_witness:
  "0 < translated_instructions (planJitBlock [sample_mov, sample_cbz, sample_mov] 8)
   \<and> ends_with_branch (planJitBlock [sample_mov, sample_cbz, sample_mov] 8)
   \<and> translated_instructions (planJitBlock [sample_mov, sample_cbz, sample_mov] 8) = 2
   \<and> straight ([sample_mov, sample_cbz, sample_mov] ! 0)"
proof -
  let ?p = "planJitBlock [sample_mov, sample_cbz, sample_mov] 8"
  have "translated_instructions ?p = 2" "boundary ?p = JB_control_flow"
    by (simp_all add: planJitBlock_def classifyJitBoundary_def sample_mov_def sample_cbz_def base16_def default_instruction_def Let_def)
  then show ?thesis
    using block_plan_exact [OF refl refl, of "[sample_mov, sample_cbz, sample_mov]" 8] by auto
qed

text \<open>
  C36. A planned block is straight-line code: whichever of its instructions other than the
  terminating branch is executed, from whatever state, the program counter is afterwards
  what it was when the instruction started to execute, namely the address of the next one,
  also when the instruction stops on a fault. So only the last instruction of a block can
  leave it.
\<close>

theorem planned_block_falls_through:
  assumes "\<forall>i \<in> set is. (\<exists>h. decode16 h = Some i) \<or> (\<exists>first second. decode32 first second = Some i)"
    and "p = planJitBlock is n" "j < translated_instructions p"
    and "\<not> (ends_with_branch p \<and> Suc j = translated_instructions p)"
  shows "core_r (cpu (snd (execute env (is ! j) c))) 15 = core_r (cpu c) 15"
proof (rule straight_keeps_pc)
  note plan = plan_cases [OF assms(2) refl refl]
  have "j < (if ends_with_branch p then translated_instructions p - 1 else translated_instructions p)"
    using assms(3,4) by (cases "ends_with_branch p") simp_all
  then show "straight (is ! j)" by (rule plan(2))
  have "is ! j \<in> set is" using plan(1) assms(3) by (intro nth_mem) simp
  then show "wf_instruction (is ! j)"
    using assms(1) decode16_ok decode32_ok by (metis decodes_ok_simps(2))
qed

theorem planned_block_falls_through_witness:
  "decode16 0x2005 = Some sample_mov \<and> translated_instructions (planJitBlock [sample_mov, sample_cbz] 8) = 2
   \<and> core_r (cpu (snd (execute sample_env sample_mov (sample_core 0x08000002)))) 15 = 0x08000002"
proof -
  have "translated_instructions (planJitBlock [sample_mov, sample_cbz] 8) = 2"
    by (simp add: planJitBlock_def classifyJitBoundary_def sample_mov_def sample_cbz_def base16_def default_instruction_def Let_def)
  moreover have "core_r (cpu (sample_core 0x08000002)) 15 = 0x08000002"
    by (simp add: sample_core_def cpu_reset_def Let_def)
  ultimately show ?thesis
    using planned_block_falls_through [of "[sample_mov, sample_cbz]" "planJitBlock [sample_mov, sample_cbz] 8" 8 0 sample_env
        "sample_core 0x08000002"] sample_decode by auto
qed

end
