(* ===== verification/System_Control.thy ===== *)
theory System_Control
  imports Memory_Bus
begin

text \<open>
  The private peripheral bus of the core, \<open>SystemControl\<close> of \<open>src/cortexm/system_control.cpp\<close>:
  SysTick, the interrupt controller, the system control block and the cycle counter. The
  arrays of the class are functions of the index; the model keeps the whole register file
  and every operation that changes it.
\<close>

section \<open>State\<close>

record SystemControl =
  nvic_enable :: "nat \<Rightarrow> u32"
  nvic_pending :: "nat \<Rightarrow> u32"
  nvic_active :: "nat \<Rightarrow> u32"
  nvic_lines :: "nat \<Rightarrow> u32"
  nvic_priority :: "nat \<Rightarrow> u8"
  system_priority :: "nat \<Rightarrow> u8"
  systick_ctrl :: u32
  systick_load :: u32
  systick_value :: u32
  systick_cycles_to_wrap :: u32
  systick_count_flag :: bool
  vtor :: u32
  aircr :: u32
  scr :: u32
  ccr :: u32
  shcsr :: u32
  cfsr :: u32
  hfsr :: u32
  mmfar :: u32
  bfar :: u32
  cpacr :: u32
  demcr :: u32
  fpccr :: u32
  dwt_ctrl :: u32
  dwt_cyccnt :: u32
  active_exception :: u16
  pendsv_pending :: bool
  systick_pending :: bool
  external_pending_enabled :: bool
  reset_requested :: bool

definition sys_reset :: "u32 \<Rightarrow> SystemControl" where
  "sys_reset vector_base =
     \<lparr>nvic_enable = (\<lambda>_. 0), nvic_pending = (\<lambda>_. 0), nvic_active = (\<lambda>_. 0), nvic_lines = (\<lambda>_. 0),
      nvic_priority = (\<lambda>_. 0), system_priority = (\<lambda>_. 0), systick_ctrl = 0, systick_load = 0,
      systick_value = 0, systick_cycles_to_wrap = 0, systick_count_flag = False,
      vtor = vector_base AND 0xffffff80, aircr = 0, scr = 0, ccr = 0x200, shcsr = 0, cfsr = 0, hfsr = 0,
      mmfar = 0, bfar = 0, cpacr = 0, demcr = 0, fpccr = 0, dwt_ctrl = 0, dwt_cyccnt = 0,
      active_exception = 0, pendsv_pending = False, systick_pending = False,
      external_pending_enabled = False, reset_requested = False\<rparr>"

abbreviation (input) pend_sv :: u16 where "pend_sv \<equiv> 14"
abbreviation (input) sys_tick :: u16 where "sys_tick \<equiv> 15"

section \<open>SysTick and the cycle counter\<close>

definition systick_wrapped :: "SystemControl \<Rightarrow> SystemControl" where
  "systick_wrapped s =
     s\<lparr>systick_count_flag := True, systick_pending := systick_pending s \<or> systick_ctrl s AND 2 \<noteq> 0\<rparr>"

definition advanceSysTick :: "u64 \<Rightarrow> SystemControl \<Rightarrow> SystemControl" where
  "advanceSysTick cycles s =
     (let period = systick_load s + 1;
          to_wrap = (if systick_cycles_to_wrap s = 0 then period else systick_cycles_to_wrap s)
      in if cycles < ucast to_wrap then
           (let left = to_wrap - ucast cycles
            in s\<lparr>systick_cycles_to_wrap := left, systick_value := left - 1\<rparr>)
         else
           (let remaining = cycles - ucast to_wrap;
                s = systick_wrapped s;
                left =
                  (if remaining \<noteq> 0 then
                     (let remaining = (if remaining \<ge> ucast period then remaining mod ucast period else remaining)
                      in if remaining = 0 then period else period - ucast remaining)
                   else period)
            in s\<lparr>systick_cycles_to_wrap := left, systick_value := left - 1\<rparr>))"

definition advanceCycles :: "u64 \<Rightarrow> SystemControl \<Rightarrow> SystemControl" where
  "advanceCycles cycles s =
     (let s = (if dwt_ctrl s AND 1 \<noteq> 0 then s\<lparr>dwt_cyccnt := dwt_cyccnt s + ucast cycles\<rparr> else s)
      in if systick_ctrl s AND 1 = 0 \<or> systick_load s = 0 \<or> cycles = 0 then s else advanceSysTick cycles s)"

definition cyclesUntilSysTickInterrupt :: "SystemControl \<Rightarrow> u64 option" where
  "cyclesUntilSysTickInterrupt s =
     (if systick_pending s then Some 0
      else if systick_ctrl s AND 3 \<noteq> 3 \<or> systick_load s = 0 then None
      else Some (if systick_cycles_to_wrap s = 0 then ucast (systick_load s) + 1
                 else ucast (systick_cycles_to_wrap s)))"

section \<open>Pending exceptions\<close>

definition refreshPendingSummary :: "SystemControl \<Rightarrow> SystemControl" where
  "refreshPendingSummary s =
     (let pending = (\<lambda>i. if i < 8 then nvic_pending s i OR (nvic_lines s i AND NOT (nvic_active s i))
                          else nvic_pending s i)
      in s\<lparr>nvic_pending := pending,
           external_pending_enabled := list_ex (\<lambda>i. pending i AND nvic_enable s i \<noteq> 0) [0..<8]\<rparr>)"

definition irq_external :: "u16 \<Rightarrow> bool" where
  "irq_external e \<longleftrightarrow> 16 \<le> e \<and> e < 256"

definition irq_word :: "u16 \<Rightarrow> nat" where
  "irq_word e = unat (e - 16) div 32"

definition irq_mask :: "u16 \<Rightarrow> u32" where
  "irq_mask e = push_bit (unat (e - 16) mod 32) 1"

definition pend :: "u16 \<Rightarrow> SystemControl \<Rightarrow> SystemControl" where
  "pend e s =
     (if e = pend_sv then s\<lparr>pendsv_pending := True\<rparr>
      else if e = sys_tick then s\<lparr>systick_pending := True\<rparr>
      else if irq_external e then
        refreshPendingSummary
          (s\<lparr>nvic_pending := (nvic_pending s)(irq_word e := nvic_pending s (irq_word e) OR irq_mask e)\<rparr>)
      else s)"

definition setInterruptLine :: "u16 \<Rightarrow> bool \<Rightarrow> SystemControl \<Rightarrow> SystemControl" where
  "setInterruptLine irq asserted s =
     (if irq \<ge> 240 then s
      else
        let w = unat irq div 32; m = push_bit (unat irq mod 32) 1;
            was_asserted = (nvic_lines s w AND m \<noteq> 0);
            line = (if asserted then nvic_lines s w OR m else nvic_lines s w AND NOT m);
            s = s\<lparr>nvic_lines := (nvic_lines s)(w := line)\<rparr>;
            s = (if asserted \<and> \<not> was_asserted
                 then s\<lparr>nvic_pending := (nvic_pending s)(w := nvic_pending s w OR m)\<rparr> else s)
        in refreshPendingSummary s)"

definition clearPending :: "u16 \<Rightarrow> SystemControl \<Rightarrow> SystemControl" where
  "clearPending e s =
     (if e = pend_sv then s\<lparr>pendsv_pending := False\<rparr>
      else if e = sys_tick then s\<lparr>systick_pending := False\<rparr>
      else if irq_external e then
        refreshPendingSummary
          (s\<lparr>nvic_pending := (nvic_pending s)(irq_word e := nvic_pending s (irq_word e) AND NOT (irq_mask e))\<rparr>)
      else s)"

definition sys_enter :: "u16 \<Rightarrow> SystemControl \<Rightarrow> SystemControl" where
  "sys_enter e s =
     (let s = s\<lparr>active_exception := e\<rparr>;
          s = (if irq_external e
               then s\<lparr>nvic_active := (nvic_active s)(irq_word e := nvic_active s (irq_word e) OR irq_mask e)\<rparr>
               else s)
      in clearPending e s)"

definition sys_resume :: "u16 \<Rightarrow> SystemControl \<Rightarrow> SystemControl" where
  "sys_resume e s = s\<lparr>active_exception := e\<rparr>"

definition sys_leave :: "u16 \<Rightarrow> SystemControl \<Rightarrow> SystemControl" where
  "sys_leave e s =
     (let s = (if irq_external e
               then s\<lparr>nvic_active := (nvic_active s)(irq_word e := nvic_active s (irq_word e) AND NOT (irq_mask e))\<rparr>
               else s);
          s = (if active_exception s = e then s\<lparr>active_exception := 0\<rparr> else s)
      in refreshPendingSummary s)"

definition isPending :: "u16 \<Rightarrow> SystemControl \<Rightarrow> bool" where
  "isPending e s =
     (if e = pend_sv then pendsv_pending s
      else if e = sys_tick then systick_pending s
      else if \<not> irq_external e then False
      else nvic_pending s (irq_word e) AND irq_mask e \<noteq> 0)"

definition isEnabled :: "u16 \<Rightarrow> SystemControl \<Rightarrow> bool" where
  "isEnabled e s =
     (if e < 16 then True else if e \<ge> 256 then False
      else nvic_enable s (irq_word e) AND irq_mask e \<noteq> 0)"

definition sys_priority :: "u16 \<Rightarrow> SystemControl \<Rightarrow> u8" where
  "sys_priority e s =
     (if 4 \<le> e \<and> e \<le> 15 then system_priority s (unat (e - 4))
      else if irq_external e then nvic_priority s (unat (e - 16)) else 0)"

definition hasEnabledPending :: "SystemControl \<Rightarrow> bool" where
  "hasEnabledPending s \<longleftrightarrow> pendsv_pending s \<or> systick_pending s \<or> external_pending_enabled s"

definition architectural_priority :: "u16 \<Rightarrow> SystemControl \<Rightarrow> int" where
  "architectural_priority e s = (if e = 2 then -2 else if e = 3 then -1 else uint (sys_priority e s))"

text \<open>Whether the selection takes an exception into account, under the masks of the core.\<close>

definition admitted :: "u32 \<Rightarrow> u32 \<Rightarrow> u32 \<Rightarrow> SystemControl \<Rightarrow> u16 \<Rightarrow> bool" where
  "admitted primask basepri faultmask s e \<longleftrightarrow>
     isPending e s \<and> isEnabled e s
     \<and> \<not> (faultmask \<noteq> 0 \<and> e \<noteq> 2)
     \<and> \<not> (primask \<noteq> 0 \<and> e > 3)
     \<and> \<not> (active_exception s \<noteq> 0 \<and> architectural_priority e s \<ge> architectural_priority (active_exception s) s)
     \<and> \<not> (basepri AND 0xf0 \<noteq> 0 \<and> e > 3 \<and> ucast (sys_priority e s) \<ge> basepri AND 0xf0)"

definition consider_candidate :: "u32 \<Rightarrow> u32 \<Rightarrow> u32 \<Rightarrow> SystemControl \<Rightarrow> u16 \<Rightarrow> (u16 \<times> u8) option \<Rightarrow> (u16 \<times> u8) option" where
  "consider_candidate primask basepri faultmask s e selected =
     (if \<not> admitted primask basepri faultmask s e then selected
      else case selected of
          None \<Rightarrow> Some (e, sys_priority e s)
        | Some (x, p) \<Rightarrow>
            if sys_priority e s < p \<or> sys_priority e s = p \<and> e < x then Some (e, sys_priority e s)
            else selected)"

text \<open>The set bits of a word, lowest first, each time clearing the lowest one.\<close>

definition countr_zero :: "u32 \<Rightarrow> nat" where
  "countr_zero x = length (takeWhile (\<lambda>i. \<not> bit x i) [0..<32])"

function lowest_bits :: "u32 \<Rightarrow> nat list" where
  "lowest_bits candidates =
     (if candidates = 0 then [] else countr_zero candidates # lowest_bits (candidates AND (candidates - 1)))"
  by pat_completeness auto
termination
proof (relation "measure unat")
  fix c :: u32 assume "c \<noteq> 0"
  have "c AND (c - 1) \<le> c - 1" by (simp add: word_and_le1)
  moreover have "c - 1 < c" using \<open>c \<noteq> 0\<close> by (simp add: word_less_nat_alt unat_minus_one unat_gt_0)
  ultimately show "(c AND (c - 1), c) \<in> measure unat" by (simp add: word_less_nat_alt [symmetric])
qed simp

declare lowest_bits.simps [simp del]

definition nextPending :: "u32 \<Rightarrow> u32 \<Rightarrow> u32 \<Rightarrow> SystemControl \<Rightarrow> u16 option" where
  "nextPending primask basepri faultmask s =
     (if \<not> hasEnabledPending s then None
      else
        let externals = concat (map (\<lambda>w. map (\<lambda>b. of_nat (16 + w * 32 + b))
                (lowest_bits (nvic_pending s w AND nvic_enable s w))) [0..<8])
        in map_option fst
             (fold (consider_candidate primask basepri faultmask s) (pend_sv # sys_tick # externals) None))"

definition consumeResetRequest :: "SystemControl \<Rightarrow> bool \<times> SystemControl" where
  "consumeResetRequest s = (reset_requested s, s\<lparr>reset_requested := False\<rparr>)"

definition fpuEnabled :: "SystemControl \<Rightarrow> bool" where
  "fpuEnabled s \<longleftrightarrow> cpacr s AND 0x00f00000 = 0x00f00000"

definition hasTakablePending :: "u32 \<Rightarrow> u32 \<Rightarrow> u32 \<Rightarrow> SystemControl \<Rightarrow> bool" where
  "hasTakablePending primask basepri faultmask s \<longleftrightarrow> nextPending primask basepri faultmask s \<noteq> None"

definition setFpccr :: "u32 \<Rightarrow> SystemControl \<Rightarrow> SystemControl" where
  "setFpccr value s = s\<lparr>fpccr := value\<rparr>"

section \<open>Registers\<close>

definition within :: "u32 \<Rightarrow> u32 \<Rightarrow> u32 \<Rightarrow> bool" where
  "within lo hi offset \<longleftrightarrow> lo \<le> offset \<and> offset < hi"

definition word_at :: "(nat \<Rightarrow> u32) \<Rightarrow> u32 \<Rightarrow> u32 \<Rightarrow> u32" where
  "word_at ws first offset = ws (unat (offset - first) div 4)"

definition bytes_at :: "(nat \<Rightarrow> u8) \<Rightarrow> nat \<Rightarrow> u32" where
  "bytes_at prio first =
     ucast (prio first) OR push_bit 8 (ucast (prio (first + 1))) OR push_bit 16 (ucast (prio (first + 2)))
     OR push_bit 24 (ucast (prio (first + 3)))"

definition read_icsr :: "SystemControl \<Rightarrow> u32" where
  "read_icsr s =
     (ucast (active_exception s) OR (if pendsv_pending s then push_bit 28 1 else 0)
      OR (if systick_pending s then push_bit 26 1 else 0)
      OR (case nextPending 0 0 0 s of None \<Rightarrow> 0 | Some e \<Rightarrow> push_bit 12 (ucast e)))"

definition readWord :: "u32 \<Rightarrow> SystemControl \<Rightarrow> u32 \<times> SystemControl" where
  "readWord offset s =
     (if offset = 0x1000 then (dwt_ctrl s, s)
      else if offset = 0x1004 then (dwt_cyccnt s, s)
      else if offset = 0xe010 then
        ((systick_ctrl s AND 7) OR (if systick_count_flag s then push_bit 16 1 else 0), s\<lparr>systick_count_flag := False\<rparr>)
      else
        (if offset = 0xe014 then systick_load s
         else if offset = 0xe018 then systick_value s
         else if offset = 0xe01c then 0x3e8
         else if within 0xe100 0xe120 offset then word_at (nvic_enable s) 0xe100 offset
         else if within 0xe180 0xe1a0 offset then word_at (nvic_enable s) 0xe180 offset
         else if within 0xe200 0xe220 offset then word_at (nvic_pending s) 0xe200 offset
         else if within 0xe280 0xe2a0 offset then word_at (nvic_pending s) 0xe280 offset
         else if within 0xe300 0xe320 offset then word_at (nvic_active s) 0xe300 offset
         else if within 0xe400 0xe4f0 offset then bytes_at (nvic_priority s) (unat (offset - 0xe400))
         else if offset = 0xed00 then 0x410fc241
         else if offset = 0xed04 then read_icsr s
         else if offset = 0xed08 then vtor s
         else if offset = 0xed0c then 0xfa050000 OR (aircr s AND 0x700)
         else if offset = 0xed10 then scr s
         else if offset = 0xed14 then ccr s
         else if within 0xed18 0xed24 offset then bytes_at (system_priority s) (unat (offset - 0xed18))
         else if offset = 0xed24 then shcsr s
         else if offset = 0xed28 then cfsr s
         else if offset = 0xed2c then hfsr s
         else if offset = 0xed34 then mmfar s
         else if offset = 0xed38 then bfar s
         else if offset = 0xed88 then cpacr s
         else if offset = 0xedfc then demcr s
         else if offset = 0xef34 then fpccr s
         else 0, s))"

definition merge :: "u32 \<Rightarrow> u32 \<Rightarrow> u32 \<Rightarrow> u32" where
  "merge lane_mask value old = (old AND NOT lane_mask) OR (value AND lane_mask)"

definition set_word :: "(u32 \<Rightarrow> u32) \<Rightarrow> u32 \<Rightarrow> u32 \<Rightarrow> (nat \<Rightarrow> u32) \<Rightarrow> (nat \<Rightarrow> u32)" where
  "set_word f first offset ws =
     (let i = unat (offset - first) div 4 in ws(i := f (ws i)))"

text \<open>The priority byte loop: only the written lanes, and only the implemented high bits.\<close>

definition set_priorities :: "u32 \<Rightarrow> u32 \<Rightarrow> nat \<Rightarrow> (nat \<Rightarrow> u8) \<Rightarrow> (nat \<Rightarrow> u8)" where
  "set_priorities lane_mask value first prio =
     fold (\<lambda>i prio. if lane_mask AND push_bit (i * 8) 0xff \<noteq> 0
                     then prio(first + i := ucast (drop_bit (i * 8) value) AND 0xf0) else prio) [0..<4] prio"

definition write_systick_ctrl :: "u32 \<Rightarrow> u32 \<Rightarrow> SystemControl \<Rightarrow> SystemControl" where
  "write_systick_ctrl value lane_mask s =
     (let was_enabled = (systick_ctrl s AND 1 \<noteq> 0);
          ctrl = merge lane_mask value (systick_ctrl s) AND 7
      in s\<lparr>systick_ctrl := ctrl,
           systick_cycles_to_wrap := (if ctrl AND 1 = 0 \<or> \<not> was_enabled then 0 else systick_cycles_to_wrap s)\<rparr>)"

definition write_icsr :: "u32 \<Rightarrow> SystemControl \<Rightarrow> SystemControl" where
  "write_icsr value s =
     (let on = (\<lambda>n. value AND push_bit n 1 \<noteq> 0)
      in s\<lparr>pendsv_pending := (pendsv_pending s \<or> on 28) \<and> \<not> on 27,
           systick_pending := (systick_pending s \<or> on 26) \<and> \<not> on 25\<rparr>)"

definition writeWord :: "u32 \<Rightarrow> u32 \<Rightarrow> u32 \<Rightarrow> SystemControl \<Rightarrow> SystemControl" where
  "writeWord offset value lane_mask s =
     (let m = merge lane_mask value; v = value AND lane_mask
      in if offset = 0x1000 then s\<lparr>dwt_ctrl := m (dwt_ctrl s)\<rparr>
         else if offset = 0x1004 then s\<lparr>dwt_cyccnt := m (dwt_cyccnt s)\<rparr>
         else if offset = 0xe010 then write_systick_ctrl value lane_mask s
         else if offset = 0xe014 then
           s\<lparr>systick_load := m (systick_load s) AND 0x00ffffff, systick_cycles_to_wrap := 0\<rparr>
         else if offset = 0xe018 then
           s\<lparr>systick_value := 0, systick_cycles_to_wrap := 0, systick_count_flag := False\<rparr>
         else if within 0xe100 0xe120 offset then
           refreshPendingSummary (s\<lparr>nvic_enable := set_word (\<lambda>w. w OR v) 0xe100 offset (nvic_enable s)\<rparr>)
         else if within 0xe180 0xe1a0 offset then
           refreshPendingSummary (s\<lparr>nvic_enable := set_word (\<lambda>w. w AND NOT v) 0xe180 offset (nvic_enable s)\<rparr>)
         else if within 0xe200 0xe220 offset then
           refreshPendingSummary (s\<lparr>nvic_pending := set_word (\<lambda>w. w OR v) 0xe200 offset (nvic_pending s)\<rparr>)
         else if within 0xe280 0xe2a0 offset then
           refreshPendingSummary (s\<lparr>nvic_pending := set_word (\<lambda>w. w AND NOT v) 0xe280 offset (nvic_pending s)\<rparr>)
         else if within 0xe400 0xe4f0 offset then
           s\<lparr>nvic_priority := set_priorities lane_mask value (unat (offset - 0xe400)) (nvic_priority s)\<rparr>
         else if offset = 0xef00 then
           (let irq = (ucast (value AND 0x1ff) :: u16) in if irq < 240 then pend (irq + 16) s else s)
         else if offset = 0xed04 then write_icsr value s
         else if offset = 0xed08 then s\<lparr>vtor := m (vtor s) AND 0xffffff80\<rparr>
         else if offset = 0xed0c \<and> drop_bit 16 value = 0x05fa then
           s\<lparr>aircr := value AND 0x700, reset_requested := reset_requested s \<or> value AND 4 \<noteq> 0\<rparr>
         else if offset = 0xed10 then s\<lparr>scr := m (scr s)\<rparr>
         else if offset = 0xed14 then s\<lparr>ccr := m (ccr s)\<rparr>
         else if within 0xed18 0xed24 offset then
           s\<lparr>system_priority := set_priorities lane_mask value (unat (offset - 0xed18)) (system_priority s)\<rparr>
         else if offset = 0xed24 then s\<lparr>shcsr := m (shcsr s)\<rparr>
         else if offset = 0xed28 then s\<lparr>cfsr := cfsr s AND NOT v\<rparr>
         else if offset = 0xed2c then s\<lparr>hfsr := hfsr s AND NOT v\<rparr>
         else if offset = 0xed34 then s\<lparr>mmfar := m (mmfar s)\<rparr>
         else if offset = 0xed38 then s\<lparr>bfar := m (bfar s)\<rparr>
         else if offset = 0xed88 then s\<lparr>cpacr := m (cpacr s)\<rparr>
         else if offset = 0xedfc then s\<lparr>demcr := m (demcr s)\<rparr>
         else if offset = 0xef34 then s\<lparr>fpccr := m (fpccr s)\<rparr>
         else s)"

section \<open>The device interface\<close>

definition sys_fault :: "u32 \<Rightarrow> AccessSize \<Rightarrow> AccessContext \<Rightarrow> string \<Rightarrow> BusFault" where
  "sys_fault offset sz ctx msg = makeFault BF_device_error (0xe0000000 + offset) sz ctx ''cortexm-system'' msg"

definition sys_rejects :: "u32 \<Rightarrow> AccessSize \<Rightarrow> bool" where
  "sys_rejects offset sz \<longleftrightarrow>
     (let width = of_nat (byteCount sz) :: u32
      in width > 4 \<or> (offset AND 3) + width > 4 \<or> offset > 0x000fffff - (width - 1))"

definition sys_read :: "u32 \<Rightarrow> AccessSize \<Rightarrow> AccessContext \<Rightarrow> SystemControl \<Rightarrow> u64 MemoryResult \<times> SystemControl" where
  "sys_read offset sz ctx s =
     (if sys_rejects offset sz then
        (Inl (sys_fault offset sz ctx ''unsupported or cross-register system-control read''), s)
      else
        (let (v, s) = readWord (offset AND NOT 3) s
         in (Inr (ucast (drop_bit (unat (offset AND 3) * 8) v AND ucast (accessWidthMask sz))), s)))"

definition sys_write ::
  "u32 \<Rightarrow> AccessSize \<Rightarrow> u64 \<Rightarrow> AccessContext \<Rightarrow> SystemControl \<Rightarrow> u64 MemoryResult \<times> SystemControl" where
  "sys_write offset sz value ctx s =
     (if sys_rejects offset sz then
        (Inl (sys_fault offset sz ctx ''unsupported or cross-register system-control write''), s)
      else
        (let shift = unat (offset AND 3) * 8
         in (Inr 0, writeWord (offset AND NOT 3) (push_bit shift (ucast value))
                      (push_bit shift (ucast (accessWidthMask sz))) s)))"

end
