(* ===== verification/System_Laws.thy ===== *)
theory System_Laws
  imports System_Control
begin

text \<open>
  Laws of the private peripheral bus: the closed form of the SysTick advance, when it pends
  its interrupt, which exception \<open>nextPending\<close> selects, and the invariant that every
  operation of \<open>SystemControl\<close> keeps.
\<close>

section \<open>SysTick\<close>

definition systick_wf :: "SystemControl \<Rightarrow> bool" where
  "systick_wf s \<longleftrightarrow> systick_load s \<le> 0xffffff \<and> systick_cycles_to_wrap s \<le> systick_load s + 1"

text \<open>The cycles to the next wrap, from \<open>w\<close> cycles to it, after \<open>k\<close> cycles of a timer of period \<open>p\<close>.\<close>

definition wrap_left :: "nat \<Rightarrow> nat \<Rightarrow> nat \<Rightarrow> nat" where
  "wrap_left p w k = (if k < w then w - k else p - (k - w) mod p)"

lemma wrap_left_bounds: "0 < p \<Longrightarrow> w \<le> p \<Longrightarrow> 0 < wrap_left p w k \<and> wrap_left p w k \<le> p"
  by (auto simp: wrap_left_def)

lemma wrap_left_add:
  assumes "0 < p" "0 < w" "w \<le> p"
  shows "wrap_left p (wrap_left p w a) b = wrap_left p w (a + b)"
    "a < w \<Longrightarrow> wrap_left p w a \<le> b \<longleftrightarrow> w \<le> a + b"
proof -
  show "a < w \<Longrightarrow> wrap_left p w a \<le> b \<longleftrightarrow> w \<le> a + b" by (auto simp: wrap_left_def)
  show "wrap_left p (wrap_left p w a) b = wrap_left p w (a + b)"
  proof (cases "a < w")
    case True
    then show ?thesis by (auto simp: wrap_left_def add.commute)
  next
    case False
    define r where "r = (a - w) mod p"
    have r: "r < p" using assms(1) by (simp add: r_def)
    have "(a + b - w) mod p = (r + b) mod p" using False by (simp add: r_def mod_simps)
    moreover have "(b - (p - r)) mod p = (r + b) mod p" if "p - r \<le> b"
    proof -
      have "r + b = b - (p - r) + p" using that r by simp
      then show ?thesis by (metis mod_add_self2)
    qed
    ultimately show ?thesis using False r by (auto simp: wrap_left_def r_def [symmetric])
  qed
qed

abbreviation period :: "SystemControl \<Rightarrow> nat" where
  "period s \<equiv> unat (systick_load s) + 1"

definition to_wrap :: "SystemControl \<Rightarrow> nat" where
  "to_wrap s = (if systick_cycles_to_wrap s = 0 then period s else unat (systick_cycles_to_wrap s))"

lemma systick_nat:
  assumes "systick_wf s"
  shows "unat (systick_load s + 1) = period s" "period s \<le> 2 ^ 24" "0 < to_wrap s" "to_wrap s \<le> period s"
    "unat (if systick_cycles_to_wrap s = 0 then systick_load s + 1 else systick_cycles_to_wrap s) = to_wrap s"
proof -
  have l: "unat (systick_load s) \<le> 16777215" using assms by (simp add: systick_wf_def word_le_nat_alt)
  then show p: "unat (systick_load s + 1) = period s" "period s \<le> 2 ^ 24"
    using unat_add_no_wrap [of "systick_load s" 1] by simp_all
  show "0 < to_wrap s" "to_wrap s \<le> period s"
    "unat (if systick_cycles_to_wrap s = 0 then systick_load s + 1 else systick_cycles_to_wrap s) = to_wrap s"
    using assms p by (auto simp: to_wrap_def systick_wf_def word_le_nat_alt unat_gt_0)
qed

definition dwt_step :: "u64 \<Rightarrow> SystemControl \<Rightarrow> SystemControl" where
  "dwt_step c s = (if dwt_ctrl s AND 1 \<noteq> 0 then s\<lparr>dwt_cyccnt := dwt_cyccnt s + ucast c\<rparr> else s)"

lemma unat_up: "unat (ucast (w :: u32) :: u64) = unat w"
  by (simp add: unsigned_ucast_eq take_bit_nat_eq_self unsigned_less [THEN order_less_le_trans])

lemma left_word:
  assumes "unat (p :: u32) = n" "0 < n"
  shows "(if R \<noteq> 0 then
       (let r = (if R \<ge> ucast p then R mod ucast p else R) in if r = 0 then p else p - ucast r)
     else p) = of_nat (n - unat (R :: u64) mod n)"
proof -
  define r where "r = (if R \<ge> ucast p then R mod ucast p else R)"
  have r: "unat r = unat R mod n"
    using assms by (auto simp: r_def unat_mod unat_up word_le_nat_alt)
  have "unat r \<le> n" using assms(2) by (simp add: r less_imp_le)
  from of_nat_diff [OF this, where ?'a = u32] have "of_nat (n - unat r) = p - ucast r" using assms(1) by auto
  moreover have "R = 0 \<Longrightarrow> r = 0" using assms by (auto simp: r_def)
  ultimately show ?thesis unfolding r_def [symmetric] Let_def r [symmetric] by auto
qed

lemma advanceSysTick_eq:
  assumes "systick_wf s" "k = wrap_left (period s) (to_wrap s) (unat c)"
  shows "advanceSysTick c s =
    s\<lparr>systick_cycles_to_wrap := of_nat k, systick_value := of_nat k - 1,
      systick_count_flag := systick_count_flag s \<or> to_wrap s \<le> unat c,
      systick_pending := systick_pending s \<or> to_wrap s \<le> unat c \<and> systick_ctrl s AND 2 \<noteq> 0\<rparr>"
proof -
  define w where "w = (if systick_cycles_to_wrap s = 0 then systick_load s + 1 else systick_cycles_to_wrap s)"
  note n = systick_nat [OF assms(1), folded w_def]
  show ?thesis
  proof (cases "unat c < to_wrap s")
    case True
    have "(of_nat (to_wrap s) :: u32) = w" by (simp add: n(5) [symmetric])
    then have "w - ucast c = of_nat k"
      using True unfolding assms(2) wrap_left_def by (simp add: of_nat_diff)
    then show ?thesis
      using True n(5) by (simp add: advanceSysTick_def Let_def w_def [symmetric] word_less_nat_alt unat_up)
  next
    case False
    have "unat (c - ucast w) = unat c - to_wrap s"
      using False n(5) by (simp add: unat_sub_le word_le_nat_alt unat_up)
    then have "of_nat (period s - unat (c - ucast w) mod period s) = (of_nat k :: u32)"
      using False unfolding assms(2) wrap_left_def by simp
    note left = trans [OF left_word [OF n(1)] this, unfolded Let_def]
    have "\<not> c < ucast w" using False n(5) by (simp add: word_less_nat_alt unat_up)
    then show ?thesis
      using False left unfolding advanceSysTick_def Let_def w_def [symmetric]
      by (simp only: if_False) (simp add: systick_wrapped_def)
  qed
qed

lemma advanceCycles_eq:
  assumes "systick_wf s"
  shows "advanceCycles c s =
    (if systick_ctrl s AND 1 = 0 \<or> systick_load s = 0 \<or> c = 0 then dwt_step c s
     else let k = wrap_left (period s) (to_wrap s) (unat c)
          in (dwt_step c s)\<lparr>systick_cycles_to_wrap := of_nat k, systick_value := of_nat k - 1,
               systick_count_flag := systick_count_flag s \<or> to_wrap s \<le> unat c,
               systick_pending := systick_pending s \<or> to_wrap s \<le> unat c \<and> systick_ctrl s AND 2 \<noteq> 0\<rparr>)"
proof -
  have "systick_wf (dwt_step c s)" using assms by (simp add: systick_wf_def dwt_step_def)
  moreover have "to_wrap (dwt_step c s) = to_wrap s" "period (dwt_step c s) = period s" by (simp_all add: to_wrap_def dwt_step_def)
  ultimately show ?thesis
    unfolding advanceCycles_def dwt_step_def [symmetric] Let_def
    by (simp add: advanceSysTick_eq [OF _ refl]) (simp add: dwt_step_def)
qed

lemma advanced:
  assumes "systick_wf s" "systick_ctrl s AND 1 \<noteq> 0" "systick_load s \<noteq> 0" "c \<noteq> 0"
  shows "systick_wf (advanceCycles c s)" "systick_ctrl (advanceCycles c s) = systick_ctrl s"
    "systick_load (advanceCycles c s) = systick_load s"
    "to_wrap (advanceCycles c s) = wrap_left (period s) (to_wrap s) (unat c)"
proof -
  let ?k = "wrap_left (period s) (to_wrap s) (unat c)"
  have k: "0 < ?k" "?k \<le> period s" using wrap_left_bounds [of "period s" "to_wrap s"] systick_nat(4) [OF assms(1)] by simp_all
  moreover have "period s \<le> 2 ^ 24" using systick_nat [OF assms(1)] by simp
  ultimately have u: "unat (of_nat ?k :: u32) = ?k" by (simp add: unsigned_of_nat take_bit_nat_eq_self)
  then have "(of_nat ?k :: u32) \<noteq> 0" using k(1) by (metis unat_0 less_irrefl)
  then show "to_wrap (advanceCycles c s) = ?k"
    using assms u by (simp add: advanceCycles_eq to_wrap_def Let_def)
  show "systick_ctrl (advanceCycles c s) = systick_ctrl s" "systick_load (advanceCycles c s) = systick_load s"
    using assms by (simp_all add: advanceCycles_eq Let_def dwt_step_def)
  then show "systick_wf (advanceCycles c s)"
    using assms k u systick_nat(1) [OF assms(1)] by (simp add: advanceCycles_eq Let_def systick_wf_def word_le_nat_alt dwt_step_def)
qed

lemma ucast_plus: "(ucast (a + b :: u64) :: u32) = ucast a + ucast b"
proof (rule unsigned_word_eqI)
  show "uint (ucast (a + b) :: u32) = uint (ucast a + ucast b :: u32)"
    by (simp add: uint_word_ariths unsigned_ucast_eq take_bit_eq_mod mod_simps mod_mod_cancel)
qed

lemma dwt_step_add: "dwt_step b (dwt_step a s) = dwt_step (a + b) s" "dwt_step 0 s = s"
  by (simp_all add: dwt_step_def ucast_plus add.assoc)

lemma unat_plus_64: "unat (a :: u64) + unat b < 2 ^ 64 \<Longrightarrow> unat (a + b) = unat a + unat b"
  by (simp add: unat_word_ariths)

lemma advance_none: "advanceCycles 0 s = s"
  by (simp add: advanceCycles_def)

lemma advance_add:
  assumes "systick_wf s" "unat a + unat b < 2 ^ 64"
  shows "advanceCycles b (advanceCycles a s) = advanceCycles (a + b) s"
proof -
  consider "systick_ctrl s AND 1 = 0 \<or> systick_load s = 0" | "a = 0" | "b = 0"
    | (on) "systick_ctrl s AND 1 \<noteq> 0" "systick_load s \<noteq> 0" "a \<noteq> 0" "b \<noteq> 0" by blast
  then show ?thesis
  proof cases
    case 1
    then show ?thesis
      by (auto simp: advanceCycles_def dwt_step_def [symmetric] dwt_step_add Let_def)
        (auto simp: dwt_step_def)
  next
    case on
    note n = systick_nat [OF assms(1)]
    have ab: "a + b \<noteq> 0" using on(3) unat_plus_64 [OF assms(2)] by (metis add_is_0 unat_eq_zero)
    note adv = advanced [OF assms(1) on(1,2,3)]
    note w = wrap_left_add [of "period s" "to_wrap s" "unat a" "unat b"]
    have e: "advanceCycles c x = (dwt_step c x)\<lparr>systick_cycles_to_wrap := of_nat (wrap_left (period x) (to_wrap x) (unat c)),
               systick_value := of_nat (wrap_left (period x) (to_wrap x) (unat c)) - 1,
               systick_count_flag := systick_count_flag x \<or> to_wrap x \<le> unat c,
               systick_pending := systick_pending x \<or> to_wrap x \<le> unat c \<and> systick_ctrl x AND 2 \<noteq> 0\<rparr>"
      if "systick_wf x" "systick_ctrl x = systick_ctrl s" "systick_load x = systick_load s" "c \<noteq> 0" for x c
      using that on(1,2) by (simp add: advanceCycles_eq Let_def)
    have late: "to_wrap s \<le> unat a \<or> wrap_left (period s) (to_wrap s) (unat a) \<le> unat b
        \<longleftrightarrow> to_wrap s \<le> unat a + unat b"
      using w(2) n by (cases "unat a < to_wrap s") auto
    have d: "dwt_step b (x\<lparr>systick_cycles_to_wrap := p, systick_value := q, systick_count_flag := f, systick_pending := g\<rparr>) =
        (dwt_step b x)\<lparr>systick_cycles_to_wrap := p, systick_value := q, systick_count_flag := f, systick_pending := g\<rparr>"
      for x p q f g by (simp add: dwt_step_def)
    have c: "systick_ctrl (dwt_step a s) = systick_ctrl s" by (simp add: dwt_step_def)
    have k: "wrap_left (period s) (wrap_left (period s) (to_wrap s) (unat a)) (unat b) = wrap_left (period s) (to_wrap s) (unat a + unat b)"
      using w(1) n by simp
    have "(f \<or> to_wrap s \<le> unat a \<and> q) \<or> wrap_left (period s) (to_wrap s) (unat a) \<le> unat b \<and> q
        \<longleftrightarrow> f \<or> to_wrap s \<le> unat a + unat b \<and> q" for f q using late by blast
    note flags = this this [of _ True, unfolded simp_thms]
    show ?thesis
      unfolding e [OF adv(1-3) on(4)] e [OF assms(1) refl refl ab] adv(3,4) unat_plus_64 [OF assms(2)] k
      unfolding e [OF assms(1) refl refl on(3)] d dwt_step_add
      by (simp add: c flags [simplified])
  qed (simp_all add: advance_none)
qed

lemma both_bits: "(w :: u32) AND 3 = 3 \<longleftrightarrow> w AND 1 \<noteq> 0 \<and> w AND 2 \<noteq> 0"
proof -
  have "w AND 3 = (w AND 1) OR (w AND 2)" by (simp add: bit.conj_disj_distrib [symmetric])
  moreover have "w AND 1 = 0 \<or> w AND 1 = 1" by (auto simp: and_one_eq)
  moreover have "w AND 2 = 0 \<or> w AND 2 = 2"
    using and_exp_eq_0_iff_not_bit [of w 1] by (auto intro!: bit_word_eqI simp: bit_simps)
  ultimately show ?thesis by auto
qed

lemma until_interrupt:
  assumes "systick_wf s"
  shows "case cyclesUntilSysTickInterrupt s of
      None \<Rightarrow> \<forall>c. \<not> systick_pending (advanceCycles c s)
    | Some n \<Rightarrow> \<forall>c. systick_pending (advanceCycles c s) \<longleftrightarrow> n \<le> c"
proof -
  note n = systick_nat [OF assms]
  have dwt: "systick_pending (dwt_step c s) = systick_pending s" for c by (simp add: dwt_step_def)
  have u: "unat (if systick_cycles_to_wrap s = 0 then ucast (systick_load s) + 1 else ucast (systick_cycles_to_wrap s) :: u64) = to_wrap s"
    using n unat_plus_64 [of "ucast (systick_load s)" 1] by (auto simp: to_wrap_def unat_up)
  have "systick_pending (advanceCycles c s) \<longleftrightarrow> systick_pending s
      \<or> systick_ctrl s AND 3 = 3 \<and> systick_load s \<noteq> 0 \<and> to_wrap s \<le> unat c" for c
    using assms n(3) by (auto simp: advanceCycles_eq dwt both_bits Let_def)
  then show ?thesis
    using u by (auto simp: cyclesUntilSysTickInterrupt_def word_le_nat_alt)
qed

section \<open>The selection of an exception\<close>

text \<open>Clearing the lowest set bit, as \<open>n & (n - 1)\<close> does it.\<close>

lemma nat_clear_lowest:
  "0 < n \<Longrightarrow> \<exists>j. bit n j \<and> (\<forall>i<j. \<not> bit n i) \<and> (\<forall>k. bit (n AND (n - 1)) k \<longleftrightarrow> bit n k \<and> k \<noteq> j)"
  for n :: nat
proof (induction n rule: nat_bit_induct)
  case (even n)
  then obtain j where j: "bit n j" "\<forall>i<j. \<not> bit n i" "\<And>k. bit (n AND (n - 1)) k \<longleftrightarrow> bit n k \<and> k \<noteq> j" by auto
  have "2 * n - 1 = 1 + 2 * (n - 1)" using even by simp
  then have "2 * n AND (2 * n - 1) = 2 * (n AND (n - 1))" by (simp add: and_nat_rec [of "2 * n"])
  then show ?case
    using j by (intro exI [of _ "Suc j"]) (auto simp: bit_Suc bit_double_iff less_Suc_eq_0_disj)
next
  case (odd n)
  have "1 + 2 * n AND (1 + 2 * n - 1) = 2 * n" by (subst and_nat_rec) simp
  then show ?case
    by (intro exI [of _ 0]) (auto simp: bit_Suc bit_0 gr0_conv_Suc bit_double_iff)
qed simp

lemma word_clear_lowest:
  assumes "(c :: u32) \<noteq> 0"
  shows "bit c (countr_zero c)" "bit (c AND (c - 1)) k \<longleftrightarrow> bit c k \<and> k \<noteq> countr_zero c"
proof -
  obtain j where j: "bit (unat c) j" "\<forall>i<j. \<not> bit (unat c) i"
      "\<And>k. bit (unat c AND (unat c - 1)) k \<longleftrightarrow> bit (unat c) k \<and> k \<noteq> j"
    using nat_clear_lowest [of "unat c"] assms by (auto simp: unat_gt_0)
  have b: "bit (unat x) i \<longleftrightarrow> bit x i" for x :: u32 and i by (simp add: bit_unsigned_iff)
  have "j < 32" using j(1) bit_imp_le_length [of c j] by (simp add: b)
  then have "[0..<32] = [0..<j] @ j # [Suc j..<32]"
    using upt_add_eq_append [of 0 j "32 - j"] by (simp add: upt_conv_Cons)
  then have "takeWhile (\<lambda>i. \<not> bit c i) [0..<32] = [0..<j]"
    using j(1,2) takeWhile_append2 [of "[0..<j]" "\<lambda>i. \<not> bit c i" "j # [Suc j..<32]"] by (simp add: b)
  then have z: "countr_zero c = j" by (simp add: countr_zero_def)
  show "bit c (countr_zero c)" using j(1) by (simp add: z b)
  have "unat (c - 1) = unat c - 1" using assms by (simp add: unat_minus_one)
  then show "bit (c AND (c - 1)) k \<longleftrightarrow> bit c k \<and> k \<noteq> countr_zero c"
    using j(3) [of k] by (simp add: z bit_and_iff b [symmetric, of "c - 1"]) (simp add: b)
qed

lemma set_lowest_bits: "set (lowest_bits c) = {b. bit c b}"
proof (induction c rule: lowest_bits.induct)
  case (1 c)
  show ?case
  proof (cases "c = 0")
    case False
    then show ?thesis
      using 1 [OF False] word_clear_lowest [OF False] by (subst lowest_bits.simps) auto
  qed (simp add: lowest_bits.simps)
qed

text \<open>The exception selected among the considered ones: admitted, and first by priority and number.\<close>

definition more_urgent :: "SystemControl \<Rightarrow> u16 \<Rightarrow> u16 \<Rightarrow> bool" where
  "more_urgent s e x \<longleftrightarrow> sys_priority e s < sys_priority x s \<or> sys_priority e s = sys_priority x s \<and> e \<le> x"

lemma more_urgent_order:
  "more_urgent s e e" "more_urgent s e x \<Longrightarrow> more_urgent s x y \<Longrightarrow> more_urgent s e y"
  "\<not> more_urgent s e x \<Longrightarrow> more_urgent s x e"
  by (auto simp: more_urgent_def)

definition selects :: "(u16 \<Rightarrow> bool) \<Rightarrow> SystemControl \<Rightarrow> u16 set \<Rightarrow> (u16 \<times> u8) option \<Rightarrow> bool" where
  "selects P s D r \<longleftrightarrow>
     (case r of None \<Rightarrow> \<forall>e\<in>D. \<not> P e
      | Some (e, p) \<Rightarrow> e \<in> D \<and> P e \<and> p = sys_priority e s \<and> (\<forall>x\<in>D. P x \<longrightarrow> more_urgent s e x))"

lemma consider_selects:
  assumes "selects (admitted pm bp fm s) s D r"
  shows "selects (admitted pm bp fm s) s (insert e D) (consider_candidate pm bp fm s e r)"
proof (cases r)
  case None
  then show ?thesis using assms by (auto simp: selects_def consider_candidate_def more_urgent_order(1))
next
  case (Some a)
  obtain x p where a: "a = (x, p)" by (cases a)
  have b: "sys_priority e s < sys_priority x s \<or> sys_priority e s = sys_priority x s \<and> e < x \<longleftrightarrow> \<not> more_urgent s x e"
    by (auto simp: more_urgent_def)
  consider "\<not> admitted pm bp fm s e" | "admitted pm bp fm s e" "more_urgent s x e"
    | (new) "admitted pm bp fm s e" "\<not> more_urgent s x e" by blast
  then show ?thesis
  proof cases
    case new
    have "more_urgent s e y" if "more_urgent s x y" for y
      using more_urgent_order(2) [OF more_urgent_order(3) [OF new(2)] that] .
    then show ?thesis using assms new by (simp add: selects_def consider_candidate_def Some a b more_urgent_order(1))
  qed (use assms in \<open>simp_all add: selects_def consider_candidate_def Some a b\<close>)
qed

lemma fold_selects:
  "selects (admitted pm bp fm s) s D r \<Longrightarrow>
   selects (admitted pm bp fm s) s (D \<union> set es) (fold (consider_candidate pm bp fm s) es r)"
proof (induction es arbitrary: D r)
  case (Cons e es)
  then show ?case using Cons.IH [OF consider_selects [OF Cons.prems, of e]] by simp
qed simp

definition summary_exact :: "SystemControl \<Rightarrow> bool" where
  "summary_exact s \<longleftrightarrow> external_pending_enabled s = list_ex (\<lambda>i. nvic_pending s i AND nvic_enable s i \<noteq> 0) [0..<8]"

lemma irq_number: "irq_external e \<Longrightarrow> e = of_nat (16 + irq_word e * 32 + unat (e - 16) mod 32) \<and> irq_word e < 8"
proof -
  assume "irq_external e"
  then have e: "16 \<le> unat e" "unat e < 256" by (simp_all add: irq_external_def word_le_nat_alt word_less_nat_alt)
  then have "unat (e - 16) = unat e - 16" by (simp add: unat_sub_le irq_external_def word_le_nat_alt)
  moreover have "16 + (unat e - 16) div 32 * 32 + (unat e - 16) mod 32 = unat e" using e by presburger
  ultimately show ?thesis using e by (simp add: irq_word_def)
qed

lemma irq_mask_bit: "w AND irq_mask e \<noteq> 0 \<longleftrightarrow> bit w (unat (e - 16) mod 32)"
  by (simp add: irq_mask_def push_bit_eq_mult and_exp_eq_0_iff_not_bit)

lemma next_pending_selects:
  assumes "summary_exact s"
  shows "case nextPending pm bp fm s of
      None \<Rightarrow> \<forall>e. \<not> admitted pm bp fm s e
    | Some e \<Rightarrow> admitted pm bp fm s e \<and> (\<forall>x. admitted pm bp fm s x \<longrightarrow> more_urgent s e x)"
proof -
  define xs where "xs = (14 :: u16) # 15 # concat (map (\<lambda>w. map (\<lambda>b. of_nat (16 + w * 32 + b))
                (lowest_bits (nvic_pending s w AND nvic_enable s w))) [0..<8])"
  have cover: "e \<in> set xs \<and> hasEnabledPending s" if "admitted pm bp fm s e" for e
  proof (cases "irq_external e")
    case True
    then have "\<not> e < 16" "e \<noteq> 14" "e \<noteq> 15" "\<not> 256 \<le> e" by (auto simp: irq_external_def)
    then have b: "bit (nvic_pending s (irq_word e) AND nvic_enable s (irq_word e)) (unat (e - 16) mod 32)"
      using that by (simp add: admitted_def isPending_def isEnabled_def True irq_mask_bit bit_and_iff)
    then have "nvic_pending s (irq_word e) AND nvic_enable s (irq_word e) \<noteq> 0" by auto
    then show ?thesis
      using b irq_number [OF True] assms
      by (auto simp: xs_def set_lowest_bits hasEnabledPending_def summary_exact_def list_ex_iff)
  next
    case False
    then show ?thesis
      using that by (auto simp: admitted_def isPending_def xs_def hasEnabledPending_def split: if_splits)
  qed
  have "selects (admitted pm bp fm s) s (set xs) (fold (consider_candidate pm bp fm s) xs None)"
    using fold_selects [of pm bp fm s "{}" None xs] by (simp add: selects_def)
  then show ?thesis
    using cover unfolding nextPending_def xs_def [symmetric] Let_def
    by (auto simp: selects_def split: option.splits)
qed

section \<open>The invariant of the registers\<close>

text \<open>
  The cached summary of enabled pending interrupts is exact, and an asserted line of an
  inactive interrupt is pending.
\<close>

definition pending_inv :: "SystemControl \<Rightarrow> bool" where
  "pending_inv s \<longleftrightarrow> summary_exact s \<and> (\<forall>i<8. nvic_lines s i AND NOT (nvic_active s i) AND NOT (nvic_pending s i) = 0)"

definition register_inv :: "SystemControl \<Rightarrow> bool" where
  "register_inv s \<longleftrightarrow> systick_wf s \<and> systick_ctrl s \<le> 7 \<and> vtor s AND 0x7f = 0
     \<and> (\<forall>i. nvic_priority s i AND 0x0f = 0) \<and> (\<forall>i. system_priority s i AND 0x0f = 0)"

definition sys_inv :: "SystemControl \<Rightarrow> bool" where
  "sys_inv s \<longleftrightarrow> pending_inv s \<and> register_inv s"

lemma masked: "(a :: u32) AND NOT b AND NOT p AND (NOT a OR b) = 0"
  by (rule bit_word_eqI) (auto simp: bit_simps)

lemma refresh_inv:
  "pending_inv (refreshPendingSummary s)" "register_inv (refreshPendingSummary s) = register_inv s"
  by (auto simp: pending_inv_def summary_exact_def register_inv_def systick_wf_def refreshPendingSummary_def Let_def
      masked list_ex_iff and.assoc)

lemma reset_inv: "sys_inv (sys_reset b)"
proof -
  have "(b AND 0xffffff80) AND 0x7f = 0" by (simp add: and.assoc)
  then show ?thesis
    by (simp add: sys_inv_def pending_inv_def summary_exact_def register_inv_def systick_wf_def sys_reset_def list_ex_iff)
qed

lemma advance_keeps: "sys_inv s \<Longrightarrow> sys_inv (advanceCycles c s)"
proof -
  assume s: "sys_inv s"
  then have w: "systick_wf s" by (simp add: sys_inv_def register_inv_def)
  have "systick_wf (advanceCycles c s)"
    using advanced(1) [OF w] w by (cases "systick_ctrl s AND 1 = 0 \<or> systick_load s = 0 \<or> c = 0")
      (auto simp: advanceCycles_eq dwt_step_def systick_wf_def)
  moreover have "pending_inv (advanceCycles c s) = pending_inv s"
    by (simp add: advanceCycles_eq [OF w] dwt_step_def Let_def pending_inv_def summary_exact_def)
  moreover have "systick_ctrl (advanceCycles c s) = systick_ctrl s" "vtor (advanceCycles c s) = vtor s"
    "nvic_priority (advanceCycles c s) = nvic_priority s" "system_priority (advanceCycles c s) = system_priority s"
    by (simp_all add: advanceCycles_eq [OF w] dwt_step_def Let_def)
  ultimately show ?thesis using s by (simp add: sys_inv_def register_inv_def)
qed

lemmas inv_defs = sys_inv_def pending_inv_def summary_exact_def register_inv_def systick_wf_def

lemma pend_keeps: "sys_inv s \<Longrightarrow> sys_inv (pend e s)"
  by (simp add: pend_def sys_inv_def refresh_inv) (simp add: inv_defs)

lemma clear_keeps: "sys_inv s \<Longrightarrow> sys_inv (clearPending e s)"
  by (simp add: clearPending_def sys_inv_def refresh_inv) (simp add: inv_defs)

lemma line_keeps: "sys_inv s \<Longrightarrow> sys_inv (setInterruptLine irq b s)"
  by (simp add: setInterruptLine_def sys_inv_def refresh_inv Let_def) (simp add: inv_defs)

lemma enter_keeps: "sys_inv s \<Longrightarrow> sys_inv (sys_enter e s)"
  by (auto simp: sys_enter_def clearPending_def sys_inv_def refresh_inv Let_def) (auto simp: inv_defs irq_external_def)

lemma leave_keeps: "sys_inv s \<Longrightarrow> sys_inv (sys_leave e s)"
  by (simp add: sys_leave_def sys_inv_def refresh_inv Let_def) (simp add: inv_defs)

lemma read_keeps: "sys_inv s \<Longrightarrow> sys_inv (snd (readWord f s))"
  by (simp add: readWord_def) (simp add: inv_defs)

lemma set_priorities_low: "\<forall>i. q i AND 0x0f = 0 \<Longrightarrow> \<forall>i. set_priorities m v k q i AND 0x0f = 0"
proof -
  have "(w AND 0xf0) AND 0x0f = 0" for w :: u8 by (simp add: and.assoc)
  then show "\<forall>i. q i AND 0x0f = 0 \<Longrightarrow> \<forall>i. set_priorities m v k q i AND 0x0f = 0"
    by (simp add: set_priorities_def numeral_eq_Suc)
qed

lemma inv_cases: "(b \<Longrightarrow> sys_inv s) \<Longrightarrow> (\<not> b \<Longrightarrow> sys_inv t) \<Longrightarrow> sys_inv (if b then s else t)"
  by simp

lemma write_keeps:
  assumes "sys_inv s"
  shows "sys_inv (writeWord f v m s)"
proof -
  have b: "(w AND 7 :: u32) \<le> 7" "(w AND 0xffffff :: u32) \<le> 0xffffff" "(w AND 0xffffff80 :: u32) AND 0x7f = 0" for w
    by (simp_all add: word_and_le1 and.assoc)
  have r: "sys_inv (refreshPendingSummary x)" if "register_inv x" for x using that by (simp add: sys_inv_def refresh_inv)
  have "register_inv s" using assms by (simp add: sys_inv_def)
  then have n: "register_inv (s\<lparr>nvic_enable := w\<rparr>)" "register_inv (s\<lparr>nvic_pending := w\<rparr>)" for w
    by (simp_all add: register_inv_def systick_wf_def)
  show ?thesis
    unfolding writeWord_def Let_def
    by (intro inv_cases r n pend_keeps assms)
      (use assms set_priorities_low in \<open>simp_all add: inv_defs b write_systick_ctrl_def write_icsr_def Let_def\<close>)
qed

text \<open>What the rest of the emulator does to the system control block, one rule per operation.\<close>

inductive sys_step :: "SystemControl \<Rightarrow> SystemControl \<Rightarrow> bool" where
  sys_advances: "sys_step s (advanceCycles cycles s)"
| sys_pends: "sys_step s (pend e s)"
| sys_line: "sys_step s (setInterruptLine irq asserted s)"
| sys_clears: "sys_step s (clearPending e s)"
| sys_enters: "sys_step s (sys_enter e s)"
| sys_resumes: "sys_step s (sys_resume e s)"
| sys_leaves: "sys_step s (sys_leave e s)"
| sys_consumes: "sys_step s (snd (consumeResetRequest s))"
| sys_sets_fpccr: "sys_step s (setFpccr v s)"
| sys_reads: "sys_step s (snd (sys_read offset sz ctx s))"
| sys_writes: "sys_step s (snd (sys_write offset sz w ctx s))"
| sys_resets: "sys_step s (sys_reset vector_base)"

inductive sys_reachable :: "SystemControl \<Rightarrow> bool" where
  sys_boot: "sys_reachable (sys_reset vector_base)"
| sys_next: "sys_reachable s \<Longrightarrow> sys_step s t \<Longrightarrow> sys_reachable t"

lemma step_keeps: "sys_step s t \<Longrightarrow> sys_inv s \<Longrightarrow> sys_inv t"
proof (induction rule: sys_step.induct)
  case (sys_reads s offset sz ctx)
  then show ?case using read_keeps [of s "offset AND NOT 3"] by (simp add: sys_read_def case_prod_beta)
next
  case (sys_writes s offset sz w ctx)
  then show ?case by (simp add: sys_write_def Let_def write_keeps)
qed (simp_all add: advance_keeps pend_keeps line_keeps clear_keeps enter_keeps leave_keeps reset_inv,
     simp_all add: sys_resume_def consumeResetRequest_def setFpccr_def inv_defs)

lemma reachable_inv: "sys_reachable s \<Longrightarrow> sys_inv s"
  by (induction rule: sys_reachable.induct) (auto intro: reset_inv step_keeps)

section \<open>Latched and level-sensitive interrupts\<close>

definition line_asserted :: "u16 \<Rightarrow> SystemControl \<Rightarrow> bool" where
  "line_asserted e s \<longleftrightarrow> bit (nvic_lines s (irq_word e)) (unat (e - 16) mod 32)"

definition is_active :: "u16 \<Rightarrow> SystemControl \<Rightarrow> bool" where
  "is_active e s \<longleftrightarrow> bit (nvic_active s (irq_word e)) (unat (e - 16) mod 32)"

lemma same_irq:
  assumes "irq_external e" "irq_external x"
  shows "irq_word e = irq_word x \<and> unat (e - 16) mod 32 = unat (x - 16) mod 32 \<longleftrightarrow> e = x"
  using irq_number [OF assms(1)] irq_number [OF assms(2)] by metis

lemma irq_mask_bits: "bit (irq_mask e) n \<longleftrightarrow> n = unat (e - 16) mod 32"
proof -
  have "unat (e - 16) mod 32 < 32" by simp
  then show ?thesis by (auto simp: irq_mask_def push_bit_eq_mult bit_exp_iff)
qed

lemma external_pending:
  assumes "irq_external x"
  shows "isPending x s \<longleftrightarrow> bit (nvic_pending s (irq_word x)) (unat (x - 16) mod 32)"
    "x \<noteq> 14" "x \<noteq> 15"
  using assms by (auto simp: isPending_def irq_mask_bit irq_external_def)

lemma refresh_pending:
  "irq_external x \<Longrightarrow>
   isPending x (refreshPendingSummary s) \<longleftrightarrow> isPending x s \<or> line_asserted x s \<and> \<not> is_active x s"
  using irq_number [of x]
  by (auto simp: external_pending refreshPendingSummary_def line_asserted_def is_active_def Let_def bit_simps)

lemma inv_line:
  assumes "sys_inv s" "irq_external x" "line_asserted x s" "\<not> is_active x s"
  shows "isPending x s"
proof -
  have "nvic_lines s (irq_word x) AND NOT (nvic_active s (irq_word x)) AND NOT (nvic_pending s (irq_word x)) = 0"
    using assms(1) irq_number [OF assms(2)] by (simp add: sys_inv_def pending_inv_def)
  then have "\<not> bit (nvic_lines s (irq_word x) AND NOT (nvic_active s (irq_word x)) AND NOT (nvic_pending s (irq_word x)))
      (unat (x - 16) mod 32)" by simp
  then show ?thesis using assms(2-4) by (auto simp: external_pending line_asserted_def is_active_def bit_simps)
qed

lemma set_irq_bit:
  assumes "irq_external e" "irq_external x"
  shows "bit ((ws(irq_word e := ws (irq_word e) OR irq_mask e)) (irq_word x)) (unat (x - 16) mod 32)
      \<longleftrightarrow> x = e \<or> bit (ws (irq_word x)) (unat (x - 16) mod 32)"
    "bit ((ws(irq_word e := ws (irq_word e) AND NOT (irq_mask e))) (irq_word x)) (unat (x - 16) mod 32)
      \<longleftrightarrow> x \<noteq> e \<and> bit (ws (irq_word x)) (unat (x - 16) mod 32)"
  using same_irq [OF assms] by (auto simp: bit_simps irq_mask_bits)

lemma refreshed:
  assumes "irq_external x"
  shows "isPending x (refreshPendingSummary (s\<lparr>nvic_pending := p, nvic_active := a, nvic_lines := l\<rparr>)) \<longleftrightarrow>
    bit (p (irq_word x)) (unat (x - 16) mod 32)
    \<or> bit (l (irq_word x)) (unat (x - 16) mod 32) \<and> \<not> bit (a (irq_word x)) (unat (x - 16) mod 32)"
  unfolding refresh_pending [OF assms] by (simp add: external_pending [OF assms] line_asserted_def is_active_def)

lemma update_order:
  "s\<lparr>nvic_lines := l, nvic_pending := p\<rparr> = s\<lparr>nvic_pending := p, nvic_lines := l\<rparr>"
  "s\<lparr>nvic_active := a, nvic_pending := p\<rparr> = s\<lparr>nvic_pending := p, nvic_active := a\<rparr>"
  "s\<lparr>nvic_active := a, active_exception := x\<rparr> = s\<lparr>active_exception := x, nvic_active := a\<rparr>"
  by simp_all

lemma pending_effects:
  assumes "sys_inv s" "irq_external e" "irq_external x"
  shows "isPending x (pend e s) \<longleftrightarrow> x = e \<or> isPending x s"
    "isPending x (clearPending e s) \<longleftrightarrow> (if x = e then line_asserted e s \<and> \<not> is_active e s else isPending x s)"
    "isPending x (sys_enter e s) \<longleftrightarrow> x \<noteq> e \<and> isPending x s"
    "isPending x (sys_leave e s) \<longleftrightarrow> isPending x s \<or> x = e \<and> line_asserted e s"
proof -
  let ?n = "unat (x - 16) mod 32"
  note r = refreshed [OF assms(3)] and e = external_pending [OF assms(2)] and p = external_pending(1) [OF assms(3), of s]
  have inv: "bit (nvic_lines s (irq_word x)) ?n \<Longrightarrow> \<not> bit (nvic_active s (irq_word x)) ?n \<Longrightarrow> bit (nvic_pending s (irq_word x)) ?n"
    using inv_line [OF assms(1,3)] p by (simp add: line_asserted_def is_active_def)
  note bits = set_irq_bit [OF assms(2,3)]
  have "pend e s = refreshPendingSummary (s\<lparr>nvic_pending := (nvic_pending s)(irq_word e := nvic_pending s (irq_word e) OR irq_mask e),
      nvic_active := nvic_active s, nvic_lines := nvic_lines s\<rparr>)"
    using e(2,3) assms(2) by (simp add: pend_def)
  then show "isPending x (pend e s) \<longleftrightarrow> x = e \<or> isPending x s" using inv by (simp only: r bits p) blast
  have "clearPending e s = refreshPendingSummary (s\<lparr>nvic_pending :=
      (nvic_pending s)(irq_word e := nvic_pending s (irq_word e) AND NOT (irq_mask e)),
      nvic_active := nvic_active s, nvic_lines := nvic_lines s\<rparr>)"
    using e(2,3) assms(2) by (simp add: clearPending_def)
  then have c: "isPending x (clearPending e s) \<longleftrightarrow> x \<noteq> e \<and> isPending x s \<or> line_asserted x s \<and> \<not> is_active x s"
    by (simp only: r bits p line_asserted_def is_active_def)
  show "isPending x (clearPending e s) \<longleftrightarrow> (if x = e then line_asserted e s \<and> \<not> is_active e s else isPending x s)"
    unfolding c using inv_line [OF assms(1,3)] by (cases "x = e") auto
  have "sys_enter e s = refreshPendingSummary ((s\<lparr>active_exception := e\<rparr>)\<lparr>nvic_pending :=
      (nvic_pending s)(irq_word e := nvic_pending s (irq_word e) AND NOT (irq_mask e)),
      nvic_active := (nvic_active s)(irq_word e := nvic_active s (irq_word e) OR irq_mask e), nvic_lines := nvic_lines s\<rparr>)"
    using e(2,3) assms(2) by (simp add: sys_enter_def clearPending_def update_order Let_def)
  then show "isPending x (sys_enter e s) \<longleftrightarrow> x \<noteq> e \<and> isPending x s" using inv by (simp only: r bits p) blast
  have "sys_leave e s = refreshPendingSummary ((s\<lparr>active_exception := if active_exception s = e then 0 else active_exception s\<rparr>)
      \<lparr>nvic_pending := nvic_pending s,
       nvic_active := (nvic_active s)(irq_word e := nvic_active s (irq_word e) AND NOT (irq_mask e)), nvic_lines := nvic_lines s\<rparr>)"
    using assms(2) by (simp add: sys_leave_def update_order Let_def)
  then show "isPending x (sys_leave e s) \<longleftrightarrow> isPending x s \<or> x = e \<and> line_asserted e s"
    using inv by (simp only: r bits p line_asserted_def) blast
qed

lemma irq_of_exception: "irq_external e \<Longrightarrow> e - 16 < 240 \<and> unat (e - 16) div 32 = irq_word e"
proof -
  assume "irq_external e"
  then have "16 \<le> unat e" "unat e < 256" by (simp_all add: irq_external_def word_le_nat_alt word_less_nat_alt)
  moreover from this have "unat (e - 16) = unat e - 16" by (simp add: unat_sub_le word_le_nat_alt)
  ultimately show ?thesis by (simp add: irq_word_def word_less_nat_alt)
qed

text \<open>A rising edge of a line pends its interrupt; a falling edge keeps what is pending.\<close>

lemma line_effect:
  assumes "sys_inv s" "irq_external e" "irq_external x"
  shows "isPending x (setInterruptLine (e - 16) b s) \<longleftrightarrow> isPending x s \<or> x = e \<and> b \<and> \<not> line_asserted e s"
    "line_asserted x (setInterruptLine (e - 16) b s) \<longleftrightarrow> (if x = e then b else line_asserted x s)"
proof -
  let ?n = "unat (x - 16) mod 32"
  let ?l = "(nvic_lines s)(irq_word e := if b then nvic_lines s (irq_word e) OR irq_mask e
      else nvic_lines s (irq_word e) AND NOT (irq_mask e))"
  let ?p = "if b \<and> \<not> line_asserted e s then (nvic_pending s)(irq_word e := nvic_pending s (irq_word e) OR irq_mask e) else nvic_pending s"
  note r = refreshed [OF assms(3)] and p = external_pending(1) [OF assms(3), of s]
  have a: "nvic_lines s (irq_word e) AND irq_mask e \<noteq> 0 \<longleftrightarrow> line_asserted e s"
    by (simp add: irq_mask_bit line_asserted_def)
  have eq: "setInterruptLine (e - 16) b s = refreshPendingSummary (s\<lparr>nvic_pending := ?p, nvic_active := nvic_active s, nvic_lines := ?l\<rparr>)"
  proof -
    have g: "\<not> 240 \<le> e - 16" "unat (e - 16) div 32 = irq_word e" using irq_of_exception [OF assms(2)] by auto
    show ?thesis unfolding setInterruptLine_def Let_def if_not_P [OF g(1)] g(2) irq_mask_def [symmetric] a
      by (cases b; cases "line_asserted e s") (simp_all add: update_order)
  qed
  have inv: "bit (nvic_lines s (irq_word x)) ?n \<Longrightarrow> \<not> bit (nvic_active s (irq_word x)) ?n \<Longrightarrow> bit (nvic_pending s (irq_word x)) ?n"
    using inv_line [OF assms(1,3)] p by (simp add: line_asserted_def is_active_def)
  have l: "bit (?l (irq_word x)) ?n \<longleftrightarrow> (if x = e then b else bit (nvic_lines s (irq_word x)) ?n)"
    using set_irq_bit [OF assms(2,3), of "nvic_lines s"] by (cases b) auto
  have q: "bit (?p (irq_word x)) ?n \<longleftrightarrow> bit (nvic_pending s (irq_word x)) ?n \<or> x = e \<and> b \<and> \<not> line_asserted e s"
    using set_irq_bit(1) [OF assms(2,3), of "nvic_pending s"] by auto
  show "line_asserted x (setInterruptLine (e - 16) b s) \<longleftrightarrow> (if x = e then b else line_asserted x s)"
    unfolding eq using l by (simp add: line_asserted_def refreshPendingSummary_def Let_def)
  show "isPending x (setInterruptLine (e - 16) b s) \<longleftrightarrow> isPending x s \<or> x = e \<and> b \<and> \<not> line_asserted e s"
    unfolding eq r l q p using inv by (cases "x = e") (auto simp: line_asserted_def)
qed

end
