(* ===== verification/System_Properties.thy ===== *)
theory System_Properties
  imports System_Laws
begin

text \<open>
  The properties of the private peripheral bus, for every state that its operations reach
  from reset, each with an instance on a block whose SysTick counts to nine and whose
  interrupt 0 is enabled and asserted.
\<close>

section \<open>A concrete block\<close>

definition sys_ctx :: AccessContext where
  "sys_ctx = \<lparr>ctx_type = AT_data_write, ctx_pc = 0\<rparr>"

definition sample_timer :: SystemControl where
  "sample_timer = snd (sys_write 0xe010 AS_word 7 sys_ctx (snd (sys_write 0xe014 AS_word 9 sys_ctx (sys_reset 0x08000000))))"

definition sample_sys :: SystemControl where
  "sample_sys = setInterruptLine 0 True (snd (sys_write 0xe100 AS_word 1 sys_ctx sample_timer))"

lemma sample_timer_reachable: "sys_reachable sample_timer"
  unfolding sample_timer_def by (intro sys_next [OF _ sys_writes] sys_boot)

lemma sample_sys_reachable: "sys_reachable sample_sys"
  unfolding sample_sys_def by (intro sys_next [OF _ sys_line] sys_next [OF _ sys_writes] sample_timer_reachable)

lemma sample_timer_eq: "sample_timer = (sys_reset 0x08000000)\<lparr>systick_load := 9, systick_ctrl := 7\<rparr>"
  by (simp add: sample_timer_def sys_write_def sys_rejects_def writeWord_def within_def merge_def write_systick_ctrl_def
      accessWidthMask_def sys_reset_def Let_def)

lemma sample_sys_pending:
  "isPending 16 sample_sys" "isEnabled 16 sample_sys" "\<not> systick_pending sample_sys" "\<not> pendsv_pending sample_sys"
  "active_exception sample_sys = 0" "line_asserted 16 sample_sys" "\<not> is_active 16 sample_sys"
  by (simp_all add: sample_sys_def sample_timer_eq setInterruptLine_def sys_write_def sys_rejects_def writeWord_def within_def
      set_word_def accessWidthMask_def sys_reset_def refreshPendingSummary_def isPending_def isEnabled_def irq_external_def
      irq_word_def irq_mask_def line_asserted_def is_active_def Let_def)

section \<open>SysTick\<close>

text \<open>
  C37. Time can be advanced in any steps: in every reachable state, advancing by \<open>a\<close> cycles
  and then by \<open>b\<close> gives the same SysTick value, reload distance, count flag and pending
  interrupt and the same cycle counter as advancing by \<open>a + b\<close> at once, as long as the sum
  fits the 64-bit argument.
\<close>

theorem systick_advance_composes:
  assumes "sys_reachable s" "unat a + unat b < 2 ^ 64"
  shows "advanceCycles b (advanceCycles a s) = advanceCycles (a + b) s"
  using advance_add [OF _ assms(2)] reachable_inv [OF assms(1)] by (simp add: sys_inv_def register_inv_def)

theorem systick_advance_composes_witness:
  "advanceCycles 9 (advanceCycles 3 sample_timer) = advanceCycles 12 sample_timer
   \<and> systick_pending (advanceCycles 12 sample_timer) \<and> systick_value (advanceCycles 12 sample_timer) = 7"
proof -
  have "systick_pending (advanceCycles 12 sample_timer)" "systick_value (advanceCycles 12 sample_timer) = 7"
    by (simp_all add: sample_timer_eq advanceCycles_def advanceSysTick_def systick_wrapped_def sys_reset_def Let_def)
  then show ?thesis using systick_advance_composes [OF sample_timer_reachable, of 3 9] by simp
qed

text \<open>
  C38. The announced distance to the SysTick interrupt is exact: in every reachable state,
  when \<open>cyclesUntilSysTickInterrupt\<close> gives a number of cycles, the interrupt is pending
  after that many or more and not pending after fewer; when it gives none, no number of
  cycles makes it pending.
\<close>

theorem systick_interrupt_exact:
  assumes "sys_reachable s"
  shows "case cyclesUntilSysTickInterrupt s of
      None \<Rightarrow> \<forall>cycles. \<not> systick_pending (advanceCycles cycles s)
    | Some n \<Rightarrow> \<forall>cycles. systick_pending (advanceCycles cycles s) \<longleftrightarrow> n \<le> cycles"
  using until_interrupt reachable_inv [OF assms] by (simp add: sys_inv_def register_inv_def)

theorem systick_interrupt_exact_witness:
  "cyclesUntilSysTickInterrupt sample_timer = Some 10
   \<and> \<not> systick_pending (advanceCycles 9 sample_timer) \<and> systick_pending (advanceCycles 10 sample_timer)"
proof -
  have "cyclesUntilSysTickInterrupt sample_timer = Some 10"
    by (simp add: sample_timer_eq cyclesUntilSysTickInterrupt_def sys_reset_def)
  then show ?thesis using systick_interrupt_exact [OF sample_timer_reachable] by simp
qed

section \<open>Interrupts\<close>

text \<open>
  C39. The selected exception is the most urgent one: in every reachable state and for all
  masks, \<open>nextPending\<close> gives none just when no exception is admitted, that is pending,
  enabled, not masked and of higher architectural priority than the active exception; and
  otherwise it gives an admitted one such that every admitted exception has a larger
  priority value, or the same and a number at least as large. The early exit on the cached
  summary and the walk over the set bits of the interrupt words miss nothing.
\<close>

theorem next_pending_most_urgent:
  assumes "sys_reachable s"
  shows "case nextPending primask basepri faultmask s of
      None \<Rightarrow> \<forall>e. \<not> admitted primask basepri faultmask s e
    | Some e \<Rightarrow> admitted primask basepri faultmask s e
        \<and> (\<forall>x. admitted primask basepri faultmask s x \<longrightarrow>
             sys_priority e s < sys_priority x s \<or> sys_priority e s = sys_priority x s \<and> e \<le> x)"
proof -
  have "summary_exact s" using reachable_inv [OF assms] by (simp add: sys_inv_def pending_inv_def)
  from next_pending_selects [OF this, of primask basepri faultmask, unfolded more_urgent_def] show ?thesis .
qed

lemma sample_only_pending: "isPending e sample_sys \<longleftrightarrow> e = 16"
proof (cases "irq_external e")
  case True
  have w: "nvic_pending sample_sys i = (if i = 0 then 1 else 0)" for i
    by (simp add: sample_sys_def sample_timer_eq setInterruptLine_def sys_write_def sys_rejects_def writeWord_def within_def
        set_word_def accessWidthMask_def sys_reset_def refreshPendingSummary_def Let_def)
  have "isPending e sample_sys \<longleftrightarrow> irq_word e = 0 \<and> unat (e - 16) mod 32 = 0"
    by (simp add: external_pending [OF True] w bit_1_iff)
  then show ?thesis using same_irq [OF True, of 16] by (simp add: irq_external_def irq_word_def)
next
  case False
  then show ?thesis using sample_sys_pending(3,4) by (auto simp: isPending_def irq_external_def)
qed

theorem next_pending_most_urgent_witness:
  "nextPending 0 0 0 sample_sys = Some 16 \<and> nextPending 1 0 0 sample_sys = None"
proof -
  have a: "admitted primask 0 0 sample_sys e \<longleftrightarrow> e = 16 \<and> primask = 0" for primask e
    using sample_sys_pending(2,5) by (auto simp: admitted_def sample_only_pending)
  show ?thesis
    using next_pending_most_urgent [OF sample_sys_reachable, of 0 0 0] next_pending_most_urgent [OF sample_sys_reachable, of 1 0 0]
    by (auto simp: a split: option.splits)
qed

text \<open>
  C40. External interrupts latch edges and follow levels. In every reachable state, for any
  two external exceptions \<open>e\<close> and \<open>x\<close>: an asserted line of an inactive interrupt is
  pending; a rising edge of the line of \<open>e\<close> pends it, even while it is active, and a
  falling edge clears nothing; clearing the pending state of \<open>e\<close> leaves it pending just
  when its line is asserted and it is inactive; entering \<open>e\<close> clears its pending state even
  under an asserted line; leaving it pends it again just when its line is still asserted.
  None of these changes the pending state of another interrupt.
\<close>

theorem external_interrupts:
  assumes "sys_reachable s" "irq_external e" "irq_external x"
  shows "(line_asserted x s \<and> \<not> is_active x s \<longrightarrow> isPending x s)
    \<and> (isPending x (setInterruptLine (e - 16) asserted s) \<longleftrightarrow> isPending x s \<or> x = e \<and> asserted \<and> \<not> line_asserted e s)
    \<and> (isPending x (clearPending e s) \<longleftrightarrow> (if x = e then line_asserted e s \<and> \<not> is_active e s else isPending x s))
    \<and> (isPending x (sys_enter e s) \<longleftrightarrow> x \<noteq> e \<and> isPending x s)
    \<and> (isPending x (sys_leave e s) \<longleftrightarrow> isPending x s \<or> x = e \<and> line_asserted e s)"
  using pending_effects [OF reachable_inv [OF assms(1)] assms(2,3)] line_effect(1) [OF reachable_inv [OF assms(1)] assms(2,3)]
    inv_line [OF reachable_inv [OF assms(1)] assms(3)] by blast

theorem external_interrupts_witness:
  "isPending 16 (clearPending 16 sample_sys) \<and> \<not> isPending 16 (sys_enter 16 sample_sys)
   \<and> isPending 16 (sys_leave 16 (sys_enter 16 sample_sys))"
proof -
  have e: "irq_external 16" by (simp add: irq_external_def)
  have r: "sys_reachable (sys_enter 16 sample_sys)" by (rule sys_next [OF sample_sys_reachable sys_enters])
  have "line_asserted 16 (sys_enter 16 sample_sys)"
    using sample_sys_pending(6) by (simp add: line_asserted_def sys_enter_def clearPending_def refreshPendingSummary_def Let_def)
  then show ?thesis
    using external_interrupts [OF sample_sys_reachable e e] external_interrupts [OF r e e] sample_sys_pending by simp
qed

end
