(* ===== verification/Mmio_Router.thy ===== *)
theory Mmio_Router
  imports Memory_Laws
begin

text \<open>
  \<open>src/mem/mmio_router.cpp\<close>: one MMIO window routed to non-overlapping child devices, with
  a lenient fallback that counts the accesses to unknown registers. The route table is
  the second interval index of the library.
\<close>

record UnknownMmioAccess =
  ua_address :: u32
  ua_reads :: u64
  ua_writes :: u64

record Route =
  route_offset :: u32
  route_size :: u32
  route_device :: nat
  route_name :: string

record MmioRouter =
  absolute_base :: u32
  router_window :: u32
  router_name :: string
  lenient :: bool
  unknown_read_value :: u64
  routes :: "Route list"
  unknown :: "UnknownMmioAccess list"

definition new_MmioRouter :: "u32 \<Rightarrow> u32 \<Rightarrow> string \<Rightarrow> bool \<Rightarrow> u64 \<Rightarrow> MmioRouter" where
  "new_MmioRouter b n nm len v =
     \<lparr>absolute_base = b, router_window = n, router_name = nm, lenient = len, unknown_read_value = v,
      routes = [], unknown = []\<rparr>"

definition route_end :: "Route \<Rightarrow> nat" where
  "route_end r = unat (route_offset r) + unat (route_size r)"

definition map_route :: "u32 \<Rightarrow> u32 \<Rightarrow> nat \<Rightarrow> string \<Rightarrow> MmioRouter \<Rightarrow> MmioRouter Result" where
  "map_route off n dev nm rt =
     (if n = 0 \<or> \<not> rangeFits off n (router_window rt)
      then Inl (mapError (''MMIO route '' @ quoted nm @ '' has an empty or out-of-window range''))
      else case List.find (\<lambda>r. max (unat off) (unat (route_offset r))
                              < min (unat off + unat n) (route_end r)) (routes rt) of
        Some r \<Rightarrow> Inl (mapError (''MMIO route '' @ quoted nm @ '' overlaps route '' @ quoted (route_name r)))
      | None \<Rightarrow>
          Inr (rt\<lparr>routes := sort_key route_offset
                 (routes rt @ [\<lparr>route_offset = off, route_size = n, route_device = dev, route_name = nm\<rparr>])\<rparr>))"

definition route_contains :: "u32 \<Rightarrow> nat \<Rightarrow> Route \<Rightarrow> bool" where
  "route_contains off width r \<longleftrightarrow> off \<ge> route_offset r \<and> unat off + width \<le> route_end r"

definition find_route :: "u32 \<Rightarrow> nat \<Rightarrow> MmioRouter \<Rightarrow> Route option" where
  "find_route off width rt =
     (case upper_bound_prev route_offset off (routes rt) of
        None \<Rightarrow> None
      | Some i \<Rightarrow> if route_contains off width (routes rt ! i) then Some (routes rt ! i) else None)"

definition router_domain :: "'d MmioDevice \<Rightarrow> u32 \<Rightarrow> AccessSize \<Rightarrow> MmioRouter \<Rightarrow> 'd \<Rightarrow> MmioDomain" where
  "router_domain ops off sz rt d =
     (if \<not> rangeFits off (of_nat (byteCount sz)) (router_window rt) then MD_board_local
      else case find_route off (byteCount sz) rt of
        None \<Rightarrow> MD_board_local
      | Some r \<Rightarrow> dev_domain ops (route_device r) (off - route_offset r) sz d)"

text \<open>
  \<open>record\<close>: the entry of an address in the sorted list, inserted when absent, updated by \<open>f\<close>
  (the increment its caller makes through the returned reference).
\<close>

fun record_unknown :: "(UnknownMmioAccess \<Rightarrow> UnknownMmioAccess) \<Rightarrow> u32 \<Rightarrow> UnknownMmioAccess list \<Rightarrow> UnknownMmioAccess list" where
  "record_unknown f a [] = [f \<lparr>ua_address = a, ua_reads = 0, ua_writes = 0\<rparr>]"
| "record_unknown f a (u # us) =
     (if ua_address u < a then u # record_unknown f a us
      else if ua_address u = a then f u # us
      else f \<lparr>ua_address = a, ua_reads = 0, ua_writes = 0\<rparr> # u # us)"

definition router_fault :: "u32 \<Rightarrow> AccessSize \<Rightarrow> AccessContext \<Rightarrow> string \<Rightarrow> MmioRouter \<Rightarrow> BusFault" where
  "router_fault off sz ctx msg rt =
     makeFault BF_device_error (absolute_base rt + off) sz ctx (router_name rt) msg"

definition router_read ::
  "'d MmioDevice \<Rightarrow> u32 \<Rightarrow> AccessSize \<Rightarrow> AccessContext \<Rightarrow> MmioRouter \<times> 'd \<Rightarrow> u64 MemoryResult \<times> MmioRouter \<times> 'd" where
  "router_read ops off sz ctx s =
     (let (rt, d) = s; width = byteCount sz
      in if \<not> rangeFits off (of_nat width) (router_window rt)
         then (Inl (router_fault off sz ctx ''MMIO read is outside the router window'' rt), rt, d)
         else case find_route off width rt of
           Some r \<Rightarrow>
             (let (res, d') = dev_read ops (route_device r) (off - route_offset r) sz ctx d
              in (name_fault (route_name r) res, rt, d'))
         | None \<Rightarrow>
             if \<not> lenient rt
             then (Inl (router_fault off sz ctx ''read from unknown MMIO register'' rt), rt, d)
             else (Inr (unknown_read_value rt),
                   rt\<lparr>unknown := record_unknown (\<lambda>u. u\<lparr>ua_reads := ua_reads u + 1\<rparr>)
                        (absolute_base rt + off) (unknown rt)\<rparr>, d))"

definition router_write ::
  "'d MmioDevice \<Rightarrow> u32 \<Rightarrow> AccessSize \<Rightarrow> u64 \<Rightarrow> AccessContext \<Rightarrow> MmioRouter \<times> 'd \<Rightarrow> u64 MemoryResult \<times> MmioRouter \<times> 'd" where
  "router_write ops off sz v ctx s =
     (let (rt, d) = s; width = byteCount sz
      in if \<not> rangeFits off (of_nat width) (router_window rt)
         then (Inl (router_fault off sz ctx ''MMIO write is outside the router window'' rt), rt, d)
         else case find_route off width rt of
           Some r \<Rightarrow>
             (let (res, d') = dev_write ops (route_device r) (off - route_offset r) sz v ctx d
              in (name_fault (route_name r) res, rt, d'))
         | None \<Rightarrow>
             if \<not> lenient rt
             then (Inl (router_fault off sz ctx ''write to unknown MMIO register'' rt), rt, d)
             else (Inr 0,
                   rt\<lparr>unknown := record_unknown (\<lambda>u. u\<lparr>ua_writes := ua_writes u + 1\<rparr>)
                        (absolute_base rt + off) (unknown rt)\<rparr>, d))"

definition setLenient :: "bool \<Rightarrow> MmioRouter \<Rightarrow> MmioRouter" where
  "setLenient v rt = rt\<lparr>lenient := v\<rparr>"

definition setUnknownReadValue :: "u64 \<Rightarrow> MmioRouter \<Rightarrow> MmioRouter" where
  "setUnknownReadValue v rt = rt\<lparr>unknown_read_value := v\<rparr>"

definition clearUnknownAccesses :: "MmioRouter \<Rightarrow> MmioRouter" where
  "clearUnknownAccesses rt = rt\<lparr>unknown := []\<rparr>"

section \<open>Invariant\<close>

definition wf_router :: "MmioRouter \<Rightarrow> bool" where
  "wf_router rt \<longleftrightarrow>
     index_sorted route_offset route_size (routes rt)
     \<and> list_all (\<lambda>r. rangeFits (route_offset r) (route_size r) (router_window rt)) (routes rt)
     \<and> sorted_wrt (<) (map ua_address (unknown rt))"

interpretation rtx: interval_index route_offset route_size "\<lambda>r a. route_contains a 1 r"
  by unfold_locales (auto simp: route_contains_def route_end_def word_le_nat_alt)

lemma map_route_wf:
  assumes "wf_router rt" "map_route off n dev nm rt = Inr rt'"
  shows "wf_router rt'"
proof -
  let ?r = "\<lparr>route_offset = off, route_size = n, route_device = dev, route_name = nm\<rparr>"
  have g: "n \<noteq> 0" "rangeFits off n (router_window rt)"
    and none: "List.find (\<lambda>r. max (unat off) (unat (route_offset r)) < min (unat off + unat n) (route_end r)) (routes rt) = None"
    and rt': "rt' = rt\<lparr>routes := sort_key route_offset (routes rt @ [?r])\<rparr>"
    using assms(2) by (auto simp: map_route_def split: if_splits option.splits)
  have "\<forall>r' \<in> set (routes rt). disjoint_from route_offset route_size ?r r'"
    using none by (simp add: find_None_iff disjoint_from_def stop_of_def route_end_def)
  then have "index_sorted route_offset route_size (routes rt')"
    using rtx.ordered_append_sort [of "routes rt" ?r] assms(1) g(1)
    by (simp add: rt' wf_router_def unat_gt_0)
  then show ?thesis using assms(1) g(2) by (simp add: wf_router_def rt' list_all_iff)
qed

text \<open>The route that covers an access, when there is one, and no other.\<close>

lemma find_route_complete:
  assumes "wf_router rt" "0 < width"
  shows "find_route off width rt = Some r \<longleftrightarrow> r \<in> set (routes rt) \<and> route_contains off width r"
proof -
  have c1: "route_contains off 1 r" if "route_contains off width r" for r
    using that assms(2) by (simp add: route_contains_def)
  show ?thesis
  proof
    assume "find_route off width rt = Some r"
    then show "r \<in> set (routes rt) \<and> route_contains off width r"
      by (auto simp: find_route_def split: option.splits if_splits dest!: rtx.upper_bound_prev_less intro: nth_mem)
  next
    assume r: "r \<in> set (routes rt) \<and> route_contains off width r"
    then obtain i where i: "i < length (routes rt)" "routes rt ! i = r" by (auto simp: in_set_conv_nth)
    then have "upper_bound_prev route_offset off (routes rt) = Some i"
      using rtx.upper_bound_prev_found [of "routes rt" i off] assms(1) r c1 by (simp add: wf_router_def)
    then show "find_route off width rt = Some r" using i r by (simp add: find_route_def)
  qed
qed

section \<open>Unknown registers\<close>

definition count_of :: "(UnknownMmioAccess \<Rightarrow> u64) \<Rightarrow> UnknownMmioAccess list \<Rightarrow> u32 \<Rightarrow> u64" where
  "count_of g us a = (case List.find (\<lambda>u. ua_address u = a) us of None \<Rightarrow> 0 | Some u \<Rightarrow> g u)"

lemma record_unknown_set:
  assumes "\<And>u. ua_address (f u) = ua_address u"
  shows "ua_address ` set (record_unknown f a us) = insert a (ua_address ` set us)"
  using assms by (induction us) auto

lemma record_unknown_sorted:
  assumes "\<And>u. ua_address (f u) = ua_address u" "sorted_wrt (<) (map ua_address us)"
  shows "sorted_wrt (<) (map ua_address (record_unknown f a us))"
  using assms(2)
proof (induction us)
  case (Cons u us)
  have "\<forall>x \<in> ua_address ` set (record_unknown f a us). ua_address u < x" if "ua_address u < a"
    using Cons.prems that by (simp add: record_unknown_set [OF assms(1)])
  then show ?case using Cons assms(1) by auto
qed (simp add: assms)

lemma count_of_record:
  assumes "\<And>u. ua_address (f u) = ua_address u" "sorted_wrt (<) (map ua_address us)"
    and "\<And>u. g (f u) = g u + 1" "g \<lparr>ua_address = a, ua_reads = 0, ua_writes = 0\<rparr> = 0"
  shows "count_of g (record_unknown f a us) b = count_of g us b + (if b = a then 1 else 0)"
  using assms(2)
proof (induction us)
  case (Cons u us)
  have "List.find (\<lambda>u. ua_address u = a) us = None" if "\<not> ua_address u < a" "ua_address u \<noteq> a"
    using Cons.prems that by (auto simp: find_None_iff)
  with Cons show ?case by (auto simp: count_of_def assms)
qed (simp add: count_of_def assms)

lemma unknown_read_wf:
  "wf_router rt \<Longrightarrow> wf_router (rt\<lparr>unknown := record_unknown (\<lambda>u. u\<lparr>ua_reads := ua_reads u + 1\<rparr>) a (unknown rt)\<rparr>)"
  by (simp add: wf_router_def record_unknown_sorted)

lemma unknown_write_wf:
  "wf_router rt \<Longrightarrow> wf_router (rt\<lparr>unknown := record_unknown (\<lambda>u. u\<lparr>ua_writes := ua_writes u + 1\<rparr>) a (unknown rt)\<rparr>)"
  by (simp add: wf_router_def record_unknown_sorted)

section \<open>Properties\<close>

definition sample_router :: MmioRouter where
  "sample_router = (new_MmioRouter 0x40000000 0x1000 ''periph'' True 0)
     \<lparr>routes := [\<lparr>route_offset = 0x100, route_size = 0x100, route_device = 7, route_name = ''uart''\<rparr>]\<rparr>"

lemma sample_router_wf: "wf_router sample_router"
  by (simp add: wf_router_def sample_router_def new_MmioRouter_def rangeFits_def)

lemma byteCount_word: "unat (of_nat (byteCount sz) :: u32) = byteCount sz"
  by (cases sz) simp_all

lemma window_fits:
  "rangeFits off (of_nat (byteCount sz)) w \<longleftrightarrow> unat off + byteCount sz \<le> unat w"
  by (simp add: rangeFits_iff byteCount_word)

lemma covered_fits:
  assumes "wf_router rt" "r \<in> set (routes rt)" "route_contains off (byteCount sz) r"
  shows "rangeFits off (of_nat (byteCount sz)) (router_window rt)"
  using assms unfolding window_fits
  by (auto simp: wf_router_def list_all_iff rangeFits_iff route_contains_def route_end_def)

text \<open>
  C24. What a read through the router does, for every offset: past the end of the window it
  faults at the absolute address and changes nothing; when a route covers the whole access,
  it is the read of the device of that route at the offset inside the route, and only the
  name of the route is filled into a fault that names no region; when the access is in the
  window and no route covers it whole, no device is reached, and the read faults in a strict
  router and returns the configured value in a lenient one.
\<close>

theorem router_read_dispatch:
  assumes wf: "wf_router rt"
  shows "(unat (router_window rt) < unat off + byteCount sz \<longrightarrow>
      router_read ops off sz ctx (rt, d) =
        (Inl (router_fault off sz ctx ''MMIO read is outside the router window'' rt), rt, d))
    \<and> (r \<in> set (routes rt) \<and> route_contains off (byteCount sz) r \<longrightarrow>
      router_read ops off sz ctx (rt, d) =
        (case dev_read ops (route_device r) (off - route_offset r) sz ctx d of
           (res, d') \<Rightarrow> (name_fault (route_name r) res, rt, d')))
    \<and> (unat off + byteCount sz \<le> unat (router_window rt) \<and> (\<forall>r \<in> set (routes rt). \<not> route_contains off (byteCount sz) r) \<longrightarrow>
        snd (snd (router_read ops off sz ctx (rt, d))) = d
        \<and> fst (router_read ops off sz ctx (rt, d)) =
            (if lenient rt then Inr (unknown_read_value rt)
             else Inl (router_fault off sz ctx ''read from unknown MMIO register'' rt)))"
proof (intro conjI impI)
  assume "unat (router_window rt) < unat off + byteCount sz"
  then show "router_read ops off sz ctx (rt, d) =
      (Inl (router_fault off sz ctx ''MMIO read is outside the router window'' rt), rt, d)"
    by (simp add: router_read_def window_fits)
next
  assume r: "r \<in> set (routes rt) \<and> route_contains off (byteCount sz) r"
  then have "find_route off (byteCount sz) rt = Some r"
    using find_route_complete [OF wf byteCount_pos] by simp
  then show "router_read ops off sz ctx (rt, d) =
      (case dev_read ops (route_device r) (off - route_offset r) sz ctx d of
         (res, d') \<Rightarrow> (name_fault (route_name r) res, rt, d'))"
    using covered_fits [OF wf conjunct1 [OF r] conjunct2 [OF r]] by (simp add: router_read_def)
next
  assume u: "unat off + byteCount sz \<le> unat (router_window rt)
    \<and> (\<forall>r \<in> set (routes rt). \<not> route_contains off (byteCount sz) r)"
  then have "find_route off (byteCount sz) rt \<noteq> Some r" for r
    using find_route_complete [OF wf byteCount_pos, of off sz r] by auto
  then have "find_route off (byteCount sz) rt = None" by (cases "find_route off (byteCount sz) rt") auto
  then show "snd (snd (router_read ops off sz ctx (rt, d))) = d"
    "fst (router_read ops off sz ctx (rt, d)) = (if lenient rt then Inr (unknown_read_value rt)
       else Inl (router_fault off sz ctx ''read from unknown MMIO register'' rt))"
    using u by (simp_all add: router_read_def window_fits)
qed

definition counting_device :: "nat MmioDevice" where
  "counting_device = \<lparr>dev_read = \<lambda>dev off _ _ d. (Inr (of_nat dev + ucast off), d + 1),
     dev_write = \<lambda>_ _ _ _ _ d. (Inr 0, d), dev_domain = \<lambda>_ _ _ _. MD_shared\<rparr>"

theorem router_read_dispatch_witness:
  "router_read counting_device 0x110 AS_word \<lparr>ctx_type = AT_data_read, ctx_pc = 0\<rparr> (sample_router, 3) = (Inr 0x17, sample_router, 4)
   \<and> isl (fst (router_read counting_device 0xffe AS_word \<lparr>ctx_type = AT_data_read, ctx_pc = 0\<rparr> (sample_router, 3)))
   \<and> fst (router_read counting_device 0x1fe AS_word \<lparr>ctx_type = AT_data_read, ctx_pc = 0\<rparr> (sample_router, 3)) = Inr 0"
proof -
  note d = router_read_dispatch [OF sample_router_wf, where ops = counting_device and d = 3 and sz = AS_word
      and ctx = "\<lparr>ctx_type = AT_data_read, ctx_pc = 0\<rparr>" and r = "hd (routes sample_router)"]
  note ev = sample_router_def new_MmioRouter_def route_contains_def route_end_def counting_device_def name_fault_def
  show ?thesis using d [of "0x110"] d [of "0xffe"] d [of "0x1fe"] by (simp add: ev)
qed

text \<open>
  C25. A lenient router counts its fallback reads exactly: an access to an unknown register
  keeps the sorted table of counters well formed and adds one to the reads of its absolute
  address and to no other counter.
\<close>

theorem router_counts_unknown_reads:
  assumes wf: "wf_router rt" and fit: "rangeFits off (of_nat (byteCount sz)) (router_window rt)"
    and none: "find_route off (byteCount sz) rt = None" and len: "lenient rt"
    and res: "router_read ops off sz ctx (rt, d) = (res, rt', d')"
  shows "wf_router rt' \<and> res = Inr (unknown_read_value rt) \<and> d' = d
    \<and> count_of ua_reads (unknown rt') a = count_of ua_reads (unknown rt) a + (if a = absolute_base rt + off then 1 else 0)
    \<and> count_of ua_writes (unknown rt') a = count_of ua_writes (unknown rt) a"
proof -
  have rt': "rt' = rt\<lparr>unknown := record_unknown (\<lambda>u. u\<lparr>ua_reads := ua_reads u + 1\<rparr>) (absolute_base rt + off) (unknown rt)\<rparr>"
    and r: "res = Inr (unknown_read_value rt)" "d' = d"
    using res fit none len by (auto simp: router_read_def)
  have srt: "sorted_wrt (<) (map ua_address (unknown rt))" using wf by (simp add: wf_router_def)
  have "count_of ua_writes (record_unknown (\<lambda>u. u\<lparr>ua_reads := ua_reads u + 1\<rparr>) b us) a = count_of ua_writes us a"
    if "sorted_wrt (<) (map ua_address us)" for b us
    using that
  proof (induction us)
    case (Cons u us)
    have "List.find (\<lambda>u. ua_address u = b) us = None" if "\<not> ua_address u < b" "ua_address u \<noteq> b"
      using Cons.prems that by (auto simp: find_None_iff)
    with Cons show ?case by (auto simp: count_of_def)
  qed (simp add: count_of_def)
  then show ?thesis using r unknown_read_wf [OF wf] count_of_record [OF _ srt, of _ ua_reads] srt
    by (simp add: rt')
qed

theorem router_counts_unknown_reads_witness:
  "\<exists>rt'. router_read \<lparr>dev_read = \<lambda>_ _ _ _ d. (Inr 5, d), dev_write = \<lambda>_ _ _ _ _ d. (Inr 0, d),
      dev_domain = \<lambda>_ _ _ _. MD_shared\<rparr> 0x200 AS_word \<lparr>ctx_type = AT_data_read, ctx_pc = 0\<rparr> (sample_router, ())
      = (Inr 0, rt', ()) \<and> count_of ua_reads (unknown rt') 0x40000200 = 1"
proof -
  let ?ops = "\<lparr>dev_read = \<lambda>_ _ _ _ d. (Inr 5, d), dev_write = \<lambda>_ _ _ _ _ d. (Inr 0, d), dev_domain = \<lambda>_ _ _ _. MD_shared\<rparr>"
  let ?ctx = "\<lparr>ctx_type = AT_data_read, ctx_pc = 0\<rparr>"
  have none: "find_route 0x200 (byteCount AS_word) sample_router = None"
    by (simp add: find_route_def upper_bound_prev_def sample_router_def new_MmioRouter_def route_contains_def route_end_def)
  obtain res rt' d' where r: "router_read ?ops 0x200 AS_word ?ctx (sample_router, ()) = (res, rt', d')"
    by (cases "router_read ?ops 0x200 AS_word ?ctx (sample_router, ())") auto
  show ?thesis
    using router_counts_unknown_reads [OF sample_router_wf _ none _ r, of "0x40000200"] r
    by (simp add: sample_router_def new_MmioRouter_def rangeFits_def count_of_def)
qed

end
