(* ===== verification/Float_Laws.thy ===== *)
theory Float_Laws
  imports Float32
begin

text \<open>
  Rounding is exact on the values binary32 can represent: packing the value of a finite
  number gives the number back.
\<close>

lemma bitlen_bounds: "0 < n \<Longrightarrow> 2 ^ (bitlen_nat n - 1) \<le> n \<and> n < 2 ^ bitlen_nat n \<and> 0 < bitlen_nat n"
proof (induction n rule: bitlen_nat.induct)
  case (1 n)
  show ?case
  proof (cases "n = 1")
    case True
    then show ?thesis by (simp add: bitlen_nat.simps [of "Suc 0"] bitlen_nat.simps [of 0])
  next
    case False
    define m where "m = n div 2"
    have m: "0 < m" "n = 2 * m \<or> n = 2 * m + 1" using 1 (2) False unfolding m_def by presburger+
    then have ih: "2 ^ (bitlen_nat m - 1) \<le> m" "m < 2 ^ bitlen_nat m" "0 < bitlen_nat m"
      using 1 unfolding m_def by auto
    have b: "bitlen_nat n = Suc (bitlen_nat m)" using 1 (2) by (simp add: bitlen_nat.simps [of n] m_def)
    obtain k where k: "bitlen_nat m = Suc k" using ih (3) gr0_implies_Suc by blast
    show ?thesis using ih m by (auto simp: b k)
  qed
qed

lemma floor_log2_bounds:
  assumes "0 < q"
  shows "2 powi floor_log2 q \<le> q \<and> q < 2 powi (floor_log2 q + 1)"
proof -
  obtain a b where ab: "quotient_of q = (a, b)" by force
  have b: "0 < b" and q: "q = of_int a / of_int b"
    using ab by (simp_all add: quotient_of_denom_pos quotient_of_div)
  then have a: "0 < a" using assms by (simp add: zero_less_divide_iff)
  define la where "la = bitlen_nat (nat a)"
  define lb where "lb = bitlen_nat (nat b)"
  define k where "k = int la - int lb"
  have "2 ^ (la - 1) \<le> nat a" "nat a < 2 ^ la" "0 < la"
    using a bitlen_bounds [of "nat a"] by (auto simp: la_def)
  then have a1: "2 ^ (la - 1) \<le> a" "a < 2 ^ la" using a by (auto simp: le_nat_iff nat_less_iff)
  have "2 ^ (lb - 1) \<le> nat b" "nat b < 2 ^ lb" "0 < lb"
    using b bitlen_bounds [of "nat b"] by (auto simp: lb_def)
  then have b1: "2 ^ (lb - 1) \<le> b" "b < 2 ^ lb" using b by (auto simp: le_nat_iff nat_less_iff)
  have pa: "(2 :: rat) ^ la = 2 * 2 ^ (la - 1)" and pb: "(2 :: rat) ^ lb = 2 * 2 ^ (lb - 1)"
    using \<open>0 < la\<close> \<open>0 < lb\<close> by (simp_all flip: power_Suc)
  have ra: "(2 :: rat) ^ (la - 1) \<le> of_int a" "of_int a < (2 :: rat) ^ la"
    and rb: "(2 :: rat) ^ (lb - 1) \<le> of_int b" "of_int b < (2 :: rat) ^ lb" "0 < (of_int b :: rat)"
    using a1 b1 b by (metis of_int_le_iff of_int_less_iff of_int_power of_int_numeral of_int_0_less_iff)+
  have k2: "(2 :: rat) powi k = 2 ^ la / 2 ^ lb" by (simp add: k_def power_int_diff)
  have "q < 2 ^ la / 2 ^ (lb - 1)"
    unfolding q using ra rb a by (intro frac_less) auto
  then have hi: "q < 2 powi (k + 1)" by (simp add: power_int_add_1 k2 pb)
  have "2 ^ (la - 1) / 2 ^ lb < q"
    unfolding q using ra rb by (intro frac_less2) auto
  then have lo: "2 powi (k - 1) \<le> q" by (simp add: power_int_diff k2 pa)
  show ?thesis
    using hi lo by (auto simp: floor_log2_def ab simp flip: la_def lb_def k_def)
qed

lemma floor_log2_unique:
  assumes "2 powi l \<le> q" "q < 2 powi (l + 1)" shows "floor_log2 q = l"
proof -
  have "0 < (2 :: rat) powi l" by simp
  then have "0 < q" using assms (1) by linarith
  note b = floor_log2_bounds [OF this]
  have "(2 :: rat) powi l < 2 powi (floor_log2 q + 1)" "(2 :: rat) powi floor_log2 q < 2 powi (l + 1)"
    using assms b by linarith+
  then have "l < floor_log2 q + 1" "floor_log2 q < l + 1"
    using power_int_increasing [of "floor_log2 q + 1" l "2 :: rat"]
      power_int_increasing [of "l + 1" "floor_log2 q" "2 :: rat"] by force+
  then show ?thesis by simp
qed

lemma round_even_int: "round_even (of_int n) = n"
  by (simp add: round_even_def)

lemma f_exp_less: "f_exp b < 256" and f_frac_less: "f_frac b < 8388608"
proof -
  show "f_exp b < 256" using word_and_le1 [of "drop_bit 23 b" "0xff"]
    by (simp add: f_exp_def word_le_nat_alt)
  show "f_frac b < 8388608" using word_and_le1 [of b "0x7fffff"]
    by (simp add: f_frac_def word_le_nat_alt)
qed

lemma f_scale_of_magnitude:
  assumes "f_mantissa b \<noteq> 0"
  shows "max (- 149) (floor_log2 (f_magnitude b) - 23) = f_scale b"
proof (cases "f_exp b = 0")
  case True
  have "(of_nat (f_frac b) :: rat) < 2 powi 23" using f_frac_less [of b] by (simp add: power_int_def)
  then have "f_magnitude b < 2 powi 23 * 2 powi (- 149)"
    using True by (simp add: f_magnitude_def f_mantissa_def f_scale_def)
  then have lt: "f_magnitude b < 2 powi (- 126)" by (simp flip: power_int_add)
  have "0 < f_magnitude b" using assms by (simp add: f_magnitude_def)
  from floor_log2_bounds [OF this] lt
  have "(2 :: rat) powi floor_log2 (f_magnitude b) < 2 powi (- 126)" by linarith
  then have "floor_log2 (f_magnitude b) < - 126"
    using power_int_increasing [of "- 126" "floor_log2 (f_magnitude b)" "2 :: rat"] by force
  then show ?thesis using True by (simp add: f_scale_def)
next
  case False
  let ?e = "f_scale b"
  have m: "2 powi 23 \<le> (of_nat (f_mantissa b) :: rat)" "(of_nat (f_mantissa b) :: rat) < 2 powi 24"
    using False f_frac_less [of b] by (simp_all add: f_mantissa_def power_int_def)
  have "floor_log2 (f_magnitude b) = 23 + ?e"
  proof (rule floor_log2_unique)
    show "2 powi (23 + ?e) \<le> f_magnitude b"
      using m by (simp add: f_magnitude_def power_int_add mult_right_mono)
    have "2 powi (23 + ?e + 1) = (2 :: rat) powi (24 + ?e)" by (simp add: add.commute)
    then show "f_magnitude b < 2 powi (23 + ?e + 1)"
      using m by (simp add: f_magnitude_def power_int_add mult_strict_right_mono)
  qed
  moreover have "- 149 \<le> ?e" using False by (simp add: f_scale_def)
  ultimately show ?thesis by simp
qed

lemma float_code:
  assumes "f_isfinite b"
  shows "(f_scale b + 149) * 2 ^ 23 + int (f_mantissa b) = uint (f_abs b)"
    and "uint (f_abs b) < 0x7f800000"
proof -
  have masks: "(0xff :: u32) = mask 8" "(0x7fffff :: u32) = mask 23" "(0x7fffffff :: u32) = mask 31"
    by (simp_all add: mask_eq_exp_minus_1)
  have "unat (f_abs b) = unat b mod 2 ^ 31" "f_exp b = unat b div 2 ^ 23 mod 2 ^ 8" "f_frac b = unat b mod 2 ^ 23"
    unfolding f_abs_def f_exp_def f_frac_def masks
    by (simp_all only: take_bit_eq_mask [symmetric] unsigned_take_bit_eq unsigned_drop_bit_eq take_bit_eq_mod
        drop_bit_eq_div mod_mod_trivial) (simp_all add: unat_div_distrib unat_mod_distrib)
  then have "unat (f_abs b) = f_exp b * 2 ^ 23 + f_frac b"
    using mod_mult2_eq [of "unat b" "2 ^ 23" "2 ^ 8"] by simp
  then have split: "uint (f_abs b) = int (f_exp b) * 2 ^ 23 + int (f_frac b)"
    by (metis of_nat_add of_nat_mult of_nat_numeral of_nat_power uint_nat)
  show "(f_scale b + 149) * 2 ^ 23 + int (f_mantissa b) = uint (f_abs b)"
    by (simp add: split f_scale_def f_mantissa_def algebra_simps)
  show "uint (f_abs b) < 0x7f800000"
    using assms f_exp_less [of b] f_frac_less [of b] by (simp add: split f_isfinite_def)
qed

lemma f_pack_code:
  assumes "f_isfinite b"
  shows "f_pack (f_negative b) (f_scale b) (int (f_mantissa b)) = b"
proof -
  have "f_pack (f_negative b) (f_scale b) (int (f_mantissa b))
      = f_abs b OR (if f_negative b then 0x80000000 else 0)"
    using float_code [OF assms] by (simp add: f_pack_def)
  also have "\<dots> = b"
    unfolding word_bits_iff by (simp add: all_less_32 f_abs_def f_negative_def bit_simps)
  finally show ?thesis .
qed

text \<open>
  The bits of every finite value are the rounding of the rational number they denote,
  with the sign of a zero kept. So an operation whose exact result is representable
  returns it unchanged.
\<close>

lemma float_rounding_is_exact:
  assumes "f_isfinite b"
  shows "f_of_rat (f_value b) (f_negative b) = b"
proof (cases "f_mantissa b = 0")
  case True
  then have "f_scale b = - 149" by (auto simp: f_mantissa_def f_scale_def split: if_splits)
  with True f_pack_code [OF assms] show ?thesis
    by (simp add: f_of_rat_def f_round_def f_value_def f_magnitude_def)
next
  case False
  have pos: "0 < f_magnitude b" using False by (simp add: f_magnitude_def)
  have "f_magnitude b / 2 powi f_scale b = of_int (int (f_mantissa b))" by (simp add: f_magnitude_def)
  then have "f_round (f_negative b) (f_magnitude b) = f_pack (f_negative b) (f_scale b) (int (f_mantissa b))"
    using pos f_scale_of_magnitude [OF False] by (simp only: f_round_def Let_def round_even_int) simp
  moreover have "\<bar>f_value b\<bar> = f_magnitude b" "f_value b < 0 \<longleftrightarrow> f_negative b" "f_value b \<noteq> 0"
    using pos by (auto simp: f_value_def)
  ultimately show ?thesis using f_pack_code [OF assms] by (simp add: f_of_rat_def)
qed

end
