(* ===== verification/Spec2Isabelle.thy ===== *)
theory Spec2Isabelle
  imports Cpu_Properties System_Properties Mmio_Router Float_Laws
begin

text \<open>
  A verification library for the emulator \<open>fil\<close> of STM32G4 microcontrollers. A board of
  the emulator is a Cortex-M4F core (\<open>src/cpu\<close>) on a memory bus (\<open>src/mem\<close>) with
  peripherals behind it; the core decodes and executes Thumb-2 instructions, and every
  fetch, load and store goes through the bus, which finds the region, follows aliases,
  routes device accesses, and journals changes so that a transaction can be undone.

  \<^bold>\<open>Values.\<close> \<open>Prelude\<close> has the machine types (\<open>u8\<close> to \<open>u64\<close> are words of that width, with
  wrap-around) and the shared lemmas on words, lists and folds; \<open>Common\<close> the errors,
  saturating arithmetic and formatting of \<open>src/common\<close>.

  \<^bold>\<open>Memory.\<close> \<open>Address\<close> and \<open>Memory_Bus\<close> model \<open>address.cpp\<close> and \<open>memory_bus.cpp\<close>: the record
  \<open>MemoryBus\<close> has the fields of the class; an access returns a value or a \<open>BusFault\<close>
  together with the new bus. Devices are a parameter: a record of the operations of
  \<open>MmioDevice\<close> over an arbitrary device state. \<open>Memory_Laws\<close> has the map invariant and the
  region search, \<open>Memory_Refine\<close> the refinement of a flat byte memory, \<open>Memory_Fast\<close> and
  \<open>Memory_Bulk\<close> the equality of the fast and bulk paths with the checked ones,
  \<open>Memory_Journal\<close> and \<open>Memory_Validate\<close> the undo journal, its checkpoints and the read
  footprints, and \<open>Bus_Properties\<close> the properties of all of them. Alias chains are bounded by
  the recursion limit of the source, eight. \<open>Word_Memory\<close> is the interface the core relies
  on when it stores and reloads consecutive words, interpreted on the bus. \<open>Mmio_Router\<close>
  models \<open>mmio_router.cpp\<close>.

  \<^bold>\<open>Instructions.\<close> \<open>Instruction\<close> has the enumerations and value-level helpers of
  \<open>instruction.hpp\<close> and the top of \<open>execute.cpp\<close>, \<open>Alu_Laws\<close> their arithmetic meaning;
  \<open>Decoder\<close> the two pattern tables and all encoding groups of \<open>decoder.cpp\<close>, with the
  well-formedness of everything they accept in \<open>Decoder_Laws\<close>. \<open>Float32\<close> computes the
  single-precision operations the executor uses on exact rationals, rounded to nearest
  even; \<open>Float_Laws\<close> shows that the rounding is exact on representable values. Only the
  bits of a NaN result, which the host chooses, are a parameter.

  \<^bold>\<open>Execution.\<close> \<open>Cpu_State\<close> is \<open>CpuState\<close> with its methods; \<open>Execute\<close> has one definition per
  group of cases of \<open>CortexM4::execute\<close>, an operation that can stop giving \<open>Inl\<close> and the
  reason. \<open>Execute_Laws\<close> gives the stops of each group, \<open>Execute_Inv\<close> the invariant of the
  core (aligned program counter, register 13 a copy of the active stack pointer), and
  \<open>Stack_Laws\<close> pushes and pops as word transfers. \<open>Jit\<close> models the inlined handlers
  (\<open>executeJitFast\<close>) and block planning (\<open>jit.cpp\<close>), and \<open>Jit_Laws\<close> proves each handler
  equal to the executor, up to \<open>core_sim\<close>: the same core with the same bus but for the
  counter of changes to executable memory and the watch log. \<open>Straight_Line\<close> shows that
  the instructions a planned block may hold fall through. \<open>Step\<close> is the stepper with
  its fetch, conditions, IT blocks, restart checkpoint and cost, the run loop over its
  budget, and the timing preview; \<open>Step_Laws\<close> and \<open>Cpu_Properties\<close> hold the theorems on
  both paths of the stepper, runs and restarts. No fuel is used: every loop is bounded
  by its data, and the run loop by its budget.

  \<^bold>\<open>Interrupts.\<close> \<open>System_Control\<close> is \<open>SystemControl\<close> of \<open>src/cortexm/system_control.cpp\<close>: SysTick,
  the interrupt controller, the system control block and the cycle counter, with every
  register behind the device interface. \<open>System_Laws\<close> has the invariant of all reachable
  states and the laws of the timer, of the selection of exceptions and of interrupt lines;
  \<open>System_Properties\<close> the properties.

  \<^bold>\<open>Not modelled.\<close> Stacking and unstacking of exception frames (\<open>exceptions.cpp\<close>). The native code generators and the block and trace caches around them
  (their meaning is that of host machine code), threads, sockets, files, the command line,
  configuration and hardware comparison (effects on the host), and the peripherals, which
  the bus sees through the device parameter.
\<close>

end
